(* ===== verification/Go_Prelude.thy ===== *)
theory Go_Prelude
  imports Main "HOL-Library.Word" "HOL-Library.AList" "HOL-Library.Sublist"
begin

text \<open>
  The shared vocabulary of the development: the Go values the operator computes with (errors,
  strings, decimal numbers, maps, instants of time) and the effects it performs.

  \<^item> Errors are values of \<open>goerr\<close>. The constructors are the classes of errors the operator
    tells apart: the Kubernetes reasons it tests for, the server error of the Dynatrace API,
    plain messages, and wrapping (\<^verbatim>\<open>fmt.Errorf("...%w")\<close>, \<^verbatim>\<open>errors.WithMessage\<close>).
  \<^item> A Go map is an association list. Its order is the order in which a \<^verbatim>\<open>range\<close> visits it:
    Go leaves that order open, and a theorem about every list covers every order.
  \<^item> An effectful function is an \<open>act\<close>: it takes the state, and returns the state together with
    an error or a result. State that was changed before an error stays changed.
  \<^item> \<open>keeps\<close> and \<open>ensures\<close> are the two proof obligations on actions (an invariant is kept; a
    postcondition holds on normal and on error return), with one rule per combinator.
\<close>

named_theorems go_simps \<open>rewrite rules for the Go library functions\<close>
named_theorems act_simps \<open>rewrite rules that run actions\<close>
named_theorems keeps_intros \<open>introduction rules for invariant preservation\<close>

section \<open>Errors\<close>

datatype goerr =
    ApiNotFound string
  | ApiConflict string
  | ApiNoMatch string
  | ApiError string
  | ServerError int string
  | ErrMsg string
  | Wrap string goerr

text \<open>
  \<^verbatim>\<open>k8serrors.IsNotFound\<close>, \<^verbatim>\<open>IsConflict\<close> and \<^verbatim>\<open>meta.IsNoMatchError\<close> look for the reason of
  the error below its wrappers; \<^verbatim>\<open>errors.As\<close> finds a \<^verbatim>\<open>ServerError\<close> the same way.
\<close>

fun errCause :: "goerr \<Rightarrow> goerr" where
  "errCause (Wrap _ e) = errCause e"
| "errCause e = e"

definition isNotFound :: "goerr \<Rightarrow> bool" where
  "isNotFound e = (case errCause e of ApiNotFound _ \<Rightarrow> True | _ \<Rightarrow> False)"

definition isConflict :: "goerr \<Rightarrow> bool" where
  "isConflict e = (case errCause e of ApiConflict _ \<Rightarrow> True | _ \<Rightarrow> False)"

definition isNoMatch :: "goerr \<Rightarrow> bool" where
  "isNoMatch e = (case errCause e of ApiNoMatch _ \<Rightarrow> True | _ \<Rightarrow> False)"

definition asServerError :: "goerr \<Rightarrow> (int \<times> string) option" where
  "asServerError e = (case errCause e of ServerError c m \<Rightarrow> Some (c, m) | _ \<Rightarrow> None)"

lemma isNotFound_simps [simp]:
  "isNotFound (ApiNotFound m)" "\<not> isNotFound (ApiConflict m)" "\<not> isNotFound (ApiNoMatch m)"
  "\<not> isNotFound (ApiError m)" "\<not> isNotFound (ServerError c m)" "\<not> isNotFound (ErrMsg m)"
  "isNotFound (Wrap m e) = isNotFound e"
  by (simp_all add: isNotFound_def)

lemma isConflict_simps [simp]:
  "isConflict (ApiConflict m)" "\<not> isConflict (ApiNotFound m)" "\<not> isConflict (ApiNoMatch m)"
  "\<not> isConflict (ApiError m)" "\<not> isConflict (ServerError c m)" "\<not> isConflict (ErrMsg m)"
  "isConflict (Wrap m e) = isConflict e"
  by (simp_all add: isConflict_def)

lemma isNoMatch_simps [simp]:
  "isNoMatch (ApiNoMatch m)" "\<not> isNoMatch (ApiNotFound m)" "\<not> isNoMatch (ApiConflict m)"
  "\<not> isNoMatch (ApiError m)" "\<not> isNoMatch (ServerError c m)" "\<not> isNoMatch (ErrMsg m)"
  "isNoMatch (Wrap m e) = isNoMatch e"
  by (simp_all add: isNoMatch_def)

lemma asServerError_simps [simp]:
  "asServerError (ServerError c m) = Some (c, m)" "asServerError (Wrap s e) = asServerError e"
  "asServerError (ApiNotFound m) = None" "asServerError (ApiConflict m) = None"
  "asServerError (ApiNoMatch m) = None" "asServerError (ApiError m) = None"
  "asServerError (ErrMsg m) = None"
  by (simp_all add: asServerError_def)

lemma isNotFound_not_isNoMatch: "isNotFound e \<Longrightarrow> \<not> isNoMatch e"
  by (simp add: isNotFound_def isNoMatch_def split: goerr.splits)

section \<open>Actions\<close>

type_synonym ('s, 'a) act = "'s \<Rightarrow> (goerr + 'a) \<times> 's"

definition retE :: "'a \<Rightarrow> ('s, 'a) act" where
  "retE x = (\<lambda>s. (Inr x, s))"

definition raiseE :: "goerr \<Rightarrow> ('s, 'a) act" where
  "raiseE e = (\<lambda>s. (Inl e, s))"

definition catchE :: "('s, 'a) act \<Rightarrow> (goerr \<Rightarrow> ('s, 'b) act) \<Rightarrow> ('a \<Rightarrow> ('s, 'b) act) \<Rightarrow> ('s, 'b) act" where
  "catchE m h k = (\<lambda>s. case m s of (Inl e, s') \<Rightarrow> h e s' | (Inr x, s') \<Rightarrow> k x s')"

definition bindE :: "('s, 'a) act \<Rightarrow> ('a \<Rightarrow> ('s, 'b) act) \<Rightarrow> ('s, 'b) act" where
  "bindE m k = catchE m raiseE k"

definition wrapE :: "string \<Rightarrow> ('s, 'a) act \<Rightarrow> ('s, 'a) act" where
  "wrapE msg m = catchE m (\<lambda>e. raiseE (Wrap msg e)) retE"

definition modifyE :: "('s \<Rightarrow> 's) \<Rightarrow> ('s, unit) act" where
  "modifyE f = (\<lambda>s. (Inr (), f s))"

definition getsE :: "('s \<Rightarrow> 'a) \<Rightarrow> ('s, 'a) act" where
  "getsE f = (\<lambda>s. (Inr (f s), s))"

definition liftE :: "goerr + 'a \<Rightarrow> ('s, 'a) act" where
  "liftE r = (\<lambda>s. (r, s))"

text \<open>\<open>zoomE\<close> runs an action on one component of a larger state.\<close>

definition zoomE :: "('s \<Rightarrow> 't) \<Rightarrow> ('t \<Rightarrow> 's \<Rightarrow> 's) \<Rightarrow> ('t, 'a) act \<Rightarrow> ('s, 'a) act" where
  "zoomE get put m = (\<lambda>s. case m (get s) of (r, t) \<Rightarrow> (r, put t s))"

text \<open>A \<^verbatim>\<open>for ... range\<close> loop whose body may return early with an error.\<close>

primrec foreachE :: "'a list \<Rightarrow> ('a \<Rightarrow> ('s, unit) act) \<Rightarrow> ('s, unit) act" where
  "foreachE [] f = retE ()"
| "foreachE (x # xs) f = bindE (f x) (\<lambda>_. foreachE xs f)"

lemma retE_run [simp, act_simps]: "retE x s = (Inr x, s)"
  by (simp add: retE_def)

lemma raiseE_run [simp, act_simps]: "raiseE e s = (Inl e, s)"
  by (simp add: raiseE_def)

lemma modifyE_run [simp, act_simps]: "modifyE f s = (Inr (), f s)"
  by (simp add: modifyE_def)

lemma getsE_run [simp, act_simps]: "getsE f s = (Inr (f s), s)"
  by (simp add: getsE_def)

lemma liftE_run [simp, act_simps]: "liftE r s = (r, s)"
  by (simp add: liftE_def)

lemma catchE_run [act_simps]:
  "catchE m h k s = (case m s of (Inl e, s') \<Rightarrow> h e s' | (Inr x, s') \<Rightarrow> k x s')"
  by (simp add: catchE_def)

lemma bindE_run [act_simps]:
  "bindE m k s = (case m s of (Inl e, s') \<Rightarrow> (Inl e, s') | (Inr x, s') \<Rightarrow> k x s')"
  by (simp add: bindE_def catchE_def split: prod.splits sum.splits)

lemma wrapE_run [act_simps]:
  "wrapE msg m s = (case m s of (Inl e, s') \<Rightarrow> (Inl (Wrap msg e), s') | (Inr x, s') \<Rightarrow> (Inr x, s'))"
  by (simp add: wrapE_def catchE_def split: prod.splits sum.splits)

lemma zoomE_run [act_simps]: "zoomE get put m s = (case m (get s) of (r, t) \<Rightarrow> (r, put t s))"
  by (simp add: zoomE_def)

lemma catchE_Inl [simp]: "m s = (Inl e, s') \<Longrightarrow> catchE m h k s = h e s'"
  by (simp add: catchE_run)

lemma catchE_Inr [simp]: "m s = (Inr x, s') \<Longrightarrow> catchE m h k s = k x s'"
  by (simp add: catchE_run)

lemma bindE_Inl [simp]: "m s = (Inl e, s') \<Longrightarrow> bindE m k s = (Inl e, s')"
  by (simp add: bindE_run)

lemma bindE_Inr [simp]: "m s = (Inr x, s') \<Longrightarrow> bindE m k s = k x s'"
  by (simp add: bindE_run)

lemma bindE_InrD:
  "bindE m k s = (Inr y, t) \<Longrightarrow> \<exists>x s'. m s = (Inr x, s') \<and> k x s' = (Inr y, t)"
  by (simp add: bindE_run split: prod.splits sum.splits)

lemma bindE_retE [simp]: "bindE (retE x) k = k x"
  by (rule ext) (simp add: bindE_run)

lemma bindE_assoc: "bindE (bindE m k) l = bindE m (\<lambda>x. bindE (k x) l)"
  by (rule ext) (simp add: bindE_run split: prod.splits sum.splits)

lemma foreachE_append: "foreachE (xs @ ys) f = bindE (foreachE xs f) (\<lambda>_. foreachE ys f)"
  by (induction xs) (simp_all add: bindE_assoc)

subsection \<open>Invariants and postconditions of actions\<close>

definition keeps :: "('s \<Rightarrow> bool) \<Rightarrow> ('s, 'a) act \<Rightarrow> bool" where
  "keeps I m \<longleftrightarrow> (\<forall>s. I s \<longrightarrow> I (snd (m s)))"

definition ensures ::
  "('s \<Rightarrow> bool) \<Rightarrow> ('s, 'a) act \<Rightarrow> ('a \<Rightarrow> 's \<Rightarrow> bool) \<Rightarrow> (goerr \<Rightarrow> 's \<Rightarrow> bool) \<Rightarrow> bool" where
  "ensures P m Q R \<longleftrightarrow>
     (\<forall>s. P s \<longrightarrow> (case m s of (Inl e, s') \<Rightarrow> R e s' | (Inr x, s') \<Rightarrow> Q x s'))"

lemma keepsD: "keeps I m \<Longrightarrow> I s \<Longrightarrow> m s = (r, s') \<Longrightarrow> I s'"
  unfolding keeps_def by (metis snd_conv)

lemma keepsI: "(\<And>s r s'. I s \<Longrightarrow> m s = (r, s') \<Longrightarrow> I s') \<Longrightarrow> keeps I m"
  unfolding keeps_def by (metis prod.collapse)

lemma keeps_retE [keeps_intros]: "keeps I (retE x)"
  by (simp add: keeps_def)

lemma keeps_raiseE [keeps_intros]: "keeps I (raiseE e)"
  by (simp add: keeps_def)

lemma keeps_getsE [keeps_intros]: "keeps I (getsE f)"
  by (simp add: keeps_def)

lemma keeps_liftE [keeps_intros]: "keeps I (liftE r)"
  by (simp add: keeps_def)

lemma keeps_modifyE: "(\<And>s. I s \<Longrightarrow> I (f s)) \<Longrightarrow> keeps I (modifyE f)"
  by (simp add: keeps_def)

lemma keeps_catchE [keeps_intros]:
  assumes "keeps I m" and "\<And>e. keeps I (h e)" and "\<And>x. keeps I (k x)"
  shows "keeps I (catchE m h k)"
proof (rule keepsI)
  fix s r s' assume I: "I s" and run: "catchE m h k s = (r, s')"
  obtain q t where m: "m s = (q, t)" by (cases "m s")
  with assms(1) I have "I t" by (rule keepsD)
  with m run show "I s'"
    by (cases q) (auto dest: keepsD [OF assms(2)] keepsD [OF assms(3)])
qed

lemma keeps_bindE [keeps_intros]:
  "keeps I m \<Longrightarrow> (\<And>x. keeps I (k x)) \<Longrightarrow> keeps I (bindE m k)"
  unfolding bindE_def by (intro keeps_catchE keeps_raiseE)

lemma keeps_wrapE [keeps_intros]: "keeps I m \<Longrightarrow> keeps I (wrapE msg m)"
  unfolding wrapE_def by (intro keeps_catchE keeps_raiseE keeps_retE)

lemma keeps_if [keeps_intros]: "(b \<Longrightarrow> keeps I m) \<Longrightarrow> (\<not> b \<Longrightarrow> keeps I n) \<Longrightarrow> keeps I (if b then m else n)"
  by simp

lemma keeps_option [keeps_intros]:
  "keeps I m \<Longrightarrow> (\<And>x. keeps I (f x)) \<Longrightarrow> keeps I (case z of None \<Rightarrow> m | Some x \<Rightarrow> f x)"
  by (cases z) simp_all

lemma keeps_foreachE [keeps_intros]: "(\<And>x. x \<in> set xs \<Longrightarrow> keeps I (f x)) \<Longrightarrow> keeps I (foreachE xs f)"
  by (induction xs) (simp_all add: keeps_retE keeps_bindE)

lemma ensuresD_Inr: "ensures P m Q R \<Longrightarrow> P s \<Longrightarrow> m s = (Inr x, s') \<Longrightarrow> Q x s'"
  unfolding ensures_def by fastforce

lemma ensuresD_Inl: "ensures P m Q R \<Longrightarrow> P s \<Longrightarrow> m s = (Inl e, s') \<Longrightarrow> R e s'"
  unfolding ensures_def by fastforce

lemma ensures_bindE:
  assumes "ensures P m Q' R" and "\<And>x. ensures (Q' x) (k x) Q R"
  shows "ensures P (bindE m k) Q R"
  unfolding ensures_def
proof (intro allI impI)
  fix s assume "P s"
  then show "case bindE m k s of (Inl e, s') \<Rightarrow> R e s' | (Inr x, s') \<Rightarrow> Q x s'"
    using assms unfolding ensures_def bindE_run by (fastforce split: prod.splits sum.splits)
qed

end
