(* ===== verification/Go_Values.thy ===== *)
theory Go_Values
  imports Go_Prelude
begin

text \<open>
  The part of the Go standard library the operator computes with, as executable definitions:
  \<^verbatim>\<open>strings\<close> (prefixes, suffixes, white space, case), \<^verbatim>\<open>strconv\<close> (decimal numbers), maps with
  string keys, and \<^verbatim>\<open>time\<close>. Strings are lists of bytes, as Go's are.
\<close>

section \<open>Package strings\<close>

definition trimPrefix :: "string \<Rightarrow> string \<Rightarrow> string" where
  "trimPrefix s p = (if prefix p s then drop (length p) s else s)"

definition trimSuffix :: "string \<Rightarrow> string \<Rightarrow> string" where
  "trimSuffix s p = (if suffix p s then take (length s - length p) s else s)"

lemma trimPrefix_append [simp]: "trimPrefix (p @ s) p = s"
  by (simp add: trimPrefix_def)

lemma trimSuffix_append [simp]: "trimSuffix (s @ p) p = s"
  by (simp add: trimSuffix_def suffix_def)

lemma trimPrefix_not [simp]: "\<not> prefix p s \<Longrightarrow> trimPrefix s p = s"
  by (simp add: trimPrefix_def)

lemma trimSuffix_not [simp]: "\<not> suffix p s \<Longrightarrow> trimSuffix s p = s"
  by (simp add: trimSuffix_def)

lemma trimSuffix_cases: "s = trimSuffix s p @ p \<or> (\<not> suffix p s \<and> trimSuffix s p = s)"
  by (auto simp: trimSuffix_def suffix_def)

text \<open>
  \<^verbatim>\<open>strings.TrimSpace\<close> removes the characters of Unicode's \<^verbatim>\<open>White_Space\<close> property; here they
  are given by their UTF-8 encodings.
\<close>

definition whiteSpace :: "string list" where
  "whiteSpace =
    [[CHR 0x09], [CHR 0x0A], [CHR 0x0B], [CHR 0x0C], [CHR 0x0D], [CHR 0x20],
     [CHR 0xC2, CHR 0x85], [CHR 0xC2, CHR 0xA0], [CHR 0xE1, CHR 0x9A, CHR 0x80],
     [CHR 0xE2, CHR 0x80, CHR 0x80], [CHR 0xE2, CHR 0x80, CHR 0x81], [CHR 0xE2, CHR 0x80, CHR 0x82],
     [CHR 0xE2, CHR 0x80, CHR 0x83], [CHR 0xE2, CHR 0x80, CHR 0x84], [CHR 0xE2, CHR 0x80, CHR 0x85],
     [CHR 0xE2, CHR 0x80, CHR 0x86], [CHR 0xE2, CHR 0x80, CHR 0x87], [CHR 0xE2, CHR 0x80, CHR 0x88],
     [CHR 0xE2, CHR 0x80, CHR 0x89], [CHR 0xE2, CHR 0x80, CHR 0x8A], [CHR 0xE2, CHR 0x80, CHR 0xA8],
     [CHR 0xE2, CHR 0x80, CHR 0xA9], [CHR 0xE2, CHR 0x80, CHR 0xAF], [CHR 0xE2, CHR 0x81, CHR 0x9F],
     [CHR 0xE3, CHR 0x80, CHR 0x80]]"

lemma whiteSpace_nonempty: "p \<in> set whiteSpace \<Longrightarrow> p \<noteq> []"
  by (auto simp: whiteSpace_def)

definition leadingSpace :: "string \<Rightarrow> string option" where
  "leadingSpace s = List.find (\<lambda>p. prefix p s) whiteSpace"

definition trailingSpace :: "string \<Rightarrow> string option" where
  "trailingSpace s = List.find (\<lambda>p. suffix p s) whiteSpace"

lemma leadingSpace_Some: "leadingSpace s = Some p \<Longrightarrow> p \<noteq> [] \<and> prefix p s"
  by (auto simp: leadingSpace_def find_Some_iff dest: whiteSpace_nonempty [OF nth_mem])

lemma trailingSpace_Some: "trailingSpace s = Some p \<Longrightarrow> p \<noteq> [] \<and> suffix p s"
  by (auto simp: trailingSpace_def find_Some_iff dest: whiteSpace_nonempty [OF nth_mem])

lemma prefix_drop_shorter: "p \<noteq> [] \<Longrightarrow> prefix p s \<Longrightarrow> length s - length p < length s"
  by (cases s) (auto simp: prefix_def)

lemma suffix_take_shorter: "p \<noteq> [] \<Longrightarrow> suffix p s \<Longrightarrow> length s - length p < length s"
  by (auto simp: suffix_def)

function trimLeftSpace :: "string \<Rightarrow> string" where
  "trimLeftSpace s =
     (case leadingSpace s of None \<Rightarrow> s | Some p \<Rightarrow> trimLeftSpace (drop (length p) s))"
  by pat_completeness auto
termination
  by (relation "measure length") (auto dest!: leadingSpace_Some intro: prefix_drop_shorter)

function trimRightSpace :: "string \<Rightarrow> string" where
  "trimRightSpace s =
     (case trailingSpace s of None \<Rightarrow> s | Some p \<Rightarrow> trimRightSpace (take (length s - length p) s))"
  by pat_completeness auto
termination
  by (relation "measure length") (auto dest!: trailingSpace_Some intro: suffix_take_shorter)

declare trimLeftSpace.simps [simp del] trimRightSpace.simps [simp del]

definition trimSpace :: "string \<Rightarrow> string" where
  "trimSpace s = trimRightSpace (trimLeftSpace s)"

lemma trimLeftSpace_None: "leadingSpace s = None \<Longrightarrow> trimLeftSpace s = s"
  by (simp add: trimLeftSpace.simps [of s])

lemma trimRightSpace_None: "trailingSpace s = None \<Longrightarrow> trimRightSpace s = s"
  by (simp add: trimRightSpace.simps [of s])

lemma leadingSpace_trimLeft: "leadingSpace (trimLeftSpace s) = None"
proof (induction s rule: trimLeftSpace.induct)
  case (1 s)
  then show ?case by (cases "leadingSpace s") (simp_all add: trimLeftSpace.simps [of s])
qed

lemma trailingSpace_trimRight: "trailingSpace (trimRightSpace s) = None"
proof (induction s rule: trimRightSpace.induct)
  case (1 s)
  then show ?case by (cases "trailingSpace s") (simp_all add: trimRightSpace.simps [of s])
qed

lemma prefix_trimRightSpace: "prefix (trimRightSpace s) s"
proof (induction s rule: trimRightSpace.induct)
  case (1 s)
  show ?case
  proof (cases "trailingSpace s")
    case None
    then show ?thesis by (simp add: trimRightSpace_None)
  next
    case (Some p)
    with 1 have "prefix (trimRightSpace s) (take (length s - length p) s)"
      by (simp add: trimRightSpace.simps [of s])
    then show ?thesis by (meson prefix_order.order_trans take_is_prefix)
  qed
qed

lemma leadingSpace_prefix: "prefix s t \<Longrightarrow> leadingSpace t = None \<Longrightarrow> leadingSpace s = None"
  by (auto simp: leadingSpace_def find_None_iff dest: prefix_order.order_trans)

lemma trimSpace_no_space:
  "leadingSpace (trimSpace s) = None" "trailingSpace (trimSpace s) = None"
  using leadingSpace_prefix [OF prefix_trimRightSpace leadingSpace_trimLeft]
  by (simp_all add: trimSpace_def trailingSpace_trimRight)

lemma trimSpace_idem [simp]: "trimSpace (trimSpace s) = trimSpace s"
  using trimSpace_no_space [of s]
  by (simp add: trimSpace_def [of "trimSpace s"] trimLeftSpace_None trimRightSpace_None)

lemma trimSpace_fixpoint: "trimSpace s = s \<longleftrightarrow> leadingSpace s = None \<and> trailingSpace s = None"
  by (metis trimSpace_def trimSpace_no_space trimLeftSpace_None trimRightSpace_None)

section \<open>Package strconv: decimal numbers\<close>

definition isDigit :: "char \<Rightarrow> bool" where
  "isDigit c \<longleftrightarrow> 48 \<le> (of_char c :: nat) \<and> (of_char c :: nat) \<le> 57"

definition digitVal :: "char \<Rightarrow> nat" where
  "digitVal c = of_char c - 48"

definition digitChar :: "nat \<Rightarrow> char" where
  "digitChar d = char_of (48 + d)"

lemma isDigit_digitChar [simp]: "d < 10 \<Longrightarrow> isDigit (digitChar d)"
  by (simp add: isDigit_def digitChar_def)

lemma digitVal_digitChar [simp]: "d < 10 \<Longrightarrow> digitVal (digitChar d) = d"
  by (simp add: digitVal_def digitChar_def)

fun itoa :: "nat \<Rightarrow> string" where
  "itoa n = (if n < 10 then [digitChar n] else itoa (n div 10) @ [digitChar (n mod 10)])"

declare itoa.simps [simp del]

definition decimalValue :: "string \<Rightarrow> nat" where
  "decimalValue s = foldl (\<lambda>acc c. 10 * acc + digitVal c) 0 s"

definition allDigits :: "string \<Rightarrow> bool" where
  "allDigits s \<longleftrightarrow> s \<noteq> [] \<and> list_all isDigit s"

lemma decimalValue_snoc [simp]: "decimalValue (s @ [c]) = 10 * decimalValue s + digitVal c"
  by (simp add: decimalValue_def)

lemma itoa_allDigits [simp]: "allDigits (itoa n)"
proof (induction n rule: itoa.induct)
  case (1 n)
  then show ?case by (auto simp: allDigits_def itoa.simps [of n])
qed

lemma itoa_not_Nil [simp]: "itoa n \<noteq> []"
  using itoa_allDigits [of n] by (simp add: allDigits_def)

lemma decimalValue_itoa [simp]: "decimalValue (itoa n) = n"
proof (induction n rule: itoa.induct)
  case (1 n)
  show ?case
  proof (cases "n < 10")
    case True
    then show ?thesis by (simp add: itoa.simps [of n] decimalValue_def)
  next
    case False
    with 1 have "decimalValue (itoa (n div 10)) = n div 10" by simp
    with False show ?thesis by (simp add: itoa.simps [of n])
  qed
qed

lemma itoa_inj: "itoa m = itoa n \<longleftrightarrow> m = n"
  by (metis decimalValue_itoa)

text \<open>
  \<^verbatim>\<open>strconv.ParseUint(s, 10, bits)\<close> and \<^verbatim>\<open>strconv.Atoi\<close>: the syntax error and the range error
  are the two ways to fail. Go's \<^verbatim>\<open>int\<close> has 64 bits on the platforms the operator is built for.
\<close>

definition parseUint :: "string \<Rightarrow> nat \<Rightarrow> goerr + nat" where
  "parseUint s bits =
     (if \<not> allDigits s then Inl (ErrMsg ''invalid syntax'')
      else if decimalValue s < 2 ^ bits then Inr (decimalValue s)
      else Inl (ErrMsg ''value out of range''))"

definition atoi :: "string \<Rightarrow> goerr + int" where
  "atoi s =
     (let (neg, ds) = (case s of [] \<Rightarrow> (False, s)
                        | c # cs \<Rightarrow> if c = CHR ''-'' then (True, cs)
                                    else if c = CHR ''+'' then (False, cs) else (False, s));
          v = (if neg then - int (decimalValue ds) else int (decimalValue ds))
      in if \<not> allDigits ds then Inl (ErrMsg ''invalid syntax'')
         else if - (2 ^ 63) \<le> v \<and> v < 2 ^ 63 then Inr v
         else Inl (ErrMsg ''value out of range''))"

lemma parseUint_itoa: "n < 2 ^ bits \<Longrightarrow> parseUint (itoa n) bits = Inr n"
  by (simp add: parseUint_def)

lemma parseUint_bound: "parseUint s bits = Inr n \<Longrightarrow> n < 2 ^ bits"
  by (auto simp: parseUint_def split: if_splits)

lemma isDigit_not_sign: "isDigit c \<Longrightarrow> c \<noteq> CHR ''-'' \<and> c \<noteq> CHR ''+''"
  by (auto simp: isDigit_def)

lemma atoi_digits:
  assumes "allDigits s"
  shows "atoi s = (if decimalValue s < 2 ^ 63 then Inr (int (decimalValue s))
                   else Inl (ErrMsg ''value out of range''))"
proof -
  obtain c cs where s: "s = c # cs" using assms by (cases s) (auto simp: allDigits_def)
  with assms have "isDigit c" by (simp add: allDigits_def)
  then have "c \<noteq> CHR ''-''" "c \<noteq> CHR ''+''" using isDigit_not_sign by auto
  moreover have "int (decimalValue s) < 2 ^ 63 \<longleftrightarrow> decimalValue s < 2 ^ 63"
    by (metis of_nat_less_iff of_nat_numeral of_nat_power)
  ultimately show ?thesis using assms by (simp add: atoi_def s)
qed

section \<open>Maps with string keys\<close>

type_synonym 'v gomap = "(string \<times> 'v) list"

definition goget :: "'v gomap \<Rightarrow> string \<Rightarrow> 'v \<Rightarrow> 'v" where
  "goget m k zero = (case map_of m k of None \<Rightarrow> zero | Some v \<Rightarrow> v)"

definition goeq :: "'v gomap \<Rightarrow> 'v gomap \<Rightarrow> bool" where
  "goeq m n \<longleftrightarrow> list_all (\<lambda>k. map_of m k = map_of n k) (map fst m @ map fst n)"

lemma goeq_iff: "goeq m n \<longleftrightarrow> map_of m = map_of n"
proof
  assume eq: "goeq m n"
  show "map_of m = map_of n"
  proof (rule ext)
    fix k
    show "map_of m k = map_of n k"
    proof (cases "k \<in> fst ` set m \<union> fst ` set n")
      case True
      with eq show ?thesis by (auto simp: goeq_def list_all_iff)
    next
      case False
      then have "map_of m k = None" and "map_of n k = None"
        by (auto simp: map_of_eq_None_iff)
      then show ?thesis by simp
    qed
  qed
qed (simp add: goeq_def list_all_iff)

lemma goeq_refl [simp]: "goeq m m"
  by (simp add: goeq_iff)

text \<open>A map that may be nil; \<^verbatim>\<open>reflect.DeepEqual\<close> tells a nil map from an empty one.\<close>

fun deepEqualMap :: "'v gomap option \<Rightarrow> 'v gomap option \<Rightarrow> bool" where
  "deepEqualMap None None = True"
| "deepEqualMap (Some m) (Some n) = goeq m n"
| "deepEqualMap _ _ = False"

lemma deepEqualMap_iff: "deepEqualMap a b \<longleftrightarrow> map_option map_of a = map_option map_of b"
  by (cases "(a, b)" rule: deepEqualMap.cases) (auto simp: goeq_iff)

text \<open>\<^verbatim>\<open>mergeLabels\<close>-like loops store every entry of a map into another one.\<close>

definition goputall :: "'v gomap \<Rightarrow> 'v gomap \<Rightarrow> 'v gomap" where
  "goputall m kvs = foldl (\<lambda>r (k, v). AList.update k v r) m kvs"

lemma distinct_goputall: "distinct (map fst m) \<Longrightarrow> distinct (map fst (goputall m kvs))"
  unfolding goputall_def
  by (induction kvs arbitrary: m) (auto simp: distinct_update)

lemma map_of_goputall:
  "distinct (map fst kvs) \<Longrightarrow> map_of (goputall m kvs) = map_of m ++ map_of kvs"
proof (induction kvs arbitrary: m)
  case Nil
  then show ?case by (simp add: goputall_def)
next
  case (Cons kv kvs)
  obtain k v where kv: "kv = (k, v)" by (cases kv)
  with Cons.prems have "k \<notin> dom (map_of kvs)" by (simp add: dom_map_of_conv_image_fst)
  with Cons kv show ?case
    by (auto simp: goputall_def update_conv' fun_eq_iff map_add_def split: option.splits)
qed

section \<open>Package time\<close>

text \<open>
  An instant is the number of nanoseconds since January 1, year 1 UTC, the zero value of
  \<^verbatim>\<open>time.Time\<close>; a \<^verbatim>\<open>time.Duration\<close> is a signed 64-bit number of nanoseconds, and
  \<^verbatim>\<open>Time.Sub\<close> saturates at its bounds.
\<close>

type_synonym gotime = int
type_synonym duration = int

definition timeSecond :: duration where "timeSecond = 1000000000"
definition timeMinute :: duration where "timeMinute = 60 * timeSecond"
definition timeHour :: duration where "timeHour = 60 * timeMinute"

lemmas time_defs = timeSecond_def timeMinute_def timeHour_def

definition timeIsZero :: "gotime \<Rightarrow> bool" where
  "timeIsZero t \<longleftrightarrow> t = 0"

definition timeSub :: "gotime \<Rightarrow> gotime \<Rightarrow> duration" where
  "timeSub a b = max (- (2 ^ 63)) (min (2 ^ 63 - 1) (a - b))"

lemma timeSub_gt: "d < 2 ^ 63 - 1 \<Longrightarrow> - (2 ^ 63) \<le> d \<Longrightarrow> timeSub a b > d \<longleftrightarrow> a - b > d"
  by (auto simp: timeSub_def)

text \<open>Seconds from year 1 to the Unix epoch, and \<^verbatim>\<open>Time.UnixNano\<close>, which wraps at 64 bits.\<close>

definition unixToInternal :: int where "unixToInternal = 62135596800"

definition unixNano :: "gotime \<Rightarrow> 64 word" where
  "unixNano t = word_of_int (t - unixToInternal * timeSecond)"

definition timeUnix :: "int \<Rightarrow> gotime" where
  "timeUnix sec = (sec + unixToInternal) * timeSecond"

end
