(* ===== verification/Dt_Client.thy ===== *)
theory Dt_Client
  imports Go_Values
begin

text \<open>
  The client of the Dynatrace REST API (\<^verbatim>\<open>src/dtclient\<close>): requests and their authorisation,
  the reading of responses, the host cache, the parsing of communication endpoints, the options
  of the constructor, and the \<^verbatim>\<open>Client\<close> interface the controllers use.

  The HTTP transport with the server behind it, the clock, the JSON decoder and encoder and the
  URL parser are the fields of a record \<open>dt_env\<close> that every operation takes: \<open>'w\<close> is the state of
  the world the transport acts on. Everything the package itself decides is defined here.
\<close>

section \<open>Data\<close>

record CommunicationHost =
  ch_Protocol :: string
  ch_Host :: string
  ch_Port :: "32 word"

record ConnectionInfo =
  ci_CommunicationHosts :: "CommunicationHost list"
  ci_TenantUUID :: string

record hostInfo =
  hi_version :: string
  hi_entityID :: string

record TenantInfo =
  ti_ID :: string
  ti_Token :: string
  ti_Endpoints :: "string list"
  ti_CommunicationEndpoint :: string

record EventData =
  ev_EventType :: string
  ev_StartInMillis :: "64 word"
  ev_EndInMillis :: "64 word"
  ev_Description :: string
  ev_EntityIDs :: "string list"
  ev_Source :: string

text \<open>The part of \<^verbatim>\<open>http.Transport\<close> that the constructor's options set.\<close>

record transport =
  tr_InsecureSkipVerify :: bool
  tr_Proxy :: "string option"
  tr_RootCAs :: "string option"

record dynatraceClient =
  dtc_url :: string
  dtc_apiToken :: string
  dtc_paasToken :: string
  dtc_networkZone :: string
  dtc_disableHostsRequests :: bool
  dtc_transport :: transport
  dtc_hostCache :: "hostInfo gomap"
  dtc_now :: gotime

datatype tokenType = dynatraceApiToken | dynatracePaaSToken | otherToken int

text \<open>The response structs the package decodes from JSON.\<close>

record agentVersionResponse =
  av_Major :: int
  av_Minor :: int
  av_Revision :: int
  av_Timestamp :: string

record hostInfoResponse =
  hr_IPAddresses :: "string list"
  hr_AgentVersion :: "agentVersionResponse option"
  hr_EntityID :: string
  hr_NetworkZoneID :: string
  hr_LastSeenTimestamp :: int

record connectionInfoResponse =
  cr_TenantUUID :: string
  cr_TenantToken :: string
  cr_CommunicationEndpoints :: "string list"

record HttpRequest =
  rq_Method :: string
  rq_URL :: string
  rq_Header :: "(string \<times> string) list"
  rq_Body :: string

text \<open>A response: its status code and what reading its body gives.\<close>

record HttpResponse =
  rs_StatusCode :: int
  rs_Body :: "goerr + string"

text \<open>The scheme and the authority of a parsed URL.\<close>

record URL =
  u_Scheme :: string
  u_Host :: string

record 'w dt_env =
  newRequestErr :: "string \<Rightarrow> string \<Rightarrow> goerr option"
  httpDo :: "HttpRequest \<Rightarrow> ('w, HttpResponse) act"
  timeNow :: "'w \<Rightarrow> gotime \<times> 'w"
  parseRequestURI :: "string \<Rightarrow> goerr + URL"
  proxyURLOk :: "string \<Rightarrow> bool"
  unmarshalServerError :: "string \<Rightarrow> goerr + (int \<times> string)"
  unmarshalConnectionInfo :: "string \<Rightarrow> goerr + connectionInfoResponse"
  unmarshalHosts :: "string \<Rightarrow> goerr + hostInfoResponse list"
  unmarshalLatestVersion :: "string \<Rightarrow> goerr + string"
  unmarshalScopes :: "string \<Rightarrow> goerr + string list"
  marshalToken :: "string \<Rightarrow> goerr + string"
  marshalEvent :: "EventData \<Rightarrow> goerr + string"

section \<open>Errors of the server\<close>

definition fmtInt :: "int \<Rightarrow> string" where
  "fmtInt n = (if n < 0 then CHR ''-'' # itoa (nat (- n)) else itoa (nat n))"

definition ServerError_Error :: "int \<Rightarrow> string \<Rightarrow> string" where
  "ServerError_Error code message =
     (if message = [] \<and> code = 0 then ''unknown server error''
      else ''dynatrace server error '' @ fmtInt code @ '': '' @ message)"

text \<open>\<^verbatim>\<open>err.Error()\<close>.\<close>

fun errorText :: "goerr \<Rightarrow> string" where
  "errorText (ApiNotFound m) = m"
| "errorText (ApiConflict m) = m"
| "errorText (ApiNoMatch m) = m"
| "errorText (ApiError m) = m"
| "errorText (ServerError c m) = ServerError_Error c m"
| "errorText (ErrMsg m) = m"
| "errorText (Wrap m e) = m @ errorText e"

section \<open>Requests and responses (dynatrace\_client.go)\<close>

definition handleErrorResponseFromAPI :: "'w dt_env \<Rightarrow> string \<Rightarrow> int \<Rightarrow> goerr" where
  "handleErrorResponseFromAPI env response statusCode =
     (case unmarshalServerError env response of
        Inl err \<Rightarrow> Wrap (''response error: '' @ fmtInt statusCode @ '', can't unmarshal json response: '') err
      | Inr (code, message) \<Rightarrow> ServerError code message)"

text \<open>\<^verbatim>\<open>getServerResponseData\<close> returns the data read so far next to its error.\<close>

definition getServerResponseData :: "'w dt_env \<Rightarrow> HttpResponse \<Rightarrow> string \<times> goerr option" where
  "getServerResponseData env response =
     (case rs_Body response of
        Inl err \<Rightarrow> ('''', Some (Wrap ''error reading response: '' err))
      | Inr responseData \<Rightarrow>
          (if rs_StatusCode response \<noteq> 200 \<and> rs_StatusCode response \<noteq> 201
           then (responseData, Some (handleErrorResponseFromAPI env responseData (rs_StatusCode response)))
           else (responseData, None)))"

definition serverData :: "'w dt_env \<Rightarrow> HttpResponse \<Rightarrow> goerr + string" where
  "serverData env response =
     (case getServerResponseData env response of
        (_, Some err) \<Rightarrow> Inl err
      | (responseData, None) \<Rightarrow> Inr responseData)"

definition makeRequest ::
  "'w dt_env \<Rightarrow> dynatraceClient \<Rightarrow> string \<Rightarrow> tokenType \<Rightarrow> ('w, HttpResponse) act" where
  "makeRequest env dtc url tokenType =
     (case newRequestErr env ''GET'' url of
        Some err \<Rightarrow> raiseE (ErrMsg (''error initializing http request: '' @ errorText err))
      | None \<Rightarrow>
          (let send = (\<lambda>token. httpDo env
                 \<lparr>rq_Method = ''GET'', rq_URL = url,
                  rq_Header = [(''Authorization'', ''Api-Token '' @ token)], rq_Body = []\<rparr>)
           in case tokenType of
                dynatraceApiToken \<Rightarrow>
                  (if dtc_apiToken dtc = []
                   then raiseE (ErrMsg (''not able to set token since api token is empty for request: '' @ url))
                   else send (dtc_apiToken dtc))
              | dynatracePaaSToken \<Rightarrow>
                  (if dtc_paasToken dtc = []
                   then raiseE (ErrMsg (''not able to set token since paas token is empty for request: '' @ url))
                   else send (dtc_paasToken dtc))
              | otherToken _ \<Rightarrow> raiseE (ErrMsg ''unable to determine token to set in headers'')))"

text \<open>The state of the operations that change the client: the client and the world.\<close>

type_synonym 'w dtst = "dynatraceClient \<times> 'w"

definition onWorld :: "('w, 'a) act \<Rightarrow> ('w dtst, 'a) act" where
  "onWorld m = zoomE snd (\<lambda>w s. (fst s, w)) m"

definition setHostCache :: "hostInfo gomap \<Rightarrow> 'w dtst \<Rightarrow> 'w dtst" where
  "setHostCache m s = ((fst s)\<lparr>dtc_hostCache := m\<rparr>, snd s)"

text \<open>Go's division of integers rounds towards zero.\<close>

definition goDiv :: "int \<Rightarrow> int \<Rightarrow> int" where
  "goDiv a b = sgn a * sgn b * (\<bar>a\<bar> div \<bar>b\<bar>)"

definition hostInactive :: "gotime \<Rightarrow> hostInfoResponse \<Rightarrow> bool" where
  "hostInactive now info \<longleftrightarrow>
     timeUnix (goDiv (hr_LastSeenTimestamp info) 1000) < now - 30 * timeMinute"

definition inNetworkZone :: "string \<Rightarrow> string \<Rightarrow> bool" where
  "inNetworkZone zone nz \<longleftrightarrow>
     (zone \<noteq> [] \<and> nz = zone) \<or> (zone = [] \<and> (nz = ''default'' \<or> nz = []))"

definition hostInfoOf :: "hostInfoResponse \<Rightarrow> hostInfo" where
  "hostInfoOf info =
     \<lparr>hi_version = (case hr_AgentVersion info of None \<Rightarrow> []
        | Some v \<Rightarrow> fmtInt (av_Major v) @ ''.'' @ fmtInt (av_Minor v) @ ''.''
                      @ fmtInt (av_Revision v) @ ''.'' @ av_Timestamp v),
      hi_entityID = hr_EntityID info\<rparr>"

definition addHost :: "string \<Rightarrow> gotime \<Rightarrow> hostInfo gomap \<Rightarrow> hostInfoResponse \<Rightarrow> hostInfo gomap" where
  "addHost zone now cache info =
     (if hostInactive now info then cache
      else if inNetworkZone zone (hr_NetworkZoneID info)
      then foldl (\<lambda>m ip. AList.update ip (hostInfoOf info) m) cache (hr_IPAddresses info)
      else cache)"

definition setHostCacheFromResponse :: "'w dt_env \<Rightarrow> string \<Rightarrow> ('w dtst, unit) act" where
  "setHostCacheFromResponse env response =
     bindE (modifyE (setHostCache [])) (\<lambda>_.
       bindE (liftE (unmarshalHosts env response)) (\<lambda>hostInfoResponses.
         \<lambda>(dtc, w). let (now, w') = (if timeIsZero (dtc_now dtc) then timeNow env w else (dtc_now dtc, w))
           in (Inr (), setHostCache (foldl (addHost (dtc_networkZone dtc) now) [] hostInfoResponses) (dtc, w'))))"

definition buildHostCache :: "'w dt_env \<Rightarrow> ('w dtst, unit) act" where
  "buildHostCache env =
     (\<lambda>(dtc, w).
        if dtc_disableHostsRequests dtc then (Inr (), (dtc, w))
        else bindE (onWorld (makeRequest env dtc
                      (dtc_url dtc @ ''/v1/entity/infrastructure/hosts?includeDetails=false'') dynatraceApiToken))
               (\<lambda>resp. bindE (liftE (serverData env resp)) (setHostCacheFromResponse env)) (dtc, w))"

definition getHostInfoForIP :: "'w dt_env \<Rightarrow> string \<Rightarrow> ('w dtst, hostInfo) act" where
  "getHostInfoForIP env ip =
     bindE (\<lambda>s. if dtc_hostCache (fst s) = []
                then wrapE ''error building hostcache from dynatrace cluster: '' (buildHostCache env) s
                else (Inr (), s))
       (\<lambda>_ s. case map_of (dtc_hostCache (fst s)) ip of
                None \<Rightarrow> (Inl (ErrMsg ''host not found''), s)
              | Some h \<Rightarrow> (Inr h, s))"

section \<open>Communication hosts (communication\_hosts.go)\<close>

text \<open>
  \<^verbatim>\<open>URL.Port\<close> and \<^verbatim>\<open>URL.Hostname\<close> of package \<^verbatim>\<open>net/url\<close>: the part after the last colon is the
  port when it consists of digits only, and a host in square brackets loses them.
\<close>

definition splitHostPort :: "string \<Rightarrow> string \<times> string" where
  "splitHostPort hostPort =
     (let port = rev (takeWhile (\<lambda>c. c \<noteq> CHR '':'') (rev hostPort));
          n = length hostPort - length port;
          (host, p) = (if n > 0 \<and> list_all isDigit port then (take (n - 1) hostPort, port) else (hostPort, []))
      in (if prefix ''['' host \<and> suffix '']'' host then take (length host - 2) (drop 1 host) else host, p))"

definition u_Port :: "URL \<Rightarrow> string" where "u_Port u = snd (splitHostPort (u_Host u))"
definition u_Hostname :: "URL \<Rightarrow> string" where "u_Hostname u = fst (splitHostPort (u_Host u))"

definition parseEndpoint :: "'w dt_env \<Rightarrow> string \<Rightarrow> goerr + CommunicationHost" where
  "parseEndpoint env s =
     (case parseRequestURI env s of
        Inl _ \<Rightarrow> Inl (ErrMsg ''failed to parse URL'')
      | Inr u \<Rightarrow>
          if u_Scheme u = [] then Inl (ErrMsg ''no protocol provided'')
          else if u_Scheme u \<noteq> ''http'' \<and> u_Scheme u \<noteq> ''https'' then Inl (ErrMsg ''unknown protocol'')
          else
            let rp = u_Port u;
                host = (\<lambda>p. \<lparr>ch_Protocol = u_Scheme u, ch_Host = u_Hostname u, ch_Port = p\<rparr>)
            in if rp = [] then Inr (host (if u_Scheme u = ''http'' then 80 else 443))
               else (case parseUint rp 32 of
                       Inl _ \<Rightarrow> Inl (ErrMsg ''failed to parse port'')
                     | Inr q \<Rightarrow> Inr (host (of_nat q))))"

definition GetCommunicationHostForClient :: "'w dt_env \<Rightarrow> dynatraceClient \<Rightarrow> goerr + CommunicationHost" where
  "GetCommunicationHostForClient env dtc = parseEndpoint env (dtc_url dtc)"

text \<open>The loop over the endpoints skips those that do not parse.\<close>

fun parseEndpoints :: "'w dt_env \<Rightarrow> string list \<Rightarrow> CommunicationHost list" where
  "parseEndpoints env [] = []"
| "parseEndpoints env (s # ss) =
     (case parseEndpoint env s of Inl _ \<Rightarrow> parseEndpoints env ss | Inr e \<Rightarrow> e # parseEndpoints env ss)"

definition readResponseForConnectionInfo :: "'w dt_env \<Rightarrow> string \<Rightarrow> goerr + ConnectionInfo" where
  "readResponseForConnectionInfo env response =
     (case unmarshalConnectionInfo env response of
        Inl err \<Rightarrow> Inl err
      | Inr resp \<Rightarrow>
          let ch = parseEndpoints env (cr_CommunicationEndpoints resp)
          in if ch = [] then Inl (ErrMsg ''no communication hosts available'')
             else Inr \<lparr>ci_CommunicationHosts = ch, ci_TenantUUID = cr_TenantUUID resp\<rparr>)"

definition connectionInfoURL :: "dynatraceClient \<Rightarrow> string" where
  "connectionInfoURL dtc = dtc_url dtc @ ''/v1/deployment/installer/agent/connectioninfo''"

definition GetConnectionInfo :: "'w dt_env \<Rightarrow> dynatraceClient \<Rightarrow> ('w, ConnectionInfo) act" where
  "GetConnectionInfo env dtc =
     bindE (makeRequest env dtc (connectionInfoURL dtc) dynatracePaaSToken) (\<lambda>resp.
       bindE (liftE (serverData env resp)) (\<lambda>responseData.
         liftE (readResponseForConnectionInfo env responseData)))"

section \<open>Agent versions and entities (agent\_version.go)\<close>

definition readResponseForLatestVersion :: "'w dt_env \<Rightarrow> string \<Rightarrow> goerr + string" where
  "readResponseForLatestVersion env response =
     (case unmarshalLatestVersion env response of
        Inl err \<Rightarrow> Inl err
      | Inr v \<Rightarrow> if v = [] then Inl (ErrMsg ''agent version not set'') else Inr v)"

definition GetLatestAgentVersion ::
  "'w dt_env \<Rightarrow> dynatraceClient \<Rightarrow> string \<Rightarrow> string \<Rightarrow> ('w, string) act" where
  "GetLatestAgentVersion env dtc os installerType =
     (if os = [] \<or> installerType = [] then raiseE (ErrMsg ''os or installerType is empty'')
      else bindE (makeRequest env dtc
                    (dtc_url dtc @ ''/v1/deployment/installer/agent/'' @ os @ ''/'' @ installerType
                       @ ''/latest/metainfo'') dynatracePaaSToken) (\<lambda>resp.
             bindE (liftE (serverData env resp)) (\<lambda>responseData.
               liftE (readResponseForLatestVersion env responseData))))"

definition GetEntityIDForIP :: "'w dt_env \<Rightarrow> string \<Rightarrow> ('w dtst, string) act" where
  "GetEntityIDForIP env ip =
     (if ip = [] then raiseE (ErrMsg ''ip is invalid'')
      else bindE (getHostInfoForIP env ip) (\<lambda>h.
             if hi_entityID h = [] then raiseE (ErrMsg ''entity id not set for host'')
             else retE (hi_entityID h)))"

text \<open>
  \<^verbatim>\<open>GetLatestAgent\<close> copies the body of the response into the writer; the bytes written are the
  result here. A body that cannot be read to its end is the error of \<^verbatim>\<open>io.Copy\<close>.
\<close>

definition GetLatestAgent ::
  "'w dt_env \<Rightarrow> dynatraceClient \<Rightarrow> string \<Rightarrow> string \<Rightarrow> string \<Rightarrow> string \<Rightarrow> ('w, string) act" where
  "GetLatestAgent env dtc os installerType flavor arch =
     (if os = [] \<or> installerType = [] then raiseE (ErrMsg ''os or installerType is empty'')
      else bindE (makeRequest env dtc
                    (dtc_url dtc @ ''/v1/deployment/installer/agent/'' @ os @ ''/'' @ installerType
                       @ ''/latest?bitness=64&flavor='' @ flavor @ ''&arch='' @ arch) dynatracePaaSToken)
             (\<lambda>resp. liftE (rs_Body resp)))"

section \<open>Tenant (tenant.go)\<close>

definition Slash :: string where "Slash = ''/''"
definition DtCommunicationSuffix :: string where "DtCommunicationSuffix = ''communication''"

definition readResponseForTenantInfo :: "'w dt_env \<Rightarrow> string \<Rightarrow> goerr + TenantInfo" where
  "readResponseForTenantInfo env response =
     (case unmarshalConnectionInfo env response of
        Inl err \<Rightarrow> Inl err
      | Inr jr \<Rightarrow> Inr \<lparr>ti_ID = cr_TenantUUID jr, ti_Token = cr_TenantToken jr,
                       ti_Endpoints = cr_CommunicationEndpoints jr, ti_CommunicationEndpoint = []\<rparr>)"

fun firstContaining :: "string list \<Rightarrow> string \<Rightarrow> int \<Rightarrow> int option" where
  "firstContaining [] i_d n = None"
| "firstContaining (e # es) i_d n = (if sublist i_d e then Some n else firstContaining es i_d (n + 1))"

definition findCommunicationEndpointIndex :: "TenantInfo \<Rightarrow> int" where
  "findCommunicationEndpointIndex tenantInfo =
     (if ti_Endpoints tenantInfo = [] then - 1
      else case firstContaining (ti_Endpoints tenantInfo) (ti_ID tenantInfo) 0 of
             Some i \<Rightarrow> i | None \<Rightarrow> 0)"

definition findCommunicationEndpoint :: "TenantInfo \<Rightarrow> string" where
  "findCommunicationEndpoint tenantInfo =
     (let endpointIndex = findCommunicationEndpointIndex tenantInfo
      in if endpointIndex < 0 then []
         else let endpoint = ti_Endpoints tenantInfo ! nat endpointIndex
              in if suffix DtCommunicationSuffix endpoint then endpoint
                 else if suffix Slash endpoint then endpoint @ DtCommunicationSuffix
                 else endpoint @ Slash @ DtCommunicationSuffix)"

definition GetTenantInfo :: "'w dt_env \<Rightarrow> dynatraceClient \<Rightarrow> ('w, TenantInfo) act" where
  "GetTenantInfo env dtc =
     bindE (makeRequest env dtc (connectionInfoURL dtc) dynatracePaaSToken) (\<lambda>response.
       case getServerResponseData env response of
         (data, Some _) \<Rightarrow> raiseE (handleErrorResponseFromAPI env data (rs_StatusCode response))
       | (data, None) \<Rightarrow>
           bindE (liftE (readResponseForTenantInfo env data)) (\<lambda>tenantInfo.
             retE (tenantInfo\<lparr>ti_CommunicationEndpoint := findCommunicationEndpoint tenantInfo\<rparr>)))"

section \<open>Tokens (token.go) and events (send\_event.go)\<close>

type_synonym TokenScopes = "string list"

fun TokenScopes_Contains :: "TokenScopes \<Rightarrow> string \<Rightarrow> bool" where
  "TokenScopes_Contains [] scope = False"
| "TokenScopes_Contains (x # xs) scope = (if x = scope then True else TokenScopes_Contains xs scope)"

definition postRequest :: "string \<Rightarrow> string \<Rightarrow> string \<Rightarrow> HttpRequest" where
  "postRequest url token body =
     \<lparr>rq_Method = ''POST'', rq_URL = url,
      rq_Header = [(''Content-Type'', ''application/json''), (''Authorization'', ''Api-Token '' @ token)],
      rq_Body = body\<rparr>"

definition readResponseForTokenScopes :: "'w dt_env \<Rightarrow> string \<Rightarrow> goerr + TokenScopes" where
  "readResponseForTokenScopes env response =
     (case unmarshalScopes env response of
        Inl err \<Rightarrow> Inl (Wrap ''error unmarshalling json response: '' err)
      | Inr scopes \<Rightarrow> Inr scopes)"

definition GetTokenScopes :: "'w dt_env \<Rightarrow> dynatraceClient \<Rightarrow> string \<Rightarrow> ('w, TokenScopes) act" where
  "GetTokenScopes env dtc token =
     bindE (liftE (marshalToken env token)) (\<lambda>jsonStr.
       let url = dtc_url dtc @ ''/v1/tokens/lookup''
       in case newRequestErr env ''POST'' url of
            Some err \<Rightarrow> raiseE (Wrap ''error initializing http request: '' err)
          | None \<Rightarrow>
              bindE (wrapE ''error making post request to dynatrace api: ''
                      (httpDo env (postRequest url token jsonStr))) (\<lambda>resp.
                bindE (liftE (serverData env resp)) (\<lambda>data.
                  liftE (readResponseForTokenScopes env data))))"

definition MarkedForTerminationEvent :: string where
  "MarkedForTerminationEvent = ''MARKED_FOR_TERMINATION''"

definition SendEvent :: "'w dt_env \<Rightarrow> dynatraceClient \<Rightarrow> EventData option \<Rightarrow> ('w, unit) act" where
  "SendEvent env dtc eventData =
     (case eventData of
        None \<Rightarrow> raiseE (ErrMsg ''no data found in eventData payload'')
      | Some ev \<Rightarrow>
          if ev_EventType ev = [] then raiseE (ErrMsg ''no key set for eventType in eventData payload'')
          else bindE (liftE (marshalEvent env ev)) (\<lambda>jsonStr.
            let url = dtc_url dtc @ ''/v1/events''
            in case newRequestErr env ''POST'' url of
                 Some err \<Rightarrow> raiseE (ErrMsg (''error initializing http request: '' @ errorText err))
               | None \<Rightarrow>
                   catchE (httpDo env (postRequest url (dtc_apiToken dtc) jsonStr))
                     (\<lambda>err. raiseE (ErrMsg (''error making post request to dynatrace api: '' @ errorText err)))
                     (\<lambda>response. bindE (liftE (serverData env response)) (\<lambda>_. retE ()))))"

section \<open>Construction (client.go)\<close>

datatype Option =
    SkipCertificateValidation bool
  | Proxy string
  | Certs string
  | NetworkZone string
  | DisableHostsRequests bool

fun applyOption :: "'w dt_env \<Rightarrow> dynatraceClient \<Rightarrow> Option \<Rightarrow> dynatraceClient" where
  "applyOption env c (SkipCertificateValidation skip) =
     (if skip then c\<lparr>dtc_transport := (dtc_transport c)\<lparr>tr_InsecureSkipVerify := True\<rparr>\<rparr> else c)"
| "applyOption env c (Proxy proxyURL) =
     (if proxyURLOk env proxyURL then c\<lparr>dtc_transport := (dtc_transport c)\<lparr>tr_Proxy := Some proxyURL\<rparr>\<rparr> else c)"
| "applyOption env c (Certs certs) =
     c\<lparr>dtc_transport := (dtc_transport c)\<lparr>tr_RootCAs := Some certs\<rparr>\<rparr>"
| "applyOption env c (NetworkZone networkZone) = c\<lparr>dtc_networkZone := networkZone\<rparr>"
| "applyOption env c (DisableHostsRequests disabled) = c\<lparr>dtc_disableHostsRequests := disabled\<rparr>"

definition NewClient ::
  "'w dt_env \<Rightarrow> string \<Rightarrow> string \<Rightarrow> string \<Rightarrow> Option list \<Rightarrow> goerr + dynatraceClient" where
  "NewClient env url apiToken paasToken opts =
     (if url = [] then Inl (ErrMsg ''url is empty'')
      else if apiToken = [] \<and> paasToken = [] then Inl (ErrMsg ''tokens are empty'')
      else Inr (foldl (applyOption env)
        \<lparr>dtc_url = trimSuffix url ''/'', dtc_apiToken = apiToken, dtc_paasToken = paasToken,
         dtc_networkZone = [], dtc_disableHostsRequests = False,
         dtc_transport = \<lparr>tr_InsecureSkipVerify = False, tr_Proxy = None, tr_RootCAs = None\<rparr>,
         dtc_hostCache = [], dtc_now = 0\<rparr> opts))"

section \<open>The interface Client\<close>

text \<open>
  A value of the Go interface \<^verbatim>\<open>dtclient.Client\<close> is the record of its methods over the state
  \<open>'c\<close> the implementation keeps. \<open>dynatraceClient_Client\<close> is the implementation of this package;
  its state is the client together with the world its requests act on.
\<close>

record 'c Client =
  cl_GetLatestAgentVersion :: "string \<Rightarrow> string \<Rightarrow> ('c, string) act"
  cl_GetLatestAgent :: "string \<Rightarrow> string \<Rightarrow> string \<Rightarrow> string \<Rightarrow> ('c, string) act"
  cl_GetConnectionInfo :: "('c, ConnectionInfo) act"
  cl_GetCommunicationHostForClient :: "('c, CommunicationHost) act"
  cl_SendEvent :: "EventData option \<Rightarrow> ('c, unit) act"
  cl_GetEntityIDForIP :: "string \<Rightarrow> ('c, string) act"
  cl_GetTokenScopes :: "string \<Rightarrow> ('c, TokenScopes) act"
  cl_GetTenantInfo :: "('c, TenantInfo) act"

definition withClient :: "(dynatraceClient \<Rightarrow> ('w, 'a) act) \<Rightarrow> ('w dtst, 'a) act" where
  "withClient f = (\<lambda>s. onWorld (f (fst s)) s)"

definition dynatraceClient_Client :: "'w dt_env \<Rightarrow> ('w dtst) Client" where
  "dynatraceClient_Client env =
     \<lparr>cl_GetLatestAgentVersion = (\<lambda>os it. withClient (\<lambda>c. GetLatestAgentVersion env c os it)),
      cl_GetLatestAgent = (\<lambda>os it fl ar. withClient (\<lambda>c. GetLatestAgent env c os it fl ar)),
      cl_GetConnectionInfo = withClient (GetConnectionInfo env),
      cl_GetCommunicationHostForClient = withClient (\<lambda>c. liftE (GetCommunicationHostForClient env c)),
      cl_SendEvent = (\<lambda>ev. withClient (\<lambda>c. SendEvent env c ev)),
      cl_GetEntityIDForIP = GetEntityIDForIP env,
      cl_GetTokenScopes = (\<lambda>token. withClient (\<lambda>c. GetTokenScopes env c token)),
      cl_GetTenantInfo = withClient (GetTenantInfo env)\<rparr>"

section \<open>Lemmas: endpoints and connection information\<close>

lemma splitHostPort_port:
  assumes "allDigits p" and "\<not> prefix ''['' host"
  shows "splitHostPort (host @ '':'' @ p) = (host, p)"
proof -
  have nocolon: "\<forall>c \<in> set (rev p). c \<noteq> CHR '':''"
    using assms(1) by (auto simp: allDigits_def list_all_iff isDigit_def)
  then have "takeWhile (\<lambda>c. c \<noteq> CHR '':'') (rev p @ '':'' @ rev host) = rev p"
    by (subst takeWhile_append2) auto
  then have "takeWhile (\<lambda>c. c \<noteq> CHR '':'') (rev (host @ '':'' @ p)) = rev p"
    by simp
  with assms show ?thesis
    by (auto simp: splitHostPort_def Let_def allDigits_def)
qed

lemma parseEndpoint_InrD:
  assumes "parseEndpoint env s = Inr h"
  obtains u where "parseRequestURI env s = Inr u" and "u_Scheme u = ''http'' \<or> u_Scheme u = ''https''"
    and "ch_Protocol h = u_Scheme u" and "ch_Host h = u_Hostname u"
    and "u_Port u = [] \<Longrightarrow> ch_Port h = (if u_Scheme u = ''http'' then 80 else 443)"
    and "u_Port u \<noteq> [] \<Longrightarrow> unat (ch_Port h) = decimalValue (u_Port u)"
proof -
  from assms obtain u where u: "parseRequestURI env s = Inr u"
    by (auto simp: parseEndpoint_def split: sum.splits)
  have port: "unat (of_nat q :: 32 word) = decimalValue rp" if "parseUint rp 32 = Inr q" for rp q
    using that parseUint_bound [OF that]
    by (auto simp: parseUint_def unsigned_of_nat take_bit_nat_eq_self split: if_splits)
  show thesis
    using assms u port
    by (intro that [of u]) (auto simp: parseEndpoint_def Let_def split: if_splits sum.splits)
qed

lemma parseEndpoint_protocol:
  "parseEndpoint env s = Inr h \<Longrightarrow> ch_Protocol h = ''http'' \<or> ch_Protocol h = ''https''"
  by (metis parseEndpoint_InrD)

lemma set_parseEndpoints: "set (parseEndpoints env ss) = {h. \<exists>s \<in> set ss. parseEndpoint env s = Inr h}"
  by (induction ss) (auto split: sum.splits)

lemma readResponseForConnectionInfo_InrD:
  assumes "readResponseForConnectionInfo env r = Inr ci"
  shows "ci_CommunicationHosts ci \<noteq> []"
    and "h \<in> set (ci_CommunicationHosts ci) \<Longrightarrow> ch_Protocol h = ''http'' \<or> ch_Protocol h = ''https''"
  using assms
  by (auto simp: readResponseForConnectionInfo_def Let_def set_parseEndpoints
      dest: parseEndpoint_protocol split: sum.splits if_splits)

section \<open>Lemmas: the host cache\<close>

definition hostMatches :: "string \<Rightarrow> gotime \<Rightarrow> string \<Rightarrow> hostInfoResponse \<Rightarrow> bool" where
  "hostMatches zone now ip info \<longleftrightarrow>
     \<not> hostInactive now info \<and> inNetworkZone zone (hr_NetworkZoneID info) \<and> ip \<in> set (hr_IPAddresses info)"

lemma map_of_addHost_ips:
  "map_of (foldl (\<lambda>m ip. AList.update ip h m) m ips) ip = (if ip \<in> set ips then Some h else map_of m ip)"
  by (induction ips arbitrary: m) (auto simp: update_conv')

lemma map_of_addHost:
  "map_of (addHost zone now m info) ip =
     (if hostMatches zone now ip info then Some (hostInfoOf info) else map_of m ip)"
  by (simp add: addHost_def hostMatches_def map_of_addHost_ips)

lemma map_of_addHosts:
  "map_of (foldl (addHost zone now) m hs) ip =
     (case List.find (hostMatches zone now ip) (rev hs) of
        None \<Rightarrow> map_of m ip | Some h \<Rightarrow> Some (hostInfoOf h))"
proof (induction hs rule: rev_induct)
  case Nil
  then show ?case by simp
next
  case (snoc h hs)
  then show ?case by (simp add: map_of_addHost split: option.splits)
qed

lemma getHostInfoForIP_InrD:
  "getHostInfoForIP env ip s = (Inr h, s') \<Longrightarrow> map_of (dtc_hostCache (fst s')) ip = Some h"
  by (auto simp: getHostInfoForIP_def bindE_run split: prod.splits sum.splits option.splits)

lemma GetEntityIDForIP_InrD:
  assumes "GetEntityIDForIP env ip s = (Inr i, s')"
  shows "i \<noteq> [] \<and> ip \<noteq> [] \<and> (\<exists>h. map_of (dtc_hostCache (fst s')) ip = Some h \<and> hi_entityID h = i)"
  using assms
  by (auto simp: GetEntityIDForIP_def bindE_run dest!: getHostInfoForIP_InrD
      split: if_splits prod.splits sum.splits)

section \<open>The contract of the interface Client\<close>

text \<open>
  What the controllers rely on when an operation of the interface succeeds: versions, entity ids
  and lists of hosts are not empty, protocols are the two that are known, and an event that was
  accepted has a type.
\<close>

locale dt_client_contract =
  fixes cl :: "'c Client"
  assumes latest_version: "cl_GetLatestAgentVersion cl os it s = (Inr v, s') \<Longrightarrow> v \<noteq> [] \<and> os \<noteq> [] \<and> it \<noteq> []"
    and connection_hosts: "cl_GetConnectionInfo cl s = (Inr ci, s') \<Longrightarrow> ci_CommunicationHosts ci \<noteq> []"
    and connection_protocol: "cl_GetConnectionInfo cl s = (Inr ci, s') \<Longrightarrow>
          h \<in> set (ci_CommunicationHosts ci) \<Longrightarrow> ch_Protocol h = ''http'' \<or> ch_Protocol h = ''https''"
    and client_protocol: "cl_GetCommunicationHostForClient cl s = (Inr h, s') \<Longrightarrow>
          ch_Protocol h = ''http'' \<or> ch_Protocol h = ''https''"
    and entity_id: "cl_GetEntityIDForIP cl ip s = (Inr i, s') \<Longrightarrow> i \<noteq> [] \<and> ip \<noteq> []"
    and event_typed: "cl_SendEvent cl ev s = (Inr u, s') \<Longrightarrow> \<exists>d. ev = Some d \<and> ev_EventType d \<noteq> []"

lemma withClient_InrD: "withClient f s = (Inr x, s') \<Longrightarrow> f (fst s) (snd s) = (Inr x, snd s') \<and> fst s' = fst s"
  by (auto simp: withClient_def onWorld_def zoomE_run split: prod.splits)

lemma GetLatestAgentVersion_InrD:
  "GetLatestAgentVersion env c os it w = (Inr v, w') \<Longrightarrow> v \<noteq> [] \<and> os \<noteq> [] \<and> it \<noteq> []"
  by (auto simp: GetLatestAgentVersion_def readResponseForLatestVersion_def bindE_run
      split: if_splits prod.splits sum.splits)

lemma GetConnectionInfo_InrD:
  "GetConnectionInfo env c w = (Inr ci, w') \<Longrightarrow> \<exists>r. readResponseForConnectionInfo env r = Inr ci"
  by (auto simp: GetConnectionInfo_def bindE_run split: prod.splits sum.splits)

lemma SendEvent_InrD:
  "SendEvent env c ev w = (Inr u, w') \<Longrightarrow> \<exists>d. ev = Some d \<and> ev_EventType d \<noteq> []"
  by (auto simp: SendEvent_def split: option.splits if_splits)

interpretation dtc: dt_client_contract "dynatraceClient_Client env" for env :: "'w dt_env"
proof (unfold_locales, goal_cases)
  case 1 then show ?case
    by (auto simp: dynatraceClient_Client_def dest!: withClient_InrD GetLatestAgentVersion_InrD)
next
  case 2 then show ?case
    by (auto simp: dynatraceClient_Client_def dest!: withClient_InrD GetConnectionInfo_InrD
        readResponseForConnectionInfo_InrD(1))
next
  case 3 then show ?case
    by (auto simp: dynatraceClient_Client_def dest!: withClient_InrD GetConnectionInfo_InrD
        readResponseForConnectionInfo_InrD(2))
next
  case 4 then show ?case
    by (auto simp: dynatraceClient_Client_def GetCommunicationHostForClient_def
        dest!: withClient_InrD dest: parseEndpoint_protocol)
next
  case 5 then show ?case
    by (auto simp: dynatraceClient_Client_def dest!: GetEntityIDForIP_InrD)
next
  case 6 then show ?case
    by (auto simp: dynatraceClient_Client_def dest!: withClient_InrD SendEvent_InrD)
qed

text \<open>The answer to a lookup that belongs to a response of the server: the last host that was active at the time \<open>now\<close>, is in the zone
  and has the address.\<close>

definition entityFrom :: "string \<Rightarrow> gotime \<Rightarrow> hostInfoResponse list \<Rightarrow> string \<Rightarrow> goerr + string" where
  "entityFrom zone now hosts ip =
     (if ip = [] then Inl (ErrMsg ''ip is invalid'')
      else case List.find (hostMatches zone now ip) (rev hosts) of
             None \<Rightarrow> Inl (ErrMsg ''host not found'')
           | Some h \<Rightarrow> if hr_EntityID h = [] then Inl (ErrMsg ''entity id not set for host'') else Inr (hr_EntityID h))"

lemma NewClient_fresh:
  assumes "NewClient env url apiToken paasToken opts = Inr dtc"
  shows "dtc_hostCache dtc = []" and "timeIsZero (dtc_now dtc)"
proof -
  have "dtc_hostCache (foldl (applyOption env) c opts) = dtc_hostCache c \<and> dtc_now (foldl (applyOption env) c opts) = dtc_now c" for c
  proof (induction opts arbitrary: c)
    case (Cons opt opts)
    then show ?case by (cases opt) simp_all
  qed simp
  with assms show "dtc_hostCache dtc = []" and "timeIsZero (dtc_now dtc)"
    by (auto simp: NewClient_def timeIsZero_def split: if_splits)
qed

lemma GetEntityIDForIP_cached:
  assumes "dtc_hostCache dtc \<noteq> []" and "dtc_hostCache dtc = foldl (addHost zone now) [] hosts"
  shows "GetEntityIDForIP env ip (dtc, w) = (entityFrom zone now hosts ip, (dtc, w))"
  using assms(1) map_of_addHosts [of zone now "[]" hosts ip]
  by (auto simp: GetEntityIDForIP_def getHostInfoForIP_def entityFrom_def assms(2) [symmetric] bindE_run hostInfoOf_def split: option.splits)

lemma hostCache_empty: "foldl (addHost zone now) [] hosts = [] \<longleftrightarrow> (\<nexists>h ip. h \<in> set hosts \<and> hostMatches zone now ip h)"
proof -
  let ?cache = "foldl (addHost zone now) [] hosts"
  have "?cache = [] \<longleftrightarrow> (\<forall>ip. map_of ?cache ip = None)"
    by (cases ?cache) auto
  also have "\<dots> \<longleftrightarrow> (\<forall>ip. List.find (hostMatches zone now ip) (rev hosts) = None)"
    by (simp add: map_of_addHosts split: option.splits)
  finally show ?thesis by (auto simp: find_None_iff)
qed

lemma firstContaining_SomeD:
  "firstContaining es x n = Some i \<Longrightarrow>
     \<exists>ys e zs. es = ys @ e # zs \<and> sublist x e \<and> (\<forall>y \<in> set ys. \<not> sublist x y) \<and> i = n + int (length ys)"
proof (induction es arbitrary: n)
  case Nil
  then show ?case by simp
next
  case (Cons e es)
  show ?case
  proof (cases "sublist x e")
    case True
    with Cons.prems show ?thesis by (intro exI [of _ "[]"] exI [of _ e] exI [of _ es]) simp
  next
    case False
    with Cons.prems have "firstContaining es x (n + 1) = Some i" by simp
    from Cons.IH [OF this] obtain ys d zs where "es = ys @ d # zs" "sublist x d"
        "\<forall>y \<in> set ys. \<not> sublist x y" "i = n + 1 + int (length ys)"
      by blast
    with False show ?thesis by (intro exI [of _ "e # ys"]) auto
  qed
qed

lemma firstContaining_NoneD: "firstContaining es x n = None \<Longrightarrow> \<forall>e \<in> set es. \<not> sublist x e"
  by (induction es arbitrary: n) (auto split: if_splits)

lemma communication_suffixed:
  "suffix DtCommunicationSuffix (if suffix DtCommunicationSuffix e then e
     else if suffix Slash e then e @ DtCommunicationSuffix else e @ Slash @ DtCommunicationSuffix)"
  by (auto simp: suffix_def)

section \<open>Properties\<close>

text \<open>\<^verbatim>\<open>parseEndpoint\<close> inverts the printing of a communication host: for either protocol, any host
  name that is not in square brackets and any 32-bit port the endpoint
  \<^verbatim>\<open>protocol://host:port\<close> is parsed into exactly this protocol, host and port, given that the URL
  parser splits it into scheme and authority.\<close>

theorem parseEndpoint_roundtrip:
  assumes "parseRequestURI env (proto @ ''://'' @ host @ '':'' @ itoa (unat port)) =
             Inr \<lparr>u_Scheme = proto, u_Host = host @ '':'' @ itoa (unat port)\<rparr>"
    and "proto = ''http'' \<or> proto = ''https''" and "\<not> prefix ''['' host"
  shows "parseEndpoint env (proto @ ''://'' @ host @ '':'' @ itoa (unat port)) =
    Inr \<lparr>ch_Protocol = proto, ch_Host = host, ch_Port = port\<rparr>"
proof -
  have "splitHostPort (host @ '':'' @ itoa (unat port)) = (host, itoa (unat port))"
    using assms(3) by (intro splitHostPort_port) simp_all
  moreover have "parseUint (itoa (unat port)) 32 = Inr (unat port)"
    using unsigned_less [of port] by (intro parseUint_itoa) simp
  ultimately show ?thesis
    using assms(1,2) by (auto simp: parseEndpoint_def Let_def u_Port_def u_Hostname_def)
qed

definition exampleEnv :: "(HttpRequest list) dt_env" where
  "exampleEnv =
     \<lparr>newRequestErr = (\<lambda>_ _. None),
      httpDo = (\<lambda>rq w. (Inr \<lparr>rs_StatusCode = 200, rs_Body = Inr (rq_URL rq)\<rparr>, w @ [rq])),
      timeNow = (\<lambda>w. (1, w)),
      parseRequestURI = (\<lambda>s. if prefix ''https://'' s then Inr \<lparr>u_Scheme = ''https'', u_Host = drop 8 s\<rparr>
                             else Inl (ErrMsg ''invalid URI'')),
      proxyURLOk = (\<lambda>_. True),
      unmarshalServerError = (\<lambda>_. Inl (ErrMsg ''no object'')),
      unmarshalConnectionInfo = (\<lambda>_. Inr \<lparr>cr_TenantUUID = ''abc'', cr_TenantToken = ''t'',
                                          cr_CommunicationEndpoints = [''https://h:8443'', ''ftp'']\<rparr>),
      unmarshalHosts = (\<lambda>_. Inr [\<lparr>hr_IPAddresses = [''10.0.0.1''], hr_AgentVersion = None, hr_EntityID = ''HOST-1'',
                                 hr_NetworkZoneID = ''default'', hr_LastSeenTimestamp = 0\<rparr>]),
      unmarshalLatestVersion = Inr, unmarshalScopes = (\<lambda>s. Inr [s]), marshalToken = Inr,
      marshalEvent = (\<lambda>e. Inr (ev_EventType e))\<rparr>"

theorem parseEndpoint_roundtrip_witness:
  "parseEndpoint exampleEnv (''https'' @ ''://'' @ ''h'' @ '':'' @ itoa (unat (8443 :: 32 word))) =
     Inr \<lparr>ch_Protocol = ''https'', ch_Host = ''h'', ch_Port = 8443\<rparr>"
  by (rule parseEndpoint_roundtrip) (simp_all add: exampleEnv_def)

text \<open>Connection information that \<^verbatim>\<open>GetConnectionInfo\<close> returns is usable: there is at least one
  communication host, every host has one of the two known protocols and is the parse of an
  endpoint of the response, and every endpoint that parses is among them.\<close>

theorem GetConnectionInfo_hosts:
  assumes "GetConnectionInfo env dtc w = (Inr ci, w')"
  shows "ci_CommunicationHosts ci \<noteq> [] \<and>
    (\<forall>h \<in> set (ci_CommunicationHosts ci). ch_Protocol h = ''http'' \<or> ch_Protocol h = ''https'') \<and>
    (\<exists>data resp. unmarshalConnectionInfo env data = Inr resp \<and> ci_TenantUUID ci = cr_TenantUUID resp \<and>
       set (ci_CommunicationHosts ci) =
         {h. \<exists>s \<in> set (cr_CommunicationEndpoints resp). parseEndpoint env s = Inr h})"
proof -
  have run: "cl_GetConnectionInfo (dynatraceClient_Client env) (dtc, w) = (Inr ci, (dtc, w'))"
    using assms by (simp add: dynatraceClient_Client_def withClient_def onWorld_def zoomE_run)
  obtain data where "readResponseForConnectionInfo env data = Inr ci"
    using GetConnectionInfo_InrD [OF assms] by blast
  then have "\<exists>resp. unmarshalConnectionInfo env data = Inr resp \<and> ci_TenantUUID ci = cr_TenantUUID resp \<and>
      set (ci_CommunicationHosts ci) = {h. \<exists>s \<in> set (cr_CommunicationEndpoints resp). parseEndpoint env s = Inr h}"
    by (auto simp: readResponseForConnectionInfo_def Let_def set_parseEndpoints split: sum.splits if_splits)
  then show ?thesis
    using dtc.connection_hosts [OF run] dtc.connection_protocol [OF run] by blast
qed

definition exampleClient :: dynatraceClient where
  "exampleClient =
     \<lparr>dtc_url = ''https://h/api'', dtc_apiToken = ''a'', dtc_paasToken = ''p'', dtc_networkZone = [],
      dtc_disableHostsRequests = False,
      dtc_transport = \<lparr>tr_InsecureSkipVerify = False, tr_Proxy = None, tr_RootCAs = None\<rparr>,
      dtc_hostCache = [], dtc_now = 1\<rparr>"

theorem GetConnectionInfo_hosts_witness:
  "\<exists>ci w'. GetConnectionInfo exampleEnv exampleClient [] = (Inr ci, w') \<and> ci_CommunicationHosts ci \<noteq> []"
proof -
  obtain ci w' where run: "GetConnectionInfo exampleEnv exampleClient [] = (Inr ci, w')"
    by (simp add: GetConnectionInfo_def makeRequest_def exampleEnv_def exampleClient_def bindE_run serverData_def
        getServerResponseData_def readResponseForConnectionInfo_def Let_def parseEndpoint_def u_Port_def
        u_Hostname_def splitHostPort_def isDigit_def parseUint_def allDigits_def decimalValue_def digitVal_def)
  then show ?thesis using GetConnectionInfo_hosts [OF run] by blast
qed

text \<open>C26. \<^verbatim>\<open>GetEntityIDForIP\<close> on a client as \<^verbatim>\<open>NewClient\<close> makes it, with requests for hosts allowed: the first lookup reads the hosts of the
  server and the clock, and answers with the entity id of the last host of the response that was seen within 30 minutes of that time, lies in the
  client's network zone (the default zone where none is set) and has the address; without such a host, or where its
  entity id is empty, it fails. Every later lookup of any address answers from the same response and the same time, without a request
  and however much later it comes, unless the response had no host of the zone that was active: then the next lookup asks again.\<close>

theorem GetEntityIDForIP_fresh:
  assumes "NewClient env url apiToken paasToken opts = Inr dtc" and "\<not> dtc_disableHostsRequests dtc" and "ip \<noteq> []"
    and "makeRequest env dtc (dtc_url dtc @ ''/v1/entity/infrastructure/hosts?includeDetails=false'')
           dynatraceApiToken w = (Inr resp, w1)"
    and "serverData env resp = Inr data" and "unmarshalHosts env data = Inr hosts" and "timeNow env w1 = (now, w2)"
  shows "\<exists>dtc'. GetEntityIDForIP env ip (dtc, w) = (entityFrom (dtc_networkZone dtc) now hosts ip, (dtc', w2)) \<and>
    (if \<exists>h ip. h \<in> set hosts \<and> hostMatches (dtc_networkZone dtc) now ip h
     then \<forall>ip v. GetEntityIDForIP env ip (dtc', v) = (entityFrom (dtc_networkZone dtc) now hosts ip, (dtc', v))
     else dtc' = dtc)"
proof -
  note new = NewClient_fresh [OF assms(1)]
  let ?zone = "dtc_networkZone dtc"
  let ?cache = "foldl (addHost ?zone now) [] hosts"
  let ?dtc = "dtc\<lparr>dtc_hostCache := ?cache\<rparr>"
  have first: "GetEntityIDForIP env ip (dtc, w) = (entityFrom ?zone now hosts ip, (?dtc, w2))"
    using assms(2-7) new map_of_addHosts [of ?zone now "[]" hosts ip]
    by (auto simp: GetEntityIDForIP_def getHostInfoForIP_def buildHostCache_def onWorld_def setHostCacheFromResponse_def setHostCache_def entityFrom_def
        bindE_run wrapE_run zoomE_run hostInfoOf_def split: option.splits)
  show ?thesis
  proof (cases "?cache = []")
    case True
    then have "?dtc = dtc" using new(1) by (cases dtc) simp
    with first show ?thesis unfolding if_not_P [OF True [unfolded hostCache_empty]] by (intro exI [of _ ?dtc]) simp
  next
    case False
    have "GetEntityIDForIP env ip (?dtc, v) = (entityFrom ?zone now hosts ip, (?dtc, v))" for ip v
      by (rule GetEntityIDForIP_cached) (use False in simp_all)
    then show ?thesis using first False [unfolded hostCache_empty] by (intro exI [of _ ?dtc]) simp
  qed
qed

theorem GetEntityIDForIP_fresh_witness:
  "\<exists>dtc'. GetEntityIDForIP exampleEnv ''10.0.0.1'' (exampleClient\<lparr>dtc_now := 0\<rparr>, []) = (Inr ''HOST-1'', dtc') \<and>
     fst (GetEntityIDForIP exampleEnv ''10.0.0.2'' dtc') = Inl (ErrMsg ''host not found'')"
proof -
  let ?u = "''https://h/api/v1/entity/infrastructure/hosts?includeDetails=false''" and ?c = "exampleClient\<lparr>dtc_now := 0\<rparr>"
  let ?h = "\<lparr>hr_IPAddresses = [''10.0.0.1''], hr_AgentVersion = None, hr_EntityID = ''HOST-1'',
             hr_NetworkZoneID = ''default'', hr_LastSeenTimestamp = 0\<rparr>"
  let ?rq = "\<lparr>rq_Method = ''GET'', rq_URL = ?u, rq_Header = [(''Authorization'', ''Api-Token a'')], rq_Body = []\<rparr>"
  have matches: "hostMatches [] 1 ip ?h \<longleftrightarrow> ip = ''10.0.0.1''" for ip
    by (auto simp: hostMatches_def hostInactive_def inNetworkZone_def timeUnix_def goDiv_def time_defs unixToInternal_def)
  have new: "NewClient exampleEnv ''https://h/api'' ''a'' ''p'' [] = Inr ?c" by code_simp
  have "\<exists>dtc'. GetEntityIDForIP exampleEnv ''10.0.0.1'' (?c, []) = (entityFrom (dtc_networkZone ?c) 1 [?h] ''10.0.0.1'', (dtc', [?rq])) \<and>
      (if \<exists>h ip. h \<in> set [?h] \<and> hostMatches (dtc_networkZone ?c) 1 ip h
       then \<forall>ip v. GetEntityIDForIP exampleEnv ip (dtc', v) = (entityFrom (dtc_networkZone ?c) 1 [?h] ip, (dtc', v))
       else dtc' = ?c)"
    by (rule GetEntityIDForIP_fresh [OF new, where data = ?u and resp = "\<lparr>rs_StatusCode = 200, rs_Body = Inr ?u\<rparr>"])
      (simp_all add: exampleClient_def exampleEnv_def makeRequest_def serverData_def getServerResponseData_def)
  then obtain dtc' where run: "GetEntityIDForIP exampleEnv ''10.0.0.1'' (?c, []) = (entityFrom [] 1 [?h] ''10.0.0.1'', (dtc', [?rq]))"
    and later: "\<forall>ip v. GetEntityIDForIP exampleEnv ip (dtc', v) = (entityFrom [] 1 [?h] ip, (dtc', v))"
    by (auto simp: exampleClient_def matches)
  have "entityFrom [] 1 [?h] ''10.0.0.1'' = Inr ''HOST-1''" "entityFrom [] 1 [?h] ''10.0.0.2'' = Inl (ErrMsg ''host not found'')"
    by (simp_all add: entityFrom_def matches)
  with run later show ?thesis by auto
qed

text \<open>Every request of \<^verbatim>\<open>makeRequest\<close> is authorised: it sends at most one request, this one carries
  a token that is not empty and is the one its caller asked for, and without such a token
  nothing is sent and an error is returned.\<close>

theorem makeRequest_authorised:
  assumes "\<And>rq w. \<exists>r. httpDo env rq w = (r, w @ [rq])"
  shows "\<exists>r reqs. makeRequest env dtc url tt w = (r, w @ reqs) \<and>
    ((\<exists>e. r = Inl e \<and> reqs = []) \<or>
     (\<exists>token. token \<noteq> [] \<and> (tt = dynatraceApiToken \<and> token = dtc_apiToken dtc \<or>
                            tt = dynatracePaaSToken \<and> token = dtc_paasToken dtc) \<and>
        reqs = [\<lparr>rq_Method = ''GET'', rq_URL = url,
                 rq_Header = [(''Authorization'', ''Api-Token '' @ token)], rq_Body = []\<rparr>]))"
proof -
  define send where "send token = httpDo env \<lparr>rq_Method = ''GET'', rq_URL = url,
      rq_Header = [(''Authorization'', ''Api-Token '' @ token)], rq_Body = []\<rparr> w" for token
  have sent: "\<exists>r. send token = (r, w @ [\<lparr>rq_Method = ''GET'', rq_URL = url,
      rq_Header = [(''Authorization'', ''Api-Token '' @ token)], rq_Body = []\<rparr>])" for token
    unfolding send_def by (rule assms)
  have run: "makeRequest env dtc url tt w = (case newRequestErr env ''GET'' url of
        Some err \<Rightarrow> (Inl (ErrMsg (''error initializing http request: '' @ errorText err)), w)
      | None \<Rightarrow> (case tt of
            dynatraceApiToken \<Rightarrow> if dtc_apiToken dtc = []
              then (Inl (ErrMsg (''not able to set token since api token is empty for request: '' @ url)), w)
              else send (dtc_apiToken dtc)
          | dynatracePaaSToken \<Rightarrow> if dtc_paasToken dtc = []
              then (Inl (ErrMsg (''not able to set token since paas token is empty for request: '' @ url)), w)
              else send (dtc_paasToken dtc)
          | otherToken _ \<Rightarrow> (Inl (ErrMsg ''unable to determine token to set in headers''), w)))"
    by (simp add: makeRequest_def Let_def send_def split: option.split tokenType.split)
  show ?thesis
    unfolding run using sent [of "dtc_apiToken dtc"] sent [of "dtc_paasToken dtc"]
    by (force split: option.split tokenType.split)
qed

theorem makeRequest_authorised_witness:
  "\<exists>r reqs. makeRequest exampleEnv exampleClient ''u'' dynatracePaaSToken [] = (r, [] @ reqs) \<and> length reqs = 1"
proof -
  have "\<exists>r. httpDo exampleEnv rq w = (r, w @ [rq])" for rq w by (simp add: exampleEnv_def)
  from makeRequest_authorised [OF this, of exampleClient "''u''" dynatracePaaSToken "[]"]
  show ?thesis by (force simp: makeRequest_def exampleEnv_def exampleClient_def)
qed

text \<open>The communication endpoint of a tenant with endpoints is the first endpoint that contains the
  tenant's id, or the first one where none does, completed to end with \<^verbatim>\<open>communication\<close>; a
  tenant without endpoints has none.\<close>

theorem findCommunicationEndpoint_correct:
  "(ti_Endpoints ti = [] \<longrightarrow> findCommunicationEndpoint ti = []) \<and>
   (ti_Endpoints ti \<noteq> [] \<longrightarrow>
      suffix ''communication'' (findCommunicationEndpoint ti) \<and>
      (\<exists>e. e \<in> set (ti_Endpoints ti) \<and> prefix e (findCommunicationEndpoint ti) \<and>
         (if \<exists>x \<in> set (ti_Endpoints ti). sublist (ti_ID ti) x
          then List.find (sublist (ti_ID ti)) (ti_Endpoints ti) = Some e else e = hd (ti_Endpoints ti))))"
proof (cases "firstContaining (ti_Endpoints ti) (ti_ID ti) 0")
  case None
  note none = firstContaining_NoneD [OF None]
  show ?thesis
  proof (cases "ti_Endpoints ti")
    case Nil
    then show ?thesis by (simp add: findCommunicationEndpoint_def findCommunicationEndpointIndex_def)
  next
    case (Cons e es)
    have fce: "findCommunicationEndpoint ti = (if suffix DtCommunicationSuffix e then e
       else if suffix Slash e then e @ DtCommunicationSuffix else e @ Slash @ DtCommunicationSuffix)"
      using None Cons by (simp add: findCommunicationEndpoint_def findCommunicationEndpointIndex_def)
    have "suffix ''communication'' (findCommunicationEndpoint ti)"
      unfolding fce using communication_suffixed [of e] by (simp only: DtCommunicationSuffix_def)
    moreover have "prefix e (findCommunicationEndpoint ti)" unfolding fce by simp
    ultimately show ?thesis using Cons none by auto
  qed
next
  case (Some i)
  from firstContaining_SomeD [OF Some] obtain ys e zs where
    es: "ti_Endpoints ti = ys @ e # zs" and e: "sublist (ti_ID ti) e"
      and ys: "\<forall>y \<in> set ys. \<not> sublist (ti_ID ti) y" and i: "i = int (length ys)" by auto
  have fce: "findCommunicationEndpoint ti = (if suffix DtCommunicationSuffix e then e
     else if suffix Slash e then e @ DtCommunicationSuffix else e @ Slash @ DtCommunicationSuffix)"
    using Some es i by (simp add: findCommunicationEndpoint_def findCommunicationEndpointIndex_def)
  have "suffix ''communication'' (findCommunicationEndpoint ti)"
    unfolding fce using communication_suffixed [of e] by (simp only: DtCommunicationSuffix_def)
  moreover have "prefix e (findCommunicationEndpoint ti)" unfolding fce by simp
  moreover have "List.find (sublist (ti_ID ti)) (ti_Endpoints ti) = Some e"
    unfolding es using e ys by (induction ys) auto
  ultimately show ?thesis using es e by auto
qed

theorem findCommunicationEndpoint_correct_witness:
  "findCommunicationEndpoint \<lparr>ti_ID = ''abc'', ti_Token = [], ti_Endpoints = [''https://x'', ''https://abc/''],
      ti_CommunicationEndpoint = []\<rparr> = ''https://abc/communication''
   \<and> suffix ''communication'' (findCommunicationEndpoint \<lparr>ti_ID = ''abc'', ti_Token = [],
        ti_Endpoints = [''https://x'', ''https://abc/''], ti_CommunicationEndpoint = []\<rparr>)"
proof -
  have "suffix ''communication'' (findCommunicationEndpoint \<lparr>ti_ID = ''abc'', ti_Token = [],
        ti_Endpoints = [''https://x'', ''https://abc/''], ti_CommunicationEndpoint = []\<rparr>)"
    using findCommunicationEndpoint_correct [of "\<lparr>ti_ID = ''abc'', ti_Token = [],
        ti_Endpoints = [''https://x'', ''https://abc/''], ti_CommunicationEndpoint = []\<rparr>"] by simp
  moreover have "findCommunicationEndpoint \<lparr>ti_ID = ''abc'', ti_Token = [],
      ti_Endpoints = [''https://x'', ''https://abc/''], ti_CommunicationEndpoint = []\<rparr> = ''https://abc/communication''"
    by code_simp
  ultimately show ?thesis by blast
qed

end
