(* ===== verification/DynaKube_Api.thy ===== *)
theory DynaKube_Api
  imports Dt_Client
begin

text \<open>
  The custom resource of the operator (\<^verbatim>\<open>src/api/v1alpha1\<close>): the structs of the spec and of the
  status, the properties the controllers derive from them (\<^verbatim>\<open>properties.go\<close>), the feature flags
  (\<^verbatim>\<open>feature_flags.go\<close>) and the phase of the status (\<^verbatim>\<open>dynakube_types.go\<close>).

  The types of the Kubernetes libraries that occur as fields (object metadata, environment
  variables, volume sources, resource requirements, tolerations, conditions) are records with
  the fields the operator reads or writes. Quantities are kept as their canonical strings.
\<close>

section \<open>Types of the Kubernetes libraries\<close>

record ObjectMeta =
  om_Name :: string
  om_Namespace :: string
  om_Labels :: "string gomap option"
  om_Annotations :: "string gomap option"
  om_Controller :: "(string \<times> string) option"

definition emptyMeta :: ObjectMeta where
  "emptyMeta = \<lparr>om_Name = [], om_Namespace = [], om_Labels = None, om_Annotations = None,
                om_Controller = None\<rparr>"

record ResourceRequirements =
  rr_Requests :: "string gomap option"
  rr_Limits :: "string gomap option"

record Toleration =
  tol_Key :: string
  tol_Operator :: string
  tol_Value :: string
  tol_Effect :: string
  tol_Seconds :: "int option"

datatype EnvVarSource = FieldRef string | SecretKeyRef string string

record EnvVar =
  env_Name :: string
  env_Value :: string
  env_ValueFrom :: "EnvVarSource option"

text \<open>A volume source: the kinds the operator builds or tests for; \<open>vs_Other\<close> names any other.\<close>

record VolumeSource =
  vs_EmptyDir :: bool
  vs_CSIDriver :: "string option"
  vs_HostPath :: "string option"
  vs_Secret :: "(string \<times> (string \<times> string) list) option"
  vs_ConfigMap :: "(string \<times> (string \<times> string) list) option"
  vs_Other :: "string option"

record Condition =
  cond_Type :: string
  cond_Status :: string
  cond_Reason :: string
  cond_Message :: string
  cond_LastTransitionTime :: gotime

section \<open>The spec of a DynaKube\<close>

record DynaKubeValueSource =
  dvs_Value :: string
  dvs_ValueFrom :: string

record DynaKubeProxy =
  px_Value :: string
  px_ValueFrom :: string

record ActiveGateSpec =
  ags_Image :: string
  ags_AutoUpdate :: "bool option"

record OneAgentSpec =
  oas_Version :: string
  oas_Image :: string
  oas_AutoUpdate :: "bool option"

record CodeModulesSpec =
  cms_Enabled :: bool
  cms_Resources :: ResourceRequirements
  cms_Volume :: VolumeSource

record FullStackSpec =
  fs_Enabled :: bool
  fs_NodeSelector :: "string gomap option"
  fs_Tolerations :: "Toleration list"
  fs_WaitReadySeconds :: "16 word option"
  fs_Resources :: ResourceRequirements
  fs_Args :: "string list"
  fs_Env :: "EnvVar list"
  fs_PriorityClassName :: string
  fs_DNSPolicy :: string
  fs_ServiceAccountName :: string
  fs_Labels :: "string gomap option"
  fs_UseUnprivilegedMode :: "bool option"
  fs_UseImmutableImage :: bool

record CapabilityProperties =
  cp_Enabled :: bool
  cp_Replicas :: "32 word option"
  cp_Group :: string
  cp_CustomProperties :: "DynaKubeValueSource option"
  cp_Resources :: ResourceRequirements
  cp_NodeSelector :: "string gomap option"
  cp_Tolerations :: "Toleration list"
  cp_Labels :: "string gomap option"
  cp_Args :: "string list"
  cp_Env :: "EnvVar list"
  cp_ServiceAccountName :: string

record DynaKubeSpec =
  spec_APIURL :: string
  spec_Tokens :: string
  spec_CustomPullSecret :: string
  spec_SkipCertCheck :: bool
  spec_Proxy :: "DynaKubeProxy option"
  spec_TrustedCAs :: string
  spec_NetworkZone :: string
  spec_EnableIstio :: bool
  spec_ActiveGate :: ActiveGateSpec
  spec_OneAgent :: OneAgentSpec
  spec_CodeModules :: CodeModulesSpec
  spec_InfraMonitoring :: FullStackSpec
  spec_ClassicFullStack :: FullStackSpec
  spec_RoutingSpec :: CapabilityProperties
  spec_DataIngestSpec :: CapabilityProperties
  spec_KubernetesMonitoringSpec :: CapabilityProperties

section \<open>The status of a DynaKube\<close>

record CommunicationHostStatus =
  chs_Protocol :: string
  chs_Host :: string
  chs_Port :: "32 word"

record ConnectionInfoStatus =
  cis_CommunicationHosts :: "CommunicationHostStatus list"
  cis_TenantUUID :: string

record VersionStatus =
  ver_ImageHash :: string
  ver_Version :: string
  ver_LastUpdateProbeTimestamp :: "gotime option"

record OneAgentInstance =
  oai_PodName :: string
  oai_IPAddress :: string

record OneAgentStatus =
  oast_VersionStatus :: VersionStatus
  oast_UseImmutableImage :: bool
  oast_Instances :: "OneAgentInstance gomap option"
  oast_LastHostsRequestTimestamp :: "gotime option"

record DynaKubeStatus =
  st_Phase :: string
  st_UpdatedTimestamp :: gotime
  st_LastAPITokenProbeTimestamp :: "gotime option"
  st_LastPaaSTokenProbeTimestamp :: "gotime option"
  st_Tokens :: string
  st_LastClusterVersionProbeTimestamp :: "gotime option"
  st_KubeSystemUUID :: string
  st_ConnectionInfo :: ConnectionInfoStatus
  st_CommunicationHostForClient :: CommunicationHostStatus
  st_LatestAgentVersionUnixDefault :: string
  st_LatestAgentVersionUnixPaas :: string
  st_Conditions :: "Condition list"
  st_ActiveGate :: VersionStatus
  st_OneAgent :: OneAgentStatus

record DynaKube =
  dk_Meta :: ObjectMeta
  dk_Spec :: DynaKubeSpec
  dk_Status :: DynaKubeStatus

abbreviation dk_Name :: "DynaKube \<Rightarrow> string" where "dk_Name dk \<equiv> om_Name (dk_Meta dk)"
abbreviation dk_Namespace :: "DynaKube \<Rightarrow> string" where "dk_Namespace dk \<equiv> om_Namespace (dk_Meta dk)"

subsection \<open>Zero values\<close>

text \<open>The zero value of the custom resource: what a manifest without any field decodes to.\<close>

definition zeroResources :: ResourceRequirements where
  "zeroResources = \<lparr>rr_Requests = None, rr_Limits = None\<rparr>"

definition zeroFullStack :: FullStackSpec where
  "zeroFullStack =
     \<lparr>fs_Enabled = False, fs_NodeSelector = None, fs_Tolerations = [], fs_WaitReadySeconds = None,
      fs_Resources = zeroResources, fs_Args = [], fs_Env = [], fs_PriorityClassName = [], fs_DNSPolicy = [],
      fs_ServiceAccountName = [], fs_Labels = None, fs_UseUnprivilegedMode = None, fs_UseImmutableImage = False\<rparr>"

definition zeroCapability :: CapabilityProperties where
  "zeroCapability =
     \<lparr>cp_Enabled = False, cp_Replicas = None, cp_Group = [], cp_CustomProperties = None,
      cp_Resources = zeroResources, cp_NodeSelector = None, cp_Tolerations = [], cp_Labels = None,
      cp_Args = [], cp_Env = [], cp_ServiceAccountName = []\<rparr>"

definition zeroVolumeSource :: VolumeSource where
  "zeroVolumeSource = \<lparr>vs_EmptyDir = False, vs_CSIDriver = None, vs_HostPath = None, vs_Secret = None,
     vs_ConfigMap = None, vs_Other = None\<rparr>"

definition zeroSpec :: DynaKubeSpec where
  "zeroSpec =
     \<lparr>spec_APIURL = [], spec_Tokens = [], spec_CustomPullSecret = [], spec_SkipCertCheck = False,
      spec_Proxy = None, spec_TrustedCAs = [], spec_NetworkZone = [], spec_EnableIstio = False,
      spec_ActiveGate = \<lparr>ags_Image = [], ags_AutoUpdate = None\<rparr>,
      spec_OneAgent = \<lparr>oas_Version = [], oas_Image = [], oas_AutoUpdate = None\<rparr>,
      spec_CodeModules = \<lparr>cms_Enabled = False, cms_Resources = zeroResources, cms_Volume = zeroVolumeSource\<rparr>,
      spec_InfraMonitoring = zeroFullStack, spec_ClassicFullStack = zeroFullStack,
      spec_RoutingSpec = zeroCapability, spec_DataIngestSpec = zeroCapability,
      spec_KubernetesMonitoringSpec = zeroCapability\<rparr>"

definition zeroVersionStatus :: VersionStatus where
  "zeroVersionStatus = \<lparr>ver_ImageHash = [], ver_Version = [], ver_LastUpdateProbeTimestamp = None\<rparr>"

definition zeroStatus :: DynaKubeStatus where
  "zeroStatus =
     \<lparr>st_Phase = [], st_UpdatedTimestamp = 0, st_LastAPITokenProbeTimestamp = None,
      st_LastPaaSTokenProbeTimestamp = None, st_Tokens = [], st_LastClusterVersionProbeTimestamp = None,
      st_KubeSystemUUID = [], st_ConnectionInfo = \<lparr>cis_CommunicationHosts = [], cis_TenantUUID = []\<rparr>,
      st_CommunicationHostForClient = \<lparr>chs_Protocol = [], chs_Host = [], chs_Port = 0\<rparr>,
      st_LatestAgentVersionUnixDefault = [], st_LatestAgentVersionUnixPaas = [], st_Conditions = [],
      st_ActiveGate = zeroVersionStatus,
      st_OneAgent = \<lparr>oast_VersionStatus = zeroVersionStatus, oast_UseImmutableImage = False,
                     oast_Instances = None, oast_LastHostsRequestTimestamp = None\<rparr>\<rparr>"

definition zeroDynaKube :: DynaKube where
  "zeroDynaKube = \<lparr>dk_Meta = emptyMeta, dk_Spec = zeroSpec, dk_Status = zeroStatus\<rparr>"

lemmas zero_defs = zeroDynaKube_def zeroStatus_def zeroSpec_def zeroVersionStatus_def zeroVolumeSource_def
  zeroCapability_def zeroFullStack_def zeroResources_def emptyMeta_def

subsection \<open>The phase\<close>

definition Running :: string where "Running = ''Running''"
definition Deploying :: string where "Deploying = ''Deploying''"
definition Error :: string where "Error = ''Error''"

text \<open>\<^verbatim>\<open>SetPhase\<close> returns whether the phase changed.\<close>

definition SetPhase :: "DynaKubeStatus \<Rightarrow> string \<Rightarrow> bool \<times> DynaKubeStatus" where
  "SetPhase st phase = (phase \<noteq> st_Phase st, st\<lparr>st_Phase := phase\<rparr>)"

definition SetPhaseOnError :: "DynaKubeStatus \<Rightarrow> goerr option \<Rightarrow> bool \<times> DynaKubeStatus" where
  "SetPhaseOnError st err = (case err of Some _ \<Rightarrow> SetPhase st Error | None \<Rightarrow> (False, st))"

section \<open>Derived properties (properties.go)\<close>

definition PullSecretSuffix :: string where "PullSecretSuffix = ''-pull-secret''"

definition NeedsActiveGate :: "DynaKube \<Rightarrow> bool" where
  "NeedsActiveGate dk \<longleftrightarrow>
     cp_Enabled (spec_KubernetesMonitoringSpec (dk_Spec dk)) \<or> cp_Enabled (spec_RoutingSpec (dk_Spec dk))"

definition NeedsOneAgent :: "DynaKube \<Rightarrow> bool" where
  "NeedsOneAgent dk \<longleftrightarrow>
     fs_Enabled (spec_ClassicFullStack (dk_Spec dk)) \<or> fs_Enabled (spec_InfraMonitoring (dk_Spec dk))"

definition NeedsImmutableOneAgent :: "DynaKube \<Rightarrow> bool" where
  "NeedsImmutableOneAgent dk \<longleftrightarrow>
     (let cfs = spec_ClassicFullStack (dk_Spec dk); im = spec_InfraMonitoring (dk_Spec dk)
      in (fs_Enabled cfs \<and> fs_UseImmutableImage cfs) \<or> (fs_Enabled im \<and> fs_UseImmutableImage im))"

definition ShouldAutoUpdateOneAgent :: "DynaKube \<Rightarrow> bool" where
  "ShouldAutoUpdateOneAgent dk \<longleftrightarrow>
     (case oas_AutoUpdate (spec_OneAgent (dk_Spec dk)) of None \<Rightarrow> True | Some b \<Rightarrow> b)"

definition PullSecret :: "DynaKube \<Rightarrow> string" where
  "PullSecret dk =
     (if spec_CustomPullSecret (dk_Spec dk) \<noteq> [] then spec_CustomPullSecret (dk_Spec dk)
      else dk_Name dk @ PullSecretSuffix)"

definition buildImageRegistry :: "string \<Rightarrow> string" where
  "buildImageRegistry apiURL =
     (let registry = trimPrefix apiURL ''https://'';
          registry = trimPrefix registry ''http://'';
          registry = trimSuffix registry ''/api''
      in registry)"

definition ActiveGateImage :: "DynaKube \<Rightarrow> string" where
  "ActiveGateImage dk =
     (if ags_Image (spec_ActiveGate (dk_Spec dk)) \<noteq> [] then ags_Image (spec_ActiveGate (dk_Spec dk))
      else if spec_APIURL (dk_Spec dk) = [] then []
      else buildImageRegistry (spec_APIURL (dk_Spec dk)) @ ''/linux/activegate:latest'')"

definition ImmutableOneAgentImage :: "DynaKube \<Rightarrow> string" where
  "ImmutableOneAgentImage dk =
     (if oas_Image (spec_OneAgent (dk_Spec dk)) \<noteq> [] then oas_Image (spec_OneAgent (dk_Spec dk))
      else if spec_APIURL (dk_Spec dk) = [] then []
      else let tag = (if oas_Version (spec_OneAgent (dk_Spec dk)) \<noteq> []
                      then oas_Version (spec_OneAgent (dk_Spec dk)) else ''latest'')
           in buildImageRegistry (spec_APIURL (dk_Spec dk)) @ ''/linux/oneagent:'' @ tag)"

definition Tokens :: "DynaKube \<Rightarrow> string" where
  "Tokens dk = (if spec_Tokens (dk_Spec dk) \<noteq> [] then spec_Tokens (dk_Spec dk) else dk_Name dk)"

text \<open>The conversions between the host of the client package and the host of the status.\<close>

definition hostFromStatus :: "CommunicationHostStatus \<Rightarrow> CommunicationHost" where
  "hostFromStatus h = \<lparr>ch_Protocol = chs_Protocol h, ch_Host = chs_Host h, ch_Port = chs_Port h\<rparr>"

definition hostToStatus :: "CommunicationHost \<Rightarrow> CommunicationHostStatus" where
  "hostToStatus h = \<lparr>chs_Protocol = ch_Protocol h, chs_Host = ch_Host h, chs_Port = ch_Port h\<rparr>"

definition CommunicationHostForClient :: "DynaKube \<Rightarrow> CommunicationHost" where
  "CommunicationHostForClient dk = hostFromStatus (st_CommunicationHostForClient (dk_Status dk))"

definition CommunicationHosts :: "DynaKube \<Rightarrow> CommunicationHost list" where
  "CommunicationHosts dk = map hostFromStatus (cis_CommunicationHosts (st_ConnectionInfo (dk_Status dk)))"

definition dk_ConnectionInfo :: "DynaKube \<Rightarrow> ConnectionInfo" where
  "dk_ConnectionInfo dk =
     \<lparr>ci_CommunicationHosts = CommunicationHosts dk,
      ci_TenantUUID = cis_TenantUUID (st_ConnectionInfo (dk_Status dk))\<rparr>"

section \<open>Feature flags (feature\_flags.go)\<close>

definition annotationFeaturePrefix :: string where
  "annotationFeaturePrefix = ''alpha.operator.dynatrace.com/feature-''"

definition annotation :: "DynaKube \<Rightarrow> string \<Rightarrow> string" where
  "annotation dk k = (case om_Annotations (dk_Meta dk) of None \<Rightarrow> [] | Some m \<Rightarrow> goget m k [])"

definition FeatureDisableActiveGateUpdates :: "DynaKube \<Rightarrow> bool" where
  "FeatureDisableActiveGateUpdates dk \<longleftrightarrow>
     annotation dk (annotationFeaturePrefix @ ''disable-activegate-updates'') = ''true''"

definition FeatureDisableHostsRequests :: "DynaKube \<Rightarrow> bool" where
  "FeatureDisableHostsRequests dk \<longleftrightarrow>
     annotation dk (annotationFeaturePrefix @ ''disable-hosts-requests'') = ''true''"

definition FeatureOneAgentMaxUnavailable :: "DynaKube \<Rightarrow> int" where
  "FeatureOneAgentMaxUnavailable dk =
     (let raw = annotation dk (annotationFeaturePrefix @ ''oneagent-max-unavailable'')
      in if raw = [] then 1 else case atoi raw of Inl _ \<Rightarrow> 1 | Inr val \<Rightarrow> val)"

definition FeatureEnableWebhookReinvocationPolicy :: "DynaKube \<Rightarrow> bool" where
  "FeatureEnableWebhookReinvocationPolicy dk \<longleftrightarrow>
     annotation dk (annotationFeaturePrefix @ ''enable-webhook-reinvocation-policy'') = ''true''"

definition GetFeatureEnableWebhookReinvocationPolicy :: string where
  "GetFeatureEnableWebhookReinvocationPolicy = annotationFeaturePrefix @ ''enable-webhook-reinvocation-policy''"

section \<open>Lemmas\<close>

lemma hostFromStatus_hostToStatus [simp]: "hostFromStatus (hostToStatus h) = h"
  by (simp add: hostFromStatus_def hostToStatus_def)

lemma hostToStatus_hostFromStatus [simp]: "hostToStatus (hostFromStatus h) = h"
  by (simp add: hostFromStatus_def hostToStatus_def)

lemma hostFromStatus_toStatus_id [simp]: "hostFromStatus \<circ> hostToStatus = id"
  by (simp add: fun_eq_iff)

lemma NeedsImmutableOneAgent_NeedsOneAgent: "NeedsImmutableOneAgent dk \<Longrightarrow> NeedsOneAgent dk"
  by (auto simp: NeedsImmutableOneAgent_def NeedsOneAgent_def Let_def)

lemma http_prefix_append_api:
  assumes "prefix ''http://'' (h @ ''/api'')"
  shows "prefix ''http:'' h"
proof -
  have "length h < 5 \<Longrightarrow> False"
    using assms by (cases h; cases "tl h"; cases "tl (tl h)"; cases "tl (tl (tl h))"; cases "tl (tl (tl (tl h)))")
      (auto simp: prefix_def)
  moreover have "take 5 (h @ ''/api'') = ''http:''"
    using assms by (auto simp only: prefix_def) simp
  ultimately have "take 5 h = ''http:''" by (cases "length h < 5") simp_all
  then show ?thesis by (metis take_is_prefix)
qed

lemma buildImageRegistry_https:
  assumes "\<not> prefix ''http:'' h"
  shows "buildImageRegistry (''https://'' @ h @ ''/api'') = h"
proof -
  have "trimPrefix (''https://'' @ h @ ''/api'') ''https://'' = h @ ''/api''"
    by (rule trimPrefix_append)
  moreover have "trimPrefix (h @ ''/api'') ''http://'' = h @ ''/api''"
    using assms http_prefix_append_api by (intro trimPrefix_not) blast
  ultimately show ?thesis by (simp only: buildImageRegistry_def Let_def trimSuffix_append)
qed

lemma buildImageRegistry_http: "buildImageRegistry (''http://'' @ h @ ''/api'') = h"
proof -
  have "\<not> prefix ''https://'' (''http://'' @ h @ ''/api'')" by (simp add: prefix_def)
  then have "trimPrefix (''http://'' @ h @ ''/api'') ''https://'' = ''http://'' @ h @ ''/api''"
    by (rule trimPrefix_not)
  then show ?thesis by (simp only: buildImageRegistry_def Let_def trimPrefix_append trimSuffix_append)
qed

section \<open>Properties\<close>

text \<open>Unless images are given in the spec, the agents' images come from the registry of the tenant:
  for an API URL \<^verbatim>\<open>https://host/api\<close> or \<^verbatim>\<open>http://host/api\<close> the registry is exactly \<^verbatim>\<open>host\<close>, the
  ActiveGate image is its \<^verbatim>\<open>latest\<close> tag and the OneAgent image carries the version of the spec
  or \<^verbatim>\<open>latest\<close>.\<close>

theorem agent_images_from_registry:
  assumes "spec_APIURL (dk_Spec dk) = ''https://'' @ h @ ''/api'' \<and> \<not> prefix ''http:'' h \<or>
           spec_APIURL (dk_Spec dk) = ''http://'' @ h @ ''/api''"
    and "ags_Image (spec_ActiveGate (dk_Spec dk)) = []" and "oas_Image (spec_OneAgent (dk_Spec dk)) = []"
  shows "ActiveGateImage dk = h @ ''/linux/activegate:latest'' \<and>
         ImmutableOneAgentImage dk = h @ ''/linux/oneagent:'' @
           (if oas_Version (spec_OneAgent (dk_Spec dk)) = [] then ''latest'' else oas_Version (spec_OneAgent (dk_Spec dk)))"
proof -
  have registry: "buildImageRegistry (spec_APIURL (dk_Spec dk)) = h"
    using assms(1) by (elim disjE conjE) (simp_all only: buildImageRegistry_https buildImageRegistry_http not_False_eq_True)
  have nonempty: "spec_APIURL (dk_Spec dk) \<noteq> []" using assms(1) by auto
  show ?thesis
    using assms(2,3) nonempty by (simp only: ActiveGateImage_def ImmutableOneAgentImage_def registry Let_def) simp
qed

theorem agent_images_from_registry_witness:
  "ActiveGateImage (zeroDynaKube\<lparr>dk_Spec := zeroSpec\<lparr>spec_APIURL := ''https://'' @ ''abc.live.dynatrace.com'' @ ''/api''\<rparr>\<rparr>)
     = ''abc.live.dynatrace.com'' @ ''/linux/activegate:latest''"
  using agent_images_from_registry [of "zeroDynaKube\<lparr>dk_Spec := zeroSpec\<lparr>spec_APIURL := ''https://'' @ ''abc.live.dynatrace.com'' @ ''/api''\<rparr>\<rparr>"
      "''abc.live.dynatrace.com''"]
  by (simp add: zero_defs)

end
