(* ===== verification/Kube_Api.thy ===== *)
theory Kube_Api
  imports DynaKube_Api
begin

text \<open>
  The Kubernetes objects the controllers read and write, and the client they use for it. The
  client (\<^verbatim>\<open>sigs.k8s.io/controller-runtime\<close>) and the API server behind it are no code of this
  repository: a client is a record of actions on a state \<open>'w\<close>, one record per kind of object,
  passed to every definition that talks to the API server. Any sequence of answers, failures
  and changes made by others is the behaviour of some such record.

  \<open>lawful\<close> states what the documentation of the API promises about a client with respect to a
  view of the state as a map from keys to objects. \<open>storeClient\<close> is an API server that keeps its
  objects in an association list; it is lawful, and it is what concrete runs are computed with.
\<close>

section \<open>Objects\<close>

record Secret =
  sec_Meta :: ObjectMeta
  sec_Type :: string
  sec_Data :: "string gomap option"

record ConfigMap =
  cm_Meta :: ObjectMeta
  cm_Data :: "string gomap option"

record Namespace =
  ns_Name :: string
  ns_Labels :: "string gomap option"
  ns_Annotations :: "string gomap option"
  ns_UID :: string

record Node =
  node_Name :: string
  node_Unschedulable :: bool
  node_Taints :: "string list"

definition secretField :: "Secret \<Rightarrow> string \<Rightarrow> string option" where
  "secretField s k = (case sec_Data s of None \<Rightarrow> None | Some m \<Rightarrow> map_of m k)"

text \<open>\<^verbatim>\<open>secret.Data[k]\<close>: the zero value where the key is missing.\<close>

definition secretData :: "Secret \<Rightarrow> string \<Rightarrow> string" where
  "secretData s k = (case secretField s k of None \<Rightarrow> [] | Some v \<Rightarrow> v)"

definition emptySecret :: Secret where
  "emptySecret = \<lparr>sec_Meta = emptyMeta, sec_Type = [], sec_Data = None\<rparr>"

section \<open>Clients\<close>

type_synonym objkey = "string \<times> string"

record ('w, 'o) kclient =
  kGet :: "objkey \<Rightarrow> ('w, 'o) act"
  kList :: "string \<Rightarrow> ('w, 'o list) act"
  kCreate :: "'o \<Rightarrow> ('w, 'o) act"
  kUpdate :: "'o \<Rightarrow> ('w, 'o) act"
  kDelete :: "objkey \<Rightarrow> ('w, unit) act"

definition metaKey :: "ObjectMeta \<Rightarrow> objkey" where
  "metaKey m = (om_Namespace m, om_Name m)"

text \<open>
  The promises of the API server: a read changes nothing and returns what is stored; a failed
  write changes nothing; a write stores the object under its key and returns it; a deletion
  removes the key; only an absent key is reported as not found, and only a present one can be
  updated or deleted.
\<close>

definition lawfulGet :: "('w, 'o) kclient \<Rightarrow> ('w \<Rightarrow> objkey \<Rightarrow> 'o option) \<Rightarrow> bool" where
  "lawfulGet c view \<longleftrightarrow>
     (\<forall>k w r w'. kGet c k w = (r, w') \<longrightarrow> view w' = view w \<and>
        (case r of Inr ob \<Rightarrow> view w k = Some ob | Inl e \<Rightarrow> isNotFound e \<longrightarrow> view w k = None))"

definition lawfulCreate ::
  "('w, 'o) kclient \<Rightarrow> ('o \<Rightarrow> objkey) \<Rightarrow> ('w \<Rightarrow> objkey \<Rightarrow> 'o option) \<Rightarrow> bool" where
  "lawfulCreate c key view \<longleftrightarrow>
     (\<forall>ob w r w'. kCreate c ob w = (r, w') \<longrightarrow>
        (case r of Inr ob' \<Rightarrow> ob' = ob \<and> view w (key ob) = None \<and> view w' = (view w)(key ob := Some ob)
         | Inl _ \<Rightarrow> view w' = view w))"

definition lawfulUpdate ::
  "('w, 'o) kclient \<Rightarrow> ('o \<Rightarrow> objkey) \<Rightarrow> ('w \<Rightarrow> objkey \<Rightarrow> 'o option) \<Rightarrow> bool" where
  "lawfulUpdate c key view \<longleftrightarrow>
     (\<forall>ob w r w'. kUpdate c ob w = (r, w') \<longrightarrow>
        (case r of Inr ob' \<Rightarrow> ob' = ob \<and> view w (key ob) \<noteq> None \<and> view w' = (view w)(key ob := Some ob)
         | Inl _ \<Rightarrow> view w' = view w))"

definition lawfulDelete :: "('w, 'o) kclient \<Rightarrow> ('w \<Rightarrow> objkey \<Rightarrow> 'o option) \<Rightarrow> bool" where
  "lawfulDelete c view \<longleftrightarrow>
     (\<forall>k w r w'. kDelete c k w = (r, w') \<longrightarrow>
        (case r of Inr _ \<Rightarrow> view w k \<noteq> None \<and> view w' = (view w)(k := None)
         | Inl e \<Rightarrow> view w' = view w \<and> (isNotFound e \<longrightarrow> view w k = None)))"

definition lawful :: "('w, 'o) kclient \<Rightarrow> ('o \<Rightarrow> objkey) \<Rightarrow> ('w \<Rightarrow> objkey \<Rightarrow> 'o option) \<Rightarrow> bool" where
  "lawful c key view \<longleftrightarrow>
     lawfulGet c view \<and> lawfulCreate c key view \<and> lawfulUpdate c key view \<and> lawfulDelete c view"

text \<open>Every object is stored under its own key.\<close>

definition keyed :: "('o \<Rightarrow> objkey) \<Rightarrow> (objkey \<Rightarrow> 'o option) \<Rightarrow> bool" where
  "keyed key m \<longleftrightarrow> (\<forall>k ob. m k = Some ob \<longrightarrow> key ob = k)"

lemma lawful_GetD:
  assumes "lawful c key view" and "kGet c k w = (r, w')"
  shows "view w' = view w" and "r = Inr ob \<Longrightarrow> view w k = Some ob"
    and "r = Inl e \<Longrightarrow> isNotFound e \<Longrightarrow> view w k = None"
proof -
  have law: "view w' = view w \<and>
      (case r of Inr ob \<Rightarrow> view w k = Some ob | Inl e \<Rightarrow> isNotFound e \<longrightarrow> view w k = None)"
    using assms unfolding lawful_def lawfulGet_def by blast
  then show "view w' = view w" by simp
  show "r = Inr ob \<Longrightarrow> view w k = Some ob" using law by simp
  show "r = Inl e \<Longrightarrow> isNotFound e \<Longrightarrow> view w k = None" using law by simp
qed

lemma lawful_CreateD:
  assumes "lawful c key view" and "kCreate c ob w = (r, w')"
  shows "r = Inr ob' \<Longrightarrow> ob' = ob \<and> view w (key ob) = None \<and> view w' = (view w)(key ob := Some ob)"
    and "r = Inl e \<Longrightarrow> view w' = view w"
proof -
  have law: "case r of Inr ob' \<Rightarrow> ob' = ob \<and> view w (key ob) = None \<and> view w' = (view w)(key ob := Some ob)
      | Inl _ \<Rightarrow> view w' = view w"
    using assms unfolding lawful_def lawfulCreate_def by blast
  then show "r = Inl e \<Longrightarrow> view w' = view w" by simp
  show "r = Inr ob' \<Longrightarrow> ob' = ob \<and> view w (key ob) = None \<and> view w' = (view w)(key ob := Some ob)"
    using law by simp
qed

lemma lawful_UpdateD:
  assumes "lawful c key view" and "kUpdate c ob w = (r, w')"
  shows "r = Inr ob' \<Longrightarrow> ob' = ob \<and> view w (key ob) \<noteq> None \<and> view w' = (view w)(key ob := Some ob)"
    and "r = Inl e \<Longrightarrow> view w' = view w"
proof -
  have law: "case r of Inr ob' \<Rightarrow> ob' = ob \<and> view w (key ob) \<noteq> None \<and> view w' = (view w)(key ob := Some ob)
      | Inl _ \<Rightarrow> view w' = view w"
    using assms unfolding lawful_def lawfulUpdate_def by blast
  then show "r = Inl e \<Longrightarrow> view w' = view w" by simp
  show "r = Inr ob' \<Longrightarrow> ob' = ob \<and> view w (key ob) \<noteq> None \<and> view w' = (view w)(key ob := Some ob)"
    using law by simp
qed

lemma lawful_DeleteD:
  assumes "lawful c key view" and "kDelete c k w = (r, w')"
  shows "r = Inr u \<Longrightarrow> view w k \<noteq> None \<and> view w' = (view w)(k := None)"
    and "r = Inl e \<Longrightarrow> view w' = view w"
    and "r = Inl e \<Longrightarrow> isNotFound e \<Longrightarrow> view w k = None"
proof -
  have law: "case r of Inr _ \<Rightarrow> view w k \<noteq> None \<and> view w' = (view w)(k := None)
      | Inl e \<Rightarrow> view w' = view w \<and> (isNotFound e \<longrightarrow> view w k = None)"
    using assms unfolding lawful_def lawfulDelete_def by blast
  then show "r = Inr u \<Longrightarrow> view w k \<noteq> None \<and> view w' = (view w)(k := None)" by simp
  show "r = Inl e \<Longrightarrow> view w' = view w" using law by simp
  show "r = Inl e \<Longrightarrow> isNotFound e \<Longrightarrow> view w k = None" using law by simp
qed

text \<open>Reads and failed writes leave the objects as they are.\<close>

lemma lawful_unchanged:
  assumes "lawful c key view"
  shows "kGet c k w = (r, w') \<Longrightarrow> view w' = view w"
    and "kCreate c ob w = (Inl e, w') \<Longrightarrow> view w' = view w"
    and "kUpdate c ob w = (Inl e, w') \<Longrightarrow> view w' = view w"
    and "kDelete c k w = (Inl e, w') \<Longrightarrow> view w' = view w"
  using lawful_GetD(1) [OF assms] lawful_CreateD(2) [OF assms] lawful_UpdateD(2) [OF assms]
    lawful_DeleteD(2) [OF assms] by blast+

text \<open>
  \<^verbatim>\<open>controllerutil.SetControllerReference\<close> adds the owner to the metadata, or refuses when the object
  already has another controller: the identity, labels and annotations stay as they are.
\<close>

definition lawfulOwner :: "(DynaKube \<Rightarrow> ObjectMeta \<Rightarrow> goerr + ObjectMeta) \<Rightarrow> bool" where
  "lawfulOwner f \<longleftrightarrow>
     (\<forall>dk m m'. f dk m = Inr m' \<longrightarrow> om_Name m' = om_Name m \<and> om_Namespace m' = om_Namespace m \<and>
        om_Labels m' = om_Labels m \<and> om_Annotations m' = om_Annotations m)"

definition setOwner :: "DynaKube \<Rightarrow> ObjectMeta \<Rightarrow> goerr + ObjectMeta" where
  "setOwner dk m =
     (case om_Controller m of
        None \<Rightarrow> Inr (m\<lparr>om_Controller := Some (''DynaKube'', dk_Name dk)\<rparr>)
      | Some c \<Rightarrow> if c = (''DynaKube'', dk_Name dk) then Inr m else Inl (ErrMsg ''already owned by another controller''))"

lemma lawfulOwnerD:
  assumes "lawfulOwner f" and "f dk m = Inr m'"
  shows "metaKey m' = metaKey m" and "om_Name m' = om_Name m" and "om_Namespace m' = om_Namespace m"
    and "om_Labels m' = om_Labels m" and "om_Annotations m' = om_Annotations m"
  using assms unfolding lawfulOwner_def metaKey_def by metis+

lemma lawful_setOwner: "lawfulOwner setOwner"
  by (auto simp: lawfulOwner_def setOwner_def split: option.splits if_splits)

section \<open>An API server that keeps its objects in a list\<close>

type_synonym 'o store = "(objkey \<times> 'o) list"

definition storeClient :: "('o \<Rightarrow> objkey) \<Rightarrow> ('o store, 'o) kclient" where
  "storeClient key =
     \<lparr>kGet = (\<lambda>k w. (case map_of w k of None \<Rightarrow> Inl (ApiNotFound (snd k)) | Some ob \<Rightarrow> Inr ob, w)),
      kList = (\<lambda>ns w. (Inr (map snd (filter (\<lambda>e. ns = [] \<or> fst (fst e) = ns) w)), w)),
      kCreate = (\<lambda>ob w. if map_of w (key ob) = None then (Inr ob, AList.update (key ob) ob w)
                        else (Inl (ApiError ''already exists''), w)),
      kUpdate = (\<lambda>ob w. if map_of w (key ob) = None then (Inl (ApiNotFound (snd (key ob))), w)
                        else (Inr ob, AList.update (key ob) ob w)),
      kDelete = (\<lambda>k w. if map_of w k = None then (Inl (ApiNotFound (snd k)), w)
                       else (Inr (), AList.delete k w))\<rparr>"

text \<open>An API server that is down: every request fails.\<close>

definition downClient :: "('w, 'o) kclient" where
  "downClient = \<lparr>kGet = \<lambda>_. raiseE (ApiError ''down''), kList = \<lambda>_. raiseE (ApiError ''down''),
     kCreate = \<lambda>_. raiseE (ApiError ''down''), kUpdate = \<lambda>_. raiseE (ApiError ''down''),
     kDelete = \<lambda>_. raiseE (ApiError ''down'')\<rparr>"

lemma lawful_storeClient: "lawful (storeClient key) key map_of"
  unfolding lawful_def lawfulGet_def lawfulCreate_def lawfulUpdate_def lawfulDelete_def storeClient_def
  by (auto simp: update_conv' delete_conv' split: option.splits if_splits)

end
