(* ===== verification/Reconciliation.thy ===== *)
theory Reconciliation
  imports Kube_Api
begin

text \<open>
  The helpers the controllers share (\<^verbatim>\<open>src/controllers/utils\<close>, \<^verbatim>\<open>src/controllers/kubesystem\<close>):
  the record of one reconciliation with its \<^verbatim>\<open>Error\<close>, \<^verbatim>\<open>Update\<close> and \<^verbatim>\<open>IsOutdated\<close>, the owner
  deployment of the operator's pod, secrets that are created or updated, and the tokens of the
  token secret.
\<close>

section \<open>One reconciliation (utils.go)\<close>

record Reconciliation =
  rec_Instance :: DynaKube
  rec_Now :: gotime
  rec_Err :: "goerr option"
  rec_Updated :: bool
  rec_RequeueAfter :: duration

definition NewReconciliation :: "gotime \<Rightarrow> DynaKube \<Rightarrow> Reconciliation" where
  "NewReconciliation now dk =
     \<lparr>rec_Instance = dk, rec_Now = now, rec_Err = None, rec_Updated = False,
      rec_RequeueAfter = 30 * timeMinute\<rparr>"

definition rec_Error :: "goerr option \<Rightarrow> Reconciliation \<Rightarrow> bool \<times> Reconciliation" where
  "rec_Error err r = (case err of None \<Rightarrow> (False, r) | Some e \<Rightarrow> (True, r\<lparr>rec_Err := Some e\<rparr>))"

definition rec_Update :: "bool \<Rightarrow> duration \<Rightarrow> Reconciliation \<Rightarrow> bool \<times> Reconciliation" where
  "rec_Update upd d r = (if \<not> upd then (False, r) else (True, r\<lparr>rec_Updated := True, rec_RequeueAfter := d\<rparr>))"

definition IsOutdated :: "Reconciliation \<Rightarrow> gotime option \<Rightarrow> duration \<Rightarrow> bool" where
  "IsOutdated r lastTime threshold = (case lastTime of None \<Rightarrow> True | Some t \<Rightarrow> t + threshold < rec_Now r)"

abbreviation rec_dk_update :: "(DynaKube \<Rightarrow> DynaKube) \<Rightarrow> Reconciliation \<Rightarrow> Reconciliation" where
  "rec_dk_update f r \<equiv> r\<lparr>rec_Instance := f (rec_Instance r)\<rparr>"

definition GetField :: "string gomap option \<Rightarrow> string \<Rightarrow> string \<Rightarrow> string" where
  "GetField values key defaultValue =
     (case values of None \<Rightarrow> defaultValue
      | Some m \<Rightarrow> if goget m key [] \<noteq> [] then goget m key [] else defaultValue)"

text \<open>
  \<^verbatim>\<open>GetDeployment\<close> walks from the pod over its replica set to the deployment. Each object is
  seen through its metadata; \<open>podName\<close> is the environment variable \<^verbatim>\<open>POD_NAME\<close>.
\<close>

definition ownerOf :: "string \<Rightarrow> string \<Rightarrow> string \<Rightarrow> ObjectMeta \<Rightarrow> goerr + string" where
  "ownerOf what kind podName m =
     (case om_Controller m of
        None \<Rightarrow> Inl (ErrMsg (''no controller found for '' @ what @ '': '' @ podName))
      | Some (k, n) \<Rightarrow>
          if k \<noteq> kind
          then Inl (ErrMsg (''unexpected controller found for '' @ what @ '': '' @ podName @ '', kind: '' @ k))
          else Inr n)"

definition GetDeployment ::
  "string \<Rightarrow> ('w, ObjectMeta) kclient \<Rightarrow> ('w, ObjectMeta) kclient \<Rightarrow> ('w, ObjectMeta) kclient \<Rightarrow> string
    \<Rightarrow> ('w, ObjectMeta) act" where
  "GetDeployment podName pods replicaSets deployments ns =
     (if podName = [] then raiseE (ErrMsg ''POD_NAME environment variable does not exist'')
      else bindE (kGet pods (ns, podName)) (\<lambda>pod.
           bindE (liftE (ownerOf ''Pod'' ''ReplicaSet'' (om_Name pod) pod)) (\<lambda>rsOwner.
           bindE (kGet replicaSets (ns, rsOwner)) (\<lambda>rs.
           bindE (liftE (ownerOf ''ReplicaSet'' ''Deployment'' (om_Name pod) rs)) (\<lambda>dOwner.
             kGet deployments (ns, dOwner))))))"

definition CreateOrUpdateSecretIfNotExists ::
  "('w, Secret) kclient \<Rightarrow> ('w, Secret) kclient \<Rightarrow> string \<Rightarrow> string \<Rightarrow> string gomap option \<Rightarrow> string
    \<Rightarrow> ('w, unit) act" where
  "CreateOrUpdateSecretIfNotExists c r secretName targetNS data secretType =
     catchE (kGet r (targetNS, secretName))
       (\<lambda>err. if isNotFound err
              then bindE (wrapE (''failed to create secret '' @ secretName @ '': '') (kCreate c
                     \<lparr>sec_Meta = emptyMeta\<lparr>om_Name := secretName, om_Namespace := targetNS\<rparr>,
                      sec_Type = secretType, sec_Data = data\<rparr>)) (\<lambda>_. retE ())
              else raiseE (Wrap (''failed to query for secret '' @ secretName @ '': '') err))
       (\<lambda>cfg. if \<not> deepEqualMap data (sec_Data cfg)
              then bindE (wrapE (''failed to update secret '' @ secretName @ '': '')
                     (kUpdate c (cfg\<lparr>sec_Data := data\<rparr>))) (\<lambda>_. retE ())
              else retE ())"

section \<open>The cluster's identity (kubesystem.go)\<close>

definition kubesystem_Namespace :: string where "kubesystem_Namespace = ''kube-system''"

definition GetUID :: "('w, Namespace) kclient \<Rightarrow> ('w, string) act" where
  "GetUID clt = bindE (kGet clt ([], kubesystem_Namespace)) (\<lambda>ns. retE (ns_UID ns))"

section \<open>Tokens (token\_parser.go)\<close>

definition DynatracePaasToken :: string where "DynatracePaasToken = ''paasToken''"
definition DynatraceApiToken :: string where "DynatraceApiToken = ''apiToken''"

record utils_Tokens =
  tk_ApiToken :: string
  tk_PaasToken :: string

definition ExtractToken :: "Secret \<Rightarrow> string \<Rightarrow> goerr + string" where
  "ExtractToken secret key =
     (case secretField secret key of
        None \<Rightarrow> Inl (ErrMsg (''missing token '' @ key))
      | Some v \<Rightarrow> Inr (trimSpace v))"

fun verifyTokens :: "Secret \<Rightarrow> string list \<Rightarrow> goerr option" where
  "verifyTokens secret [] = None"
| "verifyTokens secret (token # tokens) =
     (case ExtractToken secret token of
        Inl err \<Rightarrow> Some (ErrMsg (''invalid secret '' @ om_Name (sec_Meta secret) @ '', '' @ errorText err))
      | Inr _ \<Rightarrow> verifyTokens secret tokens)"

definition verifySecret :: "Secret \<Rightarrow> goerr option" where
  "verifySecret secret = verifyTokens secret [DynatraceApiToken, DynatracePaasToken]"

text \<open>\<^verbatim>\<open>x, _ = f()\<close>: the value on success, and the zero value on error.\<close>

definition orZero :: "goerr + string \<Rightarrow> string" where
  "orZero r = (case r of Inl _ \<Rightarrow> [] | Inr x \<Rightarrow> x)"

definition NewTokens :: "Secret option \<Rightarrow> goerr + utils_Tokens" where
  "NewTokens secret =
     (case secret of
        None \<Rightarrow> Inl (ErrMsg ''could not parse tokens: secret is nil'')
      | Some sec \<Rightarrow>
          (case verifySecret sec of
             Some err \<Rightarrow> Inl err
           | None \<Rightarrow> Inr \<lparr>tk_ApiToken = orZero (ExtractToken sec DynatraceApiToken),
                           tk_PaasToken = orZero (ExtractToken sec DynatracePaasToken)\<rparr>))"

section \<open>Immutable images (immutable\_image.go)\<close>

definition SetUseImmutableImageStatus :: "DynaKube \<Rightarrow> FullStackSpec \<Rightarrow> bool \<times> DynaKube" where
  "SetUseImmutableImageStatus instance fs =
     (let oa = st_OneAgent (dk_Status instance)
      in if fs_UseImmutableImage fs = oast_UseImmutableImage oa then (False, instance)
         else (True, instance\<lparr>dk_Status := (dk_Status instance)
                 \<lparr>st_OneAgent := oa\<lparr>oast_UseImmutableImage := fs_UseImmutableImage fs\<rparr>\<rparr>\<rparr>))"

definition buildPullSecretName :: "DynaKube \<Rightarrow> string" where
  "buildPullSecretName instance =
     (let name = dk_Name instance @ PullSecretSuffix
      in if spec_CustomPullSecret (dk_Spec instance) \<noteq> [] then spec_CustomPullSecret (dk_Spec instance) else name)"

section \<open>Docker configuration (docker\_config\_parser.go)\<close>

definition NewDockerConfig :: "(string \<Rightarrow> goerr + 'cfg) \<Rightarrow> Secret \<Rightarrow> goerr + 'cfg" where
  "NewDockerConfig unmarshal secret =
     (case secretField secret ''.dockerconfigjson'' of
        None \<Rightarrow> Inl (ErrMsg ''could not find any docker config in image pull secret'')
      | Some config \<Rightarrow> unmarshal config)"

section \<open>Lemmas\<close>

lemma rec_Error_simps [simp]:
  "rec_Error None r = (False, r)" "rec_Error (Some e) r = (True, r\<lparr>rec_Err := Some e\<rparr>)"
  by (simp_all add: rec_Error_def)

lemma rec_Update_simps [simp]:
  "rec_Update False d r = (False, r)"
  "rec_Update True d r = (True, r\<lparr>rec_Updated := True, rec_RequeueAfter := d\<rparr>)"
  by (simp_all add: rec_Update_def)

lemma IsOutdated_simps [simp]:
  "IsOutdated r None d" "IsOutdated r (Some t) d \<longleftrightarrow> t + d < rec_Now r"
  by (simp_all add: IsOutdated_def)

lemma buildPullSecretName_PullSecret: "buildPullSecretName dk = PullSecret dk"
  by (simp add: buildPullSecretName_def PullSecret_def Let_def)

lemma NewTokens_cases:
  "NewTokens (Some sec) =
     (case (secretField sec DynatraceApiToken, secretField sec DynatracePaasToken) of
        (Some a, Some p) \<Rightarrow> Inr \<lparr>tk_ApiToken = trimSpace a, tk_PaasToken = trimSpace p\<rparr>
      | (None, _) \<Rightarrow> Inl (ErrMsg (''invalid secret '' @ om_Name (sec_Meta sec) @ '', missing token apiToken''))
      | (_, None) \<Rightarrow> Inl (ErrMsg (''invalid secret '' @ om_Name (sec_Meta sec) @ '', missing token paasToken'')))"
  by (simp add: NewTokens_def verifySecret_def ExtractToken_def orZero_def DynatraceApiToken_def
      DynatracePaasToken_def split: option.splits)

lemma NewTokens_trimmed:
  "NewTokens s = Inr t \<Longrightarrow> trimSpace (tk_ApiToken t) = tk_ApiToken t \<and> trimSpace (tk_PaasToken t) = tk_PaasToken t"
  by (cases s) (simp add: NewTokens_def, auto simp: NewTokens_cases split: option.splits)

lemma CreateOrUpdateSecret_cases:
  assumes "CreateOrUpdateSecretIfNotExists c r name ns data ty w = (Inr u, w'')"
  obtains (created) e w' ob where "kGet r (ns, name) w = (Inl e, w')" and "isNotFound e"
      and "kCreate c \<lparr>sec_Meta = emptyMeta\<lparr>om_Name := name, om_Namespace := ns\<rparr>, sec_Type = ty, sec_Data = data\<rparr> w'
             = (Inr ob, w'')"
    | (updated) cfg w' ob where "kGet r (ns, name) w = (Inr cfg, w')" and "\<not> deepEqualMap data (sec_Data cfg)"
      and "kUpdate c (cfg\<lparr>sec_Data := data\<rparr>) w' = (Inr ob, w'')"
    | (equal) cfg where "kGet r (ns, name) w = (Inr cfg, w'')" and "deepEqualMap data (sec_Data cfg)"
  using assms that
  by (auto simp: CreateOrUpdateSecretIfNotExists_def catchE_run bindE_run wrapE_run
      split: prod.splits sum.splits if_splits)

text \<open>What the call does to the secrets; the reader may be another client of the same API server.\<close>

lemma CreateOrUpdateSecret_effect:
  assumes law: "lawful c (metaKey \<circ> sec_Meta) view" and read: "lawful r (metaKey \<circ> sec_Meta) view" and keyed: "keyed (metaKey \<circ> sec_Meta) (view w)"
    and run: "CreateOrUpdateSecretIfNotExists c r name ns data ty w = (res, w')"
  shows "(case res of
            Inl _ \<Rightarrow> view w' = view w
          | Inr _ \<Rightarrow> (\<exists>sec. view w' (ns, name) = Some sec \<and> deepEqualMap data (sec_Data sec)) \<and>
                      (\<forall>k. k \<noteq> (ns, name) \<longrightarrow> view w' k = view w k))"
proof (cases res)
  case (Inl e)
  with run have "view w' = view w"
    by (auto simp: CreateOrUpdateSecretIfNotExists_def catchE_run bindE_run wrapE_run
        dest!: lawful_unchanged [OF law] lawful_unchanged [OF read]
        split: prod.splits sum.splits if_splits)
  with Inl show ?thesis by simp
next
  case (Inr u)
  have refl: "deepEqualMap d d" for d :: "string gomap option" by (simp add: deepEqualMap_iff)
  from run [unfolded Inr] have "(\<exists>sec. view w' (ns, name) = Some sec \<and> deepEqualMap data (sec_Data sec)) \<and>
      (\<forall>k. k \<noteq> (ns, name) \<longrightarrow> view w' k = view w k)"
  proof (cases rule: CreateOrUpdateSecret_cases)
    case (created e w1 ob)
    with lawful_GetD(1) [OF read created(1)] lawful_CreateD(1) [OF law created(3)] show ?thesis
      by (simp add: metaKey_def refl)
  next
    case (updated cfg w1 ob)
    have "metaKey (sec_Meta cfg) = (ns, name)"
      using keyed lawful_GetD(2) [OF read updated(1)] by (auto simp: keyed_def)
    with lawful_GetD(1) [OF read updated(1)] lawful_UpdateD(1) [OF law updated(3)] show ?thesis
      by (simp add: refl)
  next
    case (equal cfg)
    with lawful_GetD(1,2) [OF read equal(1)] show ?thesis by simp
  qed
  with Inr show ?thesis by simp
qed

section \<open>Properties\<close>

text \<open>C29. \<^verbatim>\<open>CreateOrUpdateSecretIfNotExists\<close> establishes the secret: when it returns no error, the
  secret of the given name and namespace exists with exactly the given data, and every other
  secret is untouched; when it returns an error, no secret has changed. Here reader and writer
  are the same lawful API server, which stores every object under its own key.\<close>

theorem CreateOrUpdateSecret_establishes:
  assumes law: "lawful c (metaKey \<circ> sec_Meta) view" and keyed: "keyed (metaKey \<circ> sec_Meta) (view w)"
    and run: "CreateOrUpdateSecretIfNotExists c c name ns data ty w = (res, w')"
  shows "(case res of
            Inl _ \<Rightarrow> view w' = view w
          | Inr _ \<Rightarrow> (\<exists>sec. view w' (ns, name) = Some sec \<and> deepEqualMap data (sec_Data sec)) \<and>
                      (\<forall>k. k \<noteq> (ns, name) \<longrightarrow> view w' k = view w k))"
  using law law keyed run by (rule CreateOrUpdateSecret_effect)

theorem CreateOrUpdateSecret_establishes_witness:
  "\<exists>w'. CreateOrUpdateSecretIfNotExists (storeClient (metaKey \<circ> sec_Meta)) (storeClient (metaKey \<circ> sec_Meta))
     ''s'' ''n'' (Some [(''k'', ''v'')]) ''Opaque'' [] = (Inr (), w') \<and>
     (\<exists>sec. map_of w' (''n'', ''s'') = Some sec \<and> deepEqualMap (Some [(''k'', ''v'')]) (sec_Data sec))"
proof -
  let ?c = "storeClient (metaKey \<circ> sec_Meta)"
  have "keyed (metaKey \<circ> sec_Meta) (map_of [])" by (simp add: keyed_def)
  note main = CreateOrUpdateSecret_establishes [OF lawful_storeClient this]
  obtain w' where "CreateOrUpdateSecretIfNotExists ?c ?c ''s'' ''n'' (Some [(''k'', ''v'')]) ''Opaque'' [] = (Inr (), w')"
    by (simp add: CreateOrUpdateSecretIfNotExists_def storeClient_def catchE_run bindE_run wrapE_run)
  with main [OF this] show ?thesis by auto
qed

text \<open>\<^verbatim>\<open>NewTokens\<close> accepts exactly the secrets that hold both tokens, and the tokens it returns
  are those of the secret without surrounding white space: trimming them again changes nothing.\<close>

theorem NewTokens_correct:
  "((\<exists>t. NewTokens (Some sec) = Inr t) \<longleftrightarrow>
      secretField sec DynatraceApiToken \<noteq> None \<and> secretField sec DynatracePaasToken \<noteq> None) \<and>
   (NewTokens (Some sec) = Inr t \<longrightarrow>
      tk_ApiToken t = trimSpace (secretData sec DynatraceApiToken) \<and> trimSpace (tk_ApiToken t) = tk_ApiToken t \<and>
      tk_PaasToken t = trimSpace (secretData sec DynatracePaasToken) \<and> trimSpace (tk_PaasToken t) = tk_PaasToken t) \<and>
   NewTokens None = Inl (ErrMsg ''could not parse tokens: secret is nil'')"
proof -
  have "(\<exists>t. NewTokens (Some sec) = Inr t) \<longleftrightarrow>
      secretField sec DynatraceApiToken \<noteq> None \<and> secretField sec DynatracePaasToken \<noteq> None"
    by (auto simp: NewTokens_cases split: option.splits)
  moreover have "NewTokens (Some sec) = Inr t \<longrightarrow>
      tk_ApiToken t = trimSpace (secretData sec DynatraceApiToken) \<and>
      tk_PaasToken t = trimSpace (secretData sec DynatracePaasToken)"
    by (auto simp: NewTokens_cases secretData_def split: option.splits)
  ultimately show ?thesis
    using NewTokens_trimmed [of "Some sec" t] by (simp add: NewTokens_def)
qed

definition exampleTokenSecret :: Secret where
  "exampleTokenSecret = \<lparr>sec_Meta = emptyMeta\<lparr>om_Name := ''t''\<rparr>, sec_Type = [],
     sec_Data = Some [(''apiToken'', '' a ''), (''paasToken'', ''p'' @ [CHR 0x0A])]\<rparr>"

theorem NewTokens_correct_witness:
  "\<exists>t. NewTokens (Some exampleTokenSecret) = Inr t \<and> trimSpace (tk_ApiToken t) = tk_ApiToken t \<and>
     tk_ApiToken t = trimSpace '' a ''"
proof -
  have "\<exists>t. NewTokens (Some exampleTokenSecret) = Inr t"
    by (simp add: NewTokens_cases exampleTokenSecret_def secretField_def DynatraceApiToken_def DynatracePaasToken_def)
  then obtain t where t: "NewTokens (Some exampleTokenSecret) = Inr t" ..
  with NewTokens_correct [of exampleTokenSecret t] show ?thesis
    by (simp add: exampleTokenSecret_def secretData_def secretField_def DynatraceApiToken_def)
qed

end
