(* ===== verification/Token_Reconciler.thy ===== *)
theory Token_Reconciler
  imports Reconciliation
begin

text \<open>
  The construction of the Dynatrace client of a custom resource and the verification of its
  tokens (\<^verbatim>\<open>dtclient_builder.go\<close> and \<^verbatim>\<open>dtclient_reconciler.go\<close> of \<^verbatim>\<open>src/controllers/dynakube\<close>).

  The state of a Dynatrace client is \<open>'d\<close>; its methods act on pairs of this state and the world.
  The two functions of \<^verbatim>\<open>k8s.io/apimachinery/pkg/api/meta\<close> that look up and store conditions are
  the record \<open>condition_lib\<close>; storing reads the clock, so it sees the world.
\<close>

section \<open>Building the client (dtclient\_builder.go)\<close>

definition ProxyField :: string where "ProxyField = ''proxy''"
definition Certificates :: string where "Certificates = ''certs''"

definition appendCertCheck :: "DynaKubeSpec \<Rightarrow> Option list \<Rightarrow> Option list" where
  "appendCertCheck spec opts = opts @ [SkipCertificateValidation (spec_SkipCertCheck spec)]"

definition appendNetworkZone :: "DynaKubeSpec \<Rightarrow> Option list \<Rightarrow> Option list" where
  "appendNetworkZone spec opts =
     (if spec_NetworkZone spec \<noteq> [] then opts @ [NetworkZone (spec_NetworkZone spec)] else opts)"

definition appendDisableHostsRequests :: "bool \<Rightarrow> Option list \<Rightarrow> Option list" where
  "appendDisableHostsRequests disable opts = opts @ [DisableHostsRequests disable]"

definition appendProxySettings ::
  "('w, Secret) kclient \<Rightarrow> DynaKubeSpec \<Rightarrow> string \<Rightarrow> Option list \<Rightarrow> ('w, Option list) act" where
  "appendProxySettings secrets spec namespace opts =
     (case spec_Proxy spec of
        None \<Rightarrow> retE opts
      | Some p \<Rightarrow>
          if px_ValueFrom p \<noteq> []
          then bindE (wrapE ''failed to get proxy secret: '' (kGet secrets (namespace, px_ValueFrom p)))
                 (\<lambda>proxySecret.
                    bindE (wrapE ''failed to extract proxy secret field: ''
                             (liftE (ExtractToken proxySecret ProxyField)))
                      (\<lambda>proxyURL. retE (opts @ [Proxy proxyURL])))
          else if px_Value p \<noteq> [] then retE (opts @ [Proxy (px_Value p)])
          else retE opts)"

definition configField :: "ConfigMap \<Rightarrow> string \<Rightarrow> string" where
  "configField cm k = (case cm_Data cm of None \<Rightarrow> [] | Some m \<Rightarrow> goget m k [])"

definition appendTrustedCerts ::
  "('w, ConfigMap) kclient \<Rightarrow> DynaKubeSpec \<Rightarrow> string \<Rightarrow> Option list \<Rightarrow> ('w, Option list) act" where
  "appendTrustedCerts configMaps spec namespace opts =
     (if spec_TrustedCAs spec = [] then retE opts
      else bindE (wrapE ''failed to get certificate configmap: '' (kGet configMaps (namespace, spec_TrustedCAs spec)))
             (\<lambda>certs.
                if configField certs Certificates = []
                then raiseE (ErrMsg ''failed to extract certificate configmap field: missing field certs'')
                else retE (opts @ [Certs (configField certs Certificates)])))"

definition BuildDynatraceClient ::
  "'e dt_env \<Rightarrow> ('w, Secret) kclient \<Rightarrow> ('w, ConfigMap) kclient \<Rightarrow> DynaKube option \<Rightarrow> Secret option
    \<Rightarrow> ('w, dynatraceClient) act" where
  "BuildDynatraceClient env secrets configMaps instance secret =
     (case instance of
        None \<Rightarrow> raiseE (ErrMsg ''could not build dynatrace client: instance is nil'')
      | Some dk \<Rightarrow>
          (let namespace = dk_Namespace dk; spec = dk_Spec dk
           in bindE (liftE (NewTokens secret)) (\<lambda>tokens.
                let opts = appendDisableHostsRequests (FeatureDisableHostsRequests dk)
                             (appendNetworkZone spec (appendCertCheck spec []))
                in bindE (appendProxySettings secrets spec namespace opts) (\<lambda>opts.
                     bindE (appendTrustedCerts configMaps spec namespace opts) (\<lambda>opts.
                       liftE (NewClient env (spec_APIURL spec) (tk_ApiToken tokens) (tk_PaasToken tokens) opts))))))"

section \<open>Verifying the tokens (dtclient\_reconciler.go)\<close>

definition TokenScopeInstallerDownload :: string where "TokenScopeInstallerDownload = ''InstallerDownload''"
definition TokenScopeDataExport :: string where "TokenScopeDataExport = ''DataExport''"
definition PaaSTokenConditionType :: string where "PaaSTokenConditionType = ''PaaSToken''"
definition APITokenConditionType :: string where "APITokenConditionType = ''APIToken''"
definition ReasonTokenReady :: string where "ReasonTokenReady = ''TokenReady''"
definition ReasonTokenSecretNotFound :: string where "ReasonTokenSecretNotFound = ''TokenSecretNotFound''"
definition ReasonTokenMissing :: string where "ReasonTokenMissing = ''TokenMissing''"
definition ReasonTokenUnauthorized :: string where "ReasonTokenUnauthorized = ''TokenUnauthorized''"
definition ReasonTokenScopeMissing :: string where "ReasonTokenScopeMissing = ''TokenScopeMissing''"
definition ReasonTokenError :: string where "ReasonTokenError = ''TokenError''"
definition ConditionTrue :: string where "ConditionTrue = ''True''"
definition ConditionFalse :: string where "ConditionFalse = ''False''"

record 'w condition_lib =
  FindStatusCondition :: "Condition list \<Rightarrow> string \<Rightarrow> Condition option"
  SetStatusCondition :: "'w \<Rightarrow> Condition list \<Rightarrow> Condition \<Rightarrow> Condition list"

text \<open>The pointer to the time stamp of a token's last probe in the status.\<close>

datatype tokenTimestamp = LastPaaSTokenProbe | LastAPITokenProbe

fun getTimestamp :: "tokenTimestamp \<Rightarrow> DynaKubeStatus \<Rightarrow> gotime option" where
  "getTimestamp LastPaaSTokenProbe st = st_LastPaaSTokenProbeTimestamp st"
| "getTimestamp LastAPITokenProbe st = st_LastAPITokenProbeTimestamp st"

fun setTimestamp :: "tokenTimestamp \<Rightarrow> gotime \<Rightarrow> DynaKubeStatus \<Rightarrow> DynaKubeStatus" where
  "setTimestamp LastPaaSTokenProbe t st = st\<lparr>st_LastPaaSTokenProbeTimestamp := Some t\<rparr>"
| "setTimestamp LastAPITokenProbe t st = st\<lparr>st_LastAPITokenProbeTimestamp := Some t\<rparr>"

record tokenConfig =
  tc_Type :: string
  tc_Key :: string
  tc_Value :: string
  tc_Scope :: string
  tc_Timestamp :: tokenTimestamp

definition paasTokenConfig :: tokenConfig where
  "paasTokenConfig = \<lparr>tc_Type = PaaSTokenConditionType, tc_Key = DynatracePaasToken, tc_Value = [],
     tc_Scope = TokenScopeInstallerDownload, tc_Timestamp = LastPaaSTokenProbe\<rparr>"

definition apiTokenConfig :: tokenConfig where
  "apiTokenConfig = \<lparr>tc_Type = APITokenConditionType, tc_Key = DynatraceApiToken, tc_Value = [],
     tc_Scope = TokenScopeDataExport, tc_Timestamp = LastAPITokenProbe\<rparr>"

definition tokenConfigs :: "bool \<Rightarrow> bool \<Rightarrow> tokenConfig list" where
  "tokenConfigs updatePaaSToken updateAPIToken =
     (if updatePaaSToken then [paasTokenConfig] else []) @ (if updateAPIToken then [apiTokenConfig] else [])"

definition newCondition :: "string \<Rightarrow> string \<Rightarrow> string \<Rightarrow> string \<Rightarrow> Condition" where
  "newCondition ty status reason message =
     \<lparr>cond_Type = ty, cond_Status = status, cond_Reason = reason, cond_Message = message,
      cond_LastTransitionTime = 0\<rparr>"

definition sameCondition :: "Condition \<Rightarrow> Condition \<Rightarrow> bool" where
  "sameCondition c d \<longleftrightarrow>
     cond_Reason c = cond_Reason d \<and> cond_Message c = cond_Message d \<and> cond_Status c = cond_Status d"

definition setCondition :: "'w condition_lib \<Rightarrow> 'w \<Rightarrow> Condition list \<Rightarrow> Condition \<Rightarrow> bool \<times> Condition list" where
  "setCondition lib w conditions condition =
     (case FindStatusCondition lib conditions (cond_Type condition) of
        Some c \<Rightarrow> if sameCondition c condition then (False, conditions)
                  else (True, SetStatusCondition lib w conditions condition)
      | None \<Rightarrow> (True, SetStatusCondition lib w conditions condition))"

text \<open>\<^verbatim>\<open>updateCR = setCondition(&sts.Conditions, ...) || updateCR\<close>.\<close>

definition reportCondition ::
  "'w condition_lib \<Rightarrow> 'w \<Rightarrow> Condition \<Rightarrow> bool \<times> DynaKubeStatus \<Rightarrow> bool \<times> DynaKubeStatus" where
  "reportCondition lib w c = (\<lambda>(updateCR, sts).
     case setCondition lib w (st_Conditions sts) c of
       (changed, conds) \<Rightarrow> (changed \<or> updateCR, sts\<lparr>st_Conditions := conds\<rparr>))"

definition reportAll ::
  "'w condition_lib \<Rightarrow> 'w \<Rightarrow> string \<Rightarrow> string \<Rightarrow> tokenConfig list \<Rightarrow> bool \<times> DynaKubeStatus \<Rightarrow> bool \<times> DynaKubeStatus" where
  "reportAll lib w reason message tokens s =
     foldl (\<lambda>s t. reportCondition lib w (newCondition (tc_Type t) ConditionFalse reason message) s) s tokens"

text \<open>Conditions that an older version stored without a time of transition.\<close>

definition migrateConditions :: "gotime \<Rightarrow> bool \<times> DynaKubeStatus \<Rightarrow> bool \<times> DynaKubeStatus" where
  "migrateConditions now = (\<lambda>(updateCR, sts).
     (updateCR \<or> (\<exists>c \<in> set (st_Conditions sts). timeIsZero (cond_LastTransitionTime c)),
      sts\<lparr>st_Conditions := map (\<lambda>c. if timeIsZero (cond_LastTransitionTime c)
                                     then c\<lparr>cond_LastTransitionTime := now\<rparr> else c) (st_Conditions sts)\<rparr>))"

text \<open>The loop that reads the values of the tokens and reports the missing ones.\<close>

fun readTokens ::
  "'w condition_lib \<Rightarrow> 'w \<Rightarrow> Secret \<Rightarrow> string \<Rightarrow> tokenConfig list \<Rightarrow> bool \<times> DynaKubeStatus
    \<Rightarrow> bool \<times> tokenConfig list \<times> (bool \<times> DynaKubeStatus)" where
  "readTokens lib w secret secretKey [] s = (True, [], s)"
| "readTokens lib w secret secretKey (t # ts) s =
     (let v = secretData secret (tc_Key t);
          s' = (if v = [] then reportCondition lib w (newCondition (tc_Type t) ConditionFalse ReasonTokenMissing
                   (''Token '' @ tc_Key t @ '' on secret '' @ secretKey @ '' missing'')) s else s)
      in case readTokens lib w secret secretKey ts s' of
           (valid, ts', s'') \<Rightarrow> (v \<noteq> [] \<and> valid, t\<lparr>tc_Value := v\<rparr> # ts', s''))"

text \<open>The condition that the answer of the tenant to a lookup of the token's scopes gives.\<close>

definition tokenVerdict :: "string \<Rightarrow> tokenConfig \<Rightarrow> goerr + TokenScopes \<Rightarrow> Condition" where
  "tokenVerdict secretKey t answer =
     (case answer of
        Inl err \<Rightarrow>
          (case asServerError err of
             Some (code, _) \<Rightarrow>
               if code = 401
               then newCondition (tc_Type t) ConditionFalse ReasonTokenUnauthorized
                      (''Token on secret '' @ secretKey @ '' unauthorized'')
               else newCondition (tc_Type t) ConditionFalse ReasonTokenError
                      (''error when querying token on secret '' @ secretKey @ '': '' @ errorText err)
           | None \<Rightarrow> newCondition (tc_Type t) ConditionFalse ReasonTokenError
                      (''error when querying token on secret '' @ secretKey @ '': '' @ errorText err))
      | Inr ss \<Rightarrow>
          if \<not> TokenScopes_Contains ss (tc_Scope t)
          then newCondition (tc_Type t) ConditionFalse ReasonTokenScopeMissing
                 (''Token on secret '' @ secretKey @ '' missing scope '' @ tc_Scope t)
          else newCondition (tc_Type t) ConditionTrue ReasonTokenReady ''Ready'')"

definition probeDue :: "gotime \<Rightarrow> gotime option \<Rightarrow> bool" where
  "probeDue now ts = (case ts of None \<Rightarrow> True | Some t \<Rightarrow> \<not> now < t + 5 * timeMinute)"

type_synonym ('d, 'w) tokenState = "(bool \<times> DynaKubeStatus) \<times> ('d \<times> 'w)"

definition probeToken ::
  "'w condition_lib \<Rightarrow> ('d \<times> 'w) Client \<Rightarrow> gotime \<Rightarrow> string \<Rightarrow> ('d, 'w) tokenState \<Rightarrow> tokenConfig
    \<Rightarrow> ('d, 'w) tokenState" where
  "probeToken lib cl now secretKey = (\<lambda>(s, dw) t.
     if trimSpace (tc_Value t) \<noteq> tc_Value t
     then (reportCondition lib (snd dw) (newCondition (tc_Type t) ConditionFalse ReasonTokenUnauthorized
             (''Token on secret '' @ secretKey @ '' has leading and/or trailing spaces'')) s, dw)
     else if \<not> probeDue now (getTimestamp (tc_Timestamp t) (snd s)) then (s, dw)
     else
       (case cl_GetTokenScopes cl (tc_Value t) dw of
          (answer, dw') \<Rightarrow>
            ((True, snd (reportCondition lib (snd dw') (tokenVerdict secretKey t answer)
                (True, setTimestamp (tc_Timestamp t) now (snd s)))), dw')))"

text \<open>
  \<^verbatim>\<open>DynatraceClientReconciler.Reconcile\<close>. The function that builds the client is \<open>dtf\<close>; \<open>now0\<close> is
  the field \<^verbatim>\<open>Now\<close>, replaced by the clock where it is zero. The result is the client (where
  there is one), the flag that the resource was changed, and the error.
\<close>

definition DynatraceClientReconciler_Reconcile ::
  "'w condition_lib \<Rightarrow> ('w \<Rightarrow> gotime \<times> 'w) \<Rightarrow> ('w, Secret) kclient \<Rightarrow> (DynaKube \<Rightarrow> Secret \<Rightarrow> ('w, 'd) act)
    \<Rightarrow> ('d \<times> 'w) Client \<Rightarrow> gotime \<Rightarrow> bool \<Rightarrow> bool \<Rightarrow> DynaKube \<Rightarrow> 'w
    \<Rightarrow> ('d option \<times> bool \<times> goerr option) \<times> DynaKube \<times> 'w" where
  "DynatraceClientReconciler_Reconcile lib clock secrets dtf cl now0 updatePaaSToken updateAPIToken instance w0 =
     (let (now, w1) = (if timeIsZero now0 then clock w0 else (now0, w0));
          ns = dk_Namespace instance;
          secretName = Tokens instance;
          tokens = tokenConfigs updatePaaSToken updateAPIToken;
          s0 = migrateConditions now (False, dk_Status instance);
          secretKey = ns @ '':'' @ secretName
      in case kGet secrets (ns, secretName) w1 of
           (Inl err, w2) \<Rightarrow>
             if isNotFound err
             then let message = ''Secret '' @ [CHR 0x27] @ secretKey @ [CHR 0x27] @ '' not found'';
                      (updateCR, sts) = reportAll lib w2 ReasonTokenSecretNotFound message tokens s0
                  in ((None, updateCR, Some (ErrMsg message)), instance\<lparr>dk_Status := sts\<rparr>, w2)
             else ((None, fst s0, Some err), instance\<lparr>dk_Status := snd s0\<rparr>, w2)
         | (Inr secret, w2) \<Rightarrow>
             (case readTokens lib w2 secret secretKey tokens s0 of
                (valid, tokens', s1) \<Rightarrow>
                  if \<not> valid
                  then ((None, fst s1, Some (ErrMsg ''issues found with tokens, see status'')),
                        instance\<lparr>dk_Status := snd s1\<rparr>, w2)
                  else
                    (case dtf (instance\<lparr>dk_Status := snd s1\<rparr>) secret w2 of
                       (Inl err, w3) \<Rightarrow>
                         let message = ''Failed to create Dynatrace API Client: '' @ errorText err;
                             (updateCR, sts) = reportAll lib w3 ReasonTokenError message tokens' s1
                         in ((None, updateCR, Some err), instance\<lparr>dk_Status := sts\<rparr>, w3)
                     | (Inr dtc, w3) \<Rightarrow>
                         (case foldl (probeToken lib cl now secretKey) (s1, (dtc, w3)) tokens' of
                            ((updateCR, sts), (dtc', w4)) \<Rightarrow>
                              ((Some dtc', updateCR, None), instance\<lparr>dk_Status := sts\<rparr>, w4)))))"

text \<open>Without a function of its own the reconciler builds the client of the repository.\<close>

definition dynatraceClientFunc ::
  "'e dt_env \<Rightarrow> ('w, Secret) kclient \<Rightarrow> ('w, ConfigMap) kclient
    \<Rightarrow> (DynaKube \<Rightarrow> Secret \<Rightarrow> ('w, dynatraceClient) act) option \<Rightarrow> DynaKube \<Rightarrow> Secret \<Rightarrow> ('w, dynatraceClient) act" where
  "dynatraceClientFunc env secrets configMaps dtf =
     (case dtf of Some f \<Rightarrow> f
      | None \<Rightarrow> (\<lambda>instance secret. BuildDynatraceClient env secrets configMaps (Some instance) (Some secret)))"

section \<open>Lemmas: the client\<close>

lemma appendProxySettings_InrD:
  assumes "appendProxySettings secrets spec ns opts w = (Inr opts', w')"
  shows "opts' = opts \<or> (\<exists>p. opts' = opts @ [Proxy p])"
  using assms by (auto simp: appendProxySettings_def bindE_run wrapE_run split: option.splits if_splits prod.splits sum.splits)

lemma appendTrustedCerts_InrD:
  assumes "appendTrustedCerts configMaps spec ns opts w = (Inr opts', w')"
  shows "if spec_TrustedCAs spec = [] then opts' = opts else \<exists>c. c \<noteq> [] \<and> opts' = opts @ [Certs c]"
  using assms by (auto simp: appendTrustedCerts_def bindE_run wrapE_run split: if_splits prod.splits sum.splits)

lemma NewClient_InrD:
  assumes "NewClient env url api paas opts = Inr c"
  shows "url \<noteq> []" and "api \<noteq> [] \<or> paas \<noteq> []"
    and "c = foldl (applyOption env)
        \<lparr>dtc_url = trimSuffix url ''/'', dtc_apiToken = api, dtc_paasToken = paas,
         dtc_networkZone = [], dtc_disableHostsRequests = False,
         dtc_transport = \<lparr>tr_InsecureSkipVerify = False, tr_Proxy = None, tr_RootCAs = None\<rparr>,
         dtc_hostCache = [], dtc_now = 0\<rparr> opts"
  using assms by (auto simp: NewClient_def split: if_splits)

section \<open>Lemmas: conditions\<close>


text \<open>An implementation on lists, as the library has it.\<close>

definition listConditions :: "'w condition_lib" where
  "listConditions =
     \<lparr>FindStatusCondition = (\<lambda>cs t. List.find (\<lambda>c. cond_Type c = t) cs),
      SetStatusCondition = (\<lambda>w cs c. if \<exists>d \<in> set cs. cond_Type d = cond_Type c
        then map (\<lambda>d. if cond_Type d = cond_Type c then c else d) cs else cs @ [c])\<rparr>"




lemma sameCondition_refl [simp]: "sameCondition (c\<lparr>cond_LastTransitionTime := t\<rparr>) c"
  by (simp add: sameCondition_def)


lemma tokenVerdict_type [simp]: "cond_Type (tokenVerdict k t a) = tc_Type t"
  by (simp add: tokenVerdict_def newCondition_def split: sum.splits option.splits)

lemma newCondition_sel [simp]:
  "cond_Type (newCondition ty s r m) = ty" "cond_Status (newCondition ty s r m) = s"
  "cond_Reason (newCondition ty s r m) = r" "cond_Message (newCondition ty s r m) = m"
  by (simp_all add: newCondition_def)



lemma getTimestamp_simps [simp]:
  "getTimestamp ts (sts\<lparr>st_Conditions := cs\<rparr>) = getTimestamp ts sts"
  "getTimestamp ts (setTimestamp ts' now sts) = (if ts = ts' then Some now else getTimestamp ts sts)"
  "st_Conditions (setTimestamp ts' now sts) = st_Conditions sts"
  by (cases ts; cases ts'; simp)+



lemma reportCondition_timestamp [simp]:
  "getTimestamp ts (snd (reportCondition lib w c s)) = getTimestamp ts (snd s)"
  by (auto simp: reportCondition_def split: prod.splits)



lemma migrateConditions_timestamp [simp]:
  "getTimestamp x (snd (migrateConditions now s)) = getTimestamp x (snd s)"
  by (auto simp: migrateConditions_def split: prod.splits)










section \<open>Lemmas: well-formed conditions\<close>

text \<open>
  What else \<^verbatim>\<open>SetStatusCondition\<close> documents: the list keeps at most one condition of each type, and its elements are the old
  ones of other types and the new one.
\<close>

definition lawfulSetCondition :: "'w condition_lib \<Rightarrow> bool" where
  "lawfulSetCondition lib \<longleftrightarrow>
     (\<forall>w cs c. distinct (map cond_Type cs) \<longrightarrow> distinct (map cond_Type (SetStatusCondition lib w cs c)) \<and>
        (\<forall>d \<in> set (SetStatusCondition lib w cs c). cond_Type d = cond_Type c \<and> sameCondition d c \<or> d \<in> set cs))"

definition tokenReasons :: "string list" where
  "tokenReasons = [ReasonTokenReady, ReasonTokenSecretNotFound, ReasonTokenMissing, ReasonTokenUnauthorized,
     ReasonTokenScopeMissing, ReasonTokenError]"

lemmas reason_defs = tokenReasons_def ReasonTokenReady_def ReasonTokenSecretNotFound_def ReasonTokenMissing_def
  ReasonTokenUnauthorized_def ReasonTokenScopeMissing_def ReasonTokenError_def ConditionTrue_def ConditionFalse_def

definition reasonFits :: "Condition \<Rightarrow> bool" where
  "reasonFits c \<longleftrightarrow> cond_Reason c \<in> set tokenReasons \<and>
     cond_Status c = (if cond_Reason c = ReasonTokenReady then ConditionTrue else ConditionFalse)"

definition wfConditions :: "Condition list \<Rightarrow> bool" where
  "wfConditions cs \<longleftrightarrow> distinct (map cond_Type cs) \<and>
     (\<forall>c \<in> set cs. cond_Type c \<in> {PaaSTokenConditionType, APITokenConditionType} \<longrightarrow> reasonFits c)"

abbreviation wfStatus :: "bool \<times> DynaKubeStatus \<Rightarrow> bool" where
  "wfStatus s \<equiv> wfConditions (st_Conditions (snd s))"

lemma sameCondition_fits: "sameCondition d c \<Longrightarrow> reasonFits c \<Longrightarrow> reasonFits d"
  by (simp add: sameCondition_def reasonFits_def)

lemma reportCondition_wf:
  assumes "lawfulSetCondition lib" and "reasonFits c" and "wfStatus s"
  shows "wfStatus (reportCondition lib w c s)"
proof -
  have "wfConditions (SetStatusCondition lib w cs c)" if "wfConditions cs" for cs
    using assms(1,2) that unfolding lawfulSetCondition_def wfConditions_def by (metis sameCondition_fits)
  with assms(3) show ?thesis
    by (auto simp: reportCondition_def setCondition_def split: prod.splits option.splits if_splits)
qed

lemma newCondition_fits:
  "reasonFits (newCondition ty ConditionFalse ReasonTokenSecretNotFound m)" "reasonFits (newCondition ty ConditionFalse ReasonTokenMissing m)"
  "reasonFits (newCondition ty ConditionFalse ReasonTokenUnauthorized m)" "reasonFits (newCondition ty ConditionFalse ReasonTokenError m)"
  "reasonFits (tokenVerdict k t a)"
  by (auto simp: reasonFits_def newCondition_def tokenVerdict_def reason_defs split: sum.splits option.splits)

lemma reportAll_wf:
  assumes "lawfulSetCondition lib" and "r \<in> {ReasonTokenSecretNotFound, ReasonTokenError}" and "wfStatus s"
  shows "wfStatus (reportAll lib w r m ts s)"
  using assms(3) unfolding reportAll_def
proof (induction ts arbitrary: s)
  case (Cons t ts)
  have "reasonFits (newCondition (tc_Type t) ConditionFalse r m)" using assms(2) newCondition_fits(1,4) by auto
  with Cons show ?case by (simp add: reportCondition_wf [OF assms(1)])
qed simp

lemma readTokens_wf:
  assumes "lawfulSetCondition lib" and "readTokens lib w secret k ts s = (v, ts', s')" and "wfStatus s"
  shows "wfStatus s'"
  using assms(2,3)
  by (induction ts arbitrary: s v ts' s')
    (auto simp: Let_def reportCondition_wf [OF assms(1)] newCondition_fits split: prod.splits if_splits)

lemma migrateConditions_wf: "wfStatus s \<Longrightarrow> wfStatus (migrateConditions now s)"
  by (auto simp: migrateConditions_def wfConditions_def reasonFits_def comp_def if_distrib [of cond_Type] split: prod.splits cong: if_cong)

lemma probeToken_wf:
  assumes "lawfulSetCondition lib" and "wfStatus s"
  shows "wfStatus (fst (probeToken lib cl now k (s, dw) t))"
  using assms(2) by (auto simp: probeToken_def reportCondition_wf [OF assms(1)] newCondition_fits split: prod.splits)

lemma foldl_probeToken_wf:
  assumes "lawfulSetCondition lib" and "foldl (probeToken lib cl now k) (s, dw) ts = (s', dw')" and "wfStatus s"
  shows "wfStatus s'"
  using assms(2,3)
proof (induction ts arbitrary: s dw)
  case (Cons t ts)
  obtain s1 dw1 where step: "probeToken lib cl now k (s, dw) t = (s1, dw1)" by (metis prod.collapse)
  with probeToken_wf [OF assms(1) Cons.prems(2), of cl now k dw t] have "wfStatus s1" by simp
  with Cons.IH [of s1 dw1] Cons.prems(1) step show ?case by simp
qed simp

section \<open>Properties\<close>

text \<open>C21. The conditions of the tokens stay well formed, whatever branch the reconciler takes, errors included: there is at most one
  condition of each type, and a condition of a token has one of the six reasons, with the status True exactly for the
  reason TokenReady. Nothing of the resource but its status changes, and a client is returned exactly where there is no error.\<close>

theorem token_conditions_welltyped:
  assumes "lawfulSetCondition lib" and "wfConditions (st_Conditions (dk_Status dk))"
    and "DynatraceClientReconciler_Reconcile lib clock secrets dtf cl now paas api dk w = ((dtc, upd, err), dk', w')"
  shows "wfConditions (st_Conditions (dk_Status dk')) \<and> dk' = dk\<lparr>dk_Status := dk_Status dk'\<rparr> \<and> (dtc = None \<longleftrightarrow> err \<noteq> None)"
proof -
  obtain now' w1 where now': "(if timeIsZero now then clock w else (now, w)) = (now', w1)" by fastforce
  let ?s0 = "migrateConditions now' (False, dk_Status dk)" and ?ts = "tokenConfigs paas api" and ?k = "dk_Namespace dk @ '':'' @ Tokens dk"
  have s0: "wfStatus ?s0" using assms(2) by (intro migrateConditions_wf) simp
  note report = reportAll_wf [OF assms(1)]
  obtain q w2 where get: "kGet secrets (dk_Namespace dk, Tokens dk) w1 = (q, w2)" by fastforce
  note run = assms(3) [unfolded DynatraceClientReconciler_Reconcile_def Let_def now' prod.case get]
  show ?thesis
  proof (cases q)
    case (Inl e)
    then show ?thesis using run s0 report [of ReasonTokenSecretNotFound ?s0]
      by (auto split: if_splits prod.splits) (metis snd_conv)+
  next
    case (Inr secret)
    obtain valid ts' s1 where read: "readTokens lib w2 secret ?k ?ts ?s0 = (valid, ts', s1)" by (metis prod_cases3)
    have s1: "wfStatus s1" using readTokens_wf [OF assms(1) read s0] .
    show ?thesis
    proof (cases valid)
      case False
      then show ?thesis using run Inr read s1 by auto
    next
      case True
      obtain d w3 where build: "dtf (dk\<lparr>dk_Status := snd s1\<rparr>) secret w2 = (d, w3)" by fastforce
      show ?thesis
      proof (cases d)
        case (Inl e)
        then show ?thesis using run Inr read True build s1 report [of ReasonTokenError s1]
          by (auto split: prod.splits) (metis snd_conv)
      next
        case dtc0: (Inr dtc0)
        obtain u sts dtc' w4 where fold: "foldl (probeToken lib cl now' ?k) (s1, (dtc0, w3)) ts' = ((u, sts), (dtc', w4))" by (metis prod.collapse)
        from foldl_probeToken_wf [OF assms(1) this s1] run Inr read True build dtc0 fold show ?thesis by auto
      qed
    qed
  qed
qed



definition exampleTokens :: "Secret store" where
  "exampleTokens = [((''ns'', ''dk''), \<lparr>sec_Meta = emptyMeta\<lparr>om_Name := ''dk'', om_Namespace := ''ns''\<rparr>,
     sec_Type = [], sec_Data = Some [(''apiToken'', ''a''), (''paasToken'', ''p'')]\<rparr>)]"

definition exampleScopes :: "('c :: type) Client" where
  "exampleScopes =
     \<lparr>cl_GetLatestAgentVersion = (\<lambda>_ _. raiseE (ErrMsg ''offline'')),
      cl_GetLatestAgent = (\<lambda>_ _ _ _. raiseE (ErrMsg ''offline'')),
      cl_GetConnectionInfo = raiseE (ErrMsg ''offline''),
      cl_GetCommunicationHostForClient = raiseE (ErrMsg ''offline''),
      cl_SendEvent = (\<lambda>_. raiseE (ErrMsg ''offline'')),
      cl_GetEntityIDForIP = (\<lambda>_. raiseE (ErrMsg ''offline'')),
      cl_GetTokenScopes = (\<lambda>v. if v = ''p'' then retE [''InstallerDownload''] else raiseE (ServerError 401 '''')),
      cl_GetTenantInfo = raiseE (ErrMsg ''offline'')\<rparr>"

abbreviation exampleTokenRun ::
  "gotime option \<Rightarrow> (unit \<times> Secret store) Client \<Rightarrow> (unit option \<times> bool \<times> goerr option) \<times> DynaKube \<times> Secret store" where
  "exampleTokenRun probed cl \<equiv>
     DynatraceClientReconciler_Reconcile listConditions (\<lambda>w. (1, w)) (storeClient (metaKey \<circ> sec_Meta))
       (\<lambda>_ _. retE ()) cl 1 True False
       (zeroDynaKube\<lparr>dk_Meta := emptyMeta\<lparr>om_Name := ''dk'', om_Namespace := ''ns''\<rparr>,
                     dk_Status := zeroStatus\<lparr>st_LastPaaSTokenProbeTimestamp := probed\<rparr>\<rparr>) exampleTokens"





lemma lawfulSet_listConditions: "lawfulSetCondition listConditions"
proof -
  have "cond_Type \<circ> (\<lambda>d. if cond_Type d = cond_Type c then c else d) = cond_Type" for c :: Condition by auto
  then show ?thesis by (auto simp: lawfulSetCondition_def listConditions_def sameCondition_def split: if_splits)
qed

theorem token_conditions_welltyped_witness:
  "\<exists>r dk' w'. exampleTokenRun None exampleScopes = (r, dk', w') \<and> wfConditions (st_Conditions (dk_Status dk'))"
proof -
  obtain d upd err dk' w' where run: "exampleTokenRun None exampleScopes = ((d, upd, err), dk', w')"
    by (cases "exampleTokenRun None exampleScopes") auto
  have "wfConditions (st_Conditions (dk_Status (zeroDynaKube\<lparr>dk_Meta := emptyMeta\<lparr>om_Name := ''dk'', om_Namespace := ''ns''\<rparr>,
                     dk_Status := zeroStatus\<lparr>st_LastPaaSTokenProbeTimestamp := None\<rparr>\<rparr>)))"
    by (simp add: wfConditions_def zero_defs)
  from token_conditions_welltyped [OF lawfulSet_listConditions this run] run show ?thesis by blast
qed



text \<open>A client that \<^verbatim>\<open>BuildDynatraceClient\<close> returns has the settings of the resource: the API URL
  without a trailing slash, the trimmed tokens of the secret (not both empty), the network zone,
  certificate checks disabled exactly where the spec says so, host requests disabled exactly by
  the feature flag, custom certificates exactly where the spec names some, and no cached host.\<close>

theorem BuildDynatraceClient_settings:
  assumes "BuildDynatraceClient env secrets configMaps (Some dk) secret w = (Inr c, w')"
  shows "spec_APIURL (dk_Spec dk) \<noteq> [] \<and> dtc_url c = trimSuffix (spec_APIURL (dk_Spec dk)) ''/'' \<and>
    NewTokens secret = Inr \<lparr>tk_ApiToken = dtc_apiToken c, tk_PaasToken = dtc_paasToken c\<rparr> \<and>
    (dtc_apiToken c \<noteq> [] \<or> dtc_paasToken c \<noteq> []) \<and>
    dtc_networkZone c = spec_NetworkZone (dk_Spec dk) \<and>
    tr_InsecureSkipVerify (dtc_transport c) = spec_SkipCertCheck (dk_Spec dk) \<and>
    dtc_disableHostsRequests c = FeatureDisableHostsRequests dk \<and>
    (tr_RootCAs (dtc_transport c) = None \<longleftrightarrow> spec_TrustedCAs (dk_Spec dk) = []) \<and> dtc_hostCache c = []"
proof -
  let ?spec = "dk_Spec dk"
  define opts where "opts = appendDisableHostsRequests (FeatureDisableHostsRequests dk)
     (appendNetworkZone ?spec (appendCertCheck ?spec []))"
  from assms obtain tokens opts1 opts2 w1 w2 where tokens: "NewTokens secret = Inr tokens"
      and proxy: "appendProxySettings secrets ?spec (dk_Namespace dk) opts w = (Inr opts1, w1)"
      and certs: "appendTrustedCerts configMaps ?spec (dk_Namespace dk) opts1 w1 = (Inr opts2, w2)"
      and client: "NewClient env (spec_APIURL ?spec) (tk_ApiToken tokens) (tk_PaasToken tokens) opts2 = Inr c"
    by (auto simp: BuildDynatraceClient_def Let_def opts_def bindE_run split: prod.splits sum.splits)
  define c0 where "c0 = \<lparr>dtc_url = trimSuffix (spec_APIURL ?spec) ''/'', dtc_apiToken = tk_ApiToken tokens,
     dtc_paasToken = tk_PaasToken tokens, dtc_networkZone = [], dtc_disableHostsRequests = False,
     dtc_transport = \<lparr>tr_InsecureSkipVerify = False, tr_Proxy = None, tr_RootCAs = None\<rparr>,
     dtc_hostCache = [], dtc_now = 0\<rparr>"
  note new = NewClient_InrD [OF client, folded c0_def]
  define c1 where "c1 = foldl (applyOption env) c0 opts"
  have c1: "c1 = c0\<lparr>dtc_networkZone := spec_NetworkZone ?spec, dtc_disableHostsRequests := FeatureDisableHostsRequests dk,
      dtc_transport := (dtc_transport c0)\<lparr>tr_InsecureSkipVerify := spec_SkipCertCheck ?spec\<rparr>\<rparr>"
    by (simp add: c1_def opts_def appendDisableHostsRequests_def appendNetworkZone_def appendCertCheck_def c0_def)
  define c2 where "c2 = foldl (applyOption env) c0 opts1"
  have "\<exists>p. c2 = c1\<lparr>dtc_transport := (dtc_transport c1)\<lparr>tr_Proxy := p\<rparr>\<rparr>"
  proof (cases "opts1 = opts")
    case True
    then show ?thesis by (intro exI [of _ "tr_Proxy (dtc_transport c1)"]) (simp add: c2_def c1_def)
  next
    case False
    then obtain p where "opts1 = opts @ [Proxy p]" using appendProxySettings_InrD [OF proxy] by blast
    then have "c2 = applyOption env c1 (Proxy p)" by (simp add: c2_def c1_def)
    then show ?thesis
      by (intro exI [of _ "if proxyURLOk env p then Some p else tr_Proxy (dtc_transport c1)"]) simp
  qed
  moreover have "\<exists>r. c = c2\<lparr>dtc_transport := (dtc_transport c2)\<lparr>tr_RootCAs := r\<rparr>\<rparr> \<and> (r = None \<longleftrightarrow> spec_TrustedCAs ?spec = [])"
    if "tr_RootCAs (dtc_transport c2) = None"
  proof (cases "spec_TrustedCAs ?spec = []")
    case True
    with appendTrustedCerts_InrD [OF certs] that new(3) show ?thesis
      by (intro exI [of _ None]) (simp add: c2_def)
  next
    case False
    with appendTrustedCerts_InrD [OF certs] new(3) obtain r where "c = applyOption env c2 (Certs r)"
      by (auto simp: c2_def)
    with False show ?thesis by (intro exI [of _ "Some r"]) simp
  qed
  ultimately show ?thesis
    using new(1,2) tokens by (auto simp: c1 c0_def)
qed

theorem BuildDynatraceClient_settings_witness:
  "\<exists>c w'. BuildDynatraceClient exampleEnv (storeClient (metaKey \<circ> sec_Meta)) (\<lparr>kGet = \<lambda>_. raiseE (ApiError ''''),
       kList = \<lambda>_. raiseE (ApiError ''''), kCreate = \<lambda>_. raiseE (ApiError ''''), kUpdate = \<lambda>_. raiseE (ApiError ''''),
       kDelete = \<lambda>_. raiseE (ApiError '''')\<rparr>)
     (Some (zeroDynaKube\<lparr>dk_Spec := zeroSpec\<lparr>spec_APIURL := ''https://h/api/''\<rparr>\<rparr>))
     (Some (snd (hd exampleTokens))) exampleTokens = (Inr c, w') \<and> dtc_url c = ''https://h/api''"
proof -
  let ?cm = "\<lparr>kGet = \<lambda>_. raiseE (ApiError ''''),
       kList = \<lambda>_. raiseE (ApiError ''''), kCreate = \<lambda>_. raiseE (ApiError ''''), kUpdate = \<lambda>_. raiseE (ApiError ''''),
       kDelete = \<lambda>_. raiseE (ApiError '''')\<rparr> :: (Secret store, ConfigMap) kclient"
  let ?dk = "zeroDynaKube\<lparr>dk_Spec := zeroSpec\<lparr>spec_APIURL := ''https://h/api/''\<rparr>\<rparr>"
  have trim: "trimSpace ''a'' = ''a''" "trimSpace ''p'' = ''p''"
    by (simp_all add: trimSpace_fixpoint leadingSpace_def trailingSpace_def whiteSpace_def suffix_def)
  have "\<exists>c w'. BuildDynatraceClient exampleEnv (storeClient (metaKey \<circ> sec_Meta)) ?cm (Some ?dk)
      (Some (snd (hd exampleTokens))) exampleTokens = (Inr c, w')"
    by (simp add: BuildDynatraceClient_def Let_def exampleTokens_def NewTokens_cases secretField_def trim
        DynatraceApiToken_def DynatracePaasToken_def appendProxySettings_def appendTrustedCerts_def
        zero_defs NewClient_def)
  then obtain c w' where run: "BuildDynatraceClient exampleEnv (storeClient (metaKey \<circ> sec_Meta)) ?cm (Some ?dk)
      (Some (snd (hd exampleTokens))) exampleTokens = (Inr c, w')" by blast
  have "dtc_url c = trimSuffix ''https://h/api/'' ''/''"
    using BuildDynatraceClient_settings [OF run] by simp
  moreover have "trimSuffix ''https://h/api/'' ''/'' = ''https://h/api''" by code_simp
  ultimately show ?thesis using run by (intro exI [of _ c] exI [of _ w']) (simp only: simp_thms)
qed

end
