(* ===== verification/Dynakube_Status.thy ===== *)
theory Dynakube_Status
  imports Reconciliation
begin

text \<open>
  The part of the status that describes the tenant (\<^verbatim>\<open>src/controllers/dynakube/status\<close>). It is
  written only when every request has succeeded. The guarantees of the status follow from the
  contract of the interface \<open>Client\<close>, for every client that satisfies it.
\<close>

section \<open>Definitions\<close>

definition OsUnix :: string where "OsUnix = ''unix''"
definition InstallerTypeDefault :: string where "InstallerTypeDefault = ''default''"
definition InstallerTypePaaS :: string where "InstallerTypePaaS = ''paas''"

definition communicationHostsToStatus :: "CommunicationHost list \<Rightarrow> CommunicationHostStatus list" where
  "communicationHostsToStatus hosts = foldl (\<lambda>sts h. sts @ [hostToStatus h]) [] hosts"

definition SetDynakubeStatus ::
  "('c, Namespace) kclient \<Rightarrow> 'c Client \<Rightarrow> DynaKube \<Rightarrow> ('c, DynaKube) act" where
  "SetDynakubeStatus clt dtc instance =
     bindE (GetUID clt) (\<lambda>uid.
     bindE (cl_GetCommunicationHostForClient dtc) (\<lambda>communicationHost.
     bindE (cl_GetConnectionInfo dtc) (\<lambda>connectionInfo.
     bindE (cl_GetLatestAgentVersion dtc OsUnix InstallerTypeDefault) (\<lambda>latestAgentVersionUnixDefault.
     bindE (cl_GetLatestAgentVersion dtc OsUnix InstallerTypePaaS) (\<lambda>latestAgentVersionUnixPaas.
       retE (instance\<lparr>dk_Status := (dk_Status instance)
         \<lparr>st_KubeSystemUUID := uid,
          st_CommunicationHostForClient := hostToStatus communicationHost,
          st_ConnectionInfo :=
            \<lparr>cis_CommunicationHosts = communicationHostsToStatus (ci_CommunicationHosts connectionInfo),
             cis_TenantUUID = ci_TenantUUID connectionInfo\<rparr>,
          st_LatestAgentVersionUnixDefault := latestAgentVersionUnixDefault,
          st_LatestAgentVersionUnixPaas := latestAgentVersionUnixPaas\<rparr>\<rparr>))))))"

section \<open>Lemmas\<close>

lemma communicationHostsToStatus_map: "communicationHostsToStatus hs = map hostToStatus hs"
proof -
  have "foldl (\<lambda>sts h. sts @ [hostToStatus h]) acc hs = acc @ map hostToStatus hs" for acc
    by (induction hs arbitrary: acc) simp_all
  then show ?thesis by (simp add: communicationHostsToStatus_def)
qed

lemma SetDynakubeStatus_InrE:
  assumes "SetDynakubeStatus clt dtc dk s = (Inr dk', s')"
  obtains uid h ci v p s1 s2 s3 s4 where
    "cl_GetCommunicationHostForClient dtc s1 = (Inr h, s2)" and "cl_GetConnectionInfo dtc s2 = (Inr ci, s3)"
    and "cl_GetLatestAgentVersion dtc OsUnix InstallerTypeDefault s3 = (Inr v, s4)"
    and "cl_GetLatestAgentVersion dtc OsUnix InstallerTypePaaS s4 = (Inr p, s')"
    and "dk' = dk\<lparr>dk_Status := (dk_Status dk)
         \<lparr>st_KubeSystemUUID := uid, st_CommunicationHostForClient := hostToStatus h,
          st_ConnectionInfo := \<lparr>cis_CommunicationHosts = map hostToStatus (ci_CommunicationHosts ci),
             cis_TenantUUID = ci_TenantUUID ci\<rparr>,
          st_LatestAgentVersionUnixDefault := v, st_LatestAgentVersionUnixPaas := p\<rparr>\<rparr>"
  using assms
  by (auto simp: SetDynakubeStatus_def communicationHostsToStatus_map dest!: bindE_InrD intro: that)

context dt_client_contract
begin

lemma SetDynakubeStatus_usable:
  assumes "SetDynakubeStatus clt cl dk s = (Inr dk', s')"
  shows "CommunicationHosts dk' \<noteq> []"
    and "h \<in> set (CommunicationHosts dk') \<Longrightarrow> ch_Protocol h = ''http'' \<or> ch_Protocol h = ''https''"
    and "ch_Protocol (CommunicationHostForClient dk') = ''http'' \<or> ch_Protocol (CommunicationHostForClient dk') = ''https''"
    and "st_LatestAgentVersionUnixDefault (dk_Status dk') \<noteq> []" and "st_LatestAgentVersionUnixPaas (dk_Status dk') \<noteq> []"
    and "dk_Spec dk' = dk_Spec dk" and "dk_Meta dk' = dk_Meta dk"
proof -
  from assms obtain uid h0 ci v p s1 s2 s3 s4 where
    run: "cl_GetCommunicationHostForClient cl s1 = (Inr h0, s2)" "cl_GetConnectionInfo cl s2 = (Inr ci, s3)"
      "cl_GetLatestAgentVersion cl OsUnix InstallerTypeDefault s3 = (Inr v, s4)"
      "cl_GetLatestAgentVersion cl OsUnix InstallerTypePaaS s4 = (Inr p, s')"
    and dk': "dk' = dk\<lparr>dk_Status := (dk_Status dk)
         \<lparr>st_KubeSystemUUID := uid, st_CommunicationHostForClient := hostToStatus h0,
          st_ConnectionInfo := \<lparr>cis_CommunicationHosts = map hostToStatus (ci_CommunicationHosts ci),
             cis_TenantUUID = ci_TenantUUID ci\<rparr>,
          st_LatestAgentVersionUnixDefault := v, st_LatestAgentVersionUnixPaas := p\<rparr>\<rparr>"
    by (rule SetDynakubeStatus_InrE)
  have hosts: "CommunicationHosts dk' = ci_CommunicationHosts ci"
    by (simp add: CommunicationHosts_def dk')
  show "CommunicationHosts dk' \<noteq> []" using connection_hosts [OF run(2)] hosts by simp
  show "h \<in> set (CommunicationHosts dk') \<Longrightarrow> ch_Protocol h = ''http'' \<or> ch_Protocol h = ''https''"
    using connection_protocol [OF run(2)] hosts by simp
  show "ch_Protocol (CommunicationHostForClient dk') = ''http'' \<or> ch_Protocol (CommunicationHostForClient dk') = ''https''"
    using client_protocol [OF run(1)] by (simp add: CommunicationHostForClient_def dk')
  show "st_LatestAgentVersionUnixDefault (dk_Status dk') \<noteq> []" "st_LatestAgentVersionUnixPaas (dk_Status dk') \<noteq> []"
    using latest_version [OF run(3)] latest_version [OF run(4)] by (simp_all add: dk')
  show "dk_Spec dk' = dk_Spec dk" "dk_Meta dk' = dk_Meta dk" by (simp_all add: dk')
qed

end

section \<open>Properties\<close>

text \<open>C30. A status that \<^verbatim>\<open>SetDynakubeStatus\<close> writes with the client of the repository is usable: it has
  a communication host, all hosts have a known protocol, both agent versions are set, and spec
  and metadata are unchanged.\<close>

theorem SetDynakubeStatus_usable_status:
  assumes "SetDynakubeStatus clt (dynatraceClient_Client env) dk s = (Inr dk', s')"
  shows "CommunicationHosts dk' \<noteq> [] \<and>
    (\<forall>h \<in> set (CommunicationHostForClient dk' # CommunicationHosts dk'). ch_Protocol h \<in> {''http'', ''https''}) \<and>
    st_LatestAgentVersionUnixDefault (dk_Status dk') \<noteq> [] \<and> st_LatestAgentVersionUnixPaas (dk_Status dk') \<noteq> [] \<and>
    dk_Spec dk' = dk_Spec dk \<and> dk_Meta dk' = dk_Meta dk"
  using dtc.SetDynakubeStatus_usable [OF assms] by auto

theorem SetDynakubeStatus_usable_status_witness:
  "\<exists>dk' s'. SetDynakubeStatus \<lparr>kGet = \<lambda>_. retE \<lparr>ns_Name = ''kube-system'', ns_Labels = None, ns_Annotations = None, ns_UID = ''u''\<rparr>,
       kList = \<lambda>_. retE [], kCreate = retE, kUpdate = retE, kDelete = \<lambda>_. retE ()\<rparr>
     (dynatraceClient_Client exampleEnv) zeroDynaKube (exampleClient, []) = (Inr dk', s') \<and> CommunicationHosts dk' \<noteq> []"
proof -
  let ?clt = "\<lparr>kGet = \<lambda>_. retE \<lparr>ns_Name = ''kube-system'', ns_Labels = None, ns_Annotations = None, ns_UID = ''u''\<rparr>,
       kList = \<lambda>_. retE [], kCreate = retE, kUpdate = retE, kDelete = \<lambda>_. retE ()\<rparr>"
  have "\<exists>dk' s'. SetDynakubeStatus ?clt (dynatraceClient_Client exampleEnv) zeroDynaKube (exampleClient, []) = (Inr dk', s')"
    by (simp add: SetDynakubeStatus_def GetUID_def kubesystem_Namespace_def dynatraceClient_Client_def withClient_def
        onWorld_def zoomE_run bindE_run GetCommunicationHostForClient_def GetConnectionInfo_def GetLatestAgentVersion_def
        readResponseForLatestVersion_def makeRequest_def exampleEnv_def exampleClient_def serverData_def
        getServerResponseData_def readResponseForConnectionInfo_def Let_def parseEndpoint_def u_Port_def
        u_Hostname_def splitHostPort_def isDigit_def parseUint_def allDigits_def decimalValue_def digitVal_def
        OsUnix_def InstallerTypeDefault_def InstallerTypePaaS_def)
  then obtain dk' s' where run: "SetDynakubeStatus ?clt (dynatraceClient_Client exampleEnv) zeroDynaKube (exampleClient, []) = (Inr dk', s')"
    by blast
  with SetDynakubeStatus_usable_status [OF run] show ?thesis by blast
qed

end
