(* ===== verification/Dt_Version.thy ===== *)
theory Dt_Version
  imports Go_Values "HOL-Library.List_Lexorder" "HOL-Library.Char_ord" "HOL-Library.Product_Lexorder"
begin

text \<open>
  Versions of the agents (\<^verbatim>\<open>src/controllers/dtversion/version_info.go\<close>): parsing of version
  strings, the three-way comparison, and the decision whether an upgrade is needed. The numbers
  of a version are Go's 64-bit \<^verbatim>\<open>int\<close>s, and the comparison subtracts them with wrap-around.

  The contract of a three-way comparison is the locale \<open>comparator\<close>; the comparison of the
  versions that \<open>ExtractVersion\<close> can return satisfies it, so it is the sign of a linear order.
\<close>

section \<open>Definitions\<close>

record VersionInfo =
  vi_major :: "64 word"
  vi_minor :: "64 word"
  vi_release :: "64 word"
  vi_timestamp :: string

definition strCompare :: "string \<Rightarrow> string \<Rightarrow> int" where
  "strCompare a b = (if a = b then 0 else if a < b then - 1 else 1)"

definition CompareVersionInfo :: "VersionInfo \<Rightarrow> VersionInfo \<Rightarrow> int" where
  "CompareVersionInfo a b =
     (if vi_major a \<noteq> vi_major b then sint (vi_major a - vi_major b)
      else if vi_minor a \<noteq> vi_minor b then sint (vi_minor a - vi_minor b)
      else if vi_release a \<noteq> vi_release b then sint (vi_release a - vi_release b)
      else strCompare (vi_timestamp a) (vi_timestamp b))"

text \<open>
  The regular expression \<^verbatim>\<open>^([\d]+)\.([\d]+)\.([\d]+)\.([\d]+\-[\d]+)$\<close>. A group of digits is
  followed by a character that is no digit, so each group is the longest run of digits.
\<close>

definition spanDigits :: "string \<Rightarrow> string \<times> string" where
  "spanDigits s = (takeWhile isDigit s, dropWhile isDigit s)"

definition numberThen :: "char \<Rightarrow> string \<Rightarrow> (string \<times> string) option" where
  "numberThen sep s =
     (case spanDigits s of
        ([], _) \<Rightarrow> None
      | (_, []) \<Rightarrow> None
      | (ds, c # rest) \<Rightarrow> if c = sep then Some (ds, rest) else None)"

definition versionRegex :: "string \<Rightarrow> (string \<times> string \<times> string \<times> string) option" where
  "versionRegex s =
     (case numberThen (CHR ''.'') s of None \<Rightarrow> None | Some (a, s1) \<Rightarrow>
      case numberThen (CHR ''.'') s1 of None \<Rightarrow> None | Some (b, s2) \<Rightarrow>
      case numberThen (CHR ''.'') s2 of None \<Rightarrow> None | Some (c, s3) \<Rightarrow>
      case numberThen (CHR ''-'') s3 of None \<Rightarrow> None | Some (d, e) \<Rightarrow>
        if allDigits e then Some (a, b, c, d @ ''-'' @ e) else None)"

definition ExtractVersion :: "string \<Rightarrow> goerr + VersionInfo" where
  "ExtractVersion versionString =
     (case versionRegex versionString of
        None \<Rightarrow> Inl (ErrMsg (''version malformed: '' @ versionString))
      | Some (v1, v2, v3, v4) \<Rightarrow>
          (case atoi v1 of Inl err \<Rightarrow> Inl err | Inr major \<Rightarrow>
           case atoi v2 of Inl err \<Rightarrow> Inl err | Inr minor \<Rightarrow>
           case atoi v3 of Inl err \<Rightarrow> Inl err | Inr release \<Rightarrow>
             Inr \<lparr>vi_major = word_of_int major, vi_minor = word_of_int minor,
                  vi_release = word_of_int release, vi_timestamp = v4\<rparr>))"

definition VersionInfo_String :: "VersionInfo \<Rightarrow> string" where
  "VersionInfo_String v =
     (let d = (\<lambda>w :: 64 word. if sint w < 0 then CHR ''-'' # itoa (nat (- sint w)) else itoa (nat (sint w)))
      in d (vi_major v) @ ''.'' @ d (vi_minor v) @ ''.'' @ d (vi_release v))"

text \<open>A version between single quotes, after a text.\<close>

definition quoted :: "string \<Rightarrow> VersionInfo \<Rightarrow> string" where
  "quoted before v = before @ [CHR 0x27] @ VersionInfo_String v @ [CHR 0x27]"

definition NeedsUpgradeRaw :: "string \<Rightarrow> string \<Rightarrow> goerr + bool" where
  "NeedsUpgradeRaw prev latest =
     (case ExtractVersion prev of
        Inl err \<Rightarrow> Inl (Wrap ''failed to parse version: '' err)
      | Inr parsedPrev \<Rightarrow>
          (case ExtractVersion latest of
             Inl err \<Rightarrow> Inl (Wrap ''failed to parse version: '' err)
           | Inr parsedCurr \<Rightarrow>
               let comp = CompareVersionInfo parsedPrev parsedCurr
               in if comp > 0
                  then Inl (ErrMsg (quoted ''trying to downgrade from '' parsedPrev @ quoted '' to '' parsedCurr))
                  else Inr (comp < 0)))"

section \<open>The contract of a three-way comparison\<close>

locale comparator =
  fixes valid :: "'a \<Rightarrow> bool"
    and cmp :: "'a \<Rightarrow> 'a \<Rightarrow> int"
  assumes cmp_eq: "valid a \<Longrightarrow> valid b \<Longrightarrow> cmp a b = 0 \<longleftrightarrow> a = b"
    and cmp_anti: "valid a \<Longrightarrow> valid b \<Longrightarrow> cmp a b > 0 \<longleftrightarrow> cmp b a < 0"
    and cmp_trans: "valid a \<Longrightarrow> valid b \<Longrightarrow> valid c \<Longrightarrow> cmp a b < 0 \<Longrightarrow> cmp b c < 0 \<Longrightarrow> cmp a c < 0"
begin

lemma cmp_refl: "valid a \<Longrightarrow> cmp a a = 0"
  by (simp add: cmp_eq)

lemma cmp_asym: "valid a \<Longrightarrow> valid b \<Longrightarrow> cmp a b < 0 \<Longrightarrow> \<not> cmp b a < 0"
  using cmp_anti [of a b] by simp

lemma cmp_total: "valid a \<Longrightarrow> valid b \<Longrightarrow> a = b \<or> cmp a b < 0 \<or> cmp b a < 0"
  using cmp_eq [of a b] cmp_anti [of a b] by linarith

lemma cmp_le_trans:
  assumes "valid a" "valid b" "valid c" and "cmp a b \<le> 0" and "cmp b c \<le> 0"
  shows "cmp a c \<le> 0"
proof (cases "cmp a b = 0 \<or> cmp b c = 0")
  case True
  with assms show ?thesis using cmp_eq [of a b] cmp_eq [of b c] by auto
next
  case False
  with assms have "cmp a b < 0" and "cmp b c < 0" by simp_all
  with assms show ?thesis using cmp_trans [of a b c] by simp
qed

text \<open>A chain in which every step goes up or stays ends at or above its start.\<close>

lemma chain_monotone:
  assumes "valid a" and "\<forall>x \<in> set xs. valid x" and "successively (\<lambda>x y. cmp x y \<le> 0) (a # xs)"
  shows "cmp a (last (a # xs)) \<le> 0"
  using assms
proof (induction xs arbitrary: a)
  case Nil
  then show ?case by (simp add: cmp_refl)
next
  case (Cons x xs)
  then have "cmp x (last (x # xs)) \<le> 0" and "cmp a x \<le> 0" by simp_all
  moreover have "valid (last (x # xs))"
    using Cons.prems(2) by (meson last_in_set list.discI)
  ultimately show ?case
    using Cons.prems(1,2) cmp_le_trans [of a x "last (x # xs)"] by simp
qed

end

section \<open>Lemmas: parsing\<close>

lemma takeWhile_digits_sep: "list_all isDigit a \<Longrightarrow> \<not> isDigit c \<Longrightarrow> takeWhile isDigit (a @ c # r) = a"
  by (simp add: takeWhile_append list_all_iff)

lemma dropWhile_digits_sep: "list_all isDigit a \<Longrightarrow> \<not> isDigit c \<Longrightarrow> dropWhile isDigit (a @ c # r) = c # r"
  by (simp add: dropWhile_append list_all_iff)

lemma numberThen_app:
  assumes "allDigits a" and "\<not> isDigit c"
  shows "numberThen c (a @ c # r) = Some (a, r)"
proof -
  have "spanDigits (a @ c # r) = (a, c # r)"
    using assms by (simp add: spanDigits_def allDigits_def takeWhile_digits_sep dropWhile_digits_sep)
  with assms(1) show ?thesis by (cases a) (simp_all add: numberThen_def allDigits_def)
qed

lemma numberThen_SomeD:
  assumes "numberThen c s = Some (a, r)"
  shows "allDigits a \<and> s = a @ c # r"
proof -
  have "takeWhile isDigit s = a" "dropWhile isDigit s = c # r" "a \<noteq> []"
    using assms by (auto simp: numberThen_def spanDigits_def split: list.splits if_splits)
  then show ?thesis
    using takeWhile_dropWhile_id [of isDigit s]
    by (auto simp: allDigits_def list_all_iff dest: set_takeWhileD)
qed

lemma versionRegex_app:
  assumes "allDigits a" "allDigits b" "allDigits c" "allDigits d" "allDigits e"
  shows "versionRegex (a @ ''.'' @ b @ ''.'' @ c @ ''.'' @ d @ ''-'' @ e) = Some (a, b, c, d @ ''-'' @ e)"
  using assms by (simp add: versionRegex_def numberThen_app isDigit_def)

lemma versionRegex_SomeD:
  assumes "versionRegex s = Some (a, b, c, t)"
  obtains d e where "allDigits a" "allDigits b" "allDigits c" "allDigits d" "allDigits e"
    and "t = d @ ''-'' @ e" and "s = a @ ''.'' @ b @ ''.'' @ c @ ''.'' @ t"
  using assms
  by (auto simp: versionRegex_def split: option.splits prod.splits if_splits dest!: numberThen_SomeD)

lemma versionRegex_form:
  "versionRegex s = None \<longleftrightarrow>
     (\<nexists>a b c d e. allDigits a \<and> allDigits b \<and> allDigits c \<and> allDigits d \<and> allDigits e \<and>
        s = a @ ''.'' @ b @ ''.'' @ c @ ''.'' @ d @ ''-'' @ e)"
proof (cases "versionRegex s")
  case None
  then show ?thesis using versionRegex_app by fastforce
next
  case (Some m)
  obtain a b c t where m: "m = (a, b, c, t)" by (rule prod_cases4)
  show ?thesis by (rule versionRegex_SomeD [OF Some [unfolded m]]) (use Some in fastforce)
qed

lemma ExtractVersion_form:
  "ExtractVersion s = Inr v \<longleftrightarrow>
     (\<exists>a b c d e. list_all allDigits [a, b, c, d, e] \<and> s = a @ ''.'' @ b @ ''.'' @ c @ ''.'' @ d @ ''-'' @ e \<and>
        list_all (\<lambda>n. decimalValue n < 2 ^ 63) [a, b, c] \<and>
        v = \<lparr>vi_major = of_nat (decimalValue a), vi_minor = of_nat (decimalValue b), vi_release = of_nat (decimalValue c),
             vi_timestamp = d @ ''-'' @ e\<rparr>)" (is "_ = ?form")
proof
  assume v: "ExtractVersion s = Inr v"
  then obtain m where m: "versionRegex s = Some m" by (cases "versionRegex s") (simp_all add: ExtractVersion_def)
  obtain a b c t where abct: "m = (a, b, c, t)" by (rule prod_cases4)
  show ?form
  proof (rule versionRegex_SomeD [OF m [unfolded abct]])
    fix d e assume ds: "allDigits a" "allDigits b" "allDigits c" "allDigits d" "allDigits e" and t: "t = d @ ''-'' @ e"
      and s: "s = a @ ''.'' @ b @ ''.'' @ c @ ''.'' @ t"
    have "decimalValue a < 2 ^ 63 \<and> decimalValue b < 2 ^ 63 \<and> decimalValue c < 2 ^ 63 \<and>
        v = \<lparr>vi_major = of_nat (decimalValue a), vi_minor = of_nat (decimalValue b), vi_release = of_nat (decimalValue c), vi_timestamp = t\<rparr>"
      using v ds m abct by (simp add: ExtractVersion_def atoi_digits split: if_splits)
    with ds s t show ?form
      by (intro exI [of _ a] exI [of _ b] exI [of _ c] exI [of _ d] exI [of _ e]) simp
  qed
next
  assume ?form
  then obtain a b c d e where f: "allDigits a" "allDigits b" "allDigits c" "allDigits d" "allDigits e"
    "s = a @ ''.'' @ b @ ''.'' @ c @ ''.'' @ d @ ''-'' @ e" "decimalValue a < 2 ^ 63" "decimalValue b < 2 ^ 63" "decimalValue c < 2 ^ 63"
    "v = \<lparr>vi_major = of_nat (decimalValue a), vi_minor = of_nat (decimalValue b), vi_release = of_nat (decimalValue c), vi_timestamp = d @ ''-'' @ e\<rparr>"
    unfolding list.pred_inject by blast
  show "ExtractVersion s = Inr v"
    unfolding f(6) ExtractVersion_def versionRegex_app [OF f(1-5)] using f(1-3,7-10) by (simp add: atoi_digits)
qed

lemma VersionInfo_String_malformed:
  "ExtractVersion (VersionInfo_String v) = Inl (ErrMsg (''version malformed: '' @ VersionInfo_String v))"
proof -
  define dots where "dots = (\<lambda>s :: string. length (filter (\<lambda>c. c = CHR ''.'') s))"
  have app: "dots (s @ t) = dots s + dots t" for s t by (simp add: dots_def)
  have digits: "dots s = 0" if "allDigits s" for s
    using that by (auto simp: dots_def allDigits_def list_all_iff isDigit_def filter_empty_conv)
  have lits: "dots ''.'' = 1" "dots ''-'' = 0" "dots [] = 0" "dots (CHR ''-'' # s) = dots s" for s by (simp_all add: dots_def)
  have "dots (VersionInfo_String v) = 2"
    unfolding VersionInfo_String_def Let_def app lits by (simp add: lits digits)
  moreover have "dots (a @ ''.'' @ b @ ''.'' @ c @ ''.'' @ d @ ''-'' @ e) = 3"
    if "allDigits a" "allDigits b" "allDigits c" "allDigits d" "allDigits e" for a b c d e
    unfolding app lits by (simp add: digits that)
  ultimately have "versionRegex (VersionInfo_String v) = None" unfolding versionRegex_form by force
  then show ?thesis by (simp add: ExtractVersion_def)
qed

section \<open>Lemmas: the comparison\<close>

text \<open>The versions \<open>ExtractVersion\<close> returns have no negative number.\<close>

definition validVersion :: "VersionInfo \<Rightarrow> bool" where
  "validVersion v \<longleftrightarrow> 0 \<le> sint (vi_major v) \<and> 0 \<le> sint (vi_minor v) \<and> 0 \<le> sint (vi_release v)"

definition versionKey :: "VersionInfo \<Rightarrow> int \<times> int \<times> int \<times> string" where
  "versionKey v = (sint (vi_major v), sint (vi_minor v), sint (vi_release v), vi_timestamp v)"

lemma word_eq_iff_sint: "v = w \<longleftrightarrow> sint v = sint w" for v w :: "64 word"
  by (rule word_eq_iff_signed)

lemma sint_diff_nonneg:
  fixes a b :: "64 word"
  assumes "0 \<le> sint a" and "0 \<le> sint b"
  shows "sint (a - b) = sint a - sint b"
proof -
  have "sint a < 2 ^ 63" and "sint b < 2 ^ 63"
    using sint_lt [of a] sint_lt [of b] by simp_all
  with assms show ?thesis
    by (simp add: sint_word_ariths signed_take_bit_int_eq_self)
qed

lemma versionKey_inj: "versionKey a = versionKey b \<longleftrightarrow> a = b"
  by (cases a; cases b) (simp add: versionKey_def word_eq_iff_sint)

lemma strCompare_sign:
  "strCompare a b < 0 \<longleftrightarrow> a < b" "strCompare a b > 0 \<longleftrightarrow> b < a" "strCompare a b = 0 \<longleftrightarrow> a = b"
  by (auto simp: strCompare_def)

lemma CompareVersionInfo_sign:
  assumes "validVersion a" and "validVersion b"
  shows "CompareVersionInfo a b < 0 \<longleftrightarrow> versionKey a < versionKey b"
    and "CompareVersionInfo a b > 0 \<longleftrightarrow> versionKey b < versionKey a"
    and "CompareVersionInfo a b = 0 \<longleftrightarrow> a = b"
proof -
  note defs = CompareVersionInfo_def versionKey_def validVersion_def
  show "CompareVersionInfo a b < 0 \<longleftrightarrow> versionKey a < versionKey b"
    and "CompareVersionInfo a b > 0 \<longleftrightarrow> versionKey b < versionKey a"
    using assms by (simp_all add: defs word_eq_iff_sint sint_diff_nonneg strCompare_sign)
      (auto simp: strCompare_sign)
  show "CompareVersionInfo a b = 0 \<longleftrightarrow> a = b"
    using assms unfolding versionKey_inj [symmetric]
    by (simp add: defs word_eq_iff_sint sint_diff_nonneg strCompare_sign)
qed

interpretation version: comparator validVersion CompareVersionInfo
  by unfold_locales (auto simp: CompareVersionInfo_sign)

lemma ExtractVersion_InrD:
  assumes "ExtractVersion s = Inr v"
  shows "validVersion v"
    and "\<exists>a b c d e. allDigits a \<and> allDigits b \<and> allDigits c \<and> allDigits d \<and> allDigits e \<and>
           s = a @ ''.'' @ b @ ''.'' @ c @ ''.'' @ d @ ''-'' @ e \<and> vi_timestamp v = d @ ''-'' @ e \<and>
           versionKey v = (int (decimalValue a), int (decimalValue b), int (decimalValue c), d @ ''-'' @ e)"
proof -
  from assms obtain a b c t where re: "versionRegex s = Some (a, b, c, t)"
    by (auto simp: ExtractVersion_def split: option.splits)
  then obtain d e where ds: "allDigits a" "allDigits b" "allDigits c" "allDigits d" "allDigits e"
    and t: "t = d @ ''-'' @ e" and s: "s = a @ ''.'' @ b @ ''.'' @ c @ ''.'' @ t"
    by (rule versionRegex_SomeD)
  have small: "sint (word_of_nat n :: 64 word) = int n" if "n < 2 ^ 63" for n
    using that by (simp add: signed_of_nat signed_take_bit_int_eq_self)
  have bounds: "decimalValue a < 2 ^ 63" "decimalValue b < 2 ^ 63" "decimalValue c < 2 ^ 63"
    and v: "v = \<lparr>vi_major = word_of_int (int (decimalValue a)), vi_minor = word_of_int (int (decimalValue b)),
                 vi_release = word_of_int (int (decimalValue c)), vi_timestamp = t\<rparr>"
    using assms ds re by (auto simp: ExtractVersion_def atoi_digits split: if_splits)
  show "validVersion v" using bounds by (simp add: v validVersion_def small)
  show "\<exists>a b c d e. allDigits a \<and> allDigits b \<and> allDigits c \<and> allDigits d \<and> allDigits e \<and>
           s = a @ ''.'' @ b @ ''.'' @ c @ ''.'' @ d @ ''-'' @ e \<and> vi_timestamp v = d @ ''-'' @ e \<and>
           versionKey v = (int (decimalValue a), int (decimalValue b), int (decimalValue c), d @ ''-'' @ e)"
    using ds s t bounds v small
    by (intro exI [of _ a] exI [of _ b] exI [of _ c] exI [of _ d] exI [of _ e]) (simp add: versionKey_def)
qed

lemma NeedsUpgradeRaw_parsed:
  assumes "ExtractVersion p = Inr a" and "ExtractVersion l = Inr b"
  shows "NeedsUpgradeRaw p l =
     (if versionKey b < versionKey a
      then Inl (ErrMsg (quoted ''trying to downgrade from '' a @ quoted '' to '' b))
      else Inr (versionKey a < versionKey b))"
  using assms ExtractVersion_InrD(1) [OF assms(1)] ExtractVersion_InrD(1) [OF assms(2)]
  by (simp add: NeedsUpgradeRaw_def Let_def CompareVersionInfo_sign)

lemma NeedsUpgradeRaw_TrueD:
  assumes "NeedsUpgradeRaw p l = Inr True"
  obtains a b where "ExtractVersion p = Inr a" and "ExtractVersion l = Inr b"
    and "CompareVersionInfo a b < 0"
  using assms by (auto simp: NeedsUpgradeRaw_def Let_def split: sum.splits if_splits)

section \<open>Properties\<close>

text \<open>C31. \<^verbatim>\<open>ExtractVersion\<close> accepts exactly the strings of three numbers below \<open>2^63\<close> and a time stamp of two groups of digits joined
  by a dash, with a dot between the four, and returns those numbers (leading zeros do not matter) and the time stamp as it is written. A string
  that does not have this form is malformed; one that has it with a larger number is rejected with another error. What \<^verbatim>\<open>String\<close> prints
  for a version has no time stamp, so it is always malformed for \<^verbatim>\<open>ExtractVersion\<close>: it is for messages only.\<close>

theorem ExtractVersion_accepts:
  "(ExtractVersion s = Inr v \<longleftrightarrow>
      (\<exists>a b c d e. list_all allDigits [a, b, c, d, e] \<and> s = a @ ''.'' @ b @ ''.'' @ c @ ''.'' @ d @ ''-'' @ e \<and>
         list_all (\<lambda>n. decimalValue n < 2 ^ 63) [a, b, c] \<and>
         v = \<lparr>vi_major = of_nat (decimalValue a), vi_minor = of_nat (decimalValue b), vi_release = of_nat (decimalValue c),
              vi_timestamp = d @ ''-'' @ e\<rparr>)) \<and>
   (ExtractVersion s = Inl (ErrMsg (''version malformed: '' @ s)) \<longleftrightarrow>
      (\<nexists>a b c d e. list_all allDigits [a, b, c, d, e] \<and> s = a @ ''.'' @ b @ ''.'' @ c @ ''.'' @ d @ ''-'' @ e)) \<and>
   ExtractVersion (VersionInfo_String u) = Inl (ErrMsg (''version malformed: '' @ VersionInfo_String u))"
proof -
  have malformed: "ExtractVersion s = Inl (ErrMsg (''version malformed: '' @ s)) \<longleftrightarrow> versionRegex s = None" for s
    by (cases "versionRegex s") (auto simp: ExtractVersion_def atoi_digits elim!: versionRegex_SomeD split: sum.splits if_splits)
  have form: "versionRegex s = None \<longleftrightarrow>
      (\<nexists>a b c d e. list_all allDigits [a, b, c, d, e] \<and> s = a @ ''.'' @ b @ ''.'' @ c @ ''.'' @ d @ ''-'' @ e)" for s
    by (auto simp: versionRegex_form)
  show ?thesis
    by (intro conjI ExtractVersion_form VersionInfo_String_malformed) (unfold malformed, rule form)
qed

text \<open>C18. On the versions that \<^verbatim>\<open>ExtractVersion\<close> accepts the sign of \<^verbatim>\<open>CompareVersionInfo\<close> is the
  lexicographic order of major, minor and release number (as numbers) and time stamp (as a
  string): the subtraction of the 64-bit numbers never overflows, and 0 means equality.\<close>

theorem CompareVersionInfo_correct:
  assumes "ExtractVersion s = Inr a" and "ExtractVersion t = Inr b"
  shows "(CompareVersionInfo a b < 0 \<longleftrightarrow> versionKey a < versionKey b) \<and>
         (CompareVersionInfo a b > 0 \<longleftrightarrow> versionKey b < versionKey a) \<and>
         (CompareVersionInfo a b = 0 \<longleftrightarrow> a = b)"
  using ExtractVersion_InrD(1) [OF assms(1)] ExtractVersion_InrD(1) [OF assms(2)]
  by (simp add: CompareVersionInfo_sign)

theorem CompareVersionInfo_correct_witness:
  "\<exists>a b. ExtractVersion ''1.9.0.1-1'' = Inr a \<and> ExtractVersion ''1.10.0.1-1'' = Inr b \<and> CompareVersionInfo a b < 0"
proof -
  let ?a = "\<lparr>vi_major = 1, vi_minor = 9, vi_release = 0, vi_timestamp = ''1-1''\<rparr>"
  let ?b = "\<lparr>vi_major = 1, vi_minor = 10, vi_release = 0, vi_timestamp = ''1-1''\<rparr>"
  have a: "ExtractVersion ''1.9.0.1-1'' = Inr ?a" and b: "ExtractVersion ''1.10.0.1-1'' = Inr ?b"
    by code_simp+
  have "versionKey ?a < versionKey ?b" by (simp add: versionKey_def)
  then show ?thesis using a b CompareVersionInfo_correct [OF a b] by blast
qed

text \<open>\<^verbatim>\<open>NeedsUpgradeRaw\<close> decides upgrades: for two parseable versions it answers true exactly when
  the second is newer, false exactly when both are the same version, and fails exactly when the
  second is older; a version that does not parse is an error.\<close>

theorem NeedsUpgradeRaw_decides:
  "((NeedsUpgradeRaw p l = Inr True) =
      (\<exists>a b. ExtractVersion p = Inr a \<and> ExtractVersion l = Inr b \<and> versionKey a < versionKey b)) \<and>
   ((NeedsUpgradeRaw p l = Inr False) = (\<exists>a. ExtractVersion p = Inr a \<and> ExtractVersion l = Inr a))"
proof -
  have parsed: "NeedsUpgradeRaw p l = Inr u \<longleftrightarrow>
      (\<exists>a b. ExtractVersion p = Inr a \<and> ExtractVersion l = Inr b \<and>
         \<not> versionKey b < versionKey a \<and> u = (versionKey a < versionKey b))" for u
  proof (cases "\<exists>a b. ExtractVersion p = Inr a \<and> ExtractVersion l = Inr b")
    case True
    then show ?thesis by (auto simp: NeedsUpgradeRaw_parsed split: if_splits)
  next
    case False
    then have "\<forall>x. NeedsUpgradeRaw p l \<noteq> Inr x"
      by (auto simp: NeedsUpgradeRaw_def split: sum.splits)
    with False show ?thesis by blast
  qed
  have "(NeedsUpgradeRaw p l = Inr True) =
      (\<exists>a b. ExtractVersion p = Inr a \<and> ExtractVersion l = Inr b \<and> versionKey a < versionKey b)"
    unfolding parsed by auto
  moreover have "(NeedsUpgradeRaw p l = Inr False) = (\<exists>a. ExtractVersion p = Inr a \<and> ExtractVersion l = Inr a)"
    unfolding parsed by (metis less_linear order_less_irrefl versionKey_inj)
  ultimately show ?thesis by blast
qed

end
