(* ===== verification/Image_Updates.thy ===== *)
theory Image_Updates
  imports Reconciliation Dt_Version
begin

text \<open>
  Updates of the agents (\<^verbatim>\<open>src/controllers/dynakube/updates/version.go\<close>) and the Docker
  configuration they need (\<^verbatim>\<open>src/controllers/dtversion/docker_config.go\<close>). The registry is
  reached through the callback \<^verbatim>\<open>VersionProviderCallback\<close>, which is a parameter in the source
  as well; the JSON decoder of the pull secret is a parameter.
\<close>

section \<open>Docker configuration\<close>

record DockerAuth =
  da_Username :: string
  da_Password :: string

record DockerConfig =
  dc_Auths :: "DockerAuth gomap option"
  dc_SkipCertCheck :: bool

definition ParseDockerAuthsFromSecret ::
  "(string \<Rightarrow> goerr + DockerAuth gomap option) \<Rightarrow> Secret option \<Rightarrow> goerr + DockerAuth gomap option" where
  "ParseDockerAuthsFromSecret unmarshal secret =
     (case secret of
        None \<Rightarrow> Inl (ErrMsg ''given secret is nil'')
      | Some sec \<Rightarrow>
          (case secretField sec ''.dockerconfigjson'' of
             None \<Rightarrow> Inl (ErrMsg ''could not find any docker config in image pull secret'')
           | Some config \<Rightarrow> unmarshal config))"

section \<open>The version of an image (docker.go)\<close>

text \<open>
  The library \<^verbatim>\<open>github.com/containers/image\<close> is the record \<open>registry_lib\<close>: parsing an image name
  (with the name of the Docker reference, where there is one), opening a source, reading its
  manifest, the digest of a manifest, inspecting the image (\<open>None\<close> for the nil results) and
  closing the source.
\<close>

record systemContext =
  sc_DockerInsecureSkipTLSVerify :: bool
  sc_DockerAuthConfig :: "DockerAuth option"

record ImageVersion =
  iv_Version :: string
  iv_Hash :: string

record ('src, 'img, 'w) registry_lib =
  rl_ParseImageName :: "string \<Rightarrow> goerr + string option"
  rl_NewImageSource :: "string \<Rightarrow> systemContext \<Rightarrow> ('w, 'src) act"
  rl_GetManifest :: "'src \<Rightarrow> ('w, string) act"
  rl_Digest :: "string \<Rightarrow> goerr + string"
  rl_FromUnparsedImage :: "systemContext \<Rightarrow> 'src \<Rightarrow> ('w, 'img option) act"
  rl_Inspect :: "'img \<Rightarrow> ('w, string gomap option) act"
  rl_Close :: "'src \<Rightarrow> 'w \<Rightarrow> 'w"

definition VersionLabel :: string where "VersionLabel = ''com.dynatrace.build-version''"

text \<open>\<^verbatim>\<open>strings.Split(name, "/")[0]\<close>.\<close>

definition registryOf :: "string \<Rightarrow> string" where
  "registryOf name = takeWhile (\<lambda>c. c \<noteq> CHR ''/'') name"

fun pickCredentials :: "DockerAuth gomap \<Rightarrow> string list \<Rightarrow> DockerAuth option \<Rightarrow> DockerAuth option" where
  "pickCredentials auths [] acc = acc"
| "pickCredentials auths (r # rs) acc =
     pickCredentials auths rs (case map_of auths r of Some creds \<Rightarrow> Some creds | None \<Rightarrow> acc)"

definition MakeSystemContext :: "string option \<Rightarrow> DockerConfig option \<Rightarrow> systemContext" where
  "MakeSystemContext dockerReference dockerConfig =
     (case (dockerReference, dockerConfig) of
        (Some name, Some cfg) \<Rightarrow>
          let registry = registryOf name;
              auths = (case dc_Auths cfg of None \<Rightarrow> [] | Some m \<Rightarrow> m)
          in \<lparr>sc_DockerInsecureSkipTLSVerify = dc_SkipCertCheck cfg,
              sc_DockerAuthConfig = pickCredentials auths [registry, ''https://'' @ registry] None\<rparr>
      | _ \<Rightarrow> \<lparr>sc_DockerInsecureSkipTLSVerify = False, sc_DockerAuthConfig = None\<rparr>)"

text \<open>The source is closed on every return after it was opened.\<close>

definition withSource :: "('src \<Rightarrow> 'w \<Rightarrow> 'w) \<Rightarrow> 'src \<Rightarrow> ('w, 'a) act \<Rightarrow> ('w, 'a) act" where
  "withSource close src m = (\<lambda>w. case m w of (r, w') \<Rightarrow> (r, close src w'))"

definition GetImageVersion ::
  "('src, 'img, 'w) registry_lib \<Rightarrow> string \<Rightarrow> DockerConfig \<Rightarrow> ('w, ImageVersion) act" where
  "GetImageVersion lib imageName dockerConfig =
     (let transportImageName = ''docker://'' @ imageName
      in bindE (liftE (rl_ParseImageName lib transportImageName)) (\<lambda>dockerReference.
         let systemContext = MakeSystemContext dockerReference (Some dockerConfig)
         in bindE (rl_NewImageSource lib transportImageName systemContext) (\<lambda>imageSource.
              withSource (rl_Close lib) imageSource (
                bindE (rl_GetManifest lib imageSource) (\<lambda>imageManifest.
                bindE (liftE (rl_Digest lib imageManifest)) (\<lambda>digest.
                bindE (rl_FromUnparsedImage lib systemContext imageSource) (\<lambda>img.
                  case img of
                    None \<Rightarrow> raiseE (ErrMsg (''could not find image: '' @ [CHR 0x27] @ transportImageName @ [CHR 0x27]))
                  | Some i \<Rightarrow>
                      bindE (rl_Inspect lib i) (\<lambda>inspected.
                        case inspected of
                          None \<Rightarrow> raiseE (ErrMsg (''could not inspect image: '' @ [CHR 0x27] @ transportImageName @ [CHR 0x27]))
                        | Some labels \<Rightarrow>
                            retE \<lparr>iv_Version = goget labels VersionLabel [], iv_Hash = digest\<rparr>))))))))"

section \<open>Version updates\<close>

definition ProbeThreshold :: duration where "ProbeThreshold = 15 * timeMinute"

type_synonym 'w VersionProviderCallback = "string \<Rightarrow> DockerConfig \<Rightarrow> ('w, ImageVersion) act"

text \<open>The image version is stored where the version differs and, unless downgrades are allowed,
  is an upgrade of the version stored before. The result is the error, the target and the world.\<close>

definition updateImageVersion ::
  "gotime \<Rightarrow> string \<Rightarrow> VersionStatus \<Rightarrow> DockerConfig \<Rightarrow> 'w VersionProviderCallback \<Rightarrow> bool \<Rightarrow> 'w
    \<Rightarrow> goerr option \<times> VersionStatus \<times> 'w" where
  "updateImageVersion now img target0 dockerCfg verProvider allowDowngrades w =
     (let target = target0\<lparr>ver_LastUpdateProbeTimestamp := Some now\<rparr>
      in case verProvider img dockerCfg w of
           (Inl err, w') \<Rightarrow> (Some (Wrap ''failed to get image version: '' err), target, w')
         | (Inr ver, w') \<Rightarrow>
             if ver_Version target = iv_Version ver then (None, target, w')
             else
               let updated = target\<lparr>ver_Version := iv_Version ver, ver_ImageHash := iv_Hash ver\<rparr>
               in if \<not> allowDowngrades \<and> ver_Version target \<noteq> []
                  then (case NeedsUpgradeRaw (ver_Version target) (iv_Version ver) of
                          Inl err \<Rightarrow> (Some err, target, w')
                        | Inr upgrade \<Rightarrow> (None, if \<not> upgrade then target else updated, w'))
                  else (None, updated, w'))"

abbreviation oneAgentVersion :: "DynaKube \<Rightarrow> VersionStatus" where
  "oneAgentVersion dk \<equiv> oast_VersionStatus (st_OneAgent (dk_Status dk))"

definition setOneAgentVersion :: "VersionStatus \<Rightarrow> DynaKube \<Rightarrow> DynaKube" where
  "setOneAgentVersion v dk =
     dk\<lparr>dk_Status := (dk_Status dk)\<lparr>st_OneAgent := (st_OneAgent (dk_Status dk))\<lparr>oast_VersionStatus := v\<rparr>\<rparr>\<rparr>"

definition setActiveGateVersion :: "VersionStatus \<Rightarrow> DynaKube \<Rightarrow> DynaKube" where
  "setActiveGateVersion v dk = dk\<lparr>dk_Status := (dk_Status dk)\<lparr>st_ActiveGate := v\<rparr>\<rparr>"

definition updateOneAgentInstallerVersion :: "gotime \<Rightarrow> DynaKube \<Rightarrow> goerr option \<times> DynaKube" where
  "updateOneAgentInstallerVersion now dk =
     (let target = (oneAgentVersion dk)\<lparr>ver_LastUpdateProbeTimestamp := Some now\<rparr>;
          dk = setOneAgentVersion target dk;
          ver = st_LatestAgentVersionUnixDefault (dk_Status dk);
          oldVer = ver_Version target;
          dk' = setOneAgentVersion (target\<lparr>ver_Version := ver\<rparr>) dk
      in if oldVer = ver then (None, dk)
         else if oldVer \<noteq> []
         then (case NeedsUpgradeRaw oldVer ver of
                 Inl err \<Rightarrow> (Some err, dk)
               | Inr upgrade \<Rightarrow> (None, if \<not> upgrade then dk else dk'))
         else (None, dk'))"

text \<open>The three conditions under which a version is looked up.\<close>

definition needsOneAgentUpdate :: "Reconciliation \<Rightarrow> bool" where
  "needsOneAgentUpdate r \<longleftrightarrow>
     (let dk = rec_Instance r
      in NeedsOneAgent dk \<and>
         IsOutdated r (ver_LastUpdateProbeTimestamp (oneAgentVersion dk)) ProbeThreshold \<and>
         ShouldAutoUpdateOneAgent dk)"

definition needsActiveGateUpdate :: "Reconciliation \<Rightarrow> bool" where
  "needsActiveGateUpdate r \<longleftrightarrow>
     (let dk = rec_Instance r
      in NeedsActiveGate dk \<and> \<not> FeatureDisableActiveGateUpdates dk \<and>
         IsOutdated r (ver_LastUpdateProbeTimestamp (st_ActiveGate (dk_Status dk))) ProbeThreshold)"

text \<open>\<^verbatim>\<open>ReconcileVersions\<close> returns its update flag also next to an error.\<close>

definition ReconcileVersions ::
  "(string \<Rightarrow> goerr + DockerAuth gomap option) \<Rightarrow> ('w, Secret) kclient \<Rightarrow> 'w VersionProviderCallback
    \<Rightarrow> Reconciliation \<times> 'w \<Rightarrow> (bool \<times> goerr option) \<times> (Reconciliation \<times> 'w)" where
  "ReconcileVersions unmarshal cl verProvider = (\<lambda>(r, w).
     let oneAgentUpdate = needsOneAgentUpdate r;
         immutable = NeedsImmutableOneAgent (rec_Instance r);
         upd = (oneAgentUpdate \<and> \<not> immutable);
         r1 = (if upd then rec_dk_update (\<lambda>dk. snd (updateOneAgentInstallerVersion (rec_Now r) dk)) r else r);
         activeGateUpdate = needsActiveGateUpdate r1;
         immutableUpdate = (immutable \<and> oneAgentUpdate)
     in if \<not> activeGateUpdate \<and> \<not> immutableUpdate then ((upd, None), (r1, w))
        else
          let dk = rec_Instance r1
          in case kGet cl (dk_Namespace dk, PullSecret dk) w of
               (Inl err, w1) \<Rightarrow> ((upd, Some (Wrap ''failed to get image pull secret: '' err)), (r1, w1))
             | (Inr ps, w1) \<Rightarrow>
                 (case ParseDockerAuthsFromSecret unmarshal (Some ps) of
                    Inl err \<Rightarrow> ((upd, Some (Wrap ''failed to get Dockerconfig for pull secret: '' err)), (r1, w1))
                  | Inr auths \<Rightarrow>
                      let dockerCfg = \<lparr>dc_Auths = auths, dc_SkipCertCheck = spec_SkipCertCheck (dk_Spec dk)\<rparr>;
                          (r2, w2) =
                            (if activeGateUpdate
                             then let (_, target, w2) =
                                    updateImageVersion (rec_Now r) (ActiveGateImage dk)
                                      (st_ActiveGate (dk_Status dk)) dockerCfg verProvider True w1
                                  in (rec_dk_update (setActiveGateVersion target) r1, w2)
                             else (r1, w1));
                          (r3, w3) =
                            (if immutableUpdate
                             then let (_, target, w3) =
                                    updateImageVersion (rec_Now r) (ImmutableOneAgentImage dk)
                                      (oneAgentVersion (rec_Instance r2)) dockerCfg verProvider False w2
                                  in (rec_dk_update (setOneAgentVersion target) r2, w3)
                             else (r2, w2))
                      in ((True, None), (r3, w3))))"

section \<open>Lemmas\<close>

lemma setOneAgentVersion_simps [simp]:
  "oneAgentVersion (setOneAgentVersion v dk) = v"
  "st_ActiveGate (dk_Status (setOneAgentVersion v dk)) = st_ActiveGate (dk_Status dk)"
  "dk_Spec (setOneAgentVersion v dk) = dk_Spec dk" "dk_Meta (setOneAgentVersion v dk) = dk_Meta dk"
  "st_LatestAgentVersionUnixDefault (dk_Status (setOneAgentVersion v dk)) = st_LatestAgentVersionUnixDefault (dk_Status dk)"
  by (simp_all add: setOneAgentVersion_def)

lemma setActiveGateVersion_simps [simp]:
  "st_ActiveGate (dk_Status (setActiveGateVersion v dk)) = v"
  "oneAgentVersion (setActiveGateVersion v dk) = oneAgentVersion dk"
  "dk_Spec (setActiveGateVersion v dk) = dk_Spec dk" "dk_Meta (setActiveGateVersion v dk) = dk_Meta dk"
  by (simp_all add: setActiveGateVersion_def)

text \<open>The conditions of an update depend on spec and metadata only, apart from the time stamps.\<close>

lemma dk_needs_cong:
  assumes "dk_Spec dk' = dk_Spec dk" and "dk_Meta dk' = dk_Meta dk"
  shows "NeedsOneAgent dk' = NeedsOneAgent dk" "NeedsActiveGate dk' = NeedsActiveGate dk"
    "NeedsImmutableOneAgent dk' = NeedsImmutableOneAgent dk"
    "ShouldAutoUpdateOneAgent dk' = ShouldAutoUpdateOneAgent dk"
    "FeatureDisableActiveGateUpdates dk' = FeatureDisableActiveGateUpdates dk"
    "PullSecret dk' = PullSecret dk" "ActiveGateImage dk' = ActiveGateImage dk"
    "ImmutableOneAgentImage dk' = ImmutableOneAgentImage dk"
  using assms by (simp_all add: NeedsOneAgent_def NeedsActiveGate_def NeedsImmutableOneAgent_def
      ShouldAutoUpdateOneAgent_def FeatureDisableActiveGateUpdates_def annotation_def PullSecret_def
      ActiveGateImage_def ImmutableOneAgentImage_def)

text \<open>\<open>upgradeOf old new\<close>: the stored version stays, is stored for the first time, or is replaced
  by a strictly newer one.\<close>

definition upgradeOf :: "string \<Rightarrow> string \<Rightarrow> bool" where
  "upgradeOf old new \<longleftrightarrow> new = old \<or> old = [] \<or> NeedsUpgradeRaw old new = Inr True"

lemma upgradeOf_refl [simp]: "upgradeOf v v"
  by (simp add: upgradeOf_def)

lemma upgradeOf_parsed:
  assumes "upgradeOf old new" and "ExtractVersion old = Inr a"
  shows "\<exists>b. ExtractVersion new = Inr b \<and> CompareVersionInfo a b \<le> 0"
proof -
  have "old \<noteq> []" using assms(2) by (auto simp: ExtractVersion_def versionRegex_def numberThen_def spanDigits_def)
  with assms consider "new = old" | "NeedsUpgradeRaw old new = Inr True" by (auto simp: upgradeOf_def)
  then show ?thesis
  proof cases
    case 1
    with assms(2) show ?thesis
      using version.cmp_refl [OF ExtractVersion_InrD(1) [OF assms(2)]] by simp
  next
    case 2
    with assms(2) show ?thesis by (elim NeedsUpgradeRaw_TrueD) force
  qed
qed

lemma updateImageVersion_frame:
  assumes "updateImageVersion now img t cfg p d w = (e, t', w')"
  shows "ver_LastUpdateProbeTimestamp t' = Some now" and "\<not> d \<Longrightarrow> upgradeOf (ver_Version t) (ver_Version t')"
  using assms by (auto simp: updateImageVersion_def Let_def upgradeOf_def
      split: prod.splits sum.splits if_splits)

lemma updateImageVersion_success:
  assumes "p img cfg w = (Inr v, w')"
  shows "updateImageVersion now img t cfg p True w =
    (None, \<lparr>ver_ImageHash = (if ver_Version t = iv_Version v then ver_ImageHash t else iv_Hash v),
            ver_Version = iv_Version v, ver_LastUpdateProbeTimestamp = Some now\<rparr>, w')"
  using assms by (simp add: updateImageVersion_def Let_def)

lemma updateOneAgentInstallerVersion_frame:
  assumes "updateOneAgentInstallerVersion now dk = (e, dk')"
  shows "ver_LastUpdateProbeTimestamp (oneAgentVersion dk') = Some now"
    and "upgradeOf (ver_Version (oneAgentVersion dk)) (ver_Version (oneAgentVersion dk'))"
    and "dk_Spec dk' = dk_Spec dk" and "dk_Meta dk' = dk_Meta dk"
    and "st_ActiveGate (dk_Status dk') = st_ActiveGate (dk_Status dk)"
  using assms by (auto simp: updateOneAgentInstallerVersion_def Let_def upgradeOf_def
      split: sum.splits if_splits)

lemma ReconcileVersions_frame:
  assumes run: "ReconcileVersions u c p (r, w) = ((upd, err), (r', w'))"
  shows "rec_Now r' = rec_Now r" and "dk_Spec (rec_Instance r') = dk_Spec (rec_Instance r)"
    and "dk_Meta (rec_Instance r') = dk_Meta (rec_Instance r)"
    and "upgradeOf (ver_Version (oneAgentVersion (rec_Instance r))) (ver_Version (oneAgentVersion (rec_Instance r')))"
    and "err = None \<Longrightarrow> ver_LastUpdateProbeTimestamp (oneAgentVersion (rec_Instance r')) =
           (if needsOneAgentUpdate r then Some (rec_Now r)
            else ver_LastUpdateProbeTimestamp (oneAgentVersion (rec_Instance r)))"
    and "err = None \<Longrightarrow> ver_LastUpdateProbeTimestamp (st_ActiveGate (dk_Status (rec_Instance r'))) =
           (if needsActiveGateUpdate r then Some (rec_Now r)
            else ver_LastUpdateProbeTimestamp (st_ActiveGate (dk_Status (rec_Instance r))))"
proof -
  define r1 where "r1 = (if needsOneAgentUpdate r \<and> \<not> NeedsImmutableOneAgent (rec_Instance r)
    then rec_dk_update (\<lambda>dk. snd (updateOneAgentInstallerVersion (rec_Now r) dk)) r else r)"
  obtain e dk1 where inst: "updateOneAgentInstallerVersion (rec_Now r) (rec_Instance r) = (e, dk1)"
    by (cases "updateOneAgentInstallerVersion (rec_Now r) (rec_Instance r)")
  note fr = updateOneAgentInstallerVersion_frame [OF inst]
  have r1: "rec_Now r1 = rec_Now r" "dk_Spec (rec_Instance r1) = dk_Spec (rec_Instance r)"
    "dk_Meta (rec_Instance r1) = dk_Meta (rec_Instance r)"
    "st_ActiveGate (dk_Status (rec_Instance r1)) = st_ActiveGate (dk_Status (rec_Instance r))"
    "upgradeOf (ver_Version (oneAgentVersion (rec_Instance r))) (ver_Version (oneAgentVersion (rec_Instance r1)))"
    "needsOneAgentUpdate r \<and> \<not> NeedsImmutableOneAgent (rec_Instance r) \<Longrightarrow>
       ver_LastUpdateProbeTimestamp (oneAgentVersion (rec_Instance r1)) = Some (rec_Now r)"
    "\<not> (needsOneAgentUpdate r \<and> \<not> NeedsImmutableOneAgent (rec_Instance r)) \<Longrightarrow> r1 = r"
    using fr by (auto simp: r1_def inst)
  have ag: "needsActiveGateUpdate r1 = needsActiveGateUpdate r"
    using r1(1,4) by (simp add: needsActiveGateUpdate_def Let_def dk_needs_cong [OF r1(2,3)] IsOutdated_def
        split: option.split)
  note unf = run [unfolded ReconcileVersions_def Let_def split_conv, folded r1_def, unfolded ag]
  show "rec_Now r' = rec_Now r" "dk_Spec (rec_Instance r') = dk_Spec (rec_Instance r)"
    "dk_Meta (rec_Instance r') = dk_Meta (rec_Instance r)"
    using unf r1(1-3) by (auto split: if_splits prod.splits sum.splits)
  show "upgradeOf (ver_Version (oneAgentVersion (rec_Instance r))) (ver_Version (oneAgentVersion (rec_Instance r')))"
    using unf r1(5,7)
    by (auto dest: updateImageVersion_frame(2) split: if_splits prod.splits sum.splits)
  show "err = None \<Longrightarrow> ver_LastUpdateProbeTimestamp (oneAgentVersion (rec_Instance r')) =
           (if needsOneAgentUpdate r then Some (rec_Now r)
            else ver_LastUpdateProbeTimestamp (oneAgentVersion (rec_Instance r)))"
    using unf r1(6,7)
    by (auto dest: updateImageVersion_frame(1) split: if_splits prod.splits sum.splits)
  show "err = None \<Longrightarrow> ver_LastUpdateProbeTimestamp (st_ActiveGate (dk_Status (rec_Instance r'))) =
           (if needsActiveGateUpdate r then Some (rec_Now r)
            else ver_LastUpdateProbeTimestamp (st_ActiveGate (dk_Status (rec_Instance r))))"
    using unf r1(4)
    by (auto dest: updateImageVersion_frame(1) split: if_splits prod.splits sum.splits)
qed

lemma ReconcileVersions_idle:
  "\<not> needsOneAgentUpdate r \<Longrightarrow> \<not> needsActiveGateUpdate r \<Longrightarrow>
     ReconcileVersions u c p (r, w) = ((False, None), (r, w))"
  by (simp add: ReconcileVersions_def Let_def)

text \<open>After a run without error nothing is outdated until the threshold has passed.\<close>

lemma not_needed_after:
  assumes run: "ReconcileVersions u c p (r, w) = ((upd, None), (r', w'))"
    and t: "t \<le> rec_Now r + ProbeThreshold"
  shows "needsOneAgentUpdate r \<or> t = rec_Now r \<Longrightarrow> \<not> needsOneAgentUpdate (r'\<lparr>rec_Now := t\<rparr>)"
    and "needsActiveGateUpdate r \<or> t = rec_Now r \<Longrightarrow> \<not> needsActiveGateUpdate (r'\<lparr>rec_Now := t\<rparr>)"
proof -
  note frame = ReconcileVersions_frame [OF run]
  note same = dk_needs_cong [OF frame(2,3)]
  show "needsOneAgentUpdate r \<or> t = rec_Now r \<Longrightarrow> \<not> needsOneAgentUpdate (r'\<lparr>rec_Now := t\<rparr>)"
    using t frame(5)
    by (auto simp: needsOneAgentUpdate_def Let_def same IsOutdated_def ProbeThreshold_def time_defs split: option.splits)
  show "needsActiveGateUpdate r \<or> t = rec_Now r \<Longrightarrow> \<not> needsActiveGateUpdate (r'\<lparr>rec_Now := t\<rparr>)"
    using t frame(6)
    by (auto simp: needsActiveGateUpdate_def Let_def same IsOutdated_def ProbeThreshold_def time_defs split: option.splits)
qed

section \<open>Histories of the stored version\<close>

text \<open>
  \<open>agentVersions\<close> relates the stored OneAgent version before and after any number of
  reconciliations with the same collaborators. Between two of them everything but the stored
  version may change: the spec, the clock, the version offered by the registry and the tenant.
\<close>

inductive agentVersions ::
  "(string \<Rightarrow> goerr + DockerAuth gomap option) \<Rightarrow> ('w, Secret) kclient \<Rightarrow> 'w VersionProviderCallback
    \<Rightarrow> string \<Rightarrow> string \<Rightarrow> bool"
  for u c p where
  start: "agentVersions u c p v v"
| step: "agentVersions u c p v0 (ver_Version (oneAgentVersion (rec_Instance r))) \<Longrightarrow>
    ReconcileVersions u c p (r, w) = (res, (r', w')) \<Longrightarrow>
    agentVersions u c p v0 (ver_Version (oneAgentVersion (rec_Instance r')))"

lemma agentVersions_parsed:
  assumes "agentVersions u c p v0 v" and "ExtractVersion v0 = Inr a"
  shows "\<exists>b. ExtractVersion v = Inr b \<and> CompareVersionInfo a b \<le> 0"
  using assms
proof (induction rule: agentVersions.induct)
  case (start v)
  then show ?case using upgradeOf_parsed [OF upgradeOf_refl] by blast
next
  case (step v0 r w res r' w')
  then obtain b where b: "ExtractVersion (ver_Version (oneAgentVersion (rec_Instance r))) = Inr b"
      and ab: "CompareVersionInfo a b \<le> 0"
    by blast
  from step.hyps(2) obtain upd err where "ReconcileVersions u c p (r, w) = ((upd, err), (r', w'))"
    by (cases res) auto
  from upgradeOf_parsed [OF ReconcileVersions_frame(4) [OF this] b] obtain d
    where d: "ExtractVersion (ver_Version (oneAgentVersion (rec_Instance r'))) = Inr d"
      and bd: "CompareVersionInfo b d \<le> 0"
    by blast
  note valid = step.prems b d
  have "CompareVersionInfo a d \<le> 0"
    using version.cmp_le_trans [OF valid [THEN ExtractVersion_InrD(1)] ab bd] .
  with d show ?case by blast
qed

section \<open>Properties\<close>

text \<open>C3. The OneAgent version in the status is never downgraded: over any sequence of
  reconciliations, whatever the registry, the tenant, the secrets and the clock answer and
  whatever else changes in the resource in between, a parseable version stays parseable and does
  not decrease in the order of versions.\<close>

theorem ReconcileVersions_no_downgrade:
  assumes "agentVersions unmarshal cl verProvider v0 v" and "ExtractVersion v0 = Inr a"
  shows "\<exists>b. ExtractVersion v = Inr b \<and> versionKey a \<le> versionKey b"
proof -
  from agentVersions_parsed [OF assms] obtain b
    where b: "ExtractVersion v = Inr b" "\<not> CompareVersionInfo a b > 0" by force
  with ExtractVersion_InrD(1) [OF assms(2)] ExtractVersion_InrD(1) [OF b(1)] show ?thesis
    by (simp add: CompareVersionInfo_sign)
qed

text \<open>The credentials for an image are those of its registry: the entry for \<^verbatim>\<open>https://registry\<close> where
  there is one, otherwise the entry for the bare name, otherwise none; and TLS verification is
  skipped exactly where the configuration says so.\<close>

theorem MakeSystemContext_credentials:
  "MakeSystemContext (Some (registry @ ''/'' @ path)) (Some \<lparr>dc_Auths = Some auths, dc_SkipCertCheck = skip\<rparr>) =
     \<lparr>sc_DockerInsecureSkipTLSVerify = skip,
      sc_DockerAuthConfig = (case map_of auths (''https://'' @ registryOf registry) of Some c \<Rightarrow> Some c
                             | None \<Rightarrow> map_of auths (registryOf registry))\<rparr>"
proof -
  have "registryOf (registry @ ''/'' @ path) = registryOf registry"
    by (induction registry) (auto simp: registryOf_def)
  then show ?thesis by (simp add: MakeSystemContext_def Let_def split: option.splits)
qed

definition exampleReconciliation :: "string \<Rightarrow> string \<Rightarrow> Reconciliation" where
  "exampleReconciliation stored latest =
     NewReconciliation 1 (zeroDynaKube
       \<lparr>dk_Spec := zeroSpec\<lparr>spec_ClassicFullStack := zeroFullStack\<lparr>fs_Enabled := True\<rparr>\<rparr>,
        dk_Status := zeroStatus
          \<lparr>st_LatestAgentVersionUnixDefault := latest,
           st_OneAgent := (st_OneAgent zeroStatus)\<lparr>oast_VersionStatus := zeroVersionStatus\<lparr>ver_Version := stored\<rparr>\<rparr>\<rparr>\<rparr>)"

theorem ReconcileVersions_no_downgrade_witness:
  "\<exists>a b. ExtractVersion ''1.2.3.4-5'' = Inr a \<and> ExtractVersion ''1.10.3.4-5'' = Inr b \<and> versionKey a \<le> versionKey b"
proof -
  let ?p = "\<lambda>img cfg w. (Inl (ErrMsg ''no registry''), w)"
  let ?r = "exampleReconciliation ''1.2.3.4-5'' ''1.10.3.4-5''"
  have a: "\<exists>a. ExtractVersion ''1.2.3.4-5'' = Inr a"
    by (rule exI, code_simp)
  have stored: "ver_Version (oneAgentVersion (rec_Instance ?r)) = ''1.2.3.4-5''"
    by (simp add: exampleReconciliation_def NewReconciliation_def)
  have up: "NeedsUpgradeRaw ''1.2.3.4-5'' ''1.10.3.4-5'' = Inr True" by code_simp
  obtain res r' w' where run: "ReconcileVersions (\<lambda>_. Inr None) (storeClient (metaKey \<circ> sec_Meta)) ?p (?r, []) = (res, (r', w'))"
      and v': "ver_Version (oneAgentVersion (rec_Instance r')) = ''1.10.3.4-5''"
    using up by (simp add: ReconcileVersions_def Let_def exampleReconciliation_def NewReconciliation_def
        needsOneAgentUpdate_def needsActiveGateUpdate_def NeedsOneAgent_def NeedsActiveGate_def
        NeedsImmutableOneAgent_def ShouldAutoUpdateOneAgent_def updateOneAgentInstallerVersion_def
        setOneAgentVersion_def zero_defs)
  have "agentVersions (\<lambda>_. Inr None) (storeClient (metaKey \<circ> sec_Meta)) ?p ''1.2.3.4-5'' ''1.10.3.4-5''"
    using agentVersions.step [OF _ run] agentVersions.start unfolding stored v' by blast
  with a show ?thesis using ReconcileVersions_no_downgrade by blast
qed

text \<open>C28. \<^verbatim>\<open>ReconcileVersions\<close> is idempotent and rate limited: repeated at the same instant after a run
  that returned no error it reports no update, sends no request and changes nothing; where the
  first run probed both agents this holds at every instant until the probe threshold of 15
  minutes has passed.\<close>

theorem ReconcileVersions_idempotent:
  assumes "ReconcileVersions unmarshal cl verProvider (r, w) = ((upd, None), (r', w'))"
    and "t = rec_Now r \<or> (needsOneAgentUpdate r \<and> needsActiveGateUpdate r \<and> t \<le> rec_Now r + ProbeThreshold)"
  shows "ReconcileVersions unmarshal cl verProvider (r'\<lparr>rec_Now := t\<rparr>, w') = ((False, None), (r'\<lparr>rec_Now := t\<rparr>, w'))"
proof -
  have "t \<le> rec_Now r + ProbeThreshold" using assms(2) by (auto simp: ProbeThreshold_def time_defs)
  note idle = not_needed_after [OF assms(1) this]
  show ?thesis by (rule ReconcileVersions_idle) (use assms(2) idle in blast)+
qed

theorem ReconcileVersions_idempotent_witness:
  "\<exists>r'. ReconcileVersions (\<lambda>_. Inr None) (storeClient (metaKey \<circ> sec_Meta)) (\<lambda>img cfg. raiseE (ErrMsg ''no registry''))
     (r', []) = ((False, None), (r', [])) \<and> ver_Version (oneAgentVersion (rec_Instance r')) = ''1.2.3.4-5''"
proof -
  let ?R = "ReconcileVersions (\<lambda>_. Inr None) (storeClient (metaKey \<circ> sec_Meta)) (\<lambda>img cfg. raiseE (ErrMsg ''no registry''))"
  let ?r = "exampleReconciliation [] ''1.2.3.4-5''"
  obtain r' where run: "?R (?r, []) = ((True, None), (r', []))" and now: "rec_Now r' = rec_Now ?r"
      and v': "ver_Version (oneAgentVersion (rec_Instance r')) = ''1.2.3.4-5''"
    by (simp add: ReconcileVersions_def Let_def exampleReconciliation_def NewReconciliation_def
        needsOneAgentUpdate_def needsActiveGateUpdate_def NeedsOneAgent_def NeedsActiveGate_def
        NeedsImmutableOneAgent_def ShouldAutoUpdateOneAgent_def updateOneAgentInstallerVersion_def
        setOneAgentVersion_def zero_defs)
  have "?R (r'\<lparr>rec_Now := rec_Now ?r\<rparr>, []) = ((False, None), (r'\<lparr>rec_Now := rec_Now ?r\<rparr>, []))"
    by (rule ReconcileVersions_idempotent [OF run]) simp
  with now v' show ?thesis by (cases r') auto
qed

end
