(* ===== verification/Node_Cache.thy ===== *)
theory Node_Cache
  imports Kube_Api
begin

text \<open>
  The cache of nodes that the nodes controller keeps in a config map
  (\<^verbatim>\<open>src/controllers/nodes/cache.go\<close>). The JSON encoder and decoder of its entries are parameters;
  that decoding inverts encoding is \<open>lawfulCodec\<close>.

  The controller relies on the cache as a finite map from node names to entries: the locale
  \<open>node_store\<close> states this contract, with the lemmas on repeated updates, and the cache is
  interpreted as one.
\<close>

section \<open>Definitions\<close>

record CacheEntry =
  ce_Instance :: string
  ce_IPAddress :: string
  ce_LastSeen :: gotime
  ce_LastMarkedForTermination :: gotime

record entry_codec =
  marshalEntry :: "CacheEntry \<Rightarrow> goerr + string"
  unmarshalEntry :: "string \<Rightarrow> goerr + CacheEntry"

record Cache =
  ca_Obj :: ConfigMap
  ca_Create :: bool
  ca_upd :: bool

text \<open>The error \<^verbatim>\<open>ErrNotFound\<close> is compared by identity, so it is told apart from all others.\<close>

datatype cacheError = ErrNotFound | DecodeError goerr

fun cacheErr :: "cacheError \<Rightarrow> goerr" where
  "cacheErr ErrNotFound = ErrMsg ''not found''"
| "cacheErr (DecodeError e) = e"

definition Cache_Get :: "entry_codec \<Rightarrow> Cache \<Rightarrow> string \<Rightarrow> cacheError + CacheEntry" where
  "Cache_Get codec c node =
     (case cm_Data (ca_Obj c) of
        None \<Rightarrow> Inl ErrNotFound
      | Some data \<Rightarrow>
          (case map_of data node of
             None \<Rightarrow> Inl ErrNotFound
           | Some raw \<Rightarrow>
               (case unmarshalEntry codec raw of Inl err \<Rightarrow> Inl (DecodeError err) | Inr out \<Rightarrow> Inr out)))"

definition Cache_Set :: "entry_codec \<Rightarrow> Cache \<Rightarrow> string \<Rightarrow> CacheEntry \<Rightarrow> goerr + Cache" where
  "Cache_Set codec c node entry =
     (case marshalEntry codec entry of
        Inl err \<Rightarrow> Inl err
      | Inr raw \<Rightarrow>
          let data = (case cm_Data (ca_Obj c) of None \<Rightarrow> [] | Some d \<Rightarrow> d)
          in Inr (c\<lparr>ca_Obj := (ca_Obj c)\<lparr>cm_Data := Some (AList.update node raw data)\<rparr>, ca_upd := True\<rparr>))"

definition Cache_Delete :: "Cache \<Rightarrow> string \<Rightarrow> Cache" where
  "Cache_Delete c node =
     (case cm_Data (ca_Obj c) of
        None \<Rightarrow> c
      | Some data \<Rightarrow>
          c\<lparr>ca_Obj := (ca_Obj c)\<lparr>cm_Data := Some (AList.delete node data)\<rparr>, ca_upd := True\<rparr>)"

definition Cache_Keys :: "Cache \<Rightarrow> string list" where
  "Cache_Keys c = (case cm_Data (ca_Obj c) of None \<Rightarrow> [] | Some data \<Rightarrow> remdups (map fst data))"

definition Cache_Changed :: "Cache \<Rightarrow> bool" where
  "Cache_Changed c \<longleftrightarrow> ca_Create c \<or> ca_upd c"

section \<open>The contract of a node store\<close>

locale node_store =
  fixes invar :: "'s \<Rightarrow> bool"
    and lookup :: "'s \<Rightarrow> string \<Rightarrow> CacheEntry option"
    and store :: "'s \<Rightarrow> string \<Rightarrow> CacheEntry \<Rightarrow> 's option"
    and remove :: "'s \<Rightarrow> string \<Rightarrow> 's"
    and names :: "'s \<Rightarrow> string list"
  assumes lookup_store: "invar s \<Longrightarrow> store s n e = Some s' \<Longrightarrow> lookup s' = (lookup s)(n \<mapsto> e)"
    and lookup_remove: "invar s \<Longrightarrow> lookup (remove s n) = (lookup s)(n := None)"
    and lookup_names: "invar s \<Longrightarrow> lookup s n \<noteq> None \<Longrightarrow> n \<in> set (names s)"
    and names_remove: "invar s \<Longrightarrow> set (names (remove s n)) = set (names s) - {n}"
    and invar_store: "invar s \<Longrightarrow> store s n e = Some s' \<Longrightarrow> invar s'"
    and invar_remove: "invar s \<Longrightarrow> invar (remove s n)"
begin

text \<open>Storing one entry keeps every other node; a stored entry is found until it is removed.\<close>

lemma lookup_store_other: "invar s \<Longrightarrow> store s n e = Some s' \<Longrightarrow> m \<noteq> n \<Longrightarrow> lookup s' m = lookup s m"
  by (simp add: lookup_store)

lemma names_store: "invar s \<Longrightarrow> store s n e = Some s' \<Longrightarrow> n \<in> set (names s')"
  by (rule lookup_names) (auto simp: lookup_store invar_store)

lemma removeAll_lookup:
  assumes "invar s"
  shows "invar (foldl remove s ns)" and "lookup (foldl remove s ns) n = (if n \<in> set ns then None else lookup s n)"
  using assms by (induction ns arbitrary: s) (auto simp: lookup_remove invar_remove)

end

section \<open>The cache is a node store\<close>

definition lawfulCodec :: "entry_codec \<Rightarrow> bool" where
  "lawfulCodec codec \<longleftrightarrow> (\<forall>e raw. marshalEntry codec e = Inr raw \<longrightarrow> unmarshalEntry codec raw = Inr e)"

definition cacheLookup :: "entry_codec \<times> Cache \<Rightarrow> string \<Rightarrow> CacheEntry option" where
  "cacheLookup = (\<lambda>(codec, c) node. case Cache_Get codec c node of Inl _ \<Rightarrow> None | Inr e \<Rightarrow> Some e)"

definition cacheStore :: "entry_codec \<times> Cache \<Rightarrow> string \<Rightarrow> CacheEntry \<Rightarrow> (entry_codec \<times> Cache) option" where
  "cacheStore = (\<lambda>(codec, c) node e. case Cache_Set codec c node e of Inl _ \<Rightarrow> None | Inr c' \<Rightarrow> Some (codec, c'))"

definition cacheRaw :: "Cache \<Rightarrow> string \<Rightarrow> string option" where
  "cacheRaw c node = (case cm_Data (ca_Obj c) of None \<Rightarrow> None | Some data \<Rightarrow> map_of data node)"

lemma Cache_Get_raw:
  "Cache_Get codec c n =
     (case cacheRaw c n of None \<Rightarrow> Inl ErrNotFound
      | Some raw \<Rightarrow> (case unmarshalEntry codec raw of Inl err \<Rightarrow> Inl (DecodeError err) | Inr out \<Rightarrow> Inr out))"
  by (simp add: Cache_Get_def cacheRaw_def split: option.splits)

lemma cacheRaw_Set:
  "Cache_Set codec c n e = Inr c' \<Longrightarrow> \<exists>raw. marshalEntry codec e = Inr raw \<and> cacheRaw c' = (cacheRaw c)(n \<mapsto> raw)"
  by (auto simp: Cache_Set_def cacheRaw_def Let_def update_conv' fun_eq_iff split: sum.splits option.splits)

lemma cacheRaw_Delete: "cacheRaw (Cache_Delete c n) = (cacheRaw c)(n := None)"
  by (auto simp: Cache_Delete_def cacheRaw_def delete_conv' fun_eq_iff split: option.splits)

lemma Cache_Keys_raw: "n \<in> set (Cache_Keys c) \<longleftrightarrow> cacheRaw c n \<noteq> None"
  by (cases "cm_Data (ca_Obj c)") (simp_all add: Cache_Keys_def cacheRaw_def map_of_eq_None_iff del: not_None_eq)

lemma Cache_Get_Set:
  assumes "lawfulCodec codec" and "Cache_Set codec c n e = Inr c'"
  shows "Cache_Get codec c' m = (if m = n then Inr e else Cache_Get codec c m)"
proof -
  obtain raw where "marshalEntry codec e = Inr raw" "cacheRaw c' = (cacheRaw c)(n \<mapsto> raw)"
    using cacheRaw_Set [OF assms(2)] by blast
  with assms(1) show ?thesis by (auto simp: Cache_Get_raw lawfulCodec_def)
qed

lemma Cache_Get_Delete: "Cache_Get codec (Cache_Delete c n) m = (if m = n then Inl ErrNotFound else Cache_Get codec c m)"
  by (simp add: Cache_Get_raw cacheRaw_Delete)

lemma Cache_Keys_iff: "n \<in> set (Cache_Keys c) \<longleftrightarrow> Cache_Get codec c n \<noteq> Inl ErrNotFound"
  by (auto simp: Cache_Keys_raw Cache_Get_raw split: option.splits sum.splits)

lemma Cache_Keys_Delete: "set (Cache_Keys (Cache_Delete c n)) = set (Cache_Keys c) - {n}"
  by (auto simp: Cache_Keys_raw cacheRaw_Delete split: if_splits)

interpretation cache: node_store "lawfulCodec \<circ> fst" cacheLookup cacheStore
  "\<lambda>(codec, c) n. (codec, Cache_Delete c n)" "Cache_Keys \<circ> snd"
proof (unfold_locales, goal_cases)
  case (1 s n e s')
  then show ?case
    by (cases s) (auto simp: cacheLookup_def cacheStore_def Cache_Get_Set fun_eq_iff split: sum.splits)
next
  case (2 s n)
  then show ?case by (cases s) (auto simp: cacheLookup_def Cache_Get_Delete fun_eq_iff split: sum.splits)
next
  case (3 s n)
  then show ?case
    by (cases s) (auto simp: cacheLookup_def Cache_Keys_iff [of n _ "fst s"] split: sum.splits)
next
  case (4 s n)
  then show ?case by (cases s) (simp add: Cache_Keys_Delete)
next
  case (5 s n e s')
  then show ?case by (cases s) (auto simp: cacheStore_def split: sum.splits)
next
  case (6 s n)
  then show ?case by (cases s) simp
qed

text \<open>A codec given by a table, for concrete runs.\<close>

definition tableCodec :: "(CacheEntry \<times> string) list \<Rightarrow> entry_codec" where
  "tableCodec table =
     \<lparr>marshalEntry = (\<lambda>e. case map_of table e of None \<Rightarrow> Inl (ErrMsg ''unsupported value'') | Some raw \<Rightarrow> Inr raw),
      unmarshalEntry = (\<lambda>raw. case List.find (\<lambda>p. snd p = raw) table of
         None \<Rightarrow> Inl (ErrMsg ''invalid character'') | Some p \<Rightarrow> Inr (fst p))\<rparr>"

lemma find_snd_distinct:
  "distinct (map snd table) \<Longrightarrow> (e, raw) \<in> set table \<Longrightarrow> List.find (\<lambda>p. snd p = raw) table = Some (e, raw)"
  by (induction table) (auto intro: rev_image_eqI)

lemma lawful_tableCodec: "distinct (map snd table) \<Longrightarrow> lawfulCodec (tableCodec table)"
  by (auto simp: lawfulCodec_def tableCodec_def find_snd_distinct dest!: map_of_SomeD split: option.splits)

end
