(* ===== verification/Nodes_Controller.thy ===== *)
theory Nodes_Controller
  imports Node_Cache Reconciliation
begin

text \<open>
  The nodes controller (\<^verbatim>\<open>src/controllers/nodes\<close>): it watches the nodes of the cluster, keeps a
  cache of the nodes with an agent, and reports to the tenant that the host of a node which is
  cordoned, tainted for deletion or gone is marked for termination.

  The handlers work on a cache (a pointer in the source: what was changed before an error stays
  changed) and on the world, so they are actions on pairs of both. The iteration order of Go maps
  is the field \<open>ne_order\<close>; every theorem holds for each order. The main loop of \<^verbatim>\<open>Start\<close> is a
  step relation, with steps of other parties in between.
\<close>

section \<open>Environment\<close>

record ('d, 'w) nodes_env =
  ne_namespace :: string
  ne_local :: bool
  ne_podNamespace :: string
  ne_podName :: string
  ne_now :: "'w \<Rightarrow> gotime \<times> 'w"
  ne_order :: "string list \<Rightarrow> string list"
  ne_codec :: entry_codec
  ne_configMaps :: "('w, ConfigMap) kclient"
  ne_dynakubes :: "('w, DynaKube) kclient"
  ne_nodes :: "('w, Node) kclient"
  ne_secrets :: "('w, Secret) kclient"
  ne_pods :: "('w, ObjectMeta) kclient"
  ne_replicaSets :: "('w, ObjectMeta) kclient"
  ne_deployments :: "('w, ObjectMeta) kclient"
  ne_setControllerReference :: "ObjectMeta \<Rightarrow> ConfigMap \<Rightarrow> goerr + ConfigMap"
  ne_dtClientFunc :: "DynaKube \<Rightarrow> Secret \<Rightarrow> ('w, 'd) act"
  ne_dtc :: "('d \<times> 'w) Client"

definition cacheName :: string where "cacheName = ''dynatrace-node-cache''"
definition unschedulableTaints :: "string list" where "unschedulableTaints = [''ToBeDeletedByClusterAutoscaler'']"

type_synonym 'w cst = "Cache \<times> 'w"

definition onApi :: "('w, 'a) act \<Rightarrow> ('w cst, 'a) act" where
  "onApi m = zoomE snd (\<lambda>w s. (fst s, w)) m"

definition readClock :: "('d, 'w) nodes_env \<Rightarrow> ('w cst, gotime) act" where
  "readClock env = (\<lambda>(c, w). case ne_now env w of (t, w') \<Rightarrow> (Inr t, (c, w')))"

definition cacheGet :: "('d, 'w) nodes_env \<Rightarrow> string \<Rightarrow> ('w cst, CacheEntry) act" where
  "cacheGet env node = (\<lambda>(c, w). case Cache_Get (ne_codec env) c node of
     Inl e \<Rightarrow> (Inl (cacheErr e), (c, w)) | Inr x \<Rightarrow> (Inr x, (c, w)))"

definition cacheSet :: "('d, 'w) nodes_env \<Rightarrow> string \<Rightarrow> CacheEntry \<Rightarrow> ('w cst, unit) act" where
  "cacheSet env node entry = (\<lambda>(c, w). case Cache_Set (ne_codec env) c node entry of
     Inl e \<Rightarrow> (Inl e, (c, w)) | Inr c' \<Rightarrow> (Inr (), (c', w)))"

section \<open>Nodes and their agents\<close>

definition hasUnschedulableTaint :: "Node \<Rightarrow> bool" where
  "hasUnschedulableTaint node \<longleftrightarrow>
     list_ex (\<lambda>taint. list_ex (\<lambda>unschedulableTaint. taint = unschedulableTaint) unschedulableTaints) (node_Taints node)"

definition isUnschedulable :: "Node \<Rightarrow> bool" where
  "isUnschedulable node \<longleftrightarrow> node_Unschedulable node \<or> hasUnschedulableTaint node"

definition instancesOf :: "DynaKube \<Rightarrow> OneAgentInstance gomap" where
  "instancesOf dk = (case oast_Instances (st_OneAgent (dk_Status dk)) of None \<Rightarrow> [] | Some m \<Rightarrow> m)"

fun filterOneAgentFromList :: "DynaKube list \<Rightarrow> string \<Rightarrow> DynaKube option" where
  "filterOneAgentFromList [] nodeName = None"
| "filterOneAgentFromList (oneAgent # rest) nodeName =
     (if map_of (instancesOf oneAgent) nodeName \<noteq> None then Some oneAgent
      else filterOneAgentFromList rest nodeName)"

definition getOneAgentList :: "('d, 'w) nodes_env \<Rightarrow> ('w, DynaKube list) act" where
  "getOneAgentList env = kList (ne_dynakubes env) (ne_podNamespace env)"

definition determineOneAgentForNode :: "('d, 'w) nodes_env \<Rightarrow> string \<Rightarrow> ('w, DynaKube option) act" where
  "determineOneAgentForNode env nodeName =
     bindE (getOneAgentList env) (\<lambda>oneAgentList. retE (filterOneAgentFromList oneAgentList nodeName))"

section \<open>Marking for termination\<close>

definition isMarkableForTermination :: "gotime \<Rightarrow> CacheEntry \<Rightarrow> bool" where
  "isMarkableForTermination now nodeInfo \<longleftrightarrow> ce_LastMarkedForTermination nodeInfo + timeHour < now"

text \<open>Milliseconds since the epoch, computed on unsigned 64-bit numbers.\<close>

definition eventMillis :: "gotime \<Rightarrow> 64 word" where
  "eventMillis lastSeen = unixNano (lastSeen - 10 * timeMinute) div 1000000"

definition terminationEvent :: "string \<Rightarrow> gotime \<Rightarrow> EventData" where
  "terminationEvent entityID lastSeen =
     \<lparr>ev_EventType = MarkedForTerminationEvent, ev_StartInMillis = eventMillis lastSeen,
      ev_EndInMillis = eventMillis lastSeen,
      ev_Description = ''Kubernetes node cordoned. Node might be drained or terminated.'',
      ev_EntityIDs = [entityID], ev_Source = ''OneAgent Operator''\<rparr>"

text \<open>A token secret that cannot be read is logged, and the empty one is used.\<close>

definition sendMarkedForTermination ::
  "('d, 'w) nodes_env \<Rightarrow> DynaKube \<Rightarrow> string \<Rightarrow> gotime \<Rightarrow> ('w, unit) act" where
  "sendMarkedForTermination env dk nodeIP lastSeen =
     bindE (catchE (kGet (ne_secrets env) (dk_Namespace dk, Tokens dk)) (\<lambda>_. retE emptySecret) retE) (\<lambda>secret.
       bindE (ne_dtClientFunc env dk secret) (\<lambda>dtc w.
         case cl_GetEntityIDForIP (ne_dtc env) nodeIP (dtc, w) of
           (Inl _, (_, w')) \<Rightarrow> (Inr (), w')
         | (Inr entityID, s) \<Rightarrow>
             (case cl_SendEvent (ne_dtc env) (Some (terminationEvent entityID lastSeen)) s of
                (r, (_, w'')) \<Rightarrow> (r, w''))))"

definition updateLastMarkedForTerminationTimestamp ::
  "('d, 'w) nodes_env \<Rightarrow> CacheEntry \<Rightarrow> string \<Rightarrow> ('w cst, unit) act" where
  "updateLastMarkedForTerminationTimestamp env nodeInfo nodeName =
     bindE (readClock env) (\<lambda>now. cacheSet env nodeName (nodeInfo\<lparr>ce_LastMarkedForTermination := now\<rparr>))"

definition markForTermination ::
  "('d, 'w) nodes_env \<Rightarrow> DynaKube \<Rightarrow> string \<Rightarrow> string \<Rightarrow> ('w cst, unit) act" where
  "markForTermination env dk ipAddress nodeName =
     bindE (cacheGet env nodeName) (\<lambda>cachedNode.
       bindE (readClock env) (\<lambda>now.
         if \<not> isMarkableForTermination now cachedNode then retE ()
         else bindE (updateLastMarkedForTerminationTimestamp env cachedNode nodeName) (\<lambda>_.
                onApi (sendMarkedForTermination env dk ipAddress (ce_LastSeen cachedNode)))))"

definition reconcileUnschedulableNode :: "('d, 'w) nodes_env \<Rightarrow> Node \<Rightarrow> ('w cst, unit) act" where
  "reconcileUnschedulableNode env node =
     bindE (onApi (determineOneAgentForNode env (node_Name node))) (\<lambda>found.
       case found of
         None \<Rightarrow> retE ()
       | Some oneAgent \<Rightarrow>
           let ip = (case map_of (instancesOf oneAgent) (node_Name node) of None \<Rightarrow> [] | Some i \<Rightarrow> oai_IPAddress i)
           in bindE (\<lambda>(c, w).
                case Cache_Get (ne_codec env) c (node_Name node) of
                  Inr _ \<Rightarrow> (Inr (), (c, w))
                | Inl ErrNotFound \<Rightarrow>
                    bindE (readClock env) (\<lambda>now. cacheSet env (node_Name node)
                      \<lparr>ce_Instance = dk_Name oneAgent, ce_IPAddress = ip, ce_LastSeen = now,
                       ce_LastMarkedForTermination = 0\<rparr>) (c, w)
                | Inl (DecodeError e) \<Rightarrow> (Inl e, (c, w)))
              (\<lambda>_. markForTermination env oneAgent ip (node_Name node)))"

section \<open>Removing and updating nodes\<close>

text \<open>\<^verbatim>\<open>oaFunc\<close> looks up the resource that is responsible for the node.\<close>

definition removeNode ::
  "('d, 'w) nodes_env \<Rightarrow> string \<Rightarrow> (string \<Rightarrow> ('w, DynaKube) act) \<Rightarrow> ('w cst, unit) act" where
  "removeNode env node oaFunc = (\<lambda>(c, w).
     case Cache_Get (ne_codec env) c node of
       Inl ErrNotFound \<Rightarrow> (Inr (), (c, w))
     | Inl (DecodeError e) \<Rightarrow> (Inl e, (c, w))
     | Inr nodeInfo \<Rightarrow>
         bindE (readClock env) (\<lambda>now.
           if timeSub now (ce_LastSeen nodeInfo) > timeHour \<or> ce_IPAddress nodeInfo = []
           then modifyE (\<lambda>(c, w). (Cache_Delete c node, w))
           else catchE (onApi (oaFunc (ce_Instance nodeInfo)))
                  (\<lambda>err. if isNotFound err then modifyE (\<lambda>(c, w). (Cache_Delete c node, w)) else raiseE err)
                  (\<lambda>oa. bindE (markForTermination env oa (ce_IPAddress nodeInfo) node)
                          (\<lambda>_. modifyE (\<lambda>(c, w). (Cache_Delete c node, w))))) (c, w))"

definition updateNode :: "('d, 'w) nodes_env \<Rightarrow> string \<Rightarrow> ('w cst, unit) act" where
  "updateNode env nodeName =
     bindE (onApi (kGet (ne_nodes env) ([], nodeName))) (\<lambda>node.
       if \<not> isUnschedulable node then retE () else reconcileUnschedulableNode env node)"

section \<open>The cache in the cluster\<close>

definition getCache :: "('d, 'w) nodes_env \<Rightarrow> ('w, Cache) act" where
  "getCache env =
     catchE (kGet (ne_configMaps env) (ne_namespace env, cacheName))
       (\<lambda>err. if isNotFound err
              then
                let cm = \<lparr>cm_Meta = emptyMeta\<lparr>om_Name := cacheName, om_Namespace := ne_namespace env\<rparr>, cm_Data = Some []\<rparr>
                in bindE (if ne_local env then retE cm
                          else bindE (GetDeployment (ne_podName env) (ne_pods env) (ne_replicaSets env)
                                        (ne_deployments env) (ne_namespace env))
                                 (\<lambda>deploy. liftE (ne_setControllerReference env deploy cm)))
                     (\<lambda>cm. retE \<lparr>ca_Obj = cm, ca_Create = True, ca_upd = False\<rparr>)
              else raiseE err)
       (\<lambda>cm. retE \<lparr>ca_Obj = cm, ca_Create = False, ca_upd = False\<rparr>)"

definition updateCache :: "('d, 'w) nodes_env \<Rightarrow> Cache \<Rightarrow> ('w, unit) act" where
  "updateCache env c =
     (if \<not> Cache_Changed c then retE ()
      else if ca_Create c then bindE (kCreate (ne_configMaps env) (ca_Obj c)) (\<lambda>_. retE ())
      else bindE (kUpdate (ne_configMaps env) (ca_Obj c)) (\<lambda>_. retE ()))"

text \<open>The frame of the handlers: read the cache, work on it, and store it unless the work failed.\<close>

definition withCache :: "('d, 'w) nodes_env \<Rightarrow> ('w cst, unit) act \<Rightarrow> ('w, unit) act" where
  "withCache env work =
     bindE (getCache env) (\<lambda>c w.
       case work (c, w) of
         (Inl err, (_, w')) \<Rightarrow> (Inl err, w')
       | (Inr _, (c', w')) \<Rightarrow> updateCache env c' w')"

section \<open>Handlers\<close>

definition onUpdate :: "('d, 'w) nodes_env \<Rightarrow> string \<Rightarrow> ('w, unit) act" where
  "onUpdate env node = withCache env (updateNode env node)"

definition onDeletion :: "('d, 'w) nodes_env \<Rightarrow> string \<Rightarrow> ('w, unit) act" where
  "onDeletion env node =
     withCache env (removeNode env node (\<lambda>oaName. kGet (ne_dynakubes env) (ne_namespace env, oaName)))"

text \<open>The three loops of \<^verbatim>\<open>reconcileAll\<close>: over the nodes of the cluster, over the instances of all
  resources, and over the cached nodes that are gone (an error there is logged).\<close>

definition markUnschedulable :: "('d, 'w) nodes_env \<Rightarrow> Node list \<Rightarrow> ('w cst, unit) act" where
  "markUnschedulable env nodes =
     foreachE nodes (\<lambda>node. if isUnschedulable node then reconcileUnschedulableNode env node else retE ())"

definition refreshNode :: "('d, 'w) nodes_env \<Rightarrow> DynaKube \<Rightarrow> string \<Rightarrow> OneAgentInstance \<Rightarrow> ('w cst, unit) act" where
  "refreshNode env oa node info =
     bindE (readClock env) (\<lambda>now (c, w).
       let marked = (case Cache_Get (ne_codec env) c node of Inl _ \<Rightarrow> 0 | Inr cached \<Rightarrow> ce_LastMarkedForTermination cached)
       in cacheSet env node \<lparr>ce_Instance = dk_Name oa, ce_IPAddress = oai_IPAddress info, ce_LastSeen = now,
                              ce_LastMarkedForTermination = marked\<rparr> (c, w))"

definition refreshInstance :: "('d, 'w) nodes_env \<Rightarrow> string list \<Rightarrow> DynaKube \<Rightarrow> string \<Rightarrow> ('w cst, unit) act" where
  "refreshInstance env nodes oa node =
     (case map_of (instancesOf oa) node of
        None \<Rightarrow> retE ()
      | Some info \<Rightarrow> if node \<notin> set nodes then retE () else refreshNode env oa node info)"

definition refreshInstances :: "('d, 'w) nodes_env \<Rightarrow> string list \<Rightarrow> DynaKube \<Rightarrow> ('w cst, unit) act" where
  "refreshInstances env nodes oa =
     foreachE (ne_order env (map fst (instancesOf oa))) (refreshInstance env nodes oa)"

definition byName :: "DynaKube list \<Rightarrow> DynaKube gomap" where
  "byName items = foldl (\<lambda>m dk. AList.update (dk_Name dk) dk m) [] items"

definition refreshNodes :: "('d, 'w) nodes_env \<Rightarrow> string list \<Rightarrow> DynaKube gomap \<Rightarrow> ('w cst, unit) act" where
  "refreshNodes env nodes oas =
     foreachE (ne_order env (map fst oas)) (\<lambda>name.
       case map_of oas name of None \<Rightarrow> retE () | Some oa \<Rightarrow> refreshInstances env nodes oa)"

definition oaFromMap :: "DynaKube gomap \<Rightarrow> string \<Rightarrow> ('w, DynaKube) act" where
  "oaFromMap oas name = (case map_of oas name of Some oa \<Rightarrow> retE oa | None \<Rightarrow> raiseE (ApiNotFound name))"

definition removeIfGone :: "('d, 'w) nodes_env \<Rightarrow> string list \<Rightarrow> DynaKube gomap \<Rightarrow> string \<Rightarrow> ('w cst, unit) act" where
  "removeIfGone env nodes oas node =
     (if node \<in> set nodes then retE ()
      else catchE (removeNode env node (oaFromMap oas)) (\<lambda>_. retE ()) retE)"

definition removeGone :: "('d, 'w) nodes_env \<Rightarrow> string list \<Rightarrow> DynaKube gomap \<Rightarrow> ('w cst, unit) act" where
  "removeGone env nodes oas = (\<lambda>s.
     foreachE (ne_order env (Cache_Keys (fst s))) (removeIfGone env nodes oas) s)"

definition reconcileAll :: "('d, 'w) nodes_env \<Rightarrow> ('w, unit) act" where
  "reconcileAll env =
     bindE (kList (ne_dynakubes env) (ne_namespace env)) (\<lambda>oaLst.
       let oas = byName oaLst
       in withCache env
            (bindE (onApi (kList (ne_nodes env) [])) (\<lambda>nodeLst.
               let nodes = map node_Name nodeLst
               in bindE (markUnschedulable env nodeLst) (\<lambda>_.
                    bindE (refreshNodes env nodes oas) (\<lambda>_.
                      removeGone env nodes oas)))))"

section \<open>The loop of Start\<close>

datatype nodesEvent = NodeDeleted string | NodeUpdated string | Tick

fun handleEvent :: "('d, 'w) nodes_env \<Rightarrow> nodesEvent \<Rightarrow> ('w, unit) act" where
  "handleEvent env (NodeDeleted node) = onDeletion env node"
| "handleEvent env (NodeUpdated node) = onUpdate env node"
| "handleEvent env Tick = reconcileAll env"

text \<open>The loop serves one event after the other and logs the errors of the handlers.\<close>

fun serveEvents :: "('d, 'w) nodes_env \<Rightarrow> nodesEvent list \<Rightarrow> 'w \<Rightarrow> 'w" where
  "serveEvents env [] w = w"
| "serveEvents env (ev # evs) w = serveEvents env evs (snd (handleEvent env ev w))"

text \<open>Between two events other parties may change the world.\<close>

inductive nodesRun :: "('d, 'w) nodes_env \<Rightarrow> ('w \<Rightarrow> 'w \<Rightarrow> bool) \<Rightarrow> 'w \<Rightarrow> nodesEvent list \<Rightarrow> 'w \<Rightarrow> bool"
  for env others where
  idle: "nodesRun env others w [] w"
| serve: "nodesRun env others w evs w' \<Longrightarrow> nodesRun env others w (evs @ [ev]) (snd (handleEvent env ev w'))"
| other: "nodesRun env others w evs w' \<Longrightarrow> others w' w'' \<Longrightarrow> nodesRun env others w evs w''"

lemma nodesRun_serveEvents: "nodesRun env others w evs (serveEvents env evs w)"
proof (induction evs rule: rev_induct)
  case Nil
  then show ?case by (simp add: nodesRun.idle)
next
  case (snoc ev evs)
  have "serveEvents env (evs @ [ev]) w = snd (handleEvent env ev (serveEvents env evs w))"
    by (induction evs arbitrary: w) simp_all
  with snoc show ?case by (simp add: nodesRun.serve)
qed

section \<open>Lemmas: effects on the cache\<close>

abbreviation entryOf :: "('d, 'w) nodes_env \<Rightarrow> Cache \<Rightarrow> string \<Rightarrow> cacheError + CacheEntry" where
  "entryOf env c n \<equiv> Cache_Get (ne_codec env) c n"

lemma onApi_run [act_simps]: "onApi m (c, w) = (case m w of (r, w') \<Rightarrow> (r, (c, w')))"
  by (simp add: onApi_def zoomE_run)

lemma readClock_run [act_simps]: "readClock env (c, w) = (Inr (fst (ne_now env w)), (c, snd (ne_now env w)))"
  by (simp add: readClock_def split: prod.splits)

lemma cacheSet_InrD: "cacheSet env n e (c, w) = (Inr u, (c', w')) \<Longrightarrow> Cache_Set (ne_codec env) c n e = Inr c' \<and> w' = w"
  by (auto simp: cacheSet_def split: sum.splits)

lemma cacheSet_effect:
  assumes "lawfulCodec (ne_codec env)" and "cacheSet env n e (c, w) = (r, (c', w'))"
  shows "w' = w" and "r = Inr u \<Longrightarrow> entryOf env c' m = (if m = n then Inr e else entryOf env c m)"
    and "r = Inl err \<Longrightarrow> c' = c"
  using assms Cache_Get_Set [OF assms(1)] by (auto simp: cacheSet_def split: sum.splits)

text \<open>Marking changes at most the time of the last mark of its own node.\<close>

lemma markForTermination_effect:
  assumes law: "lawfulCodec (ne_codec env)" and run: "markForTermination env dk ip n (c, w) = (r, (c', w'))"
  shows "m \<noteq> n \<Longrightarrow> entryOf env c' m = entryOf env c m"
    and "entryOf env c n = Inr e \<Longrightarrow> \<exists>t. entryOf env c' n = Inr (e\<lparr>ce_LastMarkedForTermination := t\<rparr>)"
proof -
  have "c' = c \<or> (\<exists>e t. entryOf env c n = Inr e \<and> Cache_Set (ne_codec env) c n (e\<lparr>ce_LastMarkedForTermination := t\<rparr>) = Inr c')"
    using run
    by (auto simp: markForTermination_def updateLastMarkedForTerminationTimestamp_def cacheGet_def cacheSet_def
        bindE_run readClock_run onApi_run split: prod.splits sum.splits if_splits)
  then show "m \<noteq> n \<Longrightarrow> entryOf env c' m = entryOf env c m"
    and "entryOf env c n = Inr e \<Longrightarrow> \<exists>t. entryOf env c' n = Inr (e\<lparr>ce_LastMarkedForTermination := t\<rparr>)"
    using Cache_Get_Set [OF law] by (auto intro: exI [of _ "ce_LastMarkedForTermination e"])
qed

text \<open>A removal touches its own node only, and when it succeeds the node is gone.\<close>

definition remainsOf :: "CacheEntry \<Rightarrow> cacheError + CacheEntry \<Rightarrow> bool" where
  "remainsOf e x \<longleftrightarrow> x = Inl ErrNotFound \<or> (\<exists>t. x = Inr (e\<lparr>ce_LastMarkedForTermination := t\<rparr>))"

lemma remainsOf_simps [simp]: "remainsOf e (Inl ErrNotFound)" "remainsOf e (Inr e)"
  by (auto simp: remainsOf_def intro: exI [of _ "ce_LastMarkedForTermination e"])

lemma removeNode_cases:
  assumes "removeNode env n oaFunc (c, w) = (r, (c', w'))"
  obtains (failed) "r \<noteq> Inr ()" and "c' = c"
    | (absent) "r = Inr ()" and "entryOf env c n = Inl ErrNotFound" and "c' = c"
    | (deleted) "r = Inr ()" and "c' = Cache_Delete c n"
    | (marked) dk ip w1 q c2 w2 where "markForTermination env dk ip n (c, w1) = (q, (c2, w2))"
        and "r = Inr () \<and> c' = Cache_Delete c2 n \<or> r \<noteq> Inr () \<and> c' = c2"
  using assms
  by (auto simp: removeNode_def bindE_run catchE_run readClock_run onApi_run
      split: prod.splits sum.splits if_splits cacheError.splits)

lemma removeNode_effect:
  assumes law: "lawfulCodec (ne_codec env)" and run: "removeNode env n oaFunc (c, w) = (r, (c', w'))"
  shows "m \<noteq> n \<Longrightarrow> entryOf env c' m = entryOf env c m" and "r = Inr u \<Longrightarrow> entryOf env c' n = Inl ErrNotFound"
    and "entryOf env c n = Inr e \<Longrightarrow> remainsOf e (entryOf env c' n)"
    and "entryOf env c n = Inl ErrNotFound \<Longrightarrow> entryOf env c' n = Inl ErrNotFound"
proof -
  note mark = markForTermination_effect [OF law]
  show "m \<noteq> n \<Longrightarrow> entryOf env c' m = entryOf env c m"
    using run by (cases rule: removeNode_cases) (auto simp: Cache_Get_Delete dest: mark(1))
  show "r = Inr u \<Longrightarrow> entryOf env c' n = Inl ErrNotFound"
    using run by (cases rule: removeNode_cases) (auto simp: Cache_Get_Delete)
  show "entryOf env c n = Inr e \<Longrightarrow> remainsOf e (entryOf env c' n)"
    using run by (cases rule: removeNode_cases) (auto simp: Cache_Get_Delete dest!: mark(2), auto simp: remainsOf_def)
  show "entryOf env c n = Inl ErrNotFound \<Longrightarrow> entryOf env c' n = Inl ErrNotFound"
    using run by (auto simp: removeNode_def)
qed

text \<open>
  A removal fails only on a failed report: the node was seen within the last hour, has an address and a resource that is
  responsible for it, and marking it for termination fails.
\<close>

definition reportFails :: "('d, 'w) nodes_env \<Rightarrow> DynaKube gomap \<Rightarrow> string \<Rightarrow> CacheEntry \<Rightarrow> 'w cst \<Rightarrow> bool" where
  "reportFails env oas n e s \<longleftrightarrow>
     (case map_of oas (ce_Instance e) of
        None \<Rightarrow> False
      | Some oa \<Rightarrow> \<not> timeSub (fst (ne_now env (snd s))) (ce_LastSeen e) > timeHour \<and> ce_IPAddress e \<noteq> [] \<and>
          isl (fst (markForTermination env oa (ce_IPAddress e) n (fst s, snd (ne_now env (snd s))))))"

lemma removeNode_fails:
  assumes "entryOf env c n = Inr e" and "removeNode env n (oaFromMap oas) (c, w) = (Inl err, s)"
  shows "reportFails env oas n e (c, w)"
  using assms
  by (auto simp: removeNode_def bindE_run catchE_run readClock_run onApi_run oaFromMap_def reportFails_def
      split: prod.splits sum.splits if_splits option.splits)

lemma removeIfGone_step:
  assumes law: "lawfulCodec (ne_codec env)" and step: "removeIfGone env nodes oas n (c, w) = (r, (c', w'))"
  shows "r = Inr ()"
    and "m \<noteq> n \<or> n \<in> set nodes \<Longrightarrow> entryOf env c' m = entryOf env c m"
    and "entryOf env c m = Inl ErrNotFound \<Longrightarrow> entryOf env c' m = Inl ErrNotFound"
    and "entryOf env c m = Inr e \<Longrightarrow> remainsOf e (entryOf env c' m)"
    and "n \<notin> set nodes \<Longrightarrow> entryOf env c n = Inr e \<Longrightarrow> entryOf env c' n \<noteq> Inl ErrNotFound \<Longrightarrow> reportFails env oas n e (c, w)"
proof -
  consider "n \<in> set nodes" "r = Inr ()" "c' = c"
    | q where "n \<notin> set nodes" "r = Inr ()" "removeNode env n (oaFromMap oas) (c, w) = (q, (c', w'))"
    using step by (auto simp: removeIfGone_def catchE_run split: if_splits prod.splits sum.splits)
  then have "r = Inr () \<and>
    (m \<noteq> n \<or> n \<in> set nodes \<longrightarrow> entryOf env c' m = entryOf env c m) \<and>
    (entryOf env c m = Inl ErrNotFound \<longrightarrow> entryOf env c' m = Inl ErrNotFound) \<and>
    (entryOf env c m = Inr e \<longrightarrow> remainsOf e (entryOf env c' m)) \<and>
    (n \<notin> set nodes \<and> entryOf env c n = Inr e \<and> entryOf env c' n \<noteq> Inl ErrNotFound \<longrightarrow> reportFails env oas n e (c, w))"
  proof cases
    case 2
    note eff = removeNode_effect [OF law 2(3)]
    have "reportFails env oas n e (c, w)" if "entryOf env c n = Inr e" "entryOf env c' n \<noteq> Inl ErrNotFound"
      using eff(2) removeNode_fails [OF that(1), of oas w] 2(3) that(2) by (cases q) auto
    then show ?thesis using 2(1,2) eff by (cases "m = n") auto
  qed simp
  then show "r = Inr ()"
    and "m \<noteq> n \<or> n \<in> set nodes \<Longrightarrow> entryOf env c' m = entryOf env c m"
    and "entryOf env c m = Inl ErrNotFound \<Longrightarrow> entryOf env c' m = Inl ErrNotFound"
    and "entryOf env c m = Inr e \<Longrightarrow> remainsOf e (entryOf env c' m)"
    and "n \<notin> set nodes \<Longrightarrow> entryOf env c n = Inr e \<Longrightarrow> entryOf env c' n \<noteq> Inl ErrNotFound \<Longrightarrow> reportFails env oas n e (c, w)"
    by blast+
qed

lemma remainsOf_trans: "remainsOf e x \<Longrightarrow> x = Inl ErrNotFound \<or> (\<exists>e'. x = Inr e' \<and> (\<forall>y. remainsOf e' y \<longrightarrow> remainsOf e y))"
  by (auto simp: remainsOf_def)

text \<open>The turn of a node in the loop over the cached nodes: the state in which it comes, and that its report fails then.\<close>

definition failsAtTurn :: "('d, 'w) nodes_env \<Rightarrow> string list \<Rightarrow> DynaKube gomap \<Rightarrow> string list \<Rightarrow> 'w cst \<Rightarrow> string \<Rightarrow> CacheEntry \<Rightarrow> bool" where
  "failsAtTurn env nodes oas xs s m e \<longleftrightarrow>
     (\<exists>earlier later s'. xs = earlier @ m # later \<and> foreachE earlier (removeIfGone env nodes oas) s = (Inr (), s') \<and> reportFails env oas m e s')"

lemma failsAtTurn_Cons:
  assumes "failsAtTurn env nodes oas xs s1 m e" and "removeIfGone env nodes oas n s = (Inr (), s1)"
  shows "failsAtTurn env nodes oas (n # xs) s m e"
proof -
  obtain earlier later s' where "xs = earlier @ m # later" "foreachE earlier (removeIfGone env nodes oas) s1 = (Inr (), s')" "reportFails env oas m e s'"
    using assms(1) unfolding failsAtTurn_def by blast
  with assms(2) show ?thesis unfolding failsAtTurn_def by (intro exI [of _ "n # earlier"] exI [of _ later] exI [of _ s']) simp
qed

lemma removeGone_loop:
  assumes law: "lawfulCodec (ne_codec env)"
  shows "\<exists>c' w'. foreachE xs (removeIfGone env nodes oas) (c, w) = (Inr (), (c', w')) \<and>
    (m \<in> set nodes \<or> m \<notin> set xs \<longrightarrow> entryOf env c' m = entryOf env c m) \<and>
    (entryOf env c m = Inl ErrNotFound \<longrightarrow> entryOf env c' m = Inl ErrNotFound) \<and>
    (\<forall>e. entryOf env c m = Inr e \<longrightarrow> remainsOf e (entryOf env c' m) \<and>
       (m \<in> set xs - set nodes \<and> entryOf env c' m \<noteq> Inl ErrNotFound \<longrightarrow> failsAtTurn env nodes oas xs (c, w) m e))"
proof (induction xs arbitrary: c w)
  case Nil
  then show ?case by simp
next
  case (Cons n xs)
  obtain r c1 w1 where run: "removeIfGone env nodes oas n (c, w) = (r, (c1, w1))" by (metis surj_pair)
  note eff = removeIfGone_step [OF law run]
  have step: "removeIfGone env nodes oas n (c, w) = (Inr (), (c1, w1))" using run eff(1) by simp
  obtain c2 w2 where rest: "foreachE xs (removeIfGone env nodes oas) (c1, w1) = (Inr (), (c2, w2))"
    and IH: "m \<in> set nodes \<or> m \<notin> set xs \<longrightarrow> entryOf env c2 m = entryOf env c1 m"
      "entryOf env c1 m = Inl ErrNotFound \<longrightarrow> entryOf env c2 m = Inl ErrNotFound"
      "\<forall>e. entryOf env c1 m = Inr e \<longrightarrow> remainsOf e (entryOf env c2 m) \<and>
         (m \<in> set xs - set nodes \<and> entryOf env c2 m \<noteq> Inl ErrNotFound \<longrightarrow> failsAtTurn env nodes oas xs (c1, w1) m e)"
    using Cons.IH [of c1 w1] by blast
  have "foreachE (n # xs) (removeIfGone env nodes oas) (c, w) = (Inr (), (c2, w2))"
    using step rest by simp
  moreover have "m \<in> set nodes \<or> m \<notin> set (n # xs) \<longrightarrow> entryOf env c2 m = entryOf env c m"
    using eff(2) [of m] IH(1) by (cases "m = n") auto
  moreover have "entryOf env c m = Inl ErrNotFound \<longrightarrow> entryOf env c2 m = Inl ErrNotFound" using eff(3) IH(2) by blast
  moreover have "remainsOf e (entryOf env c2 m) \<and>
      (m \<in> set (n # xs) - set nodes \<and> entryOf env c2 m \<noteq> Inl ErrNotFound \<longrightarrow> failsAtTurn env nodes oas (n # xs) (c, w) m e)"
    if e: "entryOf env c m = Inr e" for e
  proof
    show "remainsOf e (entryOf env c2 m)" using remainsOf_trans [OF eff(4) [OF e]] IH(2,3) by auto
    show "m \<in> set (n # xs) - set nodes \<and> entryOf env c2 m \<noteq> Inl ErrNotFound \<longrightarrow> failsAtTurn env nodes oas (n # xs) (c, w) m e"
    proof
      assume m: "m \<in> set (n # xs) - set nodes \<and> entryOf env c2 m \<noteq> Inl ErrNotFound"
      show "failsAtTurn env nodes oas (n # xs) (c, w) m e"
      proof (cases "m = n")
        case True
        with m IH(2) have "entryOf env c1 n \<noteq> Inl ErrNotFound" by auto
        with eff(5) [of e] e m True have "reportFails env oas m e (c, w)" by simp
        with True show ?thesis unfolding failsAtTurn_def by (intro exI [of _ "[]"] exI [of _ xs] exI [of _ "(c, w)"]) simp
      next
        case False
        then have "entryOf env c1 m = Inr e" using eff(2) e by simp
        with IH(3) m False show ?thesis by (intro failsAtTurn_Cons [OF _ step]) simp
      qed
    qed
  qed
  ultimately show ?case by blast
qed

section \<open>Lemmas: refreshing the instances\<close>

definition lastMarked :: "cacheError + CacheEntry \<Rightarrow> gotime" where
  "lastMarked x = (case x of Inl _ \<Rightarrow> 0 | Inr e \<Rightarrow> ce_LastMarkedForTermination e)"

text \<open>The instants that readings of the clock from a world on give.\<close>

definition tick :: "('d, 'w) nodes_env \<Rightarrow> 'w \<Rightarrow> 'w" where
  "tick env w = snd (ne_now env w)"

definition ticked :: "('d, 'w) nodes_env \<Rightarrow> 'w \<Rightarrow> 'w \<Rightarrow> bool" where
  "ticked env w w' \<longleftrightarrow> (\<exists>k. w' = (tick env ^^ k) w)"

definition readings :: "('d, 'w) nodes_env \<Rightarrow> 'w \<Rightarrow> gotime set" where
  "readings env w = {t. \<exists>w'. ticked env w w' \<and> t = fst (ne_now env w')}"

lemma ticked_refl [simp]: "ticked env w w"
  unfolding ticked_def by (intro exI [of _ 0]) simp

lemma ticked_step: "ticked env w (snd (ne_now env w))"
  unfolding ticked_def by (intro exI [of _ 1]) (simp add: tick_def)

lemma ticked_trans: "ticked env w w1 \<Longrightarrow> ticked env w1 w2 \<Longrightarrow> ticked env w w2"
  unfolding ticked_def by (metis comp_apply funpow_add)

lemma readings_mono: "ticked env w w1 \<Longrightarrow> readings env w1 \<subseteq> readings env w"
  unfolding readings_def by (auto dest: ticked_trans)

text \<open>An entry describes an instance of a resource, was seen at an instant of \<open>T\<close>, and the node's last mark is \<open>t\<close>.\<close>

definition freshEntry :: "gotime set \<Rightarrow> string list \<Rightarrow> DynaKube list \<Rightarrow> string \<Rightarrow> gotime \<Rightarrow> cacheError + CacheEntry \<Rightarrow> bool" where
  "freshEntry T nodes dks n t x \<longleftrightarrow> n \<in> set nodes \<and>
     (\<exists>e oa info. x = Inr e \<and> oa \<in> set dks \<and> map_of (instancesOf oa) n = Some info \<and>
        ce_Instance e = dk_Name oa \<and> ce_IPAddress e = oai_IPAddress info \<and> ce_LastSeen e \<in> T \<and> ce_LastMarkedForTermination e = t)"

lemma freshEntry_mono: "freshEntry T nodes dks n t x \<Longrightarrow> T \<subseteq> T' \<Longrightarrow> freshEntry T' nodes dks n t x"
  unfolding freshEntry_def by blast

lemma refreshNode_effect:
  assumes law: "lawfulCodec (ne_codec env)" and run: "refreshNode env oa n info (c, w) = (Inr u, (c', w'))"
  shows "m \<noteq> n \<Longrightarrow> entryOf env c' m = entryOf env c m" and "w' = snd (ne_now env w)"
    and "entryOf env c' n = Inr \<lparr>ce_Instance = dk_Name oa, ce_IPAddress = oai_IPAddress info, ce_LastSeen = fst (ne_now env w),
           ce_LastMarkedForTermination = lastMarked (entryOf env c n)\<rparr>"
proof -
  have "Cache_Set (ne_codec env) c n \<lparr>ce_Instance = dk_Name oa, ce_IPAddress = oai_IPAddress info,
      ce_LastSeen = fst (ne_now env w), ce_LastMarkedForTermination = lastMarked (entryOf env c n)\<rparr> = Inr c'"
    and "w' = snd (ne_now env w)"
    using run by (auto simp: refreshNode_def bindE_run readClock_run Let_def lastMarked_def dest!: cacheSet_InrD)
  then show "m \<noteq> n \<Longrightarrow> entryOf env c' m = entryOf env c m" and "w' = snd (ne_now env w)"
    and "entryOf env c' n = Inr \<lparr>ce_Instance = dk_Name oa, ce_IPAddress = oai_IPAddress info, ce_LastSeen = fst (ne_now env w),
           ce_LastMarkedForTermination = lastMarked (entryOf env c n)\<rparr>"
    using Cache_Get_Set [OF law] by auto
qed

text \<open>Both loops visit the names in some order; one step refreshes its node or does nothing.\<close>

definition refreshed :: "('d, 'w) nodes_env \<Rightarrow> string list \<Rightarrow> DynaKube list \<Rightarrow> string \<Rightarrow> 'w cst \<Rightarrow> 'w cst \<Rightarrow> bool" where
  "refreshed env nodes dks n = (\<lambda>(c, w) (c', w'). ticked env w w' \<and>
     (entryOf env c' n = entryOf env c n \<or> freshEntry (readings env w) nodes dks n (lastMarked (entryOf env c n)) (entryOf env c' n)))"

lemma lastMarked_fresh: "freshEntry T nodes dks n t x \<Longrightarrow> lastMarked x = t"
  by (auto simp: freshEntry_def lastMarked_def)

lemma refreshed_refl [simp]: "refreshed env nodes dks n s s"
  by (cases s) (simp add: refreshed_def)

lemma refreshed_trans:
  assumes "refreshed env nodes dks n s s1" and "refreshed env nodes dks n s1 s2"
  shows "refreshed env nodes dks n s s2"
proof -
  obtain c w c1 w1 c2 w2 where s: "s = (c, w)" "s1 = (c1, w1)" "s2 = (c2, w2)" by (metis surj_pair)
  have t: "ticked env w w1" "ticked env w1 w2" using assms by (simp_all add: refreshed_def s)
  have same: "lastMarked (entryOf env c1 n) = lastMarked (entryOf env c n)"
    using assms(1) by (auto simp: refreshed_def s dest: lastMarked_fresh)
  have "entryOf env c2 n = entryOf env c1 n \<or> freshEntry (readings env w) nodes dks n (lastMarked (entryOf env c1 n)) (entryOf env c2 n)"
    using assms(2) freshEntry_mono [OF _ readings_mono [OF t(1)]] by (auto simp: refreshed_def s)
  then show ?thesis using assms(1) same ticked_trans [OF t] by (auto simp: refreshed_def s)
qed

lemma refreshed_keeps_fresh:
  assumes "freshEntry T nodes dks n t (entryOf env c1 n)" and "refreshed env nodes dks n (c1, w1) (c2, w2)" and "readings env w1 \<subseteq> T"
  shows "freshEntry T nodes dks n t (entryOf env c2 n)"
  using assms by (auto simp: refreshed_def dest: lastMarked_fresh intro: freshEntry_mono)

text \<open>A loop whose every step refreshes at most, and that visits a step which does refresh \<open>n\<close>.\<close>

lemma foreachE_refreshed:
  assumes "\<And>x c w c' w' u. x \<in> set xs \<Longrightarrow> f x (c, w) = (Inr u, (c', w')) \<Longrightarrow> refreshed env nodes dks n (c, w) (c', w')"
    and "foreachE xs f (c, w) = (Inr u, (c', w'))"
  shows "refreshed env nodes dks n (c, w) (c', w')"
  using assms
proof (induction xs arbitrary: c w)
  case (Cons x xs)
  then obtain c1 w1 where "f x (c, w) = (Inr (), (c1, w1))" "foreachE xs f (c1, w1) = (Inr u, (c', w'))"
    by (auto simp: bindE_run split: prod.splits sum.splits)
  with Cons show ?case by (meson list.set_intros refreshed_trans)
qed simp

lemma foreachE_fresh:
  assumes steps: "\<And>x c w c' w' u. x \<in> set xs \<Longrightarrow> f x (c, w) = (Inr u, (c', w')) \<Longrightarrow> refreshed env nodes dks n (c, w) (c', w')"
    and visit: "y \<in> set xs" and fresh: "\<And>c w c' w' u. f y (c, w) = (Inr u, (c', w')) \<Longrightarrow>
      freshEntry (readings env w) nodes dks n (lastMarked (entryOf env c n)) (entryOf env c' n)"
    and run: "foreachE xs f (c, w) = (Inr u, (c', w'))"
  shows "freshEntry (readings env w) nodes dks n (lastMarked (entryOf env c n)) (entryOf env c' n)"
proof -
  obtain as bs where xs: "xs = as @ y # bs" using visit by (auto simp: in_set_conv_decomp)
  with run obtain c1 w1 c2 w2 where "foreachE as f (c, w) = (Inr (), (c1, w1))" "f y (c1, w1) = (Inr (), (c2, w2))"
      "foreachE bs f (c2, w2) = (Inr u, (c', w'))"
    by (auto simp: foreachE_append bindE_run split: prod.splits sum.splits)
  note runs = this
  have 1: "refreshed env nodes dks n (c, w) (c1, w1)" by (rule foreachE_refreshed [OF _ runs(1)]) (auto intro: steps simp: xs)
  have 2: "freshEntry (readings env w1) nodes dks n (lastMarked (entryOf env c1 n)) (entryOf env c2 n)" by (rule fresh [OF runs(2)])
  have 3: "refreshed env nodes dks n (c2, w2) (c', w')" by (rule foreachE_refreshed [OF _ runs(3)]) (auto intro: steps simp: xs)
  have step: "refreshed env nodes dks n (c1, w1) (c2, w2)" by (rule steps [OF _ runs(2)]) (simp add: xs)
  have sub: "readings env w1 \<subseteq> readings env w" "readings env w2 \<subseteq> readings env w"
    using 1 step by (auto simp: refreshed_def dest: readings_mono)
  have "lastMarked (entryOf env c1 n) = lastMarked (entryOf env c n)" using 1 by (auto simp: refreshed_def dest: lastMarked_fresh)
  with 2 sub(1) have "freshEntry (readings env w) nodes dks n (lastMarked (entryOf env c n)) (entryOf env c2 n)"
    by (auto intro: freshEntry_mono)
  from refreshed_keeps_fresh [OF this 3 sub(2)] show ?thesis .
qed

lemma refreshInstance_cases:
  assumes "refreshInstance env nodes oa x (c, w) = (Inr u, (c', w'))"
  obtains (skipped) "c' = c" and "w' = w" and "x \<notin> set nodes \<or> map_of (instancesOf oa) x = None"
    | (stored) info where "x \<in> set nodes" and "map_of (instancesOf oa) x = Some info" and "refreshNode env oa x info (c, w) = (Inr u, (c', w'))"
  using assms by (auto simp: refreshInstance_def split: option.splits if_splits)

lemma refreshNode_fresh:
  assumes "lawfulCodec (ne_codec env)" and "oa \<in> set dks" and "x \<in> set nodes" and "map_of (instancesOf oa) x = Some info"
    and "refreshNode env oa x info (c, w) = (Inr u, (c', w'))"
  shows "freshEntry (readings env w) nodes dks x (lastMarked (entryOf env c x)) (entryOf env c' x)"
proof -
  have "fst (ne_now env w) \<in> readings env w" by (auto simp: readings_def intro!: exI [of _ w])
  then show ?thesis
    unfolding freshEntry_def refreshNode_effect(3) [OF assms(1,5)]
    by (intro conjI exI [of _ oa] exI [of _ info] exI) (use assms(2-4) in auto)
qed

lemma refreshInstance_refreshed:
  assumes "lawfulCodec (ne_codec env)" and "oa \<in> set dks"
    and "refreshInstance env nodes oa x (c, w) = (Inr u, (c', w'))"
  shows "refreshed env nodes dks n (c, w) (c', w')"
  using assms(3)
proof (cases rule: refreshInstance_cases)
  case skipped
  then show ?thesis by simp
next
  case (stored info)
  have "ticked env w w'" using refreshNode_effect(2) [OF assms(1) stored(3)] ticked_step [of env w] by simp
  then show ?thesis
    using refreshNode_fresh [OF assms(1,2) stored] refreshNode_effect(1) [OF assms(1) stored(3)]
    by (cases "n = x") (simp_all add: refreshed_def)
qed

lemma refreshInstances_refreshed:
  assumes "lawfulCodec (ne_codec env)" and "oa \<in> set dks"
    and "refreshInstances env nodes oa (c, w) = (Inr u, (c', w'))"
  shows "refreshed env nodes dks n (c, w) (c', w')"
  by (rule foreachE_refreshed [OF _ assms(3) [unfolded refreshInstances_def]])
    (rule refreshInstance_refreshed [OF assms(1,2)])

lemma refreshInstances_fresh:
  assumes law: "lawfulCodec (ne_codec env)" and oa: "oa \<in> set dks" and order: "\<And>xs. set (ne_order env xs) = set xs"
    and n: "n \<in> set nodes" and info: "map_of (instancesOf oa) n = Some info"
    and run: "refreshInstances env nodes oa (c, w) = (Inr u, (c', w'))"
  shows "freshEntry (readings env w) nodes dks n (lastMarked (entryOf env c n)) (entryOf env c' n)"
proof (rule foreachE_fresh [OF _ _ _ run [unfolded refreshInstances_def]])
  show "n \<in> set (ne_order env (map fst (instancesOf oa)))"
    using info by (auto simp: order dest: map_of_SomeD intro: rev_image_eqI)
  show "refreshInstance env nodes oa x (c, w) = (Inr u, (c', w')) \<Longrightarrow> refreshed env nodes dks n (c, w) (c', w')" for x c w u c' w'
    by (rule refreshInstance_refreshed [OF law oa])
  show "freshEntry (readings env w) nodes dks n (lastMarked (entryOf env c n)) (entryOf env c' n)"
    if "refreshInstance env nodes oa n (c, w) = (Inr u, (c', w'))" for c w u c' w'
    using that refreshNode_fresh [OF law oa]
    by (cases rule: refreshInstance_cases) (use n info in auto)
qed

lemma byName_ran: "map_of (byName dks) name = Some oa \<Longrightarrow> oa \<in> set dks"
proof (induction dks rule: rev_induct)
  case (snoc dk dks)
  then show ?case by (auto simp: byName_def update_conv' split: if_splits)
qed (simp add: byName_def)

lemma byName_name: "map_of (byName dks) name = Some oa \<Longrightarrow> dk_Name oa = name"
proof (induction dks rule: rev_induct)
  case (snoc dk dks)
  then show ?case by (auto simp: byName_def update_conv' split: if_splits)
qed (simp add: byName_def)

lemma byName_distinct: "distinct (map dk_Name dks) \<Longrightarrow> oa \<in> set dks \<Longrightarrow> map_of (byName dks) (dk_Name oa) = Some oa"
proof (induction dks rule: rev_induct)
  case (snoc dk dks)
  show ?case
  proof (cases "oa = dk")
    case False
    with snoc.prems have oa: "oa \<in> set dks" and "dk_Name dk \<notin> dk_Name ` set dks" by simp_all
    then have "dk_Name oa \<noteq> dk_Name dk" by (metis imageI)
    with snoc.IH oa snoc.prems(1) show ?thesis by (simp add: byName_def update_conv')
  qed (simp add: byName_def update_conv')
qed simp

lemma refreshNodes_fresh:
  assumes law: "lawfulCodec (ne_codec env)" and order: "\<And>xs. set (ne_order env xs) = set xs"
    and names: "distinct (map dk_Name dks)"
    and run: "refreshNodes env nodes (byName dks) (c, w) = (Inr u, (c', w'))"
  shows "refreshed env nodes dks n (c, w) (c', w')"
    and "n \<in> set nodes \<Longrightarrow> oa \<in> set dks \<Longrightarrow> map_of (instancesOf oa) n = Some info \<Longrightarrow>
           freshEntry (readings env w) nodes dks n (lastMarked (entryOf env c n)) (entryOf env c' n)"
proof -
  let ?body = "\<lambda>name. case map_of (byName dks) name of None \<Rightarrow> retE () | Some oa \<Rightarrow> refreshInstances env nodes oa"
  have step: "refreshed env nodes dks n (c, w) (c', w')" if "?body x (c, w) = (Inr u, (c', w'))" for x c w u c' w'
    using that by (auto dest: byName_ran intro: refreshInstances_refreshed [OF law]
        split: option.splits)
  note loop = run [unfolded refreshNodes_def]
  show "refreshed env nodes dks n (c, w) (c', w')" by (rule foreachE_refreshed [OF _ loop]) (rule step)
  assume n: "n \<in> set nodes" and oa: "oa \<in> set dks" and info: "map_of (instancesOf oa) n = Some info"
  have found: "map_of (byName dks) (dk_Name oa) = Some oa" by (rule byName_distinct [OF names oa])
  show "freshEntry (readings env w) nodes dks n (lastMarked (entryOf env c n)) (entryOf env c' n)"
  proof (rule foreachE_fresh [OF step _ _ loop])
    show "dk_Name oa \<in> set (ne_order env (map fst (byName dks)))"
      using found by (auto simp: order dest: map_of_SomeD intro: rev_image_eqI)
    show "freshEntry (readings env w) nodes dks n (lastMarked (entryOf env c n)) (entryOf env c' n)"
      if "?body (dk_Name oa) (c, w) = (Inr u, (c', w'))" for c w u c' w'
      using that found refreshInstances_fresh [OF law oa order n info] by auto
  qed
qed


section \<open>Lemmas: marking\<close>



section \<open>A concrete run\<close>

text \<open>
  The world of the examples is the time and the list of events the tenant accepted; it refuses
  events before the time 10000000000000. The cluster has one resource with one instance.
\<close>

definition exampleDynaKube :: DynaKube where
  "exampleDynaKube = zeroDynaKube\<lparr>dk_Meta := emptyMeta\<lparr>om_Name := ''dk'', om_Namespace := ''ns''\<rparr>,
     dk_Status := zeroStatus\<lparr>st_OneAgent := (st_OneAgent zeroStatus)\<lparr>oast_Instances :=
       Some [(''n1'', \<lparr>oai_PodName = ''p'', oai_IPAddress = ''10.0.0.1''\<rparr>)]\<rparr>\<rparr>\<rparr>"

definition exampleEntry :: "gotime \<Rightarrow> gotime \<Rightarrow> CacheEntry" where
  "exampleEntry seen marked = \<lparr>ce_Instance = ''dk'', ce_IPAddress = ''10.0.0.1'', ce_LastSeen = seen,
     ce_LastMarkedForTermination = marked\<rparr>"

definition exampleNodesEnv :: "(unit, gotime \<times> EventData list) nodes_env" where
  "exampleNodesEnv =
     \<lparr>ne_namespace = ''ns'', ne_local = True, ne_podNamespace = ''ns'', ne_podName = ''op'',
      ne_now = (\<lambda>w. (fst w, w)), ne_order = id,
      ne_codec = tableCodec [(exampleEntry 5000000000000 0, ''a''), (exampleEntry 5000000000000 5000000000000, ''b''), (exampleEntry 0 0, ''c'')],
      ne_configMaps = downClient, ne_dynakubes = downClient, ne_nodes = downClient, ne_secrets = downClient,
      ne_pods = downClient, ne_replicaSets = downClient, ne_deployments = downClient,
      ne_setControllerReference = (\<lambda>_ cm. Inr cm), ne_dtClientFunc = (\<lambda>_ _. retE ()),
      ne_dtc =
        \<lparr>cl_GetLatestAgentVersion = (\<lambda>_ _. raiseE (ErrMsg ''offline'')),
         cl_GetLatestAgent = (\<lambda>_ _ _ _. raiseE (ErrMsg ''offline'')),
         cl_GetConnectionInfo = raiseE (ErrMsg ''offline''),
         cl_GetCommunicationHostForClient = raiseE (ErrMsg ''offline''),
         cl_SendEvent = (\<lambda>ev (d, (t, evs)). case ev of None \<Rightarrow> (Inl (ErrMsg ''no data''), (d, (t, evs)))
            | Some x \<Rightarrow> if t < 10000000000000 then (Inl (ServerError 503 ''''), (d, (t, evs)))
                       else (Inr (), (d, (t, evs @ [x])))),
         cl_GetEntityIDForIP = (\<lambda>_. retE ''HOST-1''),
         cl_GetTokenScopes = (\<lambda>_. raiseE (ErrMsg ''offline'')),
         cl_GetTenantInfo = raiseE (ErrMsg ''offline'')\<rparr>\<rparr>"

definition exampleCache :: "string gomap \<Rightarrow> bool \<Rightarrow> Cache" where
  "exampleCache data upd = \<lparr>ca_Obj = \<lparr>cm_Meta = emptyMeta, cm_Data = Some data\<rparr>, ca_Create = False, ca_upd = upd\<rparr>"

lemmas example_node_defs = exampleNodesEnv_def exampleCache_def exampleEntry_def tableCodec_def Cache_Get_def

lemma lawful_exampleNodesEnv: "lawfulCodec (ne_codec exampleNodesEnv)"
  by (simp add: exampleNodesEnv_def lawful_tableCodec)

section \<open>Properties\<close>

text \<open>C7. The loops of \<^verbatim>\<open>reconcileAll\<close> bring the cache up to date. Given that they return no error, for
  every order in which Go visits its maps: a node of the cluster with an agent has an entry with
  the name of a resource that lists it, the address of the instance there, a reading of the clock during the loops as the time it
  was last seen, and the time of its last mark as before; every other node of the cluster is untouched; and a cached node
  that is gone is forgotten, unless it was seen within the last hour, has an address and a resource, and its report for termination failed
  when its turn came, in which case its entry stays up to the time of the last mark.\<close>

theorem reconcileAll_updates_cache:
  assumes law: "lawfulCodec (ne_codec env)" and order: "\<And>xs. set (ne_order env xs) = set xs"
    and names: "distinct (map dk_Name dks)"
    and refresh: "refreshNodes env nodes (byName dks) (c, w) = (Inr (), (c1, w1))"
    and gone: "removeGone env nodes (byName dks) (c1, w1) = (Inr u, (c', w'))"
  shows "(n \<in> set nodes \<and> (\<exists>oa \<in> set dks. map_of (instancesOf oa) n \<noteq> None) \<longrightarrow>
            freshEntry (readings env w) nodes dks n (lastMarked (entryOf env c n)) (entryOf env c' n)) \<and>
         (n \<in> set nodes \<and> \<not> (\<exists>oa \<in> set dks. map_of (instancesOf oa) n \<noteq> None) \<longrightarrow> entryOf env c' n = entryOf env c n) \<and>
         (n \<notin> set nodes \<longrightarrow> (\<forall>e. entryOf env c n = Inr e \<longrightarrow>
            entryOf env c' n = Inl ErrNotFound \<or>
            (\<exists>t. entryOf env c' n = Inr (e\<lparr>ce_LastMarkedForTermination := t\<rparr>)) \<and>
            failsAtTurn env nodes (byName dks) (ne_order env (Cache_Keys c1)) (c1, w1) n e))"
proof -
  note fresh = refreshNodes_fresh [OF law order names refresh]
  obtain c2 w2 where loop: "removeGone env nodes (byName dks) (c1, w1) = (Inr (), (c2, w2))"
    and eff: "n \<in> set nodes \<or> n \<notin> set (Cache_Keys c1) \<longrightarrow> entryOf env c2 n = entryOf env c1 n"
      "\<forall>e. entryOf env c1 n = Inr e \<longrightarrow> remainsOf e (entryOf env c2 n) \<and>
         (n \<in> set (Cache_Keys c1) - set nodes \<and> entryOf env c2 n \<noteq> Inl ErrNotFound \<longrightarrow>
            failsAtTurn env nodes (byName dks) (ne_order env (Cache_Keys c1)) (c1, w1) n e)"
    using removeGone_loop [OF law, of "ne_order env (Cache_Keys c1)" nodes "byName dks" c1 w1 n]
    unfolding removeGone_def fst_conv order by blast
  have c': "c' = c2" using loop gone by simp
  have "entryOf env c1 n = entryOf env c n"
    if "n \<notin> set nodes \<or> \<not> (\<exists>oa \<in> set dks. map_of (instancesOf oa) n \<noteq> None)"
    using fresh(1) [of n] that by (auto simp: refreshed_def freshEntry_def)
  moreover have "n \<in> set (Cache_Keys c1)" if "entryOf env c1 n = Inr e" for e
    using that by (simp add: Cache_Keys_iff [of n c1 "ne_codec env"])
  ultimately show ?thesis
    unfolding c' using fresh(2) eff by (auto simp: remainsOf_def)
qed

text \<open>A node that was renamed: the new one is entered, the old one was seen long ago and is forgotten.\<close>

theorem reconcileAll_updates_cache_witness:
  "\<exists>c1 w1 c' w'. refreshNodes exampleNodesEnv [''n1''] (byName [exampleDynaKube]) (exampleCache [(''n0'', ''c'')] False, (5000000000000, [])) = (Inr (), (c1, w1)) \<and>
     removeGone exampleNodesEnv [''n1''] (byName [exampleDynaKube]) (c1, w1) = (Inr (), (c', w')) \<and>
     freshEntry {5000000000000} [''n1''] [exampleDynaKube] ''n1'' 0 (entryOf exampleNodesEnv c' ''n1'') \<and>
     entryOf exampleNodesEnv c' ''n0'' = Inl ErrNotFound"
proof -
  let ?c = "exampleCache [(''n0'', ''c'')] False" and ?w = "(5000000000000, []) :: gotime \<times> EventData list" and ?oas = "byName [exampleDynaKube]"
  define c1 where "c1 = exampleCache [(''n0'', ''c''), (''n1'', ''a'')] True"
  have refresh: "refreshNodes exampleNodesEnv [''n1''] ?oas (?c, ?w) = (Inr (), (c1, ?w))"
    by (simp add: refreshNodes_def refreshInstances_def refreshInstance_def refreshNode_def c1_def
        byName_def exampleDynaKube_def zero_defs instancesOf_def example_node_defs bindE_run readClock_def
        cacheSet_def Cache_Set_def Cache_Keys_def)
  obtain c' w' where gone: "removeGone exampleNodesEnv [''n1''] ?oas (c1, ?w) = (Inr (), (c', w'))"
    using removeGone_loop [OF lawful_exampleNodesEnv, of "ne_order exampleNodesEnv (Cache_Keys c1)" "[''n1'']" ?oas c1 ?w]
    unfolding removeGone_def fst_conv by blast
  have order: "set (ne_order exampleNodesEnv xs) = set xs" for xs by (simp add: exampleNodesEnv_def)
  note result = reconcileAll_updates_cache [OF lawful_exampleNodesEnv order _ refresh gone]
  have n1: "lastMarked (entryOf exampleNodesEnv ?c ''n1'') = 0" "map_of (instancesOf exampleDynaKube) ''n1'' \<noteq> None"
    by (simp_all add: example_node_defs lastMarked_def exampleDynaKube_def instancesOf_def)
  have "tick exampleNodesEnv w = w" for w by (cases w) (simp add: tick_def exampleNodesEnv_def)
  then have "(tick exampleNodesEnv ^^ k) w = w" for k w by (induction k) simp_all
  then have "readings exampleNodesEnv ?w = {5000000000000}"
    by (auto simp: readings_def ticked_def exampleNodesEnv_def)
  with result [of "''n1''"] n1 have fresh: "freshEntry {5000000000000} [''n1''] [exampleDynaKube] ''n1'' 0 (entryOf exampleNodesEnv c' ''n1'')"
    by simp
  have e: "entryOf exampleNodesEnv ?c ''n0'' = Inr (exampleEntry 0 0)" by (simp add: example_node_defs)
  have keys: "ne_order exampleNodesEnv (Cache_Keys c1) = [''n0'', ''n1'']" by (simp add: c1_def exampleCache_def Cache_Keys_def exampleNodesEnv_def)
  have "\<not> reportFails exampleNodesEnv ?oas ''n0'' (exampleEntry 0 0) (c1, ?w)"
    by (simp add: reportFails_def timeSub_def time_defs exampleEntry_def exampleNodesEnv_def split: option.split)
  then have "\<not> failsAtTurn exampleNodesEnv [''n1''] ?oas (ne_order exampleNodesEnv (Cache_Keys c1)) (c1, ?w) ''n0'' (exampleEntry 0 0)"
    unfolding failsAtTurn_def keys by (auto simp: Cons_eq_append_conv)
  with result [of "''n0''"] e have "entryOf exampleNodesEnv c' ''n0'' = Inl ErrNotFound" by auto
  with refresh gone fresh show ?thesis by blast
qed









text \<open>A report can be lost: for a node that is gone while the tenant is unavailable, the removal
  fails and only the mark is kept, so that within the hour the next removal deletes the node from
  the cache without any event having been sent, although the tenant is available again.\<close>

theorem removeNode_loses_report:
  "\<exists>c1 c2. removeNode exampleNodesEnv ''n1'' (oaFromMap (byName [exampleDynaKube]))
          (exampleCache [(''n1'', ''a'')] False, (5000000000000, [])) = (Inl (ServerError 503 ''''), (c1, (5000000000000, []))) \<and>
        removeNode exampleNodesEnv ''n1'' (oaFromMap (byName [exampleDynaKube])) (c1, (8500000000000, []))
          = (Inr (), (c2, (8500000000000, []))) \<and> Cache_Keys c2 = []"
  by (simp add: removeNode_def example_node_defs bindE_run catchE_run readClock_def onApi_def zoomE_run oaFromMap_def
      byName_def exampleDynaKube_def zero_defs timeSub_def time_defs markForTermination_def
      updateLastMarkedForTerminationTimestamp_def cacheGet_def cacheSet_def Cache_Set_def isMarkableForTermination_def
      sendMarkedForTermination_def downClient_def terminationEvent_def Cache_Delete_def Cache_Keys_def)

text \<open>The time stamps of the event are exact: for a node seen between ten minutes after the Unix epoch
  and the last instant of a 64-bit number of nanoseconds they are the milliseconds since the epoch,
  rounded down, of the instant ten minutes before; nothing wraps around.\<close>

theorem eventMillis_exact:
  assumes "unixToInternal * timeSecond + 10 * timeMinute \<le> lastSeen"
    and "lastSeen < unixToInternal * timeSecond + 2 ^ 63"
  shows "uint (eventMillis lastSeen) = (lastSeen - 10 * timeMinute - unixToInternal * timeSecond) div 1000000"
proof -
  let ?n = "lastSeen - 10 * timeMinute - unixToInternal * timeSecond"
  have exact: "uint (word_of_int k :: 64 word) = k" if "0 \<le> k" and "k < 2 ^ 64" for k
    using that by (simp add: take_bit_int_eq_self unsigned_of_int)
  have "uint (word_of_int ?n :: 64 word) = ?n" by (rule exact) (use assms in \<open>simp_all add: time_defs\<close>)
  then show ?thesis by (simp only: eventMillis_def unixNano_def uint_div_distrib) simp
qed

theorem eventMillis_exact_witness:
  "uint (eventMillis (timeUnix 1600000600)) = 1600000000000"
  using eventMillis_exact [of "timeUnix 1600000600"] by (simp add: timeUnix_def unixToInternal_def time_defs)

end
