(* ===== verification/Node_Watchers.thy ===== *)
theory Node_Watchers
  imports Nodes_Controller
begin

text \<open>
  The watchers that feed the loop of the nodes controller (\<^verbatim>\<open>src/controllers/nodes/watchers.go\<close>, \<open>Start\<close> of
  \<^verbatim>\<open>nodes_controller.go\<close>): buffered channels between the informer, a ticker and the loop. A sender that finds its
  channel full waits, so its step is not possible. The objects of the informer are given by what
  \<^verbatim>\<open>meta.Accessor\<close> makes of them.
\<close>

section \<open>Channels\<close>

definition chanSend :: "nat \<Rightarrow> 'a list \<Rightarrow> 'a \<Rightarrow> 'a list option" where
  "chanSend capacity ch x = (if length ch < capacity then Some (ch @ [x]) else None)"

fun chanRecv :: "'a list \<Rightarrow> ('a \<times> 'a list) option" where
  "chanRecv [] = None"
| "chanRecv (x # ch) = Some (x, ch)"

text \<open>What the users of a channel rely on: nothing is lost, doubled or reordered, and the buffer is bounded.\<close>

locale fifo =
  fixes send :: "'c \<Rightarrow> 'a \<Rightarrow> 'c option" and recv :: "'c \<Rightarrow> ('a \<times> 'c) option"
    and contents :: "'c \<Rightarrow> 'a list" and capacity :: nat
  assumes send_contents: "send ch x = Some ch' \<Longrightarrow> contents ch' = contents ch @ [x] \<and> length (contents ch') \<le> capacity"
    and recv_contents: "recv ch = Some (x, ch') \<Longrightarrow> contents ch = x # contents ch'"
begin

definition history :: "'a list \<Rightarrow> 'a list \<Rightarrow> 'c \<Rightarrow> bool" where
  "history sent received ch \<longleftrightarrow> sent = received @ contents ch \<and> length (contents ch) \<le> capacity"

lemma history_send: "history sent received ch \<Longrightarrow> send ch x = Some ch' \<Longrightarrow> history (sent @ [x]) received ch'"
  by (auto simp: history_def dest: send_contents)

lemma history_recv: "history sent received ch \<Longrightarrow> recv ch = Some (x, ch') \<Longrightarrow> history sent (received @ [x]) ch'"
  by (auto simp: history_def dest: recv_contents)

end

interpretation buffered: fifo "chanSend capacity" chanRecv "\<lambda>ch. ch" capacity for capacity
  by unfold_locales (auto simp: chanSend_def elim: chanRecv.elims split: if_splits)

section \<open>The watchers\<close>

record 'w watched =
  wd_DelCapacity :: nat
  wd_UpdateCapacity :: nat
  wd_Dels :: "string list"
  wd_Updates :: "string list"
  wd_Ticks :: "unit list"
  wd_World :: 'w

text \<open>
  A watcher whose informer is not available gives no channel: the loop makes one without a buffer
  that nobody sends to.
\<close>

definition watchDeletions :: "goerr + unit \<Rightarrow> goerr + nat" where
  "watchDeletions informer = (case informer of Inl err \<Rightarrow> Inl err | Inr _ \<Rightarrow> Inr 20)"

definition watchUpdates :: "goerr + unit \<Rightarrow> goerr + nat" where
  "watchUpdates informer = (case informer of Inl err \<Rightarrow> Inl err | Inr _ \<Rightarrow> Inr 20)"

text \<open>The first tick is there from the start.\<close>

definition watchTicks :: "unit list" where "watchTicks = [()]"

definition startWatching :: "goerr + unit \<Rightarrow> goerr + unit \<Rightarrow> 'w \<Rightarrow> 'w watched" where
  "startWatching informer informer' w =
     \<lparr>wd_DelCapacity = (case watchDeletions informer of Inl err \<Rightarrow> 0 | Inr n \<Rightarrow> n),
      wd_UpdateCapacity = (case watchUpdates informer' of Inl err \<Rightarrow> 0 | Inr n \<Rightarrow> n),
      wd_Dels = [], wd_Updates = [], wd_Ticks = watchTicks, wd_World = w\<rparr>"

datatype informerEvent = Deleted "goerr + string" | Updated "goerr + string" | TickerFired

text \<open>The callbacks; an object without metadata is only logged.\<close>

definition deleteFunc :: "goerr + string \<Rightarrow> 'w watched \<Rightarrow> 'w watched option" where
  "deleteFunc obj s =
     (case obj of Inl err \<Rightarrow> Some s
      | Inr name \<Rightarrow> map_option (\<lambda>ch. s\<lparr>wd_Dels := ch\<rparr>) (chanSend (wd_DelCapacity s) (wd_Dels s) name))"

definition handleUpdate :: "goerr + string \<Rightarrow> 'w watched \<Rightarrow> 'w watched option" where
  "handleUpdate newObj s =
     (case newObj of Inl err \<Rightarrow> Some s
      | Inr name \<Rightarrow> map_option (\<lambda>ch. s\<lparr>wd_Updates := ch\<rparr>) (chanSend (wd_UpdateCapacity s) (wd_Updates s) name))"

definition tickerFired :: "'w watched \<Rightarrow> 'w watched option" where
  "tickerFired s = map_option (\<lambda>ch. s\<lparr>wd_Ticks := ch\<rparr>) (chanSend 1 (wd_Ticks s) ())"

fun deliver :: "informerEvent \<Rightarrow> 'w watched \<Rightarrow> 'w watched option" where
  "deliver (Deleted obj) s = deleteFunc obj s"
| "deliver (Updated obj) s = handleUpdate obj s"
| "deliver TickerFired s = tickerFired s"

text \<open>\<^verbatim>\<open>select\<close> takes from a channel that has something.\<close>

datatype source = FromDeletions | FromUpdates | FromTicks

fun selectFrom :: "source \<Rightarrow> 'w watched \<Rightarrow> (nodesEvent \<times> 'w watched) option" where
  "selectFrom FromDeletions s = map_option (\<lambda>(node, ch). (NodeDeleted node, s\<lparr>wd_Dels := ch\<rparr>)) (chanRecv (wd_Dels s))"
| "selectFrom FromUpdates s = map_option (\<lambda>(node, ch). (NodeUpdated node, s\<lparr>wd_Updates := ch\<rparr>)) (chanRecv (wd_Updates s))"
| "selectFrom FromTicks s = map_option (\<lambda>(u, ch). (Tick, s\<lparr>wd_Ticks := ch\<rparr>)) (chanRecv (wd_Ticks s))"

definition serveSelected :: "('d, 'w) nodes_env \<Rightarrow> nodesEvent \<Rightarrow> 'w watched \<Rightarrow> 'w watched" where
  "serveSelected env ev s = s\<lparr>wd_World := snd (handleEvent env ev (wd_World s))\<rparr>"

text \<open>
  The informer and the ticker, the loop and other parties interleave: a run from the state \<open>s\<close> with what was delivered and
  what was served.
\<close>

inductive watchRun ::
  "('d, 'w) nodes_env \<Rightarrow> ('w \<Rightarrow> 'w \<Rightarrow> bool) \<Rightarrow> 'w watched \<Rightarrow> informerEvent list \<Rightarrow> nodesEvent list \<Rightarrow> 'w watched \<Rightarrow> bool"
  for env others s where
  started: "watchRun env others s [] [] s"
| delivered: "watchRun env others s seen evs s' \<Longrightarrow> deliver msg s' = Some s'' \<Longrightarrow> watchRun env others s (seen @ [msg]) evs s''"
| served: "watchRun env others s seen evs s' \<Longrightarrow> selectFrom src s' = Some (ev, s'') \<Longrightarrow>
    watchRun env others s seen (evs @ [ev]) (serveSelected env ev s'')"
| disturbed: "watchRun env others s seen evs s' \<Longrightarrow> others (wd_World s') w \<Longrightarrow> watchRun env others s seen evs (s'\<lparr>wd_World := w\<rparr>)"

section \<open>Lemmas\<close>

text \<open>The names that were delivered, and those that were served.\<close>

definition deletedNotes :: "informerEvent list \<Rightarrow> string list" where
  "deletedNotes seen = concat (map (\<lambda>msg. case msg of Deleted (Inr n) \<Rightarrow> [n] | _ \<Rightarrow> []) seen)"

definition updatedNotes :: "informerEvent list \<Rightarrow> string list" where
  "updatedNotes seen = concat (map (\<lambda>msg. case msg of Updated (Inr n) \<Rightarrow> [n] | _ \<Rightarrow> []) seen)"

definition ticksSent :: "informerEvent list \<Rightarrow> unit list" where
  "ticksSent seen = () # concat (map (\<lambda>msg. case msg of TickerFired \<Rightarrow> [()] | _ \<Rightarrow> []) seen)"

definition deletions :: "nodesEvent list \<Rightarrow> string list" where
  "deletions evs = concat (map (\<lambda>ev. case ev of NodeDeleted n \<Rightarrow> [n] | _ \<Rightarrow> []) evs)"

definition updates :: "nodesEvent list \<Rightarrow> string list" where
  "updates evs = concat (map (\<lambda>ev. case ev of NodeUpdated n \<Rightarrow> [n] | _ \<Rightarrow> []) evs)"

definition ticksServed :: "nodesEvent list \<Rightarrow> unit list" where
  "ticksServed evs = concat (map (\<lambda>ev. case ev of Tick \<Rightarrow> [()] | _ \<Rightarrow> []) evs)"

lemmas watched_names = deletedNotes_def updatedNotes_def ticksSent_def deletions_def updates_def ticksServed_def

text \<open>The invariant of the three channels.\<close>

definition channelsInv :: "informerEvent list \<Rightarrow> nodesEvent list \<Rightarrow> 'w watched \<Rightarrow> bool" where
  "channelsInv seen evs s \<longleftrightarrow>
     buffered.history (wd_DelCapacity s) (deletedNotes seen) (deletions evs) (wd_Dels s) \<and>
     buffered.history (wd_UpdateCapacity s) (updatedNotes seen) (updates evs) (wd_Updates s) \<and>
     buffered.history 1 (ticksSent seen) (ticksServed evs) (wd_Ticks s)"

lemma channelsInv_start: "channelsInv [] [] (startWatching i i' w)"
  by (simp add: channelsInv_def buffered.history_def watched_names startWatching_def watchTicks_def)

lemma channelsInv_deliver:
  assumes "channelsInv seen evs s" and "deliver msg s = Some s'"
  shows "channelsInv (seen @ [msg]) evs s'"
  using assms
  by (cases msg) (auto simp: channelsInv_def deleteFunc_def handleUpdate_def tickerFired_def watched_names
      split: sum.splits dest: buffered.history_send)

lemma channelsInv_select:
  assumes "channelsInv seen evs s" and "selectFrom src s = Some (ev, s')"
  shows "channelsInv seen (evs @ [ev]) s'"
  using assms by (cases src) (auto simp: channelsInv_def watched_names dest: buffered.history_recv)

text \<open>A run of the watchers is a run of the loop, whatever the channels do.\<close>

lemma watchRun_effect:
  assumes "watchRun env others s seen evs s'" and "s = startWatching i i' w"
  shows "nodesRun env others w evs (wd_World s') \<and> channelsInv seen evs s' \<and>
    wd_DelCapacity s' = wd_DelCapacity s \<and> wd_UpdateCapacity s' = wd_UpdateCapacity s"
  using assms
proof (induction rule: watchRun.induct)
  case started
  then show ?case using channelsInv_start [of i i' w] by (simp add: nodesRun.idle startWatching_def)
next
  case (delivered seen evs s' msg s'')
  have "wd_World s'' = wd_World s' \<and> wd_DelCapacity s'' = wd_DelCapacity s' \<and> wd_UpdateCapacity s'' = wd_UpdateCapacity s'"
    using delivered.hyps(2) by (cases msg) (auto simp: deleteFunc_def handleUpdate_def tickerFired_def split: sum.splits)
  with delivered channelsInv_deliver show ?case by fastforce
next
  case (served seen evs s' src ev s'')
  have same: "wd_World s'' = wd_World s' \<and> wd_DelCapacity s'' = wd_DelCapacity s' \<and> wd_UpdateCapacity s'' = wd_UpdateCapacity s'"
    using served.hyps(2) by (cases src) auto
  have "channelsInv seen evs s'" using served by blast
  from channelsInv_select [OF this served.hyps(2)] have "channelsInv seen (evs @ [ev]) (serveSelected env ev s'')"
    by (simp add: channelsInv_def serveSelected_def)
  with served same show ?case by (auto simp: serveSelected_def intro: nodesRun.serve)
next
  case (disturbed seen evs s' w')
  then show ?case by (auto simp: channelsInv_def intro: nodesRun.other)
qed

section \<open>Properties\<close>

text \<open>C13. The watchers lose nothing: however the informer, the ticker, the loop and other parties interleave, the deletions served are those that
  the informer delivered, in the same order and without repetition, up to at most twenty that wait; so are the updates, and the ticks up to
  one; and what the loop has done to the world is a run of its handlers on the events that it was given.\<close>

theorem watchers_lose_nothing:
  assumes "watchRun env others (startWatching informer informer' w) seen evs s"
  shows "nodesRun env others w evs (wd_World s) \<and>
    deletedNotes seen = deletions evs @ wd_Dels s \<and> length (wd_Dels s) \<le> 20 \<and>
    updatedNotes seen = updates evs @ wd_Updates s \<and> length (wd_Updates s) \<le> 20 \<and>
    ticksSent seen = ticksServed evs @ wd_Ticks s \<and> length (wd_Ticks s) \<le> 1"
proof -
  have "wd_DelCapacity (startWatching informer informer' w) \<le> 20" "wd_UpdateCapacity (startWatching informer informer' w) \<le> 20"
    by (simp_all add: startWatching_def watchDeletions_def watchUpdates_def split: sum.splits)
  with watchRun_effect [OF assms refl] show ?thesis by (auto simp: channelsInv_def buffered.history_def)
qed

theorem watchers_lose_nothing_witness:
  "\<exists>s. watchRun exampleNodesEnv (\<lambda>w w'. False) (startWatching (Inr ()) (Inl (ErrMsg ''not ready'')) (0, []))
       [Deleted (Inr ''n1''), Deleted (Inl (ErrMsg ''missing Meta''))] [NodeDeleted ''n1''] s \<and>
     wd_Dels s = [] \<and> wd_Ticks s = [()] \<and> nodesRun exampleNodesEnv (\<lambda>w w'. False) (0, []) [NodeDeleted ''n1''] (wd_World s)"
proof -
  let ?s = "startWatching (Inr ()) (Inl (ErrMsg ''not ready'')) (0, []) :: (gotime \<times> EventData list) watched"
  have "watchRun exampleNodesEnv (\<lambda>w w'. False) ?s ([] @ [Deleted (Inr ''n1'')]) [] (?s\<lparr>wd_Dels := [''n1'']\<rparr>)"
    by (rule watchRun.delivered [OF watchRun.started]) (simp add: deleteFunc_def chanSend_def startWatching_def watchDeletions_def)
  then have "watchRun exampleNodesEnv (\<lambda>w w'. False) ?s (([] @ [Deleted (Inr ''n1'')]) @ [Deleted (Inl (ErrMsg ''missing Meta''))]) [] (?s\<lparr>wd_Dels := [''n1'']\<rparr>)"
    by (rule watchRun.delivered) (simp add: deleteFunc_def)
  then have "watchRun exampleNodesEnv (\<lambda>w w'. False) ?s (([] @ [Deleted (Inr ''n1'')]) @ [Deleted (Inl (ErrMsg ''missing Meta''))])
      ([] @ [NodeDeleted ''n1'']) (serveSelected exampleNodesEnv (NodeDeleted ''n1'') (?s\<lparr>wd_Dels := []\<rparr>))"
    by (rule watchRun.served [where src = FromDeletions]) simp
  then obtain s where run: "watchRun exampleNodesEnv (\<lambda>w w'. False) ?s [Deleted (Inr ''n1''), Deleted (Inl (ErrMsg ''missing Meta''))] [NodeDeleted ''n1''] s"
    by auto
  from watchers_lose_nothing [OF run] run show ?thesis
    by (auto simp: watched_names)
qed

end
