(* ===== verification/Go_Net.thy ===== *)
theory Go_Net
  imports Go_Values
begin

text \<open>
  Functions of the Go standard library that the configuration of Istio uses: \<^verbatim>\<open>sha256.Sum256\<close>
  and \<^verbatim>\<open>hex.EncodeToString\<close>, \<^verbatim>\<open>net.ParseIP\<close> (whether a string is an address; Go 1.16, where
  decimal parts may have leading zeros) and \<^verbatim>\<open>strings.ToUpper\<close> on ASCII.
\<close>

unbundle bit_operations_syntax

section \<open>Package crypto/sha256\<close>

definition sha256_K :: "32 word list" where
  "sha256_K =
    [1116352408, 1899447441, 3049323471, 3921009573, 961987163, 1508970993, 2453635748, 2870763221,
     3624381080, 310598401, 607225278, 1426881987, 1925078388, 2162078206, 2614888103, 3248222580,
     3835390401, 4022224774, 264347078, 604807628, 770255983, 1249150122, 1555081692, 1996064986,
     2554220882, 2821834349, 2952996808, 3210313671, 3336571891, 3584528711, 113926993, 338241895,
     666307205, 773529912, 1294757372, 1396182291, 1695183700, 1986661051, 2177026350, 2456956037,
     2730485921, 2820302411, 3259730800, 3345764771, 3516065817, 3600352804, 4094571909, 275423344,
     430227734, 506948616, 659060556, 883997877, 958139571, 1322822218, 1537002063, 1747873779,
     1955562222, 2024104815, 2227730452, 2361852424, 2428436474, 2756734187, 3204031479, 3329325298]"

definition sha256_H :: "32 word list" where
  "sha256_H = [1779033703, 3144134277, 1013904242, 2773480762, 1359893119, 2600822924, 528734635, 1541459225]"

definition ror32 :: "32 word \<Rightarrow> nat \<Rightarrow> 32 word" where
  "ror32 x n = drop_bit n x OR push_bit (32 - n) x"

fun sha256_expand :: "nat \<Rightarrow> 32 word list \<Rightarrow> 32 word list" where
  "sha256_expand 0 ws = ws"
| "sha256_expand (Suc n) ws =
     (let t = length ws; v1 = ws ! (t - 2); v2 = ws ! (t - 15);
          t1 = ror32 v1 17 XOR ror32 v1 19 XOR drop_bit 10 v1;
          t2 = ror32 v2 7 XOR ror32 v2 18 XOR drop_bit 3 v2
      in sha256_expand n (ws @ [t1 + ws ! (t - 7) + t2 + ws ! (t - 16)]))"

fun sha256_round :: "32 word list \<Rightarrow> 32 word \<times> 32 word \<Rightarrow> 32 word list" where
  "sha256_round [a, b, c, d, e, f, g, h] (k, w) =
     (let t1 = h + (ror32 e 6 XOR ror32 e 11 XOR ror32 e 25) + ((e AND f) XOR (NOT e AND g)) + k + w;
          t2 = (ror32 a 2 XOR ror32 a 13 XOR ror32 a 22) + ((a AND b) XOR (a AND c) XOR (b AND c))
      in [t1 + t2, a, b, c, d + t1, e, f, g])"
| "sha256_round hs _ = hs"

definition sha256_block :: "32 word list \<Rightarrow> 32 word list \<Rightarrow> 32 word list" where
  "sha256_block hs block =
     map2 (+) hs (foldl sha256_round hs (zip sha256_K (sha256_expand 48 block)))"

fun bytesToWords :: "8 word list \<Rightarrow> 32 word list" where
  "bytesToWords (a # b # c # d # rest) =
     (push_bit 24 (ucast a) OR push_bit 16 (ucast b) OR push_bit 8 (ucast c) OR ucast d) # bytesToWords rest"
| "bytesToWords _ = []"

fun chunks16 :: "nat \<Rightarrow> 32 word list \<Rightarrow> 32 word list list" where
  "chunks16 0 ws = []"
| "chunks16 (Suc n) ws = (if ws = [] then [] else take 16 ws # chunks16 n (drop 16 ws))"

definition sha256_pad :: "8 word list \<Rightarrow> 8 word list" where
  "sha256_pad msg =
     (let len = length msg;
          zeros = (if len mod 64 < 56 then 55 - len mod 64 else 119 - len mod 64);
          bits = (of_nat (8 * len) :: 64 word)
      in msg @ [0x80] @ replicate zeros 0
           @ map (\<lambda>i. ucast (drop_bit (8 * i) bits)) [7, 6, 5, 4, 3, 2, 1, 0])"

definition wordToBytes :: "32 word \<Rightarrow> 8 word list" where
  "wordToBytes w = [ucast (drop_bit 24 w), ucast (drop_bit 16 w), ucast (drop_bit 8 w), ucast w]"

definition stringBytes :: "string \<Rightarrow> 8 word list" where
  "stringBytes s = map (\<lambda>c. of_nat (of_char c)) s"

definition sha256_Sum256 :: "string \<Rightarrow> 8 word list" where
  "sha256_Sum256 s =
     (let ws = bytesToWords (sha256_pad (stringBytes s))
      in concat (map wordToBytes (foldl sha256_block sha256_H (chunks16 (length ws) ws))))"

definition hexDigit :: "nat \<Rightarrow> char" where
  "hexDigit d = (if d < 10 then char_of (48 + d) else char_of (87 + d))"

definition hex_EncodeToString :: "8 word list \<Rightarrow> string" where
  "hex_EncodeToString bs = concat (map (\<lambda>b. [hexDigit (unat b div 16), hexDigit (unat b mod 16)]) bs)"

section \<open>Package net: ParseIP\<close>

text \<open>A run of digits, its value, and the rest; numbers are capped as in the source of the library.\<close>

definition dtoi :: "string \<Rightarrow> (nat \<times> string) option" where
  "dtoi s =
     (let ds = takeWhile isDigit s
      in if ds = [] \<or> decimalValue ds \<ge> 0xFFFFFF then None else Some (decimalValue ds, dropWhile isDigit s))"

definition isHex :: "char \<Rightarrow> bool" where
  "isHex c \<longleftrightarrow> isDigit c \<or> (97 \<le> (of_char c :: nat) \<and> (of_char c :: nat) \<le> 102) \<or> (65 \<le> (of_char c :: nat) \<and> (of_char c :: nat) \<le> 70)"

definition hexVal :: "char \<Rightarrow> nat" where
  "hexVal c = (if isDigit c then digitVal c else if (97 :: nat) \<le> of_char c then of_char c - 87 else of_char c - 55)"

definition xtoi :: "string \<Rightarrow> (nat \<times> string) option" where
  "xtoi s =
     (let ds = takeWhile isHex s; n = foldl (\<lambda>acc c. 16 * acc + hexVal c) 0 ds
      in if ds = [] \<or> n \<ge> 0xFFFFFF then None else Some (n, dropWhile isHex s))"

fun ipv4Parts :: "nat \<Rightarrow> bool \<Rightarrow> string \<Rightarrow> bool" where
  "ipv4Parts 0 first s = (s = [])"
| "ipv4Parts (Suc n) first s =
     (if \<not> first \<and> \<not> prefix ''.'' s then False
      else case dtoi (if first then s else drop 1 s) of
             None \<Rightarrow> False
           | Some (v, rest) \<Rightarrow> v \<le> 255 \<and> ipv4Parts n False rest)"

definition parseIPv4 :: "string \<Rightarrow> bool" where
  "parseIPv4 s = ipv4Parts 4 True s"

text \<open>\<open>i\<close> counts the bytes read so far; the loop of the library ends after sixteen.\<close>

fun ipv6Groups :: "nat \<Rightarrow> nat \<Rightarrow> bool \<Rightarrow> string \<Rightarrow> bool" where
  "ipv6Groups 0 i ellipsis s = (s = [] \<and> i = 16 \<and> \<not> ellipsis)"
| "ipv6Groups (Suc n) i ellipsis s =
     (case xtoi s of
        None \<Rightarrow> False
      | Some (v, rest) \<Rightarrow>
          if v > 0xFFFF then False
          else if prefix ''.'' rest
          then (ellipsis \<or> i = 12) \<and> i + 4 \<le> 16 \<and> parseIPv4 s \<and> (i + 4 < 16 \<longleftrightarrow> ellipsis)
          else if rest = [] then (i + 2 < 16 \<longleftrightarrow> ellipsis)
          else if \<not> prefix '':'' rest \<or> length rest = 1 then False
          else
            let s1 = drop 1 rest
            in if prefix '':'' s1
               then \<not> ellipsis \<and>
                    (if drop 1 s1 = [] then i + 2 < 16 else ipv6Groups n (i + 2) True (drop 1 s1))
               else ipv6Groups n (i + 2) ellipsis s1)"

definition parseIPv6 :: "string \<Rightarrow> bool" where
  "parseIPv6 s =
     (if prefix ''::'' s then drop 2 s = [] \<or> ipv6Groups 8 0 True (drop 2 s)
      else ipv6Groups 8 0 False s)"

definition net_ParseIP :: "string \<Rightarrow> bool" where
  "net_ParseIP s =
     (case List.find (\<lambda>c. c = CHR ''.'' \<or> c = CHR '':'') s of
        None \<Rightarrow> False
      | Some c \<Rightarrow> if c = CHR ''.'' then parseIPv4 s else parseIPv6 s)"

section \<open>Package strings: ToUpper\<close>

definition upperChar :: "char \<Rightarrow> char" where
  "upperChar c = (if (97 :: nat) \<le> of_char c \<and> of_char c \<le> (122 :: nat) then char_of (of_char c - 32 :: nat) else c)"

definition toUpper :: "string \<Rightarrow> string" where
  "toUpper s = map upperChar s"

section \<open>Lemmas\<close>

lemma parseIPv4_dotted:
  assumes "a \<le> 255" "b \<le> 255" "c \<le> 255" "d \<le> 255"
  shows "parseIPv4 (itoa a @ ''.'' @ itoa b @ ''.'' @ itoa c @ ''.'' @ itoa d)"
proof -
  have digits: "list_all isDigit (itoa n)" for n using itoa_allDigits [of n] by (simp add: allDigits_def)
  have step: "dtoi (itoa n @ CHR ''.'' # r) = Some (n, CHR ''.'' # r)" if "n \<le> 255" for n r
    using that digits [of n]
    by (simp add: dtoi_def takeWhile_append dropWhile_append list_all_iff isDigit_def [of "CHR ''.''"])
  have last: "dtoi (itoa n) = Some (n, [])" if "n \<le> 255" for n
  proof -
    have run: "takeWhile isDigit (itoa n) = itoa n" "dropWhile isDigit (itoa n) = []"
      using digits [of n] by (simp_all add: list_all_iff)
    show ?thesis unfolding dtoi_def run Let_def using that by simp
  qed
  show ?thesis using assms
    by (simp add: parseIPv4_def numeral_eq_Suc step last)
qed

text \<open>A digest has 32 bytes, and hexadecimal encoding doubles the length and is injective.\<close>

lemma length_sha256_round [simp]: "length (sha256_round hs kw) = length hs"
  by (cases "(hs, kw)" rule: sha256_round.cases) (simp_all add: Let_def)

lemma length_sha256_rounds: "length (foldl sha256_round hs kws) = length hs"
  by (induction kws arbitrary: hs) simp_all

lemma length_sha256_blocks: "length (foldl sha256_block hs bs) = length hs"
  by (induction bs arbitrary: hs) (simp_all add: sha256_block_def length_sha256_rounds)

lemma length_wordsToBytes: "length (concat (map wordToBytes ws)) = 4 * length ws"
  by (induction ws) (simp_all add: wordToBytes_def)

lemma length_sha256: "length (sha256_Sum256 s) = 32"
  by (simp add: sha256_Sum256_def Let_def length_wordsToBytes length_sha256_blocks sha256_H_def)

lemma length_hex: "length (hex_EncodeToString bs) = 2 * length bs"
  by (induction bs) (simp_all add: hex_EncodeToString_def)

lemma hexDigit_range: "d < 16 \<Longrightarrow> hexDigit d \<in> set ''0123456789abcdef''"
proof -
  have "list_all (\<lambda>d. hexDigit d \<in> set ''0123456789abcdef'') [0..<16]" by code_simp
  then show "d < 16 \<Longrightarrow> hexDigit d \<in> set ''0123456789abcdef''" by (simp only: list_all_iff set_upt atLeastLessThan_iff) simp
qed

lemma hex_digits: "set (hex_EncodeToString bs) \<subseteq> set ''0123456789abcdef''"
proof (induction bs)
  case Nil
  show ?case by (simp add: hex_EncodeToString_def)
next
  case (Cons b bs)
  have "unat b div 16 < 16" "unat b mod 16 < 16"
    using unsigned_less [of b, where ?'a = nat] by (simp_all add: less_mult_imp_div_less)
  then have digits: "hexDigit (unat b div 16) \<in> set ''0123456789abcdef''" "hexDigit (unat b mod 16) \<in> set ''0123456789abcdef''"
    using hexDigit_range by blast+
  have eq: "set (hex_EncodeToString (b # bs)) =
      insert (hexDigit (unat b div 16)) (insert (hexDigit (unat b mod 16)) (set (hex_EncodeToString bs)))"
    by (simp add: hex_EncodeToString_def)
  show ?case unfolding eq insert_subset using digits Cons.IH by (intro conjI)
qed

lemma hexDigit_inj: "d < 16 \<Longrightarrow> e < 16 \<Longrightarrow> hexDigit d = hexDigit e \<longleftrightarrow> d = e"
  unfolding hexDigit_def
  by (auto split: if_splits dest!: arg_cong [where f = "of_char :: char \<Rightarrow> nat"])

lemma hex_EncodeToString_inj: "hex_EncodeToString as = hex_EncodeToString bs \<Longrightarrow> as = bs"
proof (induction as arbitrary: bs)
  case Nil
  then show ?case by (cases bs) (simp_all add: hex_EncodeToString_def)
next
  case (Cons a as)
  then obtain b bs' where bs: "bs = b # bs'" by (cases bs) (auto simp: hex_EncodeToString_def)
  have lt: "unat x div 16 < 16" for x :: "8 word" using unsigned_less [of x, where ?'a = nat] by (simp add: less_mult_imp_div_less)
  from Cons.prems have "unat a div 16 = unat b div 16" "unat a mod 16 = unat b mod 16"
      and rest: "hex_EncodeToString as = hex_EncodeToString bs'"
    by (simp_all add: bs hex_EncodeToString_def hexDigit_inj lt)
  then have "unat a = unat b" by (metis div_mult_mod_eq)
  with rest Cons.IH show ?case by (simp add: bs word_unat_eq_iff)
qed

end
