(* ===== verification/Istio.thy ===== *)
theory Istio
  imports Kube_Api Go_Net
begin

text \<open>
  The configuration of Istio (\<^verbatim>\<open>src/controllers/istio\<close>): a service entry and a virtual service per
  communication host of the tenant, so that the agents can reach it from inside the mesh. The
  names of the objects are hashes of the endpoint; objects of hosts that are no longer used are
  deleted.

  The two typed clients and the untyped one that probes for objects are the record \<open>istioApi\<close>,
  one per kind of object; \<open>lawfulIstio\<close> states what the API server promises about it.
\<close>

section \<open>Objects\<close>

datatype Location = MESH_EXTERNAL | MESH_INTERNAL
datatype Resolution = Resolution_NONE | Resolution_STATIC | Resolution_DNS

record istioPort =
  ip_Name :: string
  ip_Number :: "32 word"
  ip_Protocol :: string

record ServiceEntry =
  se_Meta :: ObjectMeta
  se_Hosts :: "string list"
  se_Addresses :: "string list"
  se_Ports :: "istioPort list"
  se_Location :: Location
  se_Resolution :: Resolution

text \<open>A route matches ports (and server names for TLS) and names a destination host and port.\<close>

record HTTPRoute =
  ht_Match :: "32 word list"
  ht_Route :: "(string \<times> 32 word) list"

record TLSRoute =
  tl_Match :: "(string list \<times> 32 word) list"
  tl_Route :: "(string \<times> 32 word) list"

record VirtualService =
  vsv_Meta :: ObjectMeta
  vsv_Hosts :: "string list"
  vsv_Tls :: "TLSRoute list"
  vsv_Http :: "HTTPRoute list"

definition buildObjectMeta :: "string \<Rightarrow> string \<Rightarrow> ObjectMeta" where
  "buildObjectMeta name namespace = emptyMeta\<lparr>om_Name := name, om_Namespace := namespace\<rparr>"

definition buildNameForEndpoint :: "string \<Rightarrow> string \<Rightarrow> string \<Rightarrow> 32 word \<Rightarrow> string" where
  "buildNameForEndpoint name protocol host port =
     hex_EncodeToString (sha256_Sum256 (name @ ''-'' @ protocol @ ''-'' @ host @ ''-'' @ itoa (unat port)))"

definition buildIstioLabels :: "string \<Rightarrow> string \<Rightarrow> string gomap" where
  "buildIstioLabels name role =
     [(''dynatrace'', ''oneagent''), (''oneagent'', name), (''dynatrace-istio-role'', role)]"

definition isIp :: "string \<Rightarrow> bool" where "isIp host = net_ParseIP host"

definition ignoredSubdomain :: string where "ignoredSubdomain = ''ignored.subdomain''"
definition subnetMask :: string where "subnetMask = ''/32''"
definition protocolTcp :: string where "protocolTcp = ''TCP''"
definition protocolHttp :: string where "protocolHttp = ''http''"
definition protocolHttps :: string where "protocolHttps = ''https''"

definition buildServiceEntryFQDN :: "string \<Rightarrow> string \<Rightarrow> string \<Rightarrow> string \<Rightarrow> 32 word \<Rightarrow> ServiceEntry" where
  "buildServiceEntryFQDN name namespace host protocol port =
     \<lparr>se_Meta = buildObjectMeta name namespace, se_Hosts = [host], se_Addresses = [],
      se_Ports = [\<lparr>ip_Name = protocol @ ''-'' @ itoa (unat port), ip_Number = port, ip_Protocol = toUpper protocol\<rparr>],
      se_Location = MESH_EXTERNAL, se_Resolution = Resolution_DNS\<rparr>"

definition buildServiceEntryIP :: "string \<Rightarrow> string \<Rightarrow> string \<Rightarrow> 32 word \<Rightarrow> ServiceEntry" where
  "buildServiceEntryIP name namespace host port =
     \<lparr>se_Meta = buildObjectMeta name namespace, se_Hosts = [ignoredSubdomain], se_Addresses = [host @ subnetMask],
      se_Ports = [\<lparr>ip_Name = protocolTcp @ ''-'' @ itoa (unat port), ip_Number = port, ip_Protocol = protocolTcp\<rparr>],
      se_Location = MESH_EXTERNAL, se_Resolution = Resolution_NONE\<rparr>"

definition buildServiceEntry :: "string \<Rightarrow> string \<Rightarrow> string \<Rightarrow> string \<Rightarrow> 32 word \<Rightarrow> ServiceEntry" where
  "buildServiceEntry name namespace host protocol port =
     (if net_ParseIP host then buildServiceEntryIP name namespace host port
      else buildServiceEntryFQDN name namespace host protocol port)"

definition buildVirtualServiceHttpRoute :: "32 word \<Rightarrow> string \<Rightarrow> HTTPRoute list" where
  "buildVirtualServiceHttpRoute port host = [\<lparr>ht_Match = [port], ht_Route = [(host, port)]\<rparr>]"

definition buildVirtualServiceTLSRoute :: "string \<Rightarrow> 32 word \<Rightarrow> TLSRoute list" where
  "buildVirtualServiceTLSRoute host port = [\<lparr>tl_Match = [([host], port)], tl_Route = [(host, port)]\<rparr>]"

definition buildVirtualService :: "string \<Rightarrow> string \<Rightarrow> string \<Rightarrow> string \<Rightarrow> 32 word \<Rightarrow> VirtualService option" where
  "buildVirtualService name namespace host protocol port =
     (if isIp host then None
      else Some
        \<lparr>vsv_Meta = buildObjectMeta name namespace, vsv_Hosts = [host],
         vsv_Tls = (if protocol = protocolHttps then buildVirtualServiceTLSRoute host port else []),
         vsv_Http = (if protocol = protocolHttp then buildVirtualServiceHttpRoute port host else [])\<rparr>)"

section \<open>Probes\<close>

record ('w, 'o) istioApi =
  ia_List :: "string \<Rightarrow> string gomap \<Rightarrow> ('w, 'o list) act"
  ia_Create :: "string \<Rightarrow> 'o \<Rightarrow> ('w, 'o option) act"
  ia_Delete :: "string \<Rightarrow> string \<Rightarrow> ('w, unit) act"
  ia_ProbeList :: "string \<Rightarrow> ('w, unit) act"
  ia_ProbeGet :: "objkey \<Rightarrow> ('w, unit) act"

record 'w istio_env =
  ie_namespace :: string
  ie_serverGroups :: "('w, string list) act"
  ie_newClient :: "('w, unit) act"
  ie_serviceEntries :: "('w, ServiceEntry) istioApi"
  ie_virtualServices :: "('w, VirtualService) istioApi"
  ie_SetControllerReference :: "DynaKube \<Rightarrow> ObjectMeta \<Rightarrow> goerr + ObjectMeta"

datatype probeResult = probeObjectFound | probeObjectNotFound | probeTypeFound | probeTypeNotFound | probeUnknown

definition istioGVRName :: string where "istioGVRName = ''networking.istio.io''"

definition CheckIstioEnabled :: "'w istio_env \<Rightarrow> ('w, bool) act" where
  "CheckIstioEnabled env =
     bindE (ie_serverGroups env) (\<lambda>groups. retE (list_ex (\<lambda>g. g = istioGVRName) groups))"

definition mapErrorToObjectProbeResult :: "goerr option \<Rightarrow> probeResult \<times> goerr option" where
  "mapErrorToObjectProbeResult err =
     (case err of
        None \<Rightarrow> (probeObjectFound, None)
      | Some e \<Rightarrow> (if isNotFound e then probeObjectNotFound
                   else if isNoMatch e then probeTypeNotFound else probeUnknown, Some e))"

definition kubernetesObjectProbe ::
  "'w istio_env \<Rightarrow> ('w, 'o) istioApi \<Rightarrow> string \<Rightarrow> string \<Rightarrow> ('w, probeResult \<times> goerr option) act" where
  "kubernetesObjectProbe env api namespace name =
     catchE (ie_newClient env) (\<lambda>err. retE (probeUnknown, Some err))
       (\<lambda>_. catchE (if name = [] then ia_ProbeList api namespace else ia_ProbeGet api (namespace, name))
              (\<lambda>err. retE (mapErrorToObjectProbeResult (Some err)))
              (\<lambda>_. retE (mapErrorToObjectProbeResult None)))"

definition verifyIstioCrdAvailability :: "'w istio_env \<Rightarrow> DynaKube \<Rightarrow> ('w, probeResult) act" where
  "verifyIstioCrdAvailability env instance =
     bindE (kubernetesObjectProbe env (ie_serviceEntries env) (dk_Namespace instance) []) (\<lambda>(probe, _).
       if probe = probeTypeNotFound then retE probe
       else bindE (kubernetesObjectProbe env (ie_virtualServices env) (dk_Namespace instance) []) (\<lambda>(probe, _).
              if probe = probeTypeNotFound then retE probe else retE probeTypeFound))"

section \<open>Creating\<close>

definition probeError :: "goerr option \<Rightarrow> ('w, 'a) act" where
  "probeError err = raiseE (case err of None \<Rightarrow> ErrMsg [] | Some e \<Rightarrow> e)"

definition createIstioConfigurationForServiceEntry ::
  "'w istio_env \<Rightarrow> DynaKube \<Rightarrow> ServiceEntry \<Rightarrow> string \<Rightarrow> ('w, unit) act" where
  "createIstioConfigurationForServiceEntry env dynaKube serviceEntry role =
     bindE (liftE (ie_SetControllerReference env dynaKube
              ((se_Meta serviceEntry)\<lparr>om_Labels := Some (buildIstioLabels (dk_Name dynaKube) role)\<rparr>))) (\<lambda>m.
       bindE (ia_Create (ie_serviceEntries env) (dk_Namespace dynaKube) (serviceEntry\<lparr>se_Meta := m\<rparr>)) (\<lambda>sve.
         case sve of None \<Rightarrow> raiseE (ErrMsg ''could not create service entry'') | Some _ \<Rightarrow> retE ()))"

definition createIstioConfigurationForVirtualService ::
  "'w istio_env \<Rightarrow> DynaKube \<Rightarrow> VirtualService \<Rightarrow> string \<Rightarrow> ('w, unit) act" where
  "createIstioConfigurationForVirtualService env dynaKube virtualService role =
     bindE (liftE (ie_SetControllerReference env dynaKube
              ((vsv_Meta virtualService)\<lparr>om_Labels := Some (buildIstioLabels (dk_Name dynaKube) role)\<rparr>))) (\<lambda>m.
       bindE (ia_Create (ie_virtualServices env) (dk_Namespace dynaKube) (virtualService\<lparr>vsv_Meta := m\<rparr>)) (\<lambda>vs.
         case vs of None \<Rightarrow> raiseE (ErrMsg ''could not create virtual service'') | Some _ \<Rightarrow> retE ()))"

definition handleIstioConfigurationForServiceEntry ::
  "'w istio_env \<Rightarrow> DynaKube \<Rightarrow> string \<Rightarrow> CommunicationHost \<Rightarrow> string \<Rightarrow> ('w, bool) act" where
  "handleIstioConfigurationForServiceEntry env instance name h role =
     bindE (kubernetesObjectProbe env (ie_serviceEntries env) (dk_Namespace instance) name) (\<lambda>(probe, err).
       if probe = probeObjectFound then retE False
       else if probe = probeUnknown then probeError err
       else bindE (createIstioConfigurationForServiceEntry env instance
                     (buildServiceEntry name (ie_namespace env) (ch_Host h) (ch_Protocol h) (ch_Port h)) role)
              (\<lambda>_. retE True))"

definition handleIstioConfigurationForVirtualService ::
  "'w istio_env \<Rightarrow> DynaKube \<Rightarrow> string \<Rightarrow> CommunicationHost \<Rightarrow> string \<Rightarrow> ('w, bool) act" where
  "handleIstioConfigurationForVirtualService env instance name h role =
     bindE (kubernetesObjectProbe env (ie_virtualServices env) (dk_Namespace instance) name) (\<lambda>(probe, err).
       if probe = probeObjectFound then retE False
       else if probe = probeUnknown then probeError err
       else case buildVirtualService name (ie_namespace env) (ch_Host h) (ch_Protocol h) (ch_Port h) of
              None \<Rightarrow> retE False
            | Some vs \<Rightarrow> bindE (createIstioConfigurationForVirtualService env instance vs role) (\<lambda>_. retE True))"

definition endpointName :: "DynaKube \<Rightarrow> CommunicationHost \<Rightarrow> string" where
  "endpointName instance h = buildNameForEndpoint (dk_Name instance) (ch_Protocol h) (ch_Host h) (ch_Port h)"

fun createForHosts ::
  "'w istio_env \<Rightarrow> DynaKube \<Rightarrow> string \<Rightarrow> CommunicationHost list \<Rightarrow> bool \<Rightarrow> ('w, bool) act" where
  "createForHosts env instance role [] configurationUpdated = retE configurationUpdated"
| "createForHosts env instance role (h # hs) configurationUpdated =
     bindE (handleIstioConfigurationForServiceEntry env instance (endpointName instance h) h role) (\<lambda>createdServiceEntry.
     bindE (handleIstioConfigurationForVirtualService env instance (endpointName instance h) h role) (\<lambda>createdVirtualService.
       createForHosts env instance role hs (configurationUpdated \<or> createdServiceEntry \<or> createdVirtualService)))"

definition reconcileIstioCreateConfigurations ::
  "'w istio_env \<Rightarrow> DynaKube \<Rightarrow> CommunicationHost list \<Rightarrow> string \<Rightarrow> ('w, bool) act" where
  "reconcileIstioCreateConfigurations env instance communicationHosts role =
     bindE (verifyIstioCrdAvailability env instance) (\<lambda>crdProbe.
       if crdProbe \<noteq> probeTypeFound then retE False
       else createForHosts env instance role communicationHosts False)"

section \<open>Removing\<close>

text \<open>A deletion that fails is logged; the loop goes on.\<close>

fun removeUnused ::
  "('w, 'o) istioApi \<Rightarrow> ('o \<Rightarrow> ObjectMeta) \<Rightarrow> string \<Rightarrow> string list \<Rightarrow> 'o list \<Rightarrow> bool \<Rightarrow> ('w, bool) act" where
  "removeUnused api meta namespace seen [] del = retE del"
| "removeUnused api meta namespace seen (ob # obs) del =
     (if om_Name (meta ob) \<in> set seen then removeUnused api meta namespace seen obs del
      else catchE (ia_Delete api namespace (om_Name (meta ob)))
             (\<lambda>_. removeUnused api meta namespace seen obs del)
             (\<lambda>_. removeUnused api meta namespace seen obs True))"

definition removeIstioConfigurationForServiceEntry ::
  "'w istio_env \<Rightarrow> string gomap \<Rightarrow> string list \<Rightarrow> string \<Rightarrow> ('w, bool) act" where
  "removeIstioConfigurationForServiceEntry env labelSelector seen namespace =
     bindE (ia_List (ie_serviceEntries env) namespace labelSelector) (\<lambda>list.
       removeUnused (ie_serviceEntries env) se_Meta namespace seen list False)"

definition removeIstioConfigurationForVirtualService ::
  "'w istio_env \<Rightarrow> string gomap \<Rightarrow> string list \<Rightarrow> string \<Rightarrow> ('w, bool) act" where
  "removeIstioConfigurationForVirtualService env labelSelector seen namespace =
     bindE (ia_List (ie_virtualServices env) namespace labelSelector) (\<lambda>list.
       removeUnused (ie_virtualServices env) vsv_Meta namespace seen list False)"

definition reconcileIstioRemoveConfigurations ::
  "'w istio_env \<Rightarrow> DynaKube \<Rightarrow> CommunicationHost list \<Rightarrow> string \<Rightarrow> ('w, bool) act" where
  "reconcileIstioRemoveConfigurations env instance comHosts role =
     (let labelSelector = buildIstioLabels (dk_Name instance) role;
          seen = map (endpointName instance) comHosts
      in bindE (removeIstioConfigurationForVirtualService env labelSelector seen (dk_Namespace instance)) (\<lambda>vsUpd.
         bindE (removeIstioConfigurationForServiceEntry env labelSelector seen (dk_Namespace instance)) (\<lambda>seUpd.
           retE (vsUpd \<or> seUpd))))"

section \<open>Reconciling\<close>

definition reconcileIstioConfigurations ::
  "'w istio_env \<Rightarrow> DynaKube \<Rightarrow> CommunicationHost list \<Rightarrow> string \<Rightarrow> ('w, bool) act" where
  "reconcileIstioConfigurations env instance comHosts role =
     bindE (reconcileIstioCreateConfigurations env instance comHosts role) (\<lambda>add.
     bindE (reconcileIstioRemoveConfigurations env instance comHosts role) (\<lambda>rem.
       retE (add \<or> rem)))"

definition ReconcileIstio :: "'w istio_env \<Rightarrow> DynaKube \<Rightarrow> ('w, bool) act" where
  "ReconcileIstio env instance =
     bindE (wrapE ''istio: failed to verify Istio availability: '' (CheckIstioEnabled env)) (\<lambda>enabled.
       if \<not> enabled then retE False
       else
         bindE (wrapE ''istio: error reconciling config for Dynatrace API URL: ''
                 (reconcileIstioConfigurations env instance [CommunicationHostForClient instance] ''api-url'')) (\<lambda>upd.
           if upd then retE True
           else wrapE ''istio: error reconciling config for Dynatrace communication endpoints: ''
                  (reconcileIstioConfigurations env instance
                     (ci_CommunicationHosts (dk_ConnectionInfo instance)) ''communication-endpoint'')))"

section \<open>The promises of the API server\<close>

definition hasLabels :: "string gomap \<Rightarrow> ObjectMeta \<Rightarrow> bool" where
  "hasLabels sel m \<longleftrightarrow> list_all (\<lambda>(k, v). case om_Labels m of None \<Rightarrow> False | Some labels \<Rightarrow> map_of labels k = Some v) sel"

text \<open>
  A listing returns the objects of the namespace with the labels; a probe tells whether an object
  exists; a creation succeeds only for a new name and stores the object in the namespace it was
  asked for; a deletion removes the object; everything that fails changes nothing.
\<close>

definition lawfulList :: "('w, 'o) istioApi \<Rightarrow> ('o \<Rightarrow> ObjectMeta) \<Rightarrow> ('w \<Rightarrow> objkey \<Rightarrow> 'o option) \<Rightarrow> bool" where
  "lawfulList api meta view \<longleftrightarrow>
     (\<forall>ns sel w r w'. ia_List api ns sel w = (r, w') \<longrightarrow> view w' = view w \<and>
        (\<forall>obs. r = Inr obs \<longrightarrow>
           set obs = {ob. view w (ns, om_Name (meta ob)) = Some ob \<and> hasLabels sel (meta ob)}))"

definition lawfulProbe :: "('w, 'o) istioApi \<Rightarrow> ('w \<Rightarrow> objkey \<Rightarrow> 'o option) \<Rightarrow> bool" where
  "lawfulProbe api view \<longleftrightarrow>
     (\<forall>k w r w'. ia_ProbeGet api k w = (r, w') \<longrightarrow> view w' = view w \<and>
        (case r of Inr _ \<Rightarrow> view w k \<noteq> None | Inl e \<Rightarrow> isNotFound e \<longrightarrow> view w k = None)) \<and>
     (\<forall>ns w. view (snd (ia_ProbeList api ns w)) = view w)"

definition lawfulWrite :: "('w, 'o) istioApi \<Rightarrow> ('o \<Rightarrow> ObjectMeta) \<Rightarrow> ('w \<Rightarrow> objkey \<Rightarrow> 'o option) \<Rightarrow> bool" where
  "lawfulWrite api meta view \<longleftrightarrow>
     (\<forall>ns ob w r w'. ia_Create api ns ob w = (r, w') \<longrightarrow>
        (case r of Inr (Some _) \<Rightarrow> view w (ns, om_Name (meta ob)) = None \<and> view w' = (view w)((ns, om_Name (meta ob)) \<mapsto> ob)
         | _ \<Rightarrow> view w' = view w)) \<and>
     (\<forall>ns n w r w'. ia_Delete api ns n w = (r, w') \<longrightarrow>
        (case r of Inr _ \<Rightarrow> view w' = (view w)((ns, n) := None) | Inl _ \<Rightarrow> view w' = view w))"

definition lawfulIstio :: "('w, 'o) istioApi \<Rightarrow> ('o \<Rightarrow> ObjectMeta) \<Rightarrow> ('w \<Rightarrow> objkey \<Rightarrow> 'o option) \<Rightarrow> bool" where
  "lawfulIstio api meta view \<longleftrightarrow> lawfulList api meta view \<and> lawfulProbe api view \<and> lawfulWrite api meta view"

text \<open>No operation of one kind changes what is seen through a view of something else.\<close>

definition leavesAlone :: "('w, 'o) istioApi \<Rightarrow> ('w \<Rightarrow> 'v) \<Rightarrow> bool" where
  "leavesAlone api view \<longleftrightarrow>
     (\<forall>ns sel w. view (snd (ia_List api ns sel w)) = view w) \<and> (\<forall>k w. view (snd (ia_ProbeGet api k w)) = view w) \<and>
     (\<forall>ns w. view (snd (ia_ProbeList api ns w)) = view w) \<and> (\<forall>ns ob w. view (snd (ia_Create api ns ob w)) = view w) \<and>
     (\<forall>ns n w. view (snd (ia_Delete api ns n w)) = view w)"

text \<open>The environment in which the theorems hold: two lawful kinds that do not disturb each other, and
  owner references that keep name and labels.\<close>

definition lawfulMesh :: "'w istio_env \<Rightarrow> ('w \<Rightarrow> objkey \<Rightarrow> ServiceEntry option) \<Rightarrow> ('w \<Rightarrow> objkey \<Rightarrow> VirtualService option) \<Rightarrow> bool" where
  "lawfulMesh env ses vss \<longleftrightarrow>
     lawfulIstio (ie_serviceEntries env) se_Meta ses \<and> leavesAlone (ie_serviceEntries env) vss \<and>
     lawfulIstio (ie_virtualServices env) vsv_Meta vss \<and> leavesAlone (ie_virtualServices env) ses \<and>
     (\<forall>w. ses (snd (ie_newClient env w)) = ses w \<and> vss (snd (ie_newClient env w)) = vss w) \<and>
     (\<forall>dk m m'. ie_SetControllerReference env dk m = Inr m' \<longrightarrow> om_Name m' = om_Name m \<and> om_Labels m' = om_Labels m)"

lemma lawfulMeshD:
  assumes "lawfulMesh env ses vss"
  shows "lawfulIstio (ie_serviceEntries env) se_Meta ses" "leavesAlone (ie_serviceEntries env) vss"
    "lawfulIstio (ie_virtualServices env) vsv_Meta vss" "leavesAlone (ie_virtualServices env) ses"
    "ses (snd (ie_newClient env w)) = ses w" "vss (snd (ie_newClient env w)) = vss w"
    "ie_SetControllerReference env dk m = Inr m' \<Longrightarrow> om_Name m' = om_Name m"
    "ie_SetControllerReference env dk m = Inr m' \<Longrightarrow> om_Labels m' = om_Labels m"
  using assms unfolding lawfulMesh_def by blast+

lemma lawfulIstioD:
  assumes "lawfulIstio api meta view"
  shows "ia_List api ns sel w = (Inr obs, w') \<Longrightarrow>
      view w' = view w \<and> set obs = {ob. view w (ns, om_Name (meta ob)) = Some ob \<and> hasLabels sel (meta ob)}"
    and "ia_ProbeGet api k w = (Inr u, w') \<Longrightarrow> view w' = view w \<and> view w k \<noteq> None"
    and "ia_ProbeGet api k w = (Inl e, w') \<Longrightarrow> view w' = view w \<and> (isNotFound e \<longrightarrow> view w k = None)"
    and "view (snd (ia_ProbeList api ns w)) = view w"
    and "ia_Create api ns ob w = (Inr (Some x), w') \<Longrightarrow>
      view w (ns, om_Name (meta ob)) = None \<and> view w' = (view w)((ns, om_Name (meta ob)) \<mapsto> ob)"
    and "ia_Delete api ns n w = (Inr u, w') \<Longrightarrow> view w' = (view w)((ns, n) := None)"
    and "ia_Delete api ns n w = (Inl e, w') \<Longrightarrow> view w' = view w"
proof -
  have l: "lawfulList api meta view" and p: "lawfulProbe api view" and w: "lawfulWrite api meta view"
    using assms by (simp_all add: lawfulIstio_def)
  show "ia_List api ns sel w = (Inr obs, w') \<Longrightarrow>
      view w' = view w \<and> set obs = {ob. view w (ns, om_Name (meta ob)) = Some ob \<and> hasLabels sel (meta ob)}"
    using l unfolding lawfulList_def by blast
  show "ia_ProbeGet api k w = (Inr u, w') \<Longrightarrow> view w' = view w \<and> view w k \<noteq> None"
    using p unfolding lawfulProbe_def by fastforce
  show "ia_ProbeGet api k w = (Inl e, w') \<Longrightarrow> view w' = view w \<and> (isNotFound e \<longrightarrow> view w k = None)"
    using p unfolding lawfulProbe_def by fastforce
  show "view (snd (ia_ProbeList api ns w)) = view w" using p unfolding lawfulProbe_def by blast
  show "ia_Create api ns ob w = (Inr (Some x), w') \<Longrightarrow>
      view w (ns, om_Name (meta ob)) = None \<and> view w' = (view w)((ns, om_Name (meta ob)) \<mapsto> ob)"
    using w unfolding lawfulWrite_def by fastforce
  show "ia_Delete api ns n w = (Inr u, w') \<Longrightarrow> view w' = (view w)((ns, n) := None)"
    using w unfolding lawfulWrite_def by fastforce
  show "ia_Delete api ns n w = (Inl e, w') \<Longrightarrow> view w' = view w"
    using w unfolding lawfulWrite_def by fastforce
qed

lemma leavesAloneD:
  assumes "leavesAlone api view"
  shows "ia_List api ns sel w = (r1, w1) \<Longrightarrow> view w1 = view w" "ia_ProbeGet api k w = (r2, w1) \<Longrightarrow> view w1 = view w"
    "ia_Create api ns ob w = (r3, w1) \<Longrightarrow> view w1 = view w" "ia_Delete api ns n w = (r4, w1) \<Longrightarrow> view w1 = view w"
    "view (snd (ia_ProbeList api ns w)) = view w"
  using assms unfolding leavesAlone_def by (metis snd_conv)+

section \<open>Lemmas: probes\<close>

lemma probe_cases:
  assumes "kubernetesObjectProbe env api ns n w = (Inr (p, e), w')"
  obtains (noclient) err where "ie_newClient env w = (Inl err, w')" and "p = probeUnknown"
    | (listed) u w1 where "n = []" and "ie_newClient env w = (Inr u, w1)" and "w' = snd (ia_ProbeList api ns w1)"
    | (found) u w1 v where "n \<noteq> []" and "ie_newClient env w = (Inr u, w1)" and "ia_ProbeGet api (ns, n) w1 = (Inr v, w')"
        and "p = probeObjectFound"
    | (failed) u w1 err where "n \<noteq> []" and "ie_newClient env w = (Inr u, w1)" and "ia_ProbeGet api (ns, n) w1 = (Inl err, w')"
        and "p = (if isNotFound err then probeObjectNotFound else if isNoMatch err then probeTypeNotFound else probeUnknown)"
  using assms
  by (auto simp: kubernetesObjectProbe_def catchE_run mapErrorToObjectProbeResult_def
      split: prod.splits sum.splits if_splits)

lemma probe_total: "\<exists>p e w'. kubernetesObjectProbe env api ns n w = (Inr (p, e), w')"
  by (auto simp: kubernetesObjectProbe_def catchE_run mapErrorToObjectProbeResult_def split: prod.splits sum.splits)

lemma probe_effect:
  assumes "kubernetesObjectProbe env api ns n w = (Inr (p, e), w')"
    and "lawfulIstio api meta view" and "\<And>w. view (snd (ie_newClient env w)) = view w"
  shows "view w' = view w" and "n \<noteq> [] \<Longrightarrow> p = probeObjectFound \<Longrightarrow> view w (ns, n) \<noteq> None"
proof -
  have client: "view w1 = view w" if "ie_newClient env w = (r, w1)" for r w1 using assms(3) [of w] that by simp
  show "view w' = view w"
    using assms(1) by (cases rule: probe_cases) (auto simp: client lawfulIstioD(4) [OF assms(2)] dest: client lawfulIstioD(2,3) [OF assms(2)])
  show "n \<noteq> [] \<Longrightarrow> p = probeObjectFound \<Longrightarrow> view w (ns, n) \<noteq> None"
    using assms(1) by (cases rule: probe_cases) (auto dest!: client lawfulIstioD(2) [OF assms(2)] split: if_splits)
qed

lemma probe_alone:
  assumes "kubernetesObjectProbe env api ns n w = (Inr (p, e), w')"
    and "leavesAlone api view" and "\<And>w. view (snd (ie_newClient env w)) = view w"
  shows "view w' = view w"
proof -
  have client: "view w1 = view w" if "ie_newClient env w = (r, w1)" for r w1 using assms(3) [of w] that by simp
  show ?thesis
    using assms(1) by (cases rule: probe_cases) (auto simp: client leavesAloneD(5) [OF assms(2)] dest: client leavesAloneD(2) [OF assms(2)])
qed

lemma endpointName_length: "length (endpointName dk h) = 64"
  by (simp add: endpointName_def buildNameForEndpoint_def length_hex length_sha256)

lemma endpointName_not_Nil [simp]: "endpointName dk h \<noteq> []"
  using endpointName_length [of dk h] by auto

section \<open>Lemmas: creating\<close>

lemma hasLabels_own: "om_Labels m = Some (buildIstioLabels name role) \<Longrightarrow> hasLabels (buildIstioLabels name role) m"
  by (simp add: hasLabels_def buildIstioLabels_def)

lemma buildServiceEntry_name [simp]: "om_Name (se_Meta (buildServiceEntry n ns host proto port)) = n"
  by (simp add: buildServiceEntry_def buildServiceEntryIP_def buildServiceEntryFQDN_def buildObjectMeta_def)

lemma buildVirtualService_name: "buildVirtualService n ns host proto port = Some vs \<Longrightarrow> om_Name (vsv_Meta vs) = n"
  by (auto simp: buildVirtualService_def buildObjectMeta_def split: if_splits)

text \<open>The objects of a host under a name: built for the host, with the labels of the role and the reference to the owner.\<close>

definition isEntryOf :: "'w istio_env \<Rightarrow> DynaKube \<Rightarrow> string \<Rightarrow> string \<Rightarrow> CommunicationHost \<Rightarrow> ServiceEntry \<Rightarrow> bool" where
  "isEntryOf env dk role n h se \<longleftrightarrow>
     (let built = buildServiceEntry n (ie_namespace env) (ch_Host h) (ch_Protocol h) (ch_Port h)
      in case ie_SetControllerReference env dk ((se_Meta built)\<lparr>om_Labels := Some (buildIstioLabels (dk_Name dk) role)\<rparr>) of
           Inl _ \<Rightarrow> False | Inr m \<Rightarrow> se = built\<lparr>se_Meta := m\<rparr>)"

definition isServiceOf :: "'w istio_env \<Rightarrow> DynaKube \<Rightarrow> string \<Rightarrow> string \<Rightarrow> CommunicationHost \<Rightarrow> VirtualService \<Rightarrow> bool" where
  "isServiceOf env dk role n h vs \<longleftrightarrow>
     (case buildVirtualService n (ie_namespace env) (ch_Host h) (ch_Protocol h) (ch_Port h) of
        None \<Rightarrow> False
      | Some built \<Rightarrow>
          (case ie_SetControllerReference env dk ((vsv_Meta built)\<lparr>om_Labels := Some (buildIstioLabels (dk_Name dk) role)\<rparr>) of
             Inl _ \<Rightarrow> False | Inr m \<Rightarrow> vs = built\<lparr>vsv_Meta := m\<rparr>))"

text \<open>One object was added under a free name, or nothing changed.\<close>

definition addsOne ::
  "('o \<Rightarrow> bool) \<Rightarrow> objkey \<Rightarrow> (objkey \<Rightarrow> 'o option) \<Rightarrow> bool \<Rightarrow> (objkey \<Rightarrow> 'o option) \<Rightarrow> bool" where
  "addsOne P k v b v' \<longleftrightarrow> (\<not> b \<and> v' = v) \<or> (b \<and> v k = None \<and> (\<exists>ob. v' = v(k \<mapsto> ob) \<and> P ob))"

lemma createServiceEntry_effect:
  assumes law: "lawfulMesh env ses vss" and built: "se = buildServiceEntry n (ie_namespace env) (ch_Host h) (ch_Protocol h) (ch_Port h)"
    and run: "createIstioConfigurationForServiceEntry env dk se role w = (Inr u, w')"
  shows "addsOne (isEntryOf env dk role n h) (dk_Namespace dk, n) (ses w) True (ses w')" and "vss w' = vss w"
proof -
  obtain m x where m: "ie_SetControllerReference env dk
      ((se_Meta se)\<lparr>om_Labels := Some (buildIstioLabels (dk_Name dk) role)\<rparr>) = Inr m"
      and create: "ia_Create (ie_serviceEntries env) (dk_Namespace dk) (se\<lparr>se_Meta := m\<rparr>) w = (Inr (Some x), w')"
    using run by (auto simp: createIstioConfigurationForServiceEntry_def bindE_run split: prod.splits sum.splits option.splits)
  have "om_Name m = n" using lawfulMeshD(7) [OF law m] by (simp add: built)
  then show "addsOne (isEntryOf env dk role n h) (dk_Namespace dk, n) (ses w) True (ses w')"
    using lawfulIstioD(5) [OF lawfulMeshD(1) [OF law] create] m by (auto simp: addsOne_def isEntryOf_def Let_def built)
  show "vss w' = vss w" by (rule leavesAloneD(3) [OF lawfulMeshD(2) [OF law] create])
qed

lemma createVirtualService_effect:
  assumes law: "lawfulMesh env ses vss"
    and built: "buildVirtualService n (ie_namespace env) (ch_Host h) (ch_Protocol h) (ch_Port h) = Some vs"
    and run: "createIstioConfigurationForVirtualService env dk vs role w = (Inr u, w')"
  shows "addsOne (isServiceOf env dk role n h) (dk_Namespace dk, n) (vss w) True (vss w')" and "ses w' = ses w"
proof -
  obtain m x where m: "ie_SetControllerReference env dk
      ((vsv_Meta vs)\<lparr>om_Labels := Some (buildIstioLabels (dk_Name dk) role)\<rparr>) = Inr m"
      and create: "ia_Create (ie_virtualServices env) (dk_Namespace dk) (vs\<lparr>vsv_Meta := m\<rparr>) w = (Inr (Some x), w')"
    using run by (auto simp: createIstioConfigurationForVirtualService_def bindE_run split: prod.splits sum.splits option.splits)
  have "om_Name m = n" using lawfulMeshD(7) [OF law m] buildVirtualService_name [OF built] by simp
  then show "addsOne (isServiceOf env dk role n h) (dk_Namespace dk, n) (vss w) True (vss w')"
    using lawfulIstioD(5) [OF lawfulMeshD(3) [OF law] create] m by (auto simp: addsOne_def isServiceOf_def built)
  show "ses w' = ses w" by (rule leavesAloneD(3) [OF lawfulMeshD(4) [OF law] create])
qed

lemma handleServiceEntry_effect:
  assumes law: "lawfulMesh env ses vss" and n: "n \<noteq> []"
    and run: "handleIstioConfigurationForServiceEntry env dk n h role w = (Inr b, w')"
  shows "addsOne (isEntryOf env dk role n h) (dk_Namespace dk, n) (ses w) b (ses w')"
    and "ses w' (dk_Namespace dk, n) \<noteq> None" and "vss w' = vss w"
proof -
  obtain p e w1 where probe: "kubernetesObjectProbe env (ie_serviceEntries env) (dk_Namespace dk) n w = (Inr (p, e), w1)"
    using probe_total [of env "ie_serviceEntries env" "dk_Namespace dk" n w] by blast
  note eff = probe_effect [OF probe lawfulMeshD(1,5) [OF law]]
  have alone: "vss w1 = vss w" by (rule probe_alone [OF probe lawfulMeshD(2,6) [OF law]])
  consider "p = probeObjectFound" "\<not> b" "w' = w1"
    | u where "b" and "createIstioConfigurationForServiceEntry env dk
        (buildServiceEntry n (ie_namespace env) (ch_Host h) (ch_Protocol h) (ch_Port h)) role w1 = (Inr u, w')"
    using run probe by (auto simp: handleIstioConfigurationForServiceEntry_def bindE_run probeError_def
        split: if_splits prod.splits sum.splits)
  then have "addsOne (isEntryOf env dk role n h) (dk_Namespace dk, n) (ses w) b (ses w') \<and>
      ses w' (dk_Namespace dk, n) \<noteq> None \<and> vss w' = vss w"
  proof cases
    case 1
    with eff(1) eff(2) [OF n] alone show ?thesis by (simp add: addsOne_def)
  next
    case 2
    from createServiceEntry_effect [OF law refl 2(2)] 2(1) eff(1) alone show ?thesis by (auto simp: addsOne_def)
  qed
  then show "addsOne (isEntryOf env dk role n h) (dk_Namespace dk, n) (ses w) b (ses w')"
    and "ses w' (dk_Namespace dk, n) \<noteq> None" and "vss w' = vss w" by blast+
qed

lemma handleVirtualService_effect:
  assumes law: "lawfulMesh env ses vss" and n: "n \<noteq> []"
    and run: "handleIstioConfigurationForVirtualService env dk n h role w = (Inr b, w')"
  shows "addsOne (isServiceOf env dk role n h) (dk_Namespace dk, n) (vss w) b (vss w')"
    and "(isIp (ch_Host h) \<longrightarrow> \<not> b) \<and> (isIp (ch_Host h) \<or> vss w' (dk_Namespace dk, n) \<noteq> None)" and "ses w' = ses w"
proof -
  obtain p e w1 where probe: "kubernetesObjectProbe env (ie_virtualServices env) (dk_Namespace dk) n w = (Inr (p, e), w1)"
    using probe_total [of env "ie_virtualServices env" "dk_Namespace dk" n w] by blast
  note eff = probe_effect [OF probe lawfulMeshD(3,6) [OF law]]
  have alone: "ses w1 = ses w" by (rule probe_alone [OF probe lawfulMeshD(4,5) [OF law]])
  consider "p = probeObjectFound \<or> isIp (ch_Host h)" "\<not> b" "w' = w1"
    | vs u where "b" and "buildVirtualService n (ie_namespace env) (ch_Host h) (ch_Protocol h) (ch_Port h) = Some vs"
        and "createIstioConfigurationForVirtualService env dk vs role w1 = (Inr u, w')"
    using run probe by (auto simp: handleIstioConfigurationForVirtualService_def bindE_run probeError_def
        buildVirtualService_def split: if_splits prod.splits sum.splits option.splits)
  then have "addsOne (isServiceOf env dk role n h) (dk_Namespace dk, n) (vss w) b (vss w') \<and>
      ((isIp (ch_Host h) \<longrightarrow> \<not> b) \<and> (isIp (ch_Host h) \<or> vss w' (dk_Namespace dk, n) \<noteq> None)) \<and> ses w' = ses w"
  proof cases
    case 1
    with eff(1) eff(2) [OF n] alone show ?thesis by (auto simp: addsOne_def)
  next
    case 2
    from 2(2) have "\<not> isIp (ch_Host h)" by (auto simp: buildVirtualService_def split: if_splits)
    with createVirtualService_effect [OF law 2(2,3)] 2(1) eff(1) alone
    show ?thesis by (auto simp: addsOne_def)
  qed
  then show "addsOne (isServiceOf env dk role n h) (dk_Namespace dk, n) (vss w) b (vss w')"
    and "(isIp (ch_Host h) \<longrightarrow> \<not> b) \<and> (isIp (ch_Host h) \<or> vss w' (dk_Namespace dk, n) \<noteq> None)" and "ses w' = ses w" by blast+
qed

text \<open>Objects are only added, under names that belong to them.\<close>

definition growsBy ::
  "(string \<Rightarrow> 'o \<Rightarrow> bool) \<Rightarrow> string \<Rightarrow> (objkey \<Rightarrow> 'o option) \<Rightarrow> (objkey \<Rightarrow> 'o option) \<Rightarrow> bool" where
  "growsBy P ns v v' \<longleftrightarrow>
     (\<forall>k ob. v k = Some ob \<longrightarrow> v' k = Some ob) \<and> (\<forall>k ob. v k = None \<and> v' k = Some ob \<longrightarrow> fst k = ns \<and> P (snd k) ob)"

lemma growsBy_refl [simp]: "growsBy P ns v v"
  by (auto simp: growsBy_def)

lemma growsBy_trans: "growsBy P ns v v1 \<Longrightarrow> growsBy P ns v1 v2 \<Longrightarrow> growsBy P ns v v2"
  unfolding growsBy_def by (metis not_Some_eq)

lemma growsBy_present: "growsBy P ns v v' \<Longrightarrow> v k \<noteq> None \<Longrightarrow> v' k \<noteq> None"
  unfolding growsBy_def by (metis not_Some_eq)

lemma addsOne_growsBy: "addsOne Q (ns, n) v b v' \<Longrightarrow> (\<And>ob. Q ob \<Longrightarrow> P n ob) \<Longrightarrow> growsBy P ns v v'"
  unfolding addsOne_def growsBy_def by (auto split: if_splits)

lemma addsOne_new: "addsOne Q k v True v' \<Longrightarrow> v k = None \<and> v' k \<noteq> None"
  by (auto simp: addsOne_def)

text \<open>The objects that belong to the hosts under a name.\<close>

definition entryOfHosts :: "'w istio_env \<Rightarrow> DynaKube \<Rightarrow> string \<Rightarrow> CommunicationHost list \<Rightarrow> string \<Rightarrow> ServiceEntry \<Rightarrow> bool" where
  "entryOfHosts env dk role hosts n se \<longleftrightarrow> list_ex (\<lambda>h. endpointName dk h = n \<and> isEntryOf env dk role n h se) hosts"

definition serviceOfHosts :: "'w istio_env \<Rightarrow> DynaKube \<Rightarrow> string \<Rightarrow> CommunicationHost list \<Rightarrow> string \<Rightarrow> VirtualService \<Rightarrow> bool" where
  "serviceOfHosts env dk role hosts n vs \<longleftrightarrow> list_ex (\<lambda>h. endpointName dk h = n \<and> isServiceOf env dk role n h vs) hosts"

text \<open>The objects of a host are there: a virtual service only for a name, not for an address.\<close>

definition hostConfigured ::
  "DynaKube \<Rightarrow> (objkey \<Rightarrow> ServiceEntry option) \<Rightarrow> (objkey \<Rightarrow> VirtualService option) \<Rightarrow> CommunicationHost \<Rightarrow> bool" where
  "hostConfigured dk se vs h \<longleftrightarrow>
     se (dk_Namespace dk, endpointName dk h) \<noteq> None \<and>
     (isIp (ch_Host h) \<or> vs (dk_Namespace dk, endpointName dk h) \<noteq> None)"

text \<open>An object that was not there is there.\<close>

definition gained :: "(objkey \<Rightarrow> 'o option) \<Rightarrow> (objkey \<Rightarrow> 'o option) \<Rightarrow> bool" where
  "gained v v' \<longleftrightarrow> (\<exists>k. v k = None \<and> v' k \<noteq> None)"

lemma gained_growsBy:
  "gained v v1 \<Longrightarrow> growsBy P ns v1 v2 \<Longrightarrow> gained v v2" "growsBy P ns v v1 \<Longrightarrow> gained v1 v2 \<Longrightarrow> gained v v2"
  unfolding gained_def growsBy_def by (metis not_Some_eq)+

lemma createForHosts_effect:
  assumes law: "lawfulMesh env ses vss" and "createForHosts env dk role hs b0 w = (Inr b, w')" and "set hs \<subseteq> set hosts"
  shows "growsBy (entryOfHosts env dk role hosts) (dk_Namespace dk) (ses w) (ses w') \<and>
    growsBy (serviceOfHosts env dk role hosts) (dk_Namespace dk) (vss w) (vss w') \<and>
    (\<forall>h \<in> set hs. hostConfigured dk (ses w') (vss w') h) \<and> (b0 \<longrightarrow> b) \<and>
    ((\<not> b \<or> (\<forall>h \<in> set hs. hostConfigured dk (ses w) (vss w) h)) \<longrightarrow> b = b0 \<and> ses w' = ses w \<and> vss w' = vss w) \<and>
    (b \<longrightarrow> b0 \<or> gained (ses w) (ses w') \<or> gained (vss w) (vss w'))"
  using assms(2,3)
proof (induction hs arbitrary: b0 w)
  case Nil
  then show ?case by simp
next
  case (Cons h hs)
  let ?n = "endpointName dk h" and ?E = "entryOfHosts env dk role hosts" and ?S = "serviceOfHosts env dk role hosts"
  from Cons.prems(1) obtain b1 w1 b2 w2
    where se: "handleIstioConfigurationForServiceEntry env dk ?n h role w = (Inr b1, w1)"
      and vs: "handleIstioConfigurationForVirtualService env dk ?n h role w1 = (Inr b2, w2)"
      and rest: "createForHosts env dk role hs (b0 \<or> b1 \<or> b2) w2 = (Inr b, w')"
    by (auto simp: bindE_run split: prod.splits sum.splits)
  note eff = handleServiceEntry_effect [OF law endpointName_not_Nil se] handleVirtualService_effect [OF law endpointName_not_Nil vs]
  have N: "h \<in> set hosts" "set hs \<subseteq> set hosts" using Cons.prems(2) by auto
  note all = Cons.IH [OF rest N(2)]
  note IH = all [THEN conjunct1] all [THEN conjunct2, THEN conjunct1] all [THEN conjunct2, THEN conjunct2, THEN conjunct1]
    all [THEN conjunct2, THEN conjunct2, THEN conjunct2, THEN conjunct1]
    all [THEN conjunct2, THEN conjunct2, THEN conjunct2, THEN conjunct2, THEN conjunct1]
    all [THEN conjunct2, THEN conjunct2, THEN conjunct2, THEN conjunct2, THEN conjunct2]
  have ses2: "ses w2 = ses w1" and vss1: "vss w1 = vss w" using eff(3,6) by simp_all
  have mine: "isEntryOf env dk role ?n h ob \<Longrightarrow> ?E ?n ob" "isServiceOf env dk role ?n h ob' \<Longrightarrow> ?S ?n ob'" for ob ob'
    using N(1) by (auto simp: entryOfHosts_def serviceOfHosts_def list_ex_iff)
  have grow: "growsBy ?E (dk_Namespace dk) (ses w) (ses w2)" "growsBy ?S (dk_Namespace dk) (vss w) (vss w2)"
    using addsOne_growsBy [where P = ?E, OF eff(1) mine(1)] addsOne_growsBy [where P = ?S, OF eff(4) mine(2)] by (simp_all add: ses2 vss1)
  have conf: "hostConfigured dk (ses w2) (vss w2) h" using eff(2,5) by (auto simp: hostConfigured_def ses2)
  have conf': "hostConfigured dk (ses w') (vss w') h"
    using conf growsBy_present [OF IH(1)] growsBy_present [OF IH(2)] by (auto simp: hostConfigured_def)
  have idle: "\<not> b1 \<and> \<not> b2" if "hostConfigured dk (ses w) (vss w) h"
    using that eff(1,4,5) by (auto simp: hostConfigured_def addsOne_def vss1)
  have same: "ses w2 = ses w \<and> vss w2 = vss w" if "\<not> b1" "\<not> b2" using that eff(1,4) by (simp add: addsOne_def ses2 vss1)
  have last: "(\<not> b \<or> (\<forall>h \<in> set (h # hs). hostConfigured dk (ses w) (vss w) h)) \<longrightarrow> b = b0 \<and> ses w' = ses w \<and> vss w' = vss w"
  proof
    assume prem: "\<not> b \<or> (\<forall>h \<in> set (h # hs). hostConfigured dk (ses w) (vss w) h)"
    from prem have "\<not> b \<or> hostConfigured dk (ses w) (vss w) h" by (meson list.set_intros(1))
    then have "\<not> b1 \<and> \<not> b2" using idle IH(4) by blast
    then have "ses w2 = ses w \<and> vss w2 = vss w" "(b0 \<or> b1 \<or> b2) = b0" using same by simp_all
    with IH(5) prem show "b = b0 \<and> ses w' = ses w \<and> vss w' = vss w" by simp
  qed
  have "gained (ses w) (ses w2)" if "b1" using addsOne_new eff(1) that unfolding gained_def ses2 by (metis (full_types))
  moreover have "gained (vss w) (vss w2)" if "b2" using addsOne_new eff(4) that unfolding gained_def vss1 by (metis (full_types))
  ultimately have news: "b \<longrightarrow> b0 \<or> gained (ses w) (ses w') \<or> gained (vss w) (vss w')"
    using IH(6) gained_growsBy(1) [OF _ IH(1)] gained_growsBy(1) [OF _ IH(2)] gained_growsBy(2) [OF grow(1)] gained_growsBy(2) [OF grow(2)] by blast
  have "\<forall>h \<in> set (h # hs). hostConfigured dk (ses w') (vss w') h" using IH(3) conf' by simp
  moreover have "b0 \<longrightarrow> b" using IH(4) by blast
  ultimately show ?case using growsBy_trans [OF grow(1) IH(1)] growsBy_trans [OF grow(2) IH(2)] last news by (intro conjI)
qed

section \<open>Lemmas: removing\<close>

text \<open>The names whose deletion fails while the loop runs.\<close>

fun failedDeletes :: "('w, 'o) istioApi \<Rightarrow> ('o \<Rightarrow> ObjectMeta) \<Rightarrow> string \<Rightarrow> string list \<Rightarrow> 'o list \<Rightarrow> 'w \<Rightarrow> string list" where
  "failedDeletes api meta ns seen [] w = []"
| "failedDeletes api meta ns seen (ob # obs) w =
     (if om_Name (meta ob) \<in> set seen then failedDeletes api meta ns seen obs w
      else case ia_Delete api ns (om_Name (meta ob)) w of
             (Inl _, w1) \<Rightarrow> om_Name (meta ob) # failedDeletes api meta ns seen obs w1
           | (Inr _, w1) \<Rightarrow> failedDeletes api meta ns seen obs w1)"

lemma removeUnused_effect:
  assumes law: "lawfulIstio api meta view"
  shows "\<exists>b w'. removeUnused api meta ns seen obs del w = (Inr b, w') \<and>
    (\<forall>k. fst k \<noteq> ns \<or> snd k \<in> set seen \<or> (\<forall>ob \<in> set obs. om_Name (meta ob) \<noteq> snd k) \<longrightarrow> view w' k = view w k) \<and>
    (\<forall>k. view w k = None \<longrightarrow> view w' k = None) \<and>
    (\<forall>ob \<in> set obs. om_Name (meta ob) \<notin> set seen \<and> om_Name (meta ob) \<notin> set (failedDeletes api meta ns seen obs w) \<longrightarrow>
       view w' (ns, om_Name (meta ob)) = None) \<and>
    ((\<forall>ob \<in> set obs. om_Name (meta ob) \<in> set seen) \<longrightarrow> b = del \<and> w' = w) \<and>
    (b \<longrightarrow> del \<or> (\<exists>ob \<in> set obs. om_Name (meta ob) \<notin> set seen \<and> view w' (ns, om_Name (meta ob)) = None))"
proof (induction obs arbitrary: del w)
  case Nil
  then show ?case by simp
next
  case (Cons ob obs)
  show ?case
  proof (cases "om_Name (meta ob) \<in> set seen")
    case True
    obtain b w' where IH: "removeUnused api meta ns seen obs del w = (Inr b, w')"
        "\<forall>k. fst k \<noteq> ns \<or> snd k \<in> set seen \<or> (\<forall>ob \<in> set obs. om_Name (meta ob) \<noteq> snd k) \<longrightarrow> view w' k = view w k"
        "\<forall>k. view w k = None \<longrightarrow> view w' k = None"
        "\<forall>ob \<in> set obs. om_Name (meta ob) \<notin> set seen \<and> om_Name (meta ob) \<notin> set (failedDeletes api meta ns seen obs w) \<longrightarrow>
           view w' (ns, om_Name (meta ob)) = None"
        "(\<forall>ob \<in> set obs. om_Name (meta ob) \<in> set seen) \<longrightarrow> b = del \<and> w' = w"
        "b \<longrightarrow> del \<or> (\<exists>ob \<in> set obs. om_Name (meta ob) \<notin> set seen \<and> view w' (ns, om_Name (meta ob)) = None)"
      using Cons.IH [of del w] by blast
    have "removeUnused api meta ns seen (ob # obs) del w = (Inr b, w')" using True IH(1) by simp
    moreover have "failedDeletes api meta ns seen (ob # obs) w = failedDeletes api meta ns seen obs w" using True by simp
    ultimately show ?thesis using True IH(2-6) by (intro exI [of _ b] exI [of _ w']) (simp only: list.set ball_simps, blast)
  next
    case False
    obtain r w1 where d: "ia_Delete api ns (om_Name (meta ob)) w = (r, w1)" by (meson surj_pair)
    define del1 where "del1 = (case r of Inl _ \<Rightarrow> del | Inr _ \<Rightarrow> True)"
    have step: "removeUnused api meta ns seen (ob # obs) del w = removeUnused api meta ns seen obs del1 w1"
      using False d by (cases r) (simp_all add: del1_def)
    have w1: "view w1 = (case r of Inl _ \<Rightarrow> view w | Inr _ \<Rightarrow> (view w)((ns, om_Name (meta ob)) := None))"
      using d lawfulIstioD(6,7) [OF law] by (auto split: sum.split)
    have w1k: "view w1 k = view w k" if "k \<noteq> (ns, om_Name (meta ob))" for k
      using w1 that by (cases r) simp_all
    have w1n: "view w1 k = None" if "view w k = None" for k using w1 that by (cases r) simp_all
    have failed: "set (failedDeletes api meta ns seen (ob # obs) w) =
        (case r of Inl _ \<Rightarrow> {om_Name (meta ob)} | Inr _ \<Rightarrow> {}) \<union> set (failedDeletes api meta ns seen obs w1)"
      using False d by (cases r) simp_all
    obtain b w' where IH: "removeUnused api meta ns seen obs del1 w1 = (Inr b, w')"
        "\<forall>k. fst k \<noteq> ns \<or> snd k \<in> set seen \<or> (\<forall>ob \<in> set obs. om_Name (meta ob) \<noteq> snd k) \<longrightarrow> view w' k = view w1 k"
        "\<forall>k. view w1 k = None \<longrightarrow> view w' k = None"
        "\<forall>ob \<in> set obs. om_Name (meta ob) \<notin> set seen \<and> om_Name (meta ob) \<notin> set (failedDeletes api meta ns seen obs w1) \<longrightarrow>
           view w' (ns, om_Name (meta ob)) = None"
        "b \<longrightarrow> del1 \<or> (\<exists>ob \<in> set obs. om_Name (meta ob) \<notin> set seen \<and> view w' (ns, om_Name (meta ob)) = None)"
      using Cons.IH [of del1 w1] by blast
    have kept: "view w' k = view w k"
      if "fst k \<noteq> ns \<or> snd k \<in> set seen \<or> (\<forall>x \<in> set (ob # obs). om_Name (meta x) \<noteq> snd k)" for k
    proof -
      have "k \<noteq> (ns, om_Name (meta ob))" using that False by auto
      with IH(2) [rule_format, of k] that w1k [of k] show ?thesis by auto
    qed
    have here: "view w' (ns, om_Name (meta ob)) = None" if "r = Inr u" for u using that w1 IH(3) by simp
    have gone: "\<forall>x \<in> set (ob # obs). om_Name (meta x) \<notin> set seen \<and>
        om_Name (meta x) \<notin> set (failedDeletes api meta ns seen (ob # obs) w) \<longrightarrow> view w' (ns, om_Name (meta x)) = None"
      unfolding failed using IH(4) here by (cases r) auto
    have reported: "b \<longrightarrow> del \<or> (\<exists>x \<in> set (ob # obs). om_Name (meta x) \<notin> set seen \<and> view w' (ns, om_Name (meta x)) = None)"
      using IH(5) here False by (cases r) (auto simp: del1_def)
    show ?thesis
      using IH(1,3) w1n kept gone reported False step by (intro exI [of _ b] exI [of _ w']) (simp del: failedDeletes.simps)
  qed
qed

lemma removeUnused_alone:
  assumes "leavesAlone api view" and "removeUnused api meta ns seen obs del w = (r, w')"
  shows "view w' = view w"
  using assms(2)
proof (induction obs arbitrary: del w)
  case Nil
  then show ?case by simp
next
  case (Cons ob obs)
  show ?case
  proof (cases "om_Name (meta ob) \<in> set seen")
    case True
    with Cons show ?thesis by simp
  next
    case False
    obtain q w1 where d: "ia_Delete api ns (om_Name (meta ob)) w = (q, w1)" by (meson surj_pair)
    with Cons.prems False obtain del1 where "removeUnused api meta ns seen obs del1 w1 = (r, w')"
      by (cases q) auto
    with Cons.IH have "view w' = view w1" by blast
    with leavesAloneD(4) [OF assms(1) d] show ?thesis by simp
  qed
qed

text \<open>A loop that reports no deletion deleted nothing.\<close>

lemma removeUnused_quiet:
  assumes law: "lawfulIstio api meta view" and "removeUnused api meta ns seen obs del w = (Inr False, w')"
  shows "\<not> del \<and> view w' = view w"
  using assms(2)
proof (induction obs arbitrary: del w)
  case Nil
  then show ?case by simp
next
  case (Cons ob obs)
  show ?case
  proof (cases "om_Name (meta ob) \<in> set seen")
    case True
    with Cons.prems have "removeUnused api meta ns seen obs del w = (Inr False, w')" by simp
    then show ?thesis by (rule Cons.IH)
  next
    case False
    obtain q w1 where d: "ia_Delete api ns (om_Name (meta ob)) w = (q, w1)" by (meson surj_pair)
    show ?thesis
    proof (cases q)
      case (Inl e)
      with Cons.prems False d have "removeUnused api meta ns seen obs del w1 = (Inr False, w')" by simp
      from Cons.IH [OF this] lawfulIstioD(7) [OF law] d Inl show ?thesis by simp
    next
      case (Inr u)
      with Cons.prems False d have "removeUnused api meta ns seen obs True w1 = (Inr False, w')" by simp
      from Cons.IH [OF this] show ?thesis by simp
    qed
  qed
qed

text \<open>What is left after the removal: unlabelled objects and used names are untouched.\<close>

definition prunes ::
  "('o \<Rightarrow> ObjectMeta) \<Rightarrow> string gomap \<Rightarrow> string \<Rightarrow> string list \<Rightarrow> (objkey \<Rightarrow> 'o option) \<Rightarrow> (objkey \<Rightarrow> 'o option) \<Rightarrow> bool" where
  "prunes meta sel ns seen v v' \<longleftrightarrow>
     (\<forall>k. v k = None \<longrightarrow> v' k = None) \<and>
     (\<forall>k ob. v k = Some ob \<and> (\<not> hasLabels sel (meta ob) \<or> snd k \<in> set seen) \<longrightarrow> v' k = Some ob)"

definition noneUnused :: "('o \<Rightarrow> ObjectMeta) \<Rightarrow> string gomap \<Rightarrow> string \<Rightarrow> string list \<Rightarrow> (objkey \<Rightarrow> 'o option) \<Rightarrow> bool" where
  "noneUnused meta sel ns seen v \<longleftrightarrow>
     (\<forall>ob. v (ns, om_Name (meta ob)) = Some ob \<and> hasLabels sel (meta ob) \<longrightarrow> om_Name (meta ob) \<in> set seen)"

text \<open>The names of the objects with the labels whose deletion fails.\<close>

definition undeleted :: "('w, 'o) istioApi \<Rightarrow> ('o \<Rightarrow> ObjectMeta) \<Rightarrow> string gomap \<Rightarrow> string \<Rightarrow> string list \<Rightarrow> 'w \<Rightarrow> string list" where
  "undeleted api meta sel ns seen w =
     (case ia_List api ns sel w of (Inl _, w1) \<Rightarrow> [] | (Inr obs, w1) \<Rightarrow> failedDeletes api meta ns seen obs w1)"

lemma removal_effect:
  assumes law: "lawfulIstio api meta view"
    and run: "bindE (ia_List api ns sel) (\<lambda>list. removeUnused api meta ns seen list False) w = (Inr b, w')"
  shows "prunes meta sel ns seen (view w) (view w')"
    and "noneUnused meta sel ns (seen @ undeleted api meta sel ns seen w) (view w')"
    and "noneUnused meta sel ns seen (view w) \<Longrightarrow> \<not> b \<and> view w' = view w"
    and "\<not> b \<Longrightarrow> view w' = view w"
    and "b \<Longrightarrow> \<exists>n. n \<notin> set seen \<and> view w (ns, n) \<noteq> None \<and> view w' (ns, n) = None"
proof -
  from run obtain obs w1 where list: "ia_List api ns sel w = (Inr obs, w1)"
      and loop: "removeUnused api meta ns seen obs False w1 = (Inr b, w')"
    by (auto simp: bindE_run split: prod.splits sum.splits)
  have w1: "view w1 = view w" and obs: "set obs = {ob. view w (ns, om_Name (meta ob)) = Some ob \<and> hasLabels sel (meta ob)}"
    using lawfulIstioD(1) [OF law list] by blast+
  obtain same: "\<forall>k. fst k \<noteq> ns \<or> snd k \<in> set seen \<or> (\<forall>ob \<in> set obs. om_Name (meta ob) \<noteq> snd k) \<longrightarrow> view w' k = view w1 k"
      and none: "\<forall>k. view w1 k = None \<longrightarrow> view w' k = None"
      and gone: "\<forall>ob \<in> set obs. om_Name (meta ob) \<notin> set seen \<and> om_Name (meta ob) \<notin> set (failedDeletes api meta ns seen obs w1) \<longrightarrow>
        view w' (ns, om_Name (meta ob)) = None"
      and idle: "(\<forall>ob \<in> set obs. om_Name (meta ob) \<in> set seen) \<longrightarrow> b = False \<and> w' = w1"
      and reported: "b \<longrightarrow> (\<exists>ob \<in> set obs. om_Name (meta ob) \<notin> set seen \<and> view w' (ns, om_Name (meta ob)) = None)"
    using removeUnused_effect [OF law, of ns seen obs False w1] unfolding loop by auto
  have failed: "undeleted api meta sel ns seen w = failedDeletes api meta ns seen obs w1" by (simp add: undeleted_def list)
  have obs_mem: "x \<in> set obs \<longleftrightarrow> view w (ns, om_Name (meta x)) = Some x \<and> hasLabels sel (meta x)" for x
    using obs by blast
  have kept: "view w' k = Some ob" if k: "view w k = Some ob" and "\<not> hasLabels sel (meta ob) \<or> snd k \<in> set seen" for k ob
  proof -
    have "\<not> hasLabels sel (meta ob) \<Longrightarrow> fst k = ns \<Longrightarrow> x \<in> set obs \<Longrightarrow> om_Name (meta x) \<noteq> snd k" for x
      using k obs_mem [of x] by (metis option.inject prod.collapse)
    then have "fst k \<noteq> ns \<or> snd k \<in> set seen \<or> (\<forall>x \<in> set obs. om_Name (meta x) \<noteq> snd k)"
      using that(2) by blast
    then have "view w' k = view w1 k" using same by blast
    then show ?thesis using k w1 by simp
  qed
  then show "prunes meta sel ns seen (view w) (view w')" using none w1 by (simp add: prunes_def)
  show "noneUnused meta sel ns (seen @ undeleted api meta sel ns seen w) (view w')"
    unfolding noneUnused_def failed
  proof (intro allI impI, elim conjE)
    fix ob assume ob: "view w' (ns, om_Name (meta ob)) = Some ob" and lab: "hasLabels sel (meta ob)"
    obtain x where x: "view w (ns, om_Name (meta ob)) = Some x" using none ob w1 by (metis not_Some_eq)
    show "om_Name (meta ob) \<in> set (seen @ failedDeletes api meta ns seen obs w1)"
    proof (rule ccontr)
      assume "om_Name (meta ob) \<notin> set (seen @ failedDeletes api meta ns seen obs w1)"
      then have out: "om_Name (meta ob) \<notin> set seen \<and> om_Name (meta ob) \<notin> set (failedDeletes api meta ns seen obs w1)" by simp
      show False
      proof (cases "x = ob")
        case True
        with x lab have "ob \<in> set obs" by (simp add: obs_mem)
        with gone out have "view w' (ns, om_Name (meta ob)) = None" by blast
        with ob show False by simp
      next
        case False
        then have "\<not> (\<forall>k. snd k = om_Name (meta ob) \<and> fst k = ns \<longrightarrow> view w' k = view w1 k)"
          using ob x w1 by auto
        then obtain y where "y \<in> set obs" "om_Name (meta y) = om_Name (meta ob)" using same by fastforce
        moreover from this have "view w' (ns, om_Name (meta y)) = None" using gone out by metis
        ultimately show False using ob by simp
      qed
    qed
  qed
  show "\<not> b \<and> view w' = view w" if "noneUnused meta sel ns seen (view w)"
  proof -
    have "\<forall>ob \<in> set obs. om_Name (meta ob) \<in> set seen" using that by (simp add: noneUnused_def obs_mem)
    with idle w1 show ?thesis by simp
  qed
  show "view w' = view w" if "\<not> b"
    using removeUnused_quiet [OF law, of ns seen obs False w1 w'] loop that w1 by simp
  show "\<exists>n. n \<notin> set seen \<and> view w (ns, n) \<noteq> None \<and> view w' (ns, n) = None" if "b"
    using reported that obs_mem by (metis option.distinct(1))
qed

section \<open>Lemmas: one pass\<close>

lemma verifyCrd_effect:
  assumes law: "lawfulMesh env ses vss" and run: "verifyIstioCrdAvailability env dk w = (r, w')"
  shows "\<exists>p. r = Inr p" and "ses w' = ses w" and "vss w' = vss w"
proof -
  obtain p e w1 where p1: "kubernetesObjectProbe env (ie_serviceEntries env) (dk_Namespace dk) [] w = (Inr (p, e), w1)"
    using probe_total [of env "ie_serviceEntries env" "dk_Namespace dk" "[]" w] by blast
  obtain q d w2 where p2: "kubernetesObjectProbe env (ie_virtualServices env) (dk_Namespace dk) [] w1 = (Inr (q, d), w2)"
    using probe_total [of env "ie_virtualServices env" "dk_Namespace dk" "[]" w1] by blast
  have ses: "ses w1 = ses w" "ses w2 = ses w1"
    using probe_effect(1) [OF p1 lawfulMeshD(1,5) [OF law]] probe_alone [OF p2 lawfulMeshD(4,5) [OF law]] by simp_all
  have vss: "vss w1 = vss w" "vss w2 = vss w1"
    using probe_alone [OF p1 lawfulMeshD(2,6) [OF law]] probe_effect(1) [OF p2 lawfulMeshD(3,6) [OF law]] by simp_all
  have "(\<exists>p. r = Inr p) \<and> (w' = w1 \<or> w' = w2)"
    using run p1 p2 by (auto simp: verifyIstioCrdAvailability_def bindE_run split: if_splits)
  with ses vss show "\<exists>p. r = Inr p" "ses w' = ses w" "vss w' = vss w" by auto
qed

text \<open>The cluster knows the types of Istio, as the probe at the start of a pass finds.\<close>

definition typesFound :: "'w istio_env \<Rightarrow> DynaKube \<Rightarrow> 'w \<Rightarrow> bool" where
  "typesFound env dk w \<longleftrightarrow> fst (verifyIstioCrdAvailability env dk w) = Inr probeTypeFound"

lemma reconcileCreate_effect:
  assumes law: "lawfulMesh env ses vss"
    and run: "reconcileIstioCreateConfigurations env dk hosts role w = (Inr b, w')"
  shows "growsBy (entryOfHosts env dk role hosts) (dk_Namespace dk) (ses w) (ses w')"
    and "growsBy (serviceOfHosts env dk role hosts) (dk_Namespace dk) (vss w) (vss w')"
    and "typesFound env dk w \<Longrightarrow> \<forall>h \<in> set hosts. hostConfigured dk (ses w') (vss w') h"
    and "\<forall>h \<in> set hosts. hostConfigured dk (ses w) (vss w) h \<Longrightarrow> \<not> b \<and> ses w' = ses w \<and> vss w' = vss w"
    and "\<not> b \<or> \<not> typesFound env dk w \<Longrightarrow> ses w' = ses w \<and> vss w' = vss w"
    and "b \<Longrightarrow> gained (ses w) (ses w') \<or> gained (vss w) (vss w')"
proof -
  obtain p w1 where crd: "verifyIstioCrdAvailability env dk w = (Inr p, w1)"
    using verifyCrd_effect(1) [OF law] by (metis surj_pair)
  note same = verifyCrd_effect(2,3) [OF law crd]
  have found: "typesFound env dk w \<longleftrightarrow> p = probeTypeFound" by (simp add: typesFound_def crd)
  have "growsBy (entryOfHosts env dk role hosts) (dk_Namespace dk) (ses w) (ses w') \<and>
    growsBy (serviceOfHosts env dk role hosts) (dk_Namespace dk) (vss w) (vss w') \<and>
    (typesFound env dk w \<longrightarrow> (\<forall>h \<in> set hosts. hostConfigured dk (ses w') (vss w') h)) \<and>
    ((\<forall>h \<in> set hosts. hostConfigured dk (ses w) (vss w) h) \<longrightarrow> \<not> b \<and> ses w' = ses w \<and> vss w' = vss w) \<and>
    (\<not> b \<or> \<not> typesFound env dk w \<longrightarrow> ses w' = ses w \<and> vss w' = vss w) \<and>
    (b \<longrightarrow> gained (ses w) (ses w') \<or> gained (vss w) (vss w'))"
  proof (cases "p = probeTypeFound")
    case True
    with run crd have "createForHosts env dk role hosts False w1 = (Inr b, w')" by (simp add: reconcileIstioCreateConfigurations_def)
    from createForHosts_effect [OF law this subset_refl, unfolded same] True found show ?thesis by blast
  next
    case False
    with run crd have "\<not> b" "w' = w1" by (simp_all add: reconcileIstioCreateConfigurations_def)
    with same False found show ?thesis by simp
  qed
  note all = this
  show "growsBy (entryOfHosts env dk role hosts) (dk_Namespace dk) (ses w) (ses w')"
    and "growsBy (serviceOfHosts env dk role hosts) (dk_Namespace dk) (vss w) (vss w')"
    and "typesFound env dk w \<Longrightarrow> \<forall>h \<in> set hosts. hostConfigured dk (ses w') (vss w') h"
    and "\<forall>h \<in> set hosts. hostConfigured dk (ses w) (vss w) h \<Longrightarrow> \<not> b \<and> ses w' = ses w \<and> vss w' = vss w"
    and "\<not> b \<or> \<not> typesFound env dk w \<Longrightarrow> ses w' = ses w \<and> vss w' = vss w"
    and "b \<Longrightarrow> gained (ses w) (ses w') \<or> gained (vss w) (vss w')"
    using all by blast+
qed

text \<open>The names that a removal was not able to delete: of virtual services, and of service entries after those.\<close>

definition keptServices :: "'w istio_env \<Rightarrow> DynaKube \<Rightarrow> CommunicationHost list \<Rightarrow> string \<Rightarrow> 'w \<Rightarrow> string list" where
  "keptServices env dk hosts role w =
     undeleted (ie_virtualServices env) vsv_Meta (buildIstioLabels (dk_Name dk) role) (dk_Namespace dk) (map (endpointName dk) hosts) w"

definition keptEntries :: "'w istio_env \<Rightarrow> DynaKube \<Rightarrow> CommunicationHost list \<Rightarrow> string \<Rightarrow> 'w \<Rightarrow> string list" where
  "keptEntries env dk hosts role w =
     undeleted (ie_serviceEntries env) se_Meta (buildIstioLabels (dk_Name dk) role) (dk_Namespace dk) (map (endpointName dk) hosts)
       (snd (removeIstioConfigurationForVirtualService env (buildIstioLabels (dk_Name dk) role) (map (endpointName dk) hosts) (dk_Namespace dk) w))"

lemma reconcileRemove_effect:
  assumes law: "lawfulMesh env ses vss"
    and run: "reconcileIstioRemoveConfigurations env dk hosts role w = (Inr b, w')"
  defines "sel \<equiv> buildIstioLabels (dk_Name dk) role" and "seen \<equiv> map (endpointName dk) hosts" and "ns \<equiv> dk_Namespace dk"
  shows "prunes se_Meta sel ns seen (ses w) (ses w')" and "prunes vsv_Meta sel ns seen (vss w) (vss w')"
    and "noneUnused se_Meta sel ns (seen @ keptEntries env dk hosts role w) (ses w')"
    and "noneUnused vsv_Meta sel ns (seen @ keptServices env dk hosts role w) (vss w')"
    and "noneUnused se_Meta sel ns seen (ses w) \<Longrightarrow> noneUnused vsv_Meta sel ns seen (vss w) \<Longrightarrow>
           \<not> b \<and> ses w' = ses w \<and> vss w' = vss w"
    and "\<not> b \<Longrightarrow> ses w' = ses w \<and> vss w' = vss w"
    and "b \<Longrightarrow> (\<exists>n. n \<notin> set seen \<and> ses w (ns, n) \<noteq> None \<and> ses w' (ns, n) = None) \<or>
      (\<exists>n. n \<notin> set seen \<and> vss w (ns, n) \<noteq> None \<and> vss w' (ns, n) = None)"
proof -
  from run obtain b1 w1 b2
    where vs: "bindE (ia_List (ie_virtualServices env) ns sel)
        (\<lambda>list. removeUnused (ie_virtualServices env) vsv_Meta ns seen list False) w = (Inr b1, w1)"
      and se: "bindE (ia_List (ie_serviceEntries env) ns sel)
        (\<lambda>list. removeUnused (ie_serviceEntries env) se_Meta ns seen list False) w1 = (Inr b2, w')"
      and b: "b = (b1 \<or> b2)"
    by (auto simp: reconcileIstioRemoveConfigurations_def removeIstioConfigurationForServiceEntry_def
        removeIstioConfigurationForVirtualService_def Let_def sel_def seen_def ns_def dest!: bindE_InrD)
  have kept: "keptServices env dk hosts role w = undeleted (ie_virtualServices env) vsv_Meta sel ns seen w"
    "keptEntries env dk hosts role w = undeleted (ie_serviceEntries env) se_Meta sel ns seen w1"
    using vs by (simp_all add: keptServices_def keptEntries_def removeIstioConfigurationForVirtualService_def sel_def seen_def ns_def)
  have alone1: "ses w1 = ses w"
    using vs leavesAloneD(1) [OF lawfulMeshD(4) [OF law]] removeUnused_alone [OF lawfulMeshD(4) [OF law]]
    by (metis bindE_InrD)
  have alone2: "vss w' = vss w1"
    using se leavesAloneD(1) [OF lawfulMeshD(2) [OF law]] removeUnused_alone [OF lawfulMeshD(2) [OF law]]
    by (metis bindE_InrD)
  note e1 = removal_effect [OF lawfulMeshD(3) [OF law] vs] and e2 = removal_effect [OF lawfulMeshD(1) [OF law] se]
  show "prunes se_Meta sel ns seen (ses w) (ses w')" using e2(1) by (simp add: alone1)
  show "prunes vsv_Meta sel ns seen (vss w) (vss w')" using e1(1) by (simp add: alone2)
  show "noneUnused se_Meta sel ns (seen @ keptEntries env dk hosts role w) (ses w')" using e2(2) by (simp add: kept)
  show "noneUnused vsv_Meta sel ns (seen @ keptServices env dk hosts role w) (vss w')" using e1(2) by (simp add: alone2 kept)
  show "\<not> b \<and> ses w' = ses w \<and> vss w' = vss w"
    if "noneUnused se_Meta sel ns seen (ses w)" "noneUnused vsv_Meta sel ns seen (vss w)"
    using e1(3) [OF that(2)] e2(3) [unfolded alone1, OF that(1)] b alone2 by simp
  show "ses w' = ses w \<and> vss w' = vss w" if "\<not> b"
    using e1(4) e2(4) that b alone1 alone2 by simp
  show "(\<exists>n. n \<notin> set seen \<and> ses w (ns, n) \<noteq> None \<and> ses w' (ns, n) = None) \<or>
      (\<exists>n. n \<notin> set seen \<and> vss w (ns, n) \<noteq> None \<and> vss w' (ns, n) = None)" if "b"
    using e1(5) e2(5) that b unfolding alone1 alone2 by blast
qed

lemma hostConfigured_prunes:
  assumes "prunes se_Meta sel ns (map (endpointName dk) hosts) se se'"
    and "prunes vsv_Meta sel ns (map (endpointName dk) hosts) vs vs'"
    and "h \<in> set hosts" and "hostConfigured dk se vs h"
  shows "hostConfigured dk se' vs' h"
proof -
  have n: "endpointName dk h \<in> set (map (endpointName dk) hosts)" using assms(3) by simp
  have "se' (dk_Namespace dk, endpointName dk h) \<noteq> None" if "se (dk_Namespace dk, endpointName dk h) \<noteq> None"
    using assms(1) n that unfolding prunes_def by (metis not_Some_eq snd_conv)
  moreover have "vs' (dk_Namespace dk, endpointName dk h) \<noteq> None" if "vs (dk_Namespace dk, endpointName dk h) \<noteq> None"
    using assms(2) n that unfolding prunes_def by (metis not_Some_eq snd_conv)
  ultimately show ?thesis using assms(4) by (auto simp: hostConfigured_def)
qed

text \<open>The objects at the name of a host after a pass: what was there has stayed as it was, and what is new belongs to the host (or to another
  host of the pass with the same name).\<close>

definition keptOrNew :: "(string \<Rightarrow> 'o \<Rightarrow> bool) \<Rightarrow> objkey \<Rightarrow> (objkey \<Rightarrow> 'o option) \<Rightarrow> (objkey \<Rightarrow> 'o option) \<Rightarrow> bool" where
  "keptOrNew P k v v' \<longleftrightarrow> (case v' k of None \<Rightarrow> v k = None | Some ob \<Rightarrow> if v k = None then P (snd k) ob else v k = Some ob)"

lemma keptOrNew_pass:
  assumes "growsBy P ns v v1" and "prunes meta sel ns seen v1 v'" and "snd k \<in> set seen"
  shows "keptOrNew P k v v'" and "v' k = v1 k"
proof -
  show same: "v' k = v1 k" using assms(2,3) unfolding prunes_def by (cases "v1 k") (simp_all del: split_paired_All)
  show "keptOrNew P k v v'"
    using assms(1) unfolding keptOrNew_def same growsBy_def by (cases "v1 k"; cases "v k") (auto simp del: split_paired_All)
qed

text \<open>The names that the removal of a pass was not able to delete.\<close>

definition passKept :: "'w istio_env \<Rightarrow> DynaKube \<Rightarrow> CommunicationHost list \<Rightarrow> string \<Rightarrow> 'w \<Rightarrow> string list \<times> string list" where
  "passKept env dk hosts role w =
     (let w1 = snd (reconcileIstioCreateConfigurations env dk hosts role w)
      in (keptEntries env dk hosts role w1, keptServices env dk hosts role w1))"

text \<open>What one pass establishes, and what it leaves alone.\<close>

lemma reconcileIstio_post:
  assumes law: "lawfulMesh env ses vss"
    and run: "reconcileIstioConfigurations env dk hosts role w = (Inr upd, w')"
  defines "sel \<equiv> buildIstioLabels (dk_Name dk) role" and "seen \<equiv> map (endpointName dk) hosts" and "ns \<equiv> dk_Namespace dk"
  shows "typesFound env dk w \<Longrightarrow> \<forall>h \<in> set hosts. hostConfigured dk (ses w') (vss w') h"
    and "noneUnused se_Meta sel ns (seen @ fst (passKept env dk hosts role w)) (ses w')"
    and "noneUnused vsv_Meta sel ns (seen @ snd (passKept env dk hosts role w)) (vss w')"
    and "ses w k = Some s \<Longrightarrow> \<not> hasLabels sel (se_Meta s) \<Longrightarrow> ses w' k = Some s"
    and "vss w k = Some v \<Longrightarrow> \<not> hasLabels sel (vsv_Meta v) \<Longrightarrow> vss w' k = Some v"
    and "\<forall>h \<in> set hosts. hostConfigured dk (ses w) (vss w) h \<Longrightarrow> noneUnused se_Meta sel ns seen (ses w) \<Longrightarrow>
           noneUnused vsv_Meta sel ns seen (vss w) \<Longrightarrow> \<not> upd"
    and "upd \<longleftrightarrow> ses w' \<noteq> ses w \<or> vss w' \<noteq> vss w"
    and "snd k \<in> set seen \<Longrightarrow> keptOrNew (entryOfHosts env dk role hosts) k (ses w) (ses w') \<and> keptOrNew (serviceOfHosts env dk role hosts) k (vss w) (vss w')"
    and "snd k \<in> set seen \<Longrightarrow> \<not> typesFound env dk w \<Longrightarrow> ses w' k = ses w k \<and> vss w' k = vss w k"
proof -
  from run obtain a w1 b where create: "reconcileIstioCreateConfigurations env dk hosts role w = (Inr a, w1)"
      and remove: "reconcileIstioRemoveConfigurations env dk hosts role w1 = (Inr b, w')" and upd: "upd = (a \<or> b)"
    by (auto simp: reconcileIstioConfigurations_def dest!: bindE_InrD)
  note c = reconcileCreate_effect [OF law create, folded ns_def]
  note r = reconcileRemove_effect [OF law remove, folded sel_def seen_def ns_def]
  have kept: "passKept env dk hosts role w = (keptEntries env dk hosts role w1, keptServices env dk hosts role w1)"
    by (simp add: passKept_def create Let_def)
  show "\<forall>h \<in> set hosts. hostConfigured dk (ses w') (vss w') h" if "typesFound env dk w"
    using hostConfigured_prunes [OF r(1) [unfolded seen_def] r(2) [unfolded seen_def]] c(3) [OF that] by blast
  show "noneUnused se_Meta sel ns (seen @ fst (passKept env dk hosts role w)) (ses w')"
    "noneUnused vsv_Meta sel ns (seen @ snd (passKept env dk hosts role w)) (vss w')" using r(3,4) by (simp_all add: kept)
  show "ses w k = Some s \<Longrightarrow> \<not> hasLabels sel (se_Meta s) \<Longrightarrow> ses w' k = Some s"
    using c(1) r(1) unfolding growsBy_def prunes_def by blast
  show "vss w k = Some v \<Longrightarrow> \<not> hasLabels sel (vsv_Meta v) \<Longrightarrow> vss w' k = Some v"
    using c(2) r(2) unfolding growsBy_def prunes_def by blast
  show "\<not> upd"
    if "\<forall>h \<in> set hosts. hostConfigured dk (ses w) (vss w) h" "noneUnused se_Meta sel ns seen (ses w)"
      "noneUnused vsv_Meta sel ns seen (vss w)"
  proof -
    have idle: "\<not> a" "ses w1 = ses w" "vss w1 = vss w" using c(4) [OF that(1)] by blast+
    with r(5) that(2,3) show ?thesis by (simp add: upd)
  qed
  show at_name: "keptOrNew (entryOfHosts env dk role hosts) k (ses w) (ses w') \<and> keptOrNew (serviceOfHosts env dk role hosts) k (vss w) (vss w')"
    if "snd k \<in> set seen" for k
    using keptOrNew_pass(1) [OF c(1) r(1) that] keptOrNew_pass(1) [OF c(2) r(2) that] by blast
  show "ses w' k = ses w k \<and> vss w' k = vss w k" if "snd k \<in> set seen" "\<not> typesFound env dk w"
    using keptOrNew_pass(2) [OF c(1) r(1) that(1)] keptOrNew_pass(2) [OF c(2) r(2) that(1)] c(5) that(2) by simp
  have names: "entryOfHosts env dk role hosts n x \<Longrightarrow> n \<in> set seen" "serviceOfHosts env dk role hosts n y \<Longrightarrow> n \<in> set seen" for n x y
    by (auto simp: entryOfHosts_def serviceOfHosts_def list_ex_iff seen_def)
  have "ses w' \<noteq> ses w \<or> vss w' \<noteq> vss w" if "a"
    using c(6) [OF that]
  proof
    assume "gained (ses w) (ses w1)"
    then obtain k x where k: "ses w k = None" "ses w1 k = Some x" by (auto simp: gained_def simp del: split_paired_Ex)
    then have "snd k \<in> set seen" using c(1) names(1) unfolding growsBy_def by blast
    from keptOrNew_pass(2) [OF c(1) r(1) this] k show ?thesis by (metis option.distinct(1))
  next
    assume "gained (vss w) (vss w1)"
    then obtain k x where k: "vss w k = None" "vss w1 k = Some x" by (auto simp: gained_def simp del: split_paired_Ex)
    then have "snd k \<in> set seen" using c(2) names(2) unfolding growsBy_def by blast
    from keptOrNew_pass(2) [OF c(2) r(2) this] k show ?thesis by (metis option.distinct(1))
  qed
  moreover have "ses w' \<noteq> ses w \<or> vss w' \<noteq> vss w" if "b"
    using r(7) [OF that]
  proof (elim disjE exE conjE)
    fix n assume n: "n \<notin> set seen" "ses w1 (ns, n) \<noteq> None" "ses w' (ns, n) = None"
    then have "ses w (ns, n) \<noteq> None" using c(1) names(1) unfolding growsBy_def by (metis not_Some_eq snd_conv)
    with n(3) show ?thesis by metis
  next
    fix n assume n: "n \<notin> set seen" "vss w1 (ns, n) \<noteq> None" "vss w' (ns, n) = None"
    then have "vss w (ns, n) \<noteq> None" using c(2) names(2) unfolding growsBy_def by (metis not_Some_eq snd_conv)
    with n(3) show ?thesis by metis
  qed
  moreover have "ses w' = ses w \<and> vss w' = vss w" if "\<not> upd" using c(5) r(6) that upd by simp
  ultimately show "upd \<longleftrightarrow> ses w' \<noteq> ses w \<or> vss w' \<noteq> vss w" using upd by blast
qed

section \<open>A mesh that keeps its objects in lists\<close>

definition listIstio ::
  "('w \<Rightarrow> 'o store) \<Rightarrow> ('o store \<Rightarrow> 'w \<Rightarrow> 'w) \<Rightarrow> ('o \<Rightarrow> ObjectMeta) \<Rightarrow> ('w, 'o) istioApi" where
  "listIstio get put meta =
     \<lparr>ia_List = (\<lambda>ns sel w. (Inr (filter (\<lambda>ob. map_of (get w) (ns, om_Name (meta ob)) = Some ob \<and> hasLabels sel (meta ob))
                                   (map snd (get w))), w)),
      ia_Create = (\<lambda>ns ob w. if map_of (get w) (ns, om_Name (meta ob)) = None
                             then (Inr (Some ob), put (((ns, om_Name (meta ob)), ob) # get w) w)
                             else (Inl (ApiError ''already exists''), w)),
      ia_Delete = (\<lambda>ns n w. (Inr (), put (AList.delete (ns, n) (get w)) w)),
      ia_ProbeList = (\<lambda>ns w. (Inr (), w)),
      ia_ProbeGet = (\<lambda>k w. (if map_of (get w) k = None then Inl (ApiNotFound (snd k)) else Inr (), w))\<rparr>"

lemma map_of_mem_snd: "map_of w k = Some ob \<Longrightarrow> ob \<in> snd ` set w"
  by (drule map_of_SomeD) force

lemma lawful_listIstio:
  "(\<And>x w. get (put x w) = x) \<Longrightarrow> lawfulIstio (listIstio get put meta) meta (\<lambda>w. map_of (get w))"
  unfolding lawfulIstio_def lawfulList_def lawfulProbe_def lawfulWrite_def listIstio_def
  by (auto simp: delete_conv' intro: map_of_mem_snd split: if_splits)

lemma leavesAlone_listIstio:
  "(\<And>x w. view (put x w) = view w) \<Longrightarrow> leavesAlone (listIstio get put meta) view"
  by (simp add: leavesAlone_def listIstio_def)

type_synonym mesh = "ServiceEntry store \<times> VirtualService store"

definition listMesh :: "mesh istio_env" where
  "listMesh =
     \<lparr>ie_namespace = ''dynatrace'', ie_serverGroups = retE [istioGVRName], ie_newClient = retE (),
      ie_serviceEntries = listIstio fst (\<lambda>x w. (x, snd w)) se_Meta,
      ie_virtualServices = listIstio snd (\<lambda>x w. (fst w, x)) vsv_Meta,
      ie_SetControllerReference = (\<lambda>dk m. Inr m)\<rparr>"

abbreviation meshEntries :: "mesh \<Rightarrow> objkey \<Rightarrow> ServiceEntry option" where "meshEntries w \<equiv> map_of (fst w)"
abbreviation meshServices :: "mesh \<Rightarrow> objkey \<Rightarrow> VirtualService option" where "meshServices w \<equiv> map_of (snd w)"

lemma lawful_listMesh: "lawfulMesh listMesh meshEntries meshServices"
  by (simp add: lawfulMesh_def listMesh_def lawful_listIstio leavesAlone_listIstio)

lemma listMesh_types: "verifyIstioCrdAvailability listMesh dk w = (Inr probeTypeFound, w)"
  by (simp add: verifyIstioCrdAvailability_def kubernetesObjectProbe_def mapErrorToObjectProbeResult_def catchE_run bindE_run listMesh_def listIstio_def)

section \<open>An example\<close>

definition exampleMeshHost :: CommunicationHost where
  "exampleMeshHost = \<lparr>ch_Protocol = ''https'', ch_Host = ''tenant.live.dynatrace.com'', ch_Port = 443\<rparr>"

definition exampleMeshOwner :: DynaKube where
  "exampleMeshOwner = zeroDynaKube
     \<lparr>dk_Meta := emptyMeta\<lparr>om_Name := ''dynakube'', om_Namespace := ''dynatrace''\<rparr>,
      dk_Status := zeroStatus\<lparr>st_CommunicationHostForClient :=
        \<lparr>chs_Protocol = ''https'', chs_Host = ''tenant.live.dynatrace.com'', chs_Port = 443\<rparr>\<rparr>\<rparr>"

text \<open>A mesh with an entry of a host that is no longer used, and an entry somebody else created.\<close>

definition exampleStale :: ServiceEntry where
  "exampleStale = (buildServiceEntry ''stale'' ''dynatrace'' ''old.dynatrace.com'' ''https'' 443)
     \<lparr>se_Meta := (buildObjectMeta ''stale'' ''dynatrace'')\<lparr>om_Labels := Some (buildIstioLabels ''dynakube'' ''api-url'')\<rparr>\<rparr>"

definition exampleForeign :: ServiceEntry where
  "exampleForeign = buildServiceEntry ''foreign'' ''dynatrace'' ''example.org'' ''https'' 443"

definition exampleMesh :: mesh where
  "exampleMesh = ([((''dynatrace'', ''stale''), exampleStale), ((''dynatrace'', ''foreign''), exampleForeign)], [])"

text \<open>On this mesh every pass returns without an error.\<close>

lemma handle_listMesh:
  "\<exists>b w'. handleIstioConfigurationForServiceEntry listMesh dk n h role w = (Inr b, w')"
  "\<exists>b w'. handleIstioConfigurationForVirtualService listMesh dk n h role w = (Inr b, w')"
proof -
  have name: "buildVirtualService n ns host p q = Some v \<Longrightarrow> om_Name (vsv_Meta v) = n" for ns host p q v
    by (rule buildVirtualService_name)
  show "\<exists>b w'. handleIstioConfigurationForServiceEntry listMesh dk n h role w = (Inr b, w')"
    by (auto simp: handleIstioConfigurationForServiceEntry_def createIstioConfigurationForServiceEntry_def
        kubernetesObjectProbe_def mapErrorToObjectProbeResult_def bindE_run catchE_run listMesh_def listIstio_def)
  show "\<exists>b w'. handleIstioConfigurationForVirtualService listMesh dk n h role w = (Inr b, w')"
    by (auto simp: handleIstioConfigurationForVirtualService_def createIstioConfigurationForVirtualService_def
        kubernetesObjectProbe_def mapErrorToObjectProbeResult_def bindE_run catchE_run listMesh_def listIstio_def
        dest: name split: option.split)
qed

lemma createForHosts_listMesh: "\<exists>b w'. createForHosts listMesh dk role hs b0 w = (Inr b, w')"
proof (induction hs arbitrary: b0 w)
  case (Cons h hs)
  obtain b1 w1 where "handleIstioConfigurationForServiceEntry listMesh dk (endpointName dk h) h role w = (Inr b1, w1)"
    using handle_listMesh(1) by blast
  moreover obtain b2 w2 where "handleIstioConfigurationForVirtualService listMesh dk (endpointName dk h) h role w1 = (Inr b2, w2)"
    using handle_listMesh(2) by blast
  ultimately show ?case using Cons.IH by simp
qed simp

lemma remove_listMesh: "\<exists>b w'. reconcileIstioRemoveConfigurations listMesh dk hosts role w = (Inr b, w')"
proof -
  have loop: "\<exists>b w'. bindE (ia_List api ns sel) (\<lambda>list. removeUnused api meta ns seen list False) w = (Inr b, w')"
    if law: "lawfulIstio api meta view" and ok: "\<And>w. \<exists>obs. ia_List api ns sel w = (Inr obs, w)"
    for api :: "(mesh, 'o) istioApi" and meta view ns sel seen w
  proof -
    obtain obs where "ia_List api ns sel w = (Inr obs, w)" using ok by blast
    with removeUnused_effect [OF law, of ns seen obs False w] show ?thesis by auto
  qed
  have lists: "\<exists>obs. ia_List (ie_serviceEntries listMesh) ns sel w = (Inr obs, w)"
    "\<exists>obs. ia_List (ie_virtualServices listMesh) ns sel w = (Inr obs, w)" for ns sel w
    by (simp_all add: listMesh_def listIstio_def)
  obtain b1 w1 where "removeIstioConfigurationForVirtualService listMesh (buildIstioLabels (dk_Name dk) role)
      (map (endpointName dk) hosts) (dk_Namespace dk) w = (Inr b1, w1)"
    unfolding removeIstioConfigurationForVirtualService_def
    using loop [OF lawfulMeshD(3) [OF lawful_listMesh] lists(2)] by blast
  moreover obtain b2 w2 where "removeIstioConfigurationForServiceEntry listMesh (buildIstioLabels (dk_Name dk) role)
      (map (endpointName dk) hosts) (dk_Namespace dk) w1 = (Inr b2, w2)"
    unfolding removeIstioConfigurationForServiceEntry_def
    using loop [OF lawfulMeshD(1) [OF lawful_listMesh] lists(1)] by blast
  ultimately show ?thesis by (simp add: reconcileIstioRemoveConfigurations_def Let_def)
qed

lemma pass_listMesh: "\<exists>b w'. reconcileIstioConfigurations listMesh dk hosts role w = (Inr b, w')"
proof -
  obtain b w2 where "createForHosts listMesh dk role hosts False w = (Inr b, w2)"
    using createForHosts_listMesh by blast
  then have "reconcileIstioCreateConfigurations listMesh dk hosts role w = (Inr b, w2)"
    by (simp add: reconcileIstioCreateConfigurations_def listMesh_types)
  moreover obtain b' w' where "reconcileIstioRemoveConfigurations listMesh dk hosts role w2 = (Inr b', w')"
    using remove_listMesh by blast
  ultimately show ?thesis by (simp add: reconcileIstioConfigurations_def)
qed

lemma reconcile_listMesh: "\<exists>b w'. ReconcileIstio listMesh dk w = (Inr b, w')"
proof -
  have enabled: "CheckIstioEnabled listMesh w = (Inr True, w)" by (simp add: CheckIstioEnabled_def listMesh_def)
  obtain b w1 where api: "reconcileIstioConfigurations listMesh dk [CommunicationHostForClient dk] ''api-url'' w = (Inr b, w1)"
    using pass_listMesh by blast
  obtain c w2 where "reconcileIstioConfigurations listMesh dk (ci_CommunicationHosts (dk_ConnectionInfo dk)) ''communication-endpoint'' w1 = (Inr c, w2)"
    using pass_listMesh by blast
  with enabled api show ?thesis by (auto simp: ReconcileIstio_def bindE_run wrapE_run)
qed

section \<open>Properties\<close>

text \<open>The mesh is configured for a role: the objects of every host are there, and every object with the
  labels of the role belongs to one of the hosts.\<close>

definition roleConfigured ::
  "DynaKube \<Rightarrow> string \<Rightarrow> CommunicationHost list \<Rightarrow> (objkey \<Rightarrow> ServiceEntry option) \<Rightarrow> (objkey \<Rightarrow> VirtualService option) \<Rightarrow> bool" where
  "roleConfigured dk role hosts se vs \<longleftrightarrow>
     (\<forall>h \<in> set hosts. hostConfigured dk se vs h) \<and>
     noneUnused se_Meta (buildIstioLabels (dk_Name dk) role) (dk_Namespace dk) (map (endpointName dk) hosts) se \<and>
     noneUnused vsv_Meta (buildIstioLabels (dk_Name dk) role) (dk_Namespace dk) (map (endpointName dk) hosts) vs"

text \<open>A pass is obstructed: the types of Istio are not known to the cluster, or a deletion fails. The code logs both and goes on.\<close>

definition passObstructed :: "'w istio_env \<Rightarrow> DynaKube \<Rightarrow> CommunicationHost list \<Rightarrow> string \<Rightarrow> 'w \<Rightarrow> bool" where
  "passObstructed env dk hosts role w \<longleftrightarrow> \<not> typesFound env dk w \<or> passKept env dk hosts role w \<noteq> ([], [])"

lemma pass_quiet:
  assumes "lawfulMesh env ses vss" and "reconcileIstioConfigurations env dk hosts role w = (Inr upd, w')"
  shows "upd \<longleftrightarrow> ses w' \<noteq> ses w \<or> vss w' \<noteq> vss w"
    and "roleConfigured dk role hosts (ses w) (vss w) \<Longrightarrow> \<not> upd"
    and "\<not> passObstructed env dk hosts role w \<Longrightarrow> roleConfigured dk role hosts (ses w') (vss w')"
proof -
  note post = reconcileIstio_post [OF assms]
  show "upd \<longleftrightarrow> ses w' \<noteq> ses w \<or> vss w' \<noteq> vss w" by (rule post(7))
  show "roleConfigured dk role hosts (ses w) (vss w) \<Longrightarrow> \<not> upd" using post(6) unfolding roleConfigured_def by blast
  show "roleConfigured dk role hosts (ses w') (vss w')" if "\<not> passObstructed env dk hosts role w"
    using post(1-3) that by (simp add: roleConfigured_def passObstructed_def)
qed

text \<open>C32. What one pass over the hosts of a role leaves when it returns without an error. Where the cluster knows the types of Istio, every host has
  its service entry, and its virtual service unless the host is an IP address; where it does not know them, nothing is created. An object
  that was there under the name of a host is as it was; a new one is the one that is built for a host of this name, with
  the labels of the role and the reference to the owner. Every object that carries the labels of the role has the name of a host, unless the deletion
  of this object has failed in this pass; and an object without these labels is not touched.\<close>

theorem istio_pass_converges:
  assumes "lawfulMesh env ses vss" and "reconcileIstioConfigurations env dk hosts role w = (Inr upd, w')"
    and "sel = buildIstioLabels (dk_Name dk) role" and "passKept env dk hosts role w = (keptSe, keptVs)"
  shows "(\<forall>h k. h \<in> set hosts \<and> k = (dk_Namespace dk, endpointName dk h) \<longrightarrow>
      (if typesFound env dk w then ses w' k \<noteq> None \<and> (isIp (ch_Host h) \<or> vss w' k \<noteq> None) else ses w' k = ses w k \<and> vss w' k = vss w k) \<and>
      (case ses w k of Some s \<Rightarrow> ses w' k = Some s
       | None \<Rightarrow> ses w' k = None \<or> (\<exists>s. ses w' k = Some s \<and> entryOfHosts env dk role hosts (endpointName dk h) s)) \<and>
      (case vss w k of Some v \<Rightarrow> vss w' k = Some v
       | None \<Rightarrow> vss w' k = None \<or> (\<exists>v. vss w' k = Some v \<and> serviceOfHosts env dk role hosts (endpointName dk h) v))) \<and>
    (\<forall>s. ses w' (dk_Namespace dk, om_Name (se_Meta s)) = Some s \<and> hasLabels sel (se_Meta s) \<longrightarrow>
       om_Name (se_Meta s) \<in> endpointName dk ` set hosts \<union> set keptSe) \<and>
    (\<forall>v. vss w' (dk_Namespace dk, om_Name (vsv_Meta v)) = Some v \<and> hasLabels sel (vsv_Meta v) \<longrightarrow>
       om_Name (vsv_Meta v) \<in> endpointName dk ` set hosts \<union> set keptVs) \<and>
    (\<forall>k s. ses w k = Some s \<and> \<not> hasLabels sel (se_Meta s) \<longrightarrow> ses w' k = Some s) \<and>
    (\<forall>k v. vss w k = Some v \<and> \<not> hasLabels sel (vsv_Meta v) \<longrightarrow> vss w' k = Some v)"
proof -
  note post = reconcileIstio_post [OF assms(1,2), folded assms(3)]
  have host: "(if typesFound env dk w then ses w' k \<noteq> None \<and> (isIp (ch_Host h) \<or> vss w' k \<noteq> None) else ses w' k = ses w k \<and> vss w' k = vss w k) \<and>
      (case ses w k of Some s \<Rightarrow> ses w' k = Some s
       | None \<Rightarrow> ses w' k = None \<or> (\<exists>s. ses w' k = Some s \<and> entryOfHosts env dk role hosts (endpointName dk h) s)) \<and>
      (case vss w k of Some v \<Rightarrow> vss w' k = Some v
       | None \<Rightarrow> vss w' k = None \<or> (\<exists>v. vss w' k = Some v \<and> serviceOfHosts env dk role hosts (endpointName dk h) v))"
    if "h \<in> set hosts" "k = (dk_Namespace dk, endpointName dk h)" for h k
  proof -
    have seen: "snd k \<in> set (map (endpointName dk) hosts)" using that by simp
    have "if typesFound env dk w then ses w' k \<noteq> None \<and> (isIp (ch_Host h) \<or> vss w' k \<noteq> None) else ses w' k = ses w k \<and> vss w' k = vss w k"
      using post(1) post(9) [OF seen] that by (simp add: hostConfigured_def)
    moreover have "case ses w k of Some s \<Rightarrow> ses w' k = Some s
       | None \<Rightarrow> ses w' k = None \<or> (\<exists>s. ses w' k = Some s \<and> entryOfHosts env dk role hosts (endpointName dk h) s)"
      "case vss w k of Some v \<Rightarrow> vss w' k = Some v
       | None \<Rightarrow> vss w' k = None \<or> (\<exists>v. vss w' k = Some v \<and> serviceOfHosts env dk role hosts (endpointName dk h) v)"
      using post(8) [OF seen] that(2) by (auto simp: keptOrNew_def split: option.splits if_splits)
    ultimately show ?thesis by blast
  qed
  show ?thesis
    using host post(2-5) unfolding noneUnused_def assms(4) fst_conv snd_conv set_append set_map by blast
qed

theorem istio_pass_converges_witness:
  "\<exists>upd w' s. reconcileIstioConfigurations listMesh exampleMeshOwner [exampleMeshHost] ''api-url'' exampleMesh = (Inr upd, w') \<and>
     meshEntries w' (''dynatrace'', endpointName exampleMeshOwner exampleMeshHost) = Some s"
proof -
  obtain upd w' where run: "reconcileIstioConfigurations listMesh exampleMeshOwner [exampleMeshHost] ''api-url'' exampleMesh = (Inr upd, w')"
    using pass_listMesh by blast
  obtain keptSe keptVs where kept: "passKept listMesh exampleMeshOwner [exampleMeshHost] ''api-url'' exampleMesh = (keptSe, keptVs)" by fastforce
  have found: "typesFound listMesh exampleMeshOwner exampleMesh" by (simp add: typesFound_def listMesh_types)
  have ns: "dk_Namespace exampleMeshOwner = ''dynatrace''" by (simp add: exampleMeshOwner_def)
  from istio_pass_converges [OF lawful_listMesh run refl kept, THEN conjunct1, rule_format,
      of exampleMeshHost "(''dynatrace'', endpointName exampleMeshOwner exampleMeshHost)"] found
  have "meshEntries w' (''dynatrace'', endpointName exampleMeshOwner exampleMeshHost) \<noteq> None" unfolding ns if_P [OF found] by simp
  with run show ?thesis by blast
qed

text \<open>C33. A reconciliation that returns without an error reports an update exactly when it has changed an object of the mesh. It reports none, and
  does nothing, where the cluster has no Istio; and none where the mesh is configured for the API URL and the communication hosts. Conversely, when it reports
  none with Istio in the cluster, the mesh is configured for each of the two roles whose pass was not obstructed by missing types or a failed deletion.\<close>

theorem ReconcileIstio_quiet_iff_configured:
  assumes "lawfulMesh env ses vss"
    and "ie_serverGroups env w = (Inr groups, w0)" and "ses w0 = ses w" and "vss w0 = vss w"
    and "ReconcileIstio env dk w = (Inr upd, w')"
    and "com = ci_CommunicationHosts (dk_ConnectionInfo dk)" and "api = [CommunicationHostForClient dk]"
    and "w1 = snd (reconcileIstioConfigurations env dk api ''api-url'' w0)"
  shows "(upd \<longleftrightarrow> ses w' \<noteq> ses w \<or> vss w' \<noteq> vss w) \<and>
    (if istioGVRName \<in> set groups
     then (roleConfigured dk ''api-url'' api (ses w) (vss w) \<and> roleConfigured dk ''communication-endpoint'' com (ses w) (vss w) \<longrightarrow> \<not> upd) \<and>
       (\<not> upd \<longrightarrow>
          (roleConfigured dk ''api-url'' api (ses w) (vss w) \<or> passObstructed env dk api ''api-url'' w0) \<and>
          (roleConfigured dk ''communication-endpoint'' com (ses w) (vss w) \<or> passObstructed env dk com ''communication-endpoint'' w1))
     else \<not> upd \<and> w' = w0)"
proof (cases "istioGVRName \<in> set groups")
  case False
  then have "CheckIstioEnabled env w = (Inr False, w0)" using assms(2) by (auto simp: CheckIstioEnabled_def list_ex_iff bindE_run)
  with assms(3-5) False show ?thesis by (simp add: ReconcileIstio_def bindE_run wrapE_run)
next
  case True
  then have "CheckIstioEnabled env w = (Inr True, w0)" using assms(2) by (auto simp: CheckIstioEnabled_def list_ex_iff bindE_run)
  then obtain b v where b: "reconcileIstioConfigurations env dk api ''api-url'' w0 = (Inr b, v)"
    and rest: "if b then upd \<and> w' = v else reconcileIstioConfigurations env dk com ''communication-endpoint'' v = (Inr upd, w')"
    using assms(5) unfolding assms(6,7) by (auto simp: ReconcileIstio_def bindE_run wrapE_run split: prod.splits sum.splits if_splits)
  have w1: "w1 = v" using assms(8) b by simp
  note api = pass_quiet [OF assms(1) b, unfolded assms(3,4)]
  show ?thesis
  proof (cases b)
    case True
    with rest api \<open>istioGVRName \<in> set groups\<close> show ?thesis by auto
  next
    case False
    with rest have "reconcileIstioConfigurations env dk com ''communication-endpoint'' v = (Inr upd, w')" by simp
    note com = pass_quiet [OF assms(1) this]
    from False api(1) have v: "ses v = ses w" "vss v = vss w" by simp_all
    show ?thesis using com api(3) \<open>istioGVRName \<in> set groups\<close> unfolding v w1 by auto
  qed
qed

theorem ReconcileIstio_quiet_iff_configured_witness:
  "\<exists>upd w'. ReconcileIstio listMesh exampleMeshOwner exampleMesh = (Inr upd, w') \<and>
     (upd \<longleftrightarrow> meshEntries w' \<noteq> meshEntries exampleMesh \<or> meshServices w' \<noteq> meshServices exampleMesh)"
proof -
  obtain upd w' where run: "ReconcileIstio listMesh exampleMeshOwner exampleMesh = (Inr upd, w')"
    using reconcile_listMesh by blast
  have groups: "ie_serverGroups listMesh exampleMesh = (Inr [istioGVRName], exampleMesh)" by (simp add: listMesh_def)
  from ReconcileIstio_quiet_iff_configured [OF lawful_listMesh groups refl refl run refl refl refl] run
  show ?thesis by blast
qed

text \<open>The object names of an endpoint are valid for Kubernetes: 64 hexadecimal digits, whatever the host.
  The service entry built for an IP address routes by address and one for a host name by DNS; a virtual
  service exists only for a host name, with a TLS route exactly for https and an HTTP route exactly for
  http. Both bear the name they were asked for.
\<close>

theorem istio_objects_for_endpoint:
  "length (buildNameForEndpoint name protocol host port) = 64 \<and>
   set (buildNameForEndpoint name protocol host port) \<subseteq> set ''0123456789abcdef'' \<and>
   (let se = buildServiceEntry n ns host protocol port in
      om_Name (se_Meta se) = n \<and> om_Namespace (se_Meta se) = ns \<and> map ip_Number (se_Ports se) = [port] \<and>
      (if isIp host then se_Addresses se = [host @ ''/32''] \<and> se_Resolution se = Resolution_NONE
       else se_Hosts se = [host] \<and> se_Addresses se = [] \<and> se_Resolution se = Resolution_DNS)) \<and>
   (case buildVirtualService n ns host protocol port of
      None \<Rightarrow> isIp host
    | Some vs \<Rightarrow> \<not> isIp host \<and> om_Name (vsv_Meta vs) = n \<and> om_Namespace (vsv_Meta vs) = ns \<and> vsv_Hosts vs = [host] \<and>
        map tl_Route (vsv_Tls vs) = (if protocol = ''https'' then [[(host, port)]] else []) \<and>
        map ht_Route (vsv_Http vs) = (if protocol = ''http'' then [[(host, port)]] else []))"
  unfolding buildNameForEndpoint_def
  by (intro conjI hex_digits)
    (simp_all add: length_hex length_sha256 Let_def isIp_def buildServiceEntry_def buildServiceEntryIP_def
      buildServiceEntryFQDN_def buildObjectMeta_def subnetMask_def buildVirtualService_def
      protocolHttps_def protocolHttp_def buildVirtualServiceTLSRoute_def buildVirtualServiceHttpRoute_def)

end
