(* ===== verification/Pull_Secret.thy ===== *)
theory Pull_Secret
  imports Image_Updates
begin

text \<open>
  The image pull secret (\<^verbatim>\<open>src/controllers/dtpullsecret\<close>): the Docker configuration with the
  credentials of the tenant's registry, and the secret that holds it. The JSON encoder and
  \<^verbatim>\<open>url.Parse\<close> (here: the host of a URL) are parameters; \<^verbatim>\<open>base64.StdEncoding\<close> is written out.
\<close>

section \<open>Base 64\<close>

definition base64Alphabet :: string where
  "base64Alphabet = ''ABCDEFGHIJKLMNOPQRSTUVWXYZabcdefghijklmnopqrstuvwxyz0123456789+/''"

definition base64Char :: "nat \<Rightarrow> char" where
  "base64Char i = base64Alphabet ! i"

abbreviation byteOf :: "char \<Rightarrow> nat" where "byteOf \<equiv> of_char"

text \<open>Three bytes become four characters; the last group is padded.\<close>

fun base64Encode :: "string \<Rightarrow> string" where
  "base64Encode [] = []"
| "base64Encode [a] =
     [base64Char (byteOf a div 4), base64Char (byteOf a mod 4 * 16), CHR ''='', CHR ''='']"
| "base64Encode [a, b] =
     [base64Char (byteOf a div 4), base64Char (byteOf a mod 4 * 16 + byteOf b div 16),
      base64Char (byteOf b mod 16 * 4), CHR ''='']"
| "base64Encode (a # b # c # rest) =
     [base64Char (byteOf a div 4), base64Char (byteOf a mod 4 * 16 + byteOf b div 16),
      base64Char (byteOf b mod 16 * 4 + byteOf c div 64), base64Char (byteOf c mod 64)] @ base64Encode rest"

text \<open>The decoder, as a reference for the encoder.\<close>

definition base64Val :: "char \<Rightarrow> nat" where
  "base64Val c = length (takeWhile (\<lambda>d. d \<noteq> c) base64Alphabet)"

fun base64Decode :: "string \<Rightarrow> string option" where
  "base64Decode [] = Some []"
| "base64Decode (p # q # r # s # rest) =
     (let a = char_of (base64Val p * 4 + base64Val q div 16);
          b = char_of (base64Val q mod 16 * 16 + base64Val r div 4);
          c = char_of (base64Val r mod 4 * 64 + base64Val s)
      in if r = CHR ''='' then Some [a] else if s = CHR ''='' then Some [a, b]
         else map_option (\<lambda>t. a # b # c # t) (base64Decode rest))"
| "base64Decode _ = None"

section \<open>Generating the data (generate.go)\<close>

record dockerAuthentication =
  dau_Username :: string
  dau_Password :: string
  dau_Auth :: string

record dockerConfig =
  dcf_Auths :: "dockerAuthentication gomap"

definition dockerConfigJson :: string where "dockerConfigJson = ''.dockerconfigjson''"

definition newDockerConfigWithAuth :: "string \<Rightarrow> string \<Rightarrow> string \<Rightarrow> string \<Rightarrow> dockerConfig" where
  "newDockerConfigWithAuth username password registry auth =
     \<lparr>dcf_Auths = [(registry, \<lparr>dau_Username = username, dau_Password = password, dau_Auth = auth\<rparr>)]\<rparr>"

record 'w pullsecret_env =
  ps_client :: "('w, Secret) kclient"
  ps_apiReader :: "('w, Secret) kclient"
  ps_urlHost :: "string \<Rightarrow> goerr + string"
  ps_marshal :: "dockerConfig \<Rightarrow> goerr + string"
  ps_SetControllerReference :: "DynaKube \<Rightarrow> ObjectMeta \<Rightarrow> goerr + ObjectMeta"

definition buildAuthString :: "Secret option \<Rightarrow> ConnectionInfo \<Rightarrow> string" where
  "buildAuthString token connectionInfo =
     (let paasToken = (case token of None \<Rightarrow> [] | Some sec \<Rightarrow> secretData sec DynatracePaasToken)
      in base64Encode (ci_TenantUUID connectionInfo @ '':'' @ paasToken))"

definition getImageRegistryFromAPIURL :: "'w pullsecret_env \<Rightarrow> string \<Rightarrow> goerr + string" where
  "getImageRegistryFromAPIURL env apiURL = ps_urlHost env apiURL"

definition pullSecretDataFromDockerConfig :: "'w pullsecret_env \<Rightarrow> dockerConfig \<Rightarrow> goerr + string gomap" where
  "pullSecretDataFromDockerConfig env dockerConf =
     (case ps_marshal env dockerConf of Inl err \<Rightarrow> Inl err | Inr js \<Rightarrow> Inr [(dockerConfigJson, js)])"

definition GenerateData :: "'w pullsecret_env \<Rightarrow> DynaKube \<Rightarrow> Secret option \<Rightarrow> goerr + string gomap" where
  "GenerateData env instance token =
     (case getImageRegistryFromAPIURL env (spec_APIURL (dk_Spec instance)) of
        Inl err \<Rightarrow> Inl err
      | Inr registry \<Rightarrow>
          (case token of
             None \<Rightarrow> Inl (ErrMsg ''token secret is nil, cannot generate docker config'')
           | Some sec \<Rightarrow>
               (case secretField sec DynatracePaasToken of
                  None \<Rightarrow> Inl (ErrMsg ''token secret does not contain a paas token, cannot generate docker config'')
                | Some paasToken \<Rightarrow>
                    pullSecretDataFromDockerConfig env
                      (newDockerConfigWithAuth (ci_TenantUUID (dk_ConnectionInfo instance)) paasToken registry
                        (buildAuthString token (dk_ConnectionInfo instance))))))"

section \<open>Reconciling (reconciler.go, find.go)\<close>

definition SecretTypeDockerConfigJson :: string where
  "SecretTypeDockerConfigJson = ''kubernetes.io/dockerconfigjson''"

definition extendWithPullSecretSuffix :: "string \<Rightarrow> string" where
  "extendWithPullSecretSuffix name = name @ PullSecretSuffix"

definition BuildPullSecret :: "DynaKube \<Rightarrow> string gomap \<Rightarrow> Secret" where
  "BuildPullSecret instance pullSecretData =
     \<lparr>sec_Meta = emptyMeta\<lparr>om_Name := extendWithPullSecretSuffix (dk_Name instance), om_Namespace := dk_Namespace instance\<rparr>,
      sec_Type = SecretTypeDockerConfigJson, sec_Data = Some pullSecretData\<rparr>"

definition isPullSecretEqual :: "Secret \<Rightarrow> string gomap \<Rightarrow> bool" where
  "isPullSecretEqual currentSecret desired = deepEqualMap (Some desired) (sec_Data currentSecret)"

definition createPullSecret :: "'w pullsecret_env \<Rightarrow> DynaKube \<Rightarrow> string gomap \<Rightarrow> ('w, Secret) act" where
  "createPullSecret env instance pullSecretData =
     (let pullSecret = BuildPullSecret instance pullSecretData
      in bindE (liftE (ps_SetControllerReference env instance (sec_Meta pullSecret))) (\<lambda>m.
           wrapE (''failed to create secret '' @ extendWithPullSecretSuffix (dk_Name instance) @ '': '')
             (kCreate (ps_client env) (pullSecret\<lparr>sec_Meta := m\<rparr>))))"

definition createPullSecretIfNotExists :: "'w pullsecret_env \<Rightarrow> DynaKube \<Rightarrow> string gomap \<Rightarrow> ('w, Secret) act" where
  "createPullSecretIfNotExists env instance pullSecretData =
     catchE (kGet (ps_apiReader env) (dk_Namespace instance, extendWithPullSecretSuffix (dk_Name instance)))
       (\<lambda>err. if isNotFound err then createPullSecret env instance pullSecretData else raiseE err)
       retE"

definition updatePullSecret :: "'w pullsecret_env \<Rightarrow> Secret \<Rightarrow> string gomap \<Rightarrow> ('w, unit) act" where
  "updatePullSecret env pullSecret desiredPullSecretData =
     bindE (wrapE (''failed to update secret '' @ om_Name (sec_Meta pullSecret) @ '': '')
             (kUpdate (ps_client env) (pullSecret\<lparr>sec_Data := Some desiredPullSecretData\<rparr>))) (\<lambda>_. retE ())"

definition updatePullSecretIfOutdated :: "'w pullsecret_env \<Rightarrow> Secret \<Rightarrow> string gomap \<Rightarrow> ('w, unit) act" where
  "updatePullSecretIfOutdated env pullSecret desiredPullSecretData =
     (if \<not> isPullSecretEqual pullSecret desiredPullSecretData
      then updatePullSecret env pullSecret desiredPullSecretData else retE ())"

definition reconcilePullSecret :: "'w pullsecret_env \<Rightarrow> DynaKube \<Rightarrow> Secret option \<Rightarrow> ('w, unit) act" where
  "reconcilePullSecret env instance token =
     bindE (wrapE ''could not generate pull secret data: '' (liftE (GenerateData env instance token))) (\<lambda>pullSecretData.
     bindE (wrapE ''failed to create or update secret: '' (createPullSecretIfNotExists env instance pullSecretData)) (\<lambda>pullSecret.
       updatePullSecretIfOutdated env pullSecret pullSecretData))"

definition PullSecret_Reconcile :: "'w pullsecret_env \<Rightarrow> DynaKube \<Rightarrow> Secret option \<Rightarrow> ('w, unit) act" where
  "PullSecret_Reconcile env instance token =
     (if spec_CustomPullSecret (dk_Spec instance) = [] then reconcilePullSecret env instance token else retE ())"

definition GetImagePullSecret :: "('w, Secret) kclient \<Rightarrow> DynaKube \<Rightarrow> ('w, Secret) act" where
  "GetImagePullSecret clt instance =
     kGet clt (dk_Namespace instance, extendWithPullSecretSuffix (dk_Name instance))"

section \<open>Lemmas: base 64\<close>

lemma base64_digit:
  assumes "i < 64"
  shows "base64Val (base64Char i) = i" and "base64Char i \<noteq> CHR ''=''"
proof -
  have "list_all (\<lambda>i. base64Val (base64Char i) = i \<and> base64Char i \<noteq> CHR ''='') [0..<64]" by code_simp
  moreover have "i \<in> set [0..<64]" using assms by (simp only: set_upt atLeastLessThan_iff) simp
  ultimately have "base64Val (base64Char i) = i \<and> base64Char i \<noteq> CHR ''=''"
    by (rule list_all_iff [THEN iffD1, rule_format])
  then show "base64Val (base64Char i) = i" "base64Char i \<noteq> CHR ''=''" by (rule conjunct1, rule conjunct2)
qed

lemma byteOf_less: "byteOf a < 256"
  by (rule nat_of_char_less_256)

lemma digits_of_sum:
  "(y :: nat) < k \<Longrightarrow> (x * k + y) div k = x" "(y :: nat) < k \<Longrightarrow> (x * k + y) mod k = y"
  "(y :: nat) < k \<Longrightarrow> x < n \<Longrightarrow> x * k + y < n * k"
proof -
  show "(y :: nat) < k \<Longrightarrow> (x * k + y) div k = x" "(y :: nat) < k \<Longrightarrow> (x * k + y) mod k = y" by simp_all
  assume "y < k" "x < n"
  then have "x * k + y < Suc x * k" by simp
  also have "\<dots> \<le> n * k" using \<open>x < n\<close> by (intro mult_le_mono1) simp
  finally show "x * k + y < n * k" .
qed

lemma base64_bounds:
  assumes "a < 256" "b < 256" "c < (256 :: nat)"
  shows "a div 4 < 64" "a mod 4 * 16 < 64" "a mod 4 * 16 + b div 16 < 64" "b mod 16 * 4 < 64"
    "b mod 16 * 4 + c div 64 < 64" "c mod 64 < 64" "b div 16 < 16" "c div 64 < 4"
proof -
  have d: "a div 4 < 64" "b div 16 < 16" "c div 64 < 4" using assms by (simp_all add: less_mult_imp_div_less)
  then show "a div 4 < 64" "b div 16 < 16" "c div 64 < 4" by simp_all
  show "a mod 4 * 16 < 64" "b mod 16 * 4 < 64" "c mod 64 < 64"
    using mod_less_divisor [of 4 a] mod_less_divisor [of 16 b] by simp_all
  show "a mod 4 * 16 + b div 16 < 64" "b mod 16 * 4 + c div 64 < 64"
    using digits_of_sum(3) [OF d(2), of "a mod 4" 4] digits_of_sum(3) [OF d(3), of "b mod 16" 16] by simp_all
qed

lemma base64_roundtrip: "base64Decode (base64Encode s) = Some s"
proof (induction s rule: base64Encode.induct)
  case (2 a)
  note bounds = base64_bounds [OF byteOf_less [of a] byteOf_less [of a] byteOf_less [of a]]
  show ?case by (simp add: base64_digit bounds Let_def)
next
  case (3 a b)
  note bounds = base64_bounds [OF byteOf_less [of a] byteOf_less [of b] byteOf_less [of b]]
  show ?case by (simp add: base64_digit bounds digits_of_sum Let_def)
next
  case (4 a b c rest)
  note bounds = base64_bounds [OF byteOf_less [of a] byteOf_less [of b] byteOf_less [of c]]
  show ?case using 4 by (simp add: base64_digit bounds digits_of_sum Let_def)
qed simp

section \<open>Lemmas: the secret\<close>

text \<open>
  The JSON package reads back what it wrote, for strings of ASCII characters; the reader of
  \<^verbatim>\<open>docker_config.go\<close> ignores the field \<^verbatim>\<open>auth\<close>. The host of a URL has no slash.
\<close>

definition plainText :: "string \<Rightarrow> bool" where
  "plainText s \<longleftrightarrow> list_all (\<lambda>c. byteOf c < 128) s"

definition jsonReadsBack :: "(dockerConfig \<Rightarrow> goerr + string) \<Rightarrow> (string \<Rightarrow> goerr + DockerAuth gomap option) \<Rightarrow> bool" where
  "jsonReadsBack marshal unmarshal \<longleftrightarrow>
     (\<forall>r u p a js. plainText r \<and> plainText u \<and> plainText p \<and> plainText a \<and>
        marshal (newDockerConfigWithAuth u p r a) = Inr js \<longrightarrow>
          unmarshal js = Inr (Some [(r, \<lparr>da_Username = u, da_Password = p\<rparr>)]))"

definition lawfulUrlHost :: "(string \<Rightarrow> goerr + string) \<Rightarrow> bool" where
  "lawfulUrlHost f \<longleftrightarrow> (\<forall>u h. f u = Inr h \<longrightarrow> CHR ''/'' \<notin> set h)"

lemma plainText_base64Char: "i < 64 \<Longrightarrow> byteOf (base64Char i) < 128"
proof -
  assume "i < 64"
  have "list_all (\<lambda>i. byteOf (base64Char i) < 128) [0..<64]" by code_simp
  moreover have "i \<in> set [0..<64]" using \<open>i < 64\<close> by (simp only: set_upt atLeastLessThan_iff) simp
  ultimately show ?thesis by (rule list_all_iff [THEN iffD1, rule_format])
qed

lemma plainText_base64Encode: "plainText (base64Encode s)"
proof (induction s rule: base64Encode.induct)
  case (2 a)
  note bounds = base64_bounds [OF byteOf_less [of a] byteOf_less [of a] byteOf_less [of a]]
  show ?case by (simp add: plainText_def plainText_base64Char bounds)
next
  case (3 a b)
  note bounds = base64_bounds [OF byteOf_less [of a] byteOf_less [of b] byteOf_less [of b]]
  show ?case by (simp add: plainText_def plainText_base64Char bounds)
next
  case (4 a b c rest)
  note bounds = base64_bounds [OF byteOf_less [of a] byteOf_less [of b] byteOf_less [of c]]
  show ?case using 4 by (simp add: plainText_def plainText_base64Char bounds)
qed (simp add: plainText_def)

lemma GenerateData_Inr:
  "GenerateData env dk token = Inr d \<longleftrightarrow>
     (\<exists>host sec tok js. ps_urlHost env (spec_APIURL (dk_Spec dk)) = Inr host \<and> token = Some sec \<and>
        secretField sec DynatracePaasToken = Some tok \<and>
        ps_marshal env (newDockerConfigWithAuth (ci_TenantUUID (dk_ConnectionInfo dk)) tok host
          (base64Encode (ci_TenantUUID (dk_ConnectionInfo dk) @ '':'' @ tok))) = Inr js \<and>
        d = [(dockerConfigJson, js)])"
  by (auto simp: GenerateData_def getImageRegistryFromAPIURL_def pullSecretDataFromDockerConfig_def buildAuthString_def
      secretData_def split: sum.splits option.splits)

lemma pullSecret_writes:
  assumes law: "lawful c (metaKey \<circ> sec_Meta) view" and keyed: "keyed (metaKey \<circ> sec_Meta) (view w)"
    and env: "ps_client env = c" "ps_apiReader env = c" and owner: "lawfulOwner (ps_SetControllerReference env)"
    and run: "bindE (wrapE msg (createPullSecretIfNotExists env dk d)) (\<lambda>s. updatePullSecretIfOutdated env s d) w = (res, w')"
  defines "k \<equiv> (dk_Namespace dk, extendWithPullSecretSuffix (dk_Name dk))"
  shows "case res of Inl _ \<Rightarrow> view w' = view w
    | Inr _ \<Rightarrow> (\<exists>sec. view w' k = Some sec \<and> deepEqualMap (Some d) (sec_Data sec)) \<and> (\<forall>k'. k' \<noteq> k \<longrightarrow> view w' k' = view w k')"
proof -
  obtain r w1 where get: "kGet c k w = (r, w1)" by (meson surj_pair)
  have w1: "view w1 = view w" by (rule lawful_GetD(1) [OF law get])
  show ?thesis
  proof (cases r)
    case (Inl e)
    show ?thesis
    proof (cases "isNotFound e")
      case False
      with Inl get run w1 show ?thesis
        by (auto simp: createPullSecretIfNotExists_def env k_def bindE_run wrapE_run catchE_run)
    next
      case True
      show ?thesis
      proof (cases "ps_SetControllerReference env dk (sec_Meta (BuildPullSecret dk d))")
        case (Inl oe)
        with True \<open>r = Inl e\<close> get run w1 show ?thesis
          by (auto simp: createPullSecretIfNotExists_def createPullSecret_def env k_def bindE_run wrapE_run catchE_run Let_def)
      next
        case (Inr m)
        have m: "metaKey m = k" using lawfulOwnerD(1) [OF owner Inr] by (simp add: BuildPullSecret_def metaKey_def k_def)
        obtain q w2 where create: "kCreate c ((BuildPullSecret dk d)\<lparr>sec_Meta := m\<rparr>) w1 = (q, w2)" by (meson surj_pair)
        with Inr True \<open>r = Inl e\<close> get run w1 m lawful_CreateD [OF law create] show ?thesis
          by (cases q) (auto simp: createPullSecretIfNotExists_def createPullSecret_def env k_def [symmetric] bindE_run wrapE_run
              catchE_run Let_def updatePullSecretIfOutdated_def isPullSecretEqual_def BuildPullSecret_def deepEqualMap_iff)
      qed
    qed
  next
    case (Inr s)
    have s: "view w k = Some s" using lawful_GetD(2) [OF law get] Inr by simp
    have key: "metaKey (sec_Meta s) = k" using keyed s unfolding keyed_def o_def by blast
    obtain q w2 where upd: "kUpdate c (s\<lparr>sec_Data := Some d\<rparr>) w1 = (q, w2)" by (meson surj_pair)
    from Inr get run s key w1 upd lawful_UpdateD [OF law upd] show ?thesis
      by (cases q) (auto simp: createPullSecretIfNotExists_def env k_def [symmetric] bindE_run wrapE_run catchE_run
          updatePullSecretIfOutdated_def isPullSecretEqual_def updatePullSecret_def deepEqualMap_iff split: if_splits)
  qed
qed

section \<open>An environment for concrete runs\<close>

text \<open>A codec that separates the fields with a byte that is no ASCII character.\<close>

definition separatedMarshal :: "dockerConfig \<Rightarrow> goerr + string" where
  "separatedMarshal cfg =
     (case dcf_Auths cfg of
        [(r, a)] \<Rightarrow> Inr (r @ [CHR 0xFF] @ dau_Username a @ [CHR 0xFF] @ dau_Password a)
      | _ \<Rightarrow> Inl (ErrMsg ''unsupported''))"

definition separatedUnmarshal :: "string \<Rightarrow> goerr + DockerAuth gomap option" where
  "separatedUnmarshal js =
     (let r = takeWhile (\<lambda>c. c \<noteq> CHR 0xFF) js; up = tl (dropWhile (\<lambda>c. c \<noteq> CHR 0xFF) js);
          u = takeWhile (\<lambda>c. c \<noteq> CHR 0xFF) up; p = tl (dropWhile (\<lambda>c. c \<noteq> CHR 0xFF) up)
      in Inr (Some [(r, \<lparr>da_Username = u, da_Password = p\<rparr>)]))"

lemma plainText_no_separator: "plainText s \<Longrightarrow> x \<in> set s \<Longrightarrow> x \<noteq> CHR 0xFF"
  by (auto simp: plainText_def list_all_iff)

lemma jsonReadsBack_separated: "jsonReadsBack separatedMarshal separatedUnmarshal"
  unfolding jsonReadsBack_def separatedMarshal_def newDockerConfigWithAuth_def
  by (auto simp: separatedUnmarshal_def Let_def takeWhile_append2 dropWhile_append2 plainText_no_separator)

definition examplePullEnv :: "Secret store pullsecret_env" where
  "examplePullEnv =
     \<lparr>ps_client = storeClient (metaKey \<circ> sec_Meta), ps_apiReader = storeClient (metaKey \<circ> sec_Meta),
      ps_urlHost = (\<lambda>u. Inr (takeWhile (\<lambda>c. c \<noteq> CHR ''/'') (trimPrefix u ''https://''))),
      ps_marshal = separatedMarshal, ps_SetControllerReference = setOwner\<rparr>"

definition examplePullOwner :: DynaKube where
  "examplePullOwner = zeroDynaKube
     \<lparr>dk_Meta := emptyMeta\<lparr>om_Name := ''dynakube'', om_Namespace := ''dynatrace''\<rparr>,
      dk_Spec := zeroSpec\<lparr>spec_APIURL := ''https://abc.live/api''\<rparr>,
      dk_Status := zeroStatus\<lparr>st_ConnectionInfo := \<lparr>cis_CommunicationHosts = [], cis_TenantUUID = ''abc''\<rparr>\<rparr>\<rparr>"

definition examplePullToken :: Secret where
  "examplePullToken = emptySecret\<lparr>sec_Data := Some [(''paasToken'', ''secret'')]\<rparr>"

section \<open>Properties\<close>

text \<open>C34. The pull secret gives access to the tenant's registry. A reconciliation without an error leaves
  the secret in the namespace of the resource under the name the agents' pods refer to; read back by
  the code that inspects images, it holds exactly the tenant and the PaaS token as the credentials of the
  host of the API URL, and these are the credentials chosen for any image of that host. No other secret is
  touched; after an error, none is.\<close>

theorem pull_secret_credentials:
  assumes law: "lawful c (metaKey \<circ> sec_Meta) view" and keyed: "keyed (metaKey \<circ> sec_Meta) (view w)"
    and env: "ps_client env = c" "ps_apiReader env = c" and owner: "lawfulOwner (ps_SetControllerReference env)"
    and json: "jsonReadsBack (ps_marshal env) unmarshal" and url: "lawfulUrlHost (ps_urlHost env)"
    and own: "spec_CustomPullSecret (dk_Spec dk) = []"
    and plain: "plainText (ci_TenantUUID (dk_ConnectionInfo dk))" "plainText (secretData tokens DynatracePaasToken)"
      "\<And>h. ps_urlHost env (spec_APIURL (dk_Spec dk)) = Inr h \<Longrightarrow> plainText h"
    and run: "PullSecret_Reconcile env dk (Some tokens) w = (res, w')"
  shows "case res of
      Inl _ \<Rightarrow> view w' = view w
    | Inr _ \<Rightarrow> (\<exists>sec auths host.
          view w' (dk_Namespace dk, PullSecret dk) = Some sec \<and>
          ParseDockerAuthsFromSecret unmarshal (Some sec) = Inr (Some auths) \<and>
          ps_urlHost env (spec_APIURL (dk_Spec dk)) = Inr host \<and>
          (\<forall>path skip. sc_DockerAuthConfig (MakeSystemContext (Some (host @ ''/'' @ path))
               (Some \<lparr>dc_Auths = Some auths, dc_SkipCertCheck = skip\<rparr>)) =
             Some \<lparr>da_Username = ci_TenantUUID (dk_ConnectionInfo dk), da_Password = secretData tokens DynatracePaasToken\<rparr>)) \<and>
        (\<forall>k. k \<noteq> (dk_Namespace dk, PullSecret dk) \<longrightarrow> view w' k = view w k)"
proof (cases "GenerateData env dk (Some tokens)")
  case (Inl e)
  with run own show ?thesis
    by (auto simp: PullSecret_Reconcile_def reconcilePullSecret_def bindE_run wrapE_run)
next
  case (Inr d)
  have name: "PullSecret dk = extendWithPullSecretSuffix (dk_Name dk)"
    using own by (simp add: PullSecret_def extendWithPullSecretSuffix_def)
  have "bindE (wrapE ''failed to create or update secret: '' (createPullSecretIfNotExists env dk d))
      (\<lambda>s. updatePullSecretIfOutdated env s d) w = (res, w')"
    using run own Inr by (simp add: PullSecret_Reconcile_def reconcilePullSecret_def bindE_run wrapE_run)
  note written = pullSecret_writes [OF law keyed env owner this, folded name]
  obtain host tok js where host: "ps_urlHost env (spec_APIURL (dk_Spec dk)) = Inr host"
      and tok: "secretField tokens DynatracePaasToken = Some tok" and d: "d = [(dockerConfigJson, js)]"
      and js: "ps_marshal env (newDockerConfigWithAuth (ci_TenantUUID (dk_ConnectionInfo dk)) tok host
          (base64Encode (ci_TenantUUID (dk_ConnectionInfo dk) @ '':'' @ tok))) = Inr js"
    using Inr [unfolded GenerateData_Inr] by blast
  let ?creds = "\<lparr>da_Username = ci_TenantUUID (dk_ConnectionInfo dk), da_Password = tok\<rparr>"
  have "plainText host" "plainText tok" using plain(2) plain(3) [OF host] tok by (simp_all add: secretData_def)
  then have "unmarshal js = Inr (Some [(host, ?creds)])"
    using json js plain(1) plainText_base64Encode unfolding jsonReadsBack_def by blast
  then have parsed: "ParseDockerAuthsFromSecret unmarshal (Some sec) = Inr (Some [(host, ?creds)])"
    if "deepEqualMap (Some d) (sec_Data sec)" for sec
  proof -
    from that obtain m where m: "sec_Data sec = Some m" "map_of m = map_of d"
      by (cases "sec_Data sec") (auto simp: deepEqualMap_iff)
    with \<open>unmarshal js = _\<close> show ?thesis
      by (simp add: ParseDockerAuthsFromSecret_def secretField_def d dockerConfigJson_def)
  qed
  have "CHR ''/'' \<notin> set host" using url host by (simp add: lawfulUrlHost_def)
  then have "registryOf (host @ ''/'' @ path) = host" "''https://'' @ host \<noteq> host" for path
    by (auto simp: registryOf_def takeWhile_tail takeWhile_eq_all_conv dest: arg_cong [where f = set])
  then have creds: "sc_DockerAuthConfig (MakeSystemContext (Some (host @ ''/'' @ path))
      (Some \<lparr>dc_Auths = Some [(host, ?creds)], dc_SkipCertCheck = skip\<rparr>)) = Some ?creds" for path skip
    by (simp add: MakeSystemContext_def Let_def)
  have pass: "tok = secretData tokens DynatracePaasToken" using tok by (simp add: secretData_def)
  show ?thesis
    using written parsed creds host unfolding pass by (cases res) fastforce+
qed

theorem pull_secret_credentials_witness:
  "\<exists>w'. PullSecret_Reconcile examplePullEnv examplePullOwner (Some examplePullToken) [] = (Inr (), w') \<and>
     (\<exists>sec auths. map_of w' (''dynatrace'', ''dynakube-pull-secret'') = Some sec \<and>
        ParseDockerAuthsFromSecret separatedUnmarshal (Some sec) = Inr (Some auths) \<and>
        sc_DockerAuthConfig (MakeSystemContext (Some ''abc.live/linux/activegate'')
          (Some \<lparr>dc_Auths = Some auths, dc_SkipCertCheck = False\<rparr>)) = Some \<lparr>da_Username = ''abc'', da_Password = ''secret''\<rparr>)"
proof -
  let ?c = "storeClient (metaKey \<circ> sec_Meta)"
  have env: "ps_client examplePullEnv = ?c" "ps_apiReader examplePullEnv = ?c"
    "lawfulOwner (ps_SetControllerReference examplePullEnv)" "jsonReadsBack (ps_marshal examplePullEnv) separatedUnmarshal"
    by (simp_all add: examplePullEnv_def lawful_setOwner jsonReadsBack_separated)
  have url: "lawfulUrlHost (ps_urlHost examplePullEnv)"
    by (auto simp: lawfulUrlHost_def examplePullEnv_def dest: set_takeWhileD)
  have host: "ps_urlHost examplePullEnv (spec_APIURL (dk_Spec examplePullOwner)) = Inr ''abc.live''"
    by (simp add: examplePullEnv_def examplePullOwner_def trimPrefix_def)
  have facts: "spec_CustomPullSecret (dk_Spec examplePullOwner) = []" "plainText (ci_TenantUUID (dk_ConnectionInfo examplePullOwner))"
    "plainText (secretData examplePullToken DynatracePaasToken)"
    by (simp_all add: examplePullOwner_def examplePullToken_def zero_defs dk_ConnectionInfo_def plainText_def secretData_def
        secretField_def DynatracePaasToken_def)
  obtain d where data: "GenerateData examplePullEnv examplePullOwner (Some examplePullToken) = Inr d"
    using host by (simp add: GenerateData_Inr) (simp add: examplePullToken_def secretField_def DynatracePaasToken_def
        examplePullEnv_def separatedMarshal_def newDockerConfigWithAuth_def)
  have store: "kGet (ps_apiReader examplePullEnv) k [] = (Inl (ApiNotFound (snd k)), [])"
    "kCreate (ps_client examplePullEnv) ob [] = (Inr ob, [(metaKey (sec_Meta ob), ob)])"
    "ps_SetControllerReference examplePullEnv = setOwner" for k ob
    by (simp_all add: examplePullEnv_def storeClient_def)
  obtain w' where run: "PullSecret_Reconcile examplePullEnv examplePullOwner (Some examplePullToken) [] = (Inr (), w')"
    using facts data by (simp add: PullSecret_Reconcile_def reconcilePullSecret_def createPullSecretIfNotExists_def createPullSecret_def
        bindE_run wrapE_run catchE_run Let_def updatePullSecretIfOutdated_def isPullSecretEqual_def store BuildPullSecret_def
        setOwner_def emptyMeta_def)
  have names: "PullSecret examplePullOwner = ''dynakube-pull-secret''" "dk_Namespace examplePullOwner = ''dynatrace''"
    "ci_TenantUUID (dk_ConnectionInfo examplePullOwner) = ''abc''" "secretData examplePullToken DynatracePaasToken = ''secret''"
    by (simp_all add: examplePullOwner_def examplePullToken_def zero_defs dk_ConnectionInfo_def PullSecret_def PullSecretSuffix_def
        secretData_def secretField_def DynatracePaasToken_def)
  have "keyed (metaKey \<circ> sec_Meta) (map_of [])" by (simp add: keyed_def)
  from pull_secret_credentials [OF lawful_storeClient this env url facts _ run] host run show ?thesis
    by (fastforce simp: names plainText_def)
qed

text \<open>The field \<^verbatim>\<open>auth\<close> of the pull secret is the base 64 form of \<^verbatim>\<open>tenant:token\<close>: decoding it gives
  the two back, for any bytes.\<close>

theorem buildAuthString_roundtrip:
  "base64Decode (buildAuthString (Some tokens) info) = Some (ci_TenantUUID info @ '':'' @ secretData tokens DynatracePaasToken) \<and>
   base64Decode (buildAuthString None info) = Some (ci_TenantUUID info @ '':'')"
  by (simp add: buildAuthString_def Let_def base64_roundtrip)

end
