(* ===== verification/Workloads.thy ===== *)
theory Workloads
  imports Reconciliation Go_Net
begin

text \<open>
  The workloads the operator deploys: pods, stateful sets, daemon sets and services, with the
  fields the operator reads or writes. Shared by the ActiveGate and OneAgent reconcilers and by the
  webhook: merging of labels, the template hash that tells whether a workload has changed (FNV-1,
  \<^verbatim>\<open>hash/fnv.New32\<close>), and the deployment metadata (\<^verbatim>\<open>src/deploymentmetadata\<close>).
\<close>

section \<open>Pods\<close>

datatype IntOrString = IntVal int | StrVal string

record VolumeMount =
  vm_Name :: string
  vm_ReadOnly :: bool
  vm_MountPath :: string
  vm_SubPath :: string

record Volume =
  vol_Name :: string
  vol_Source :: VolumeSource

record ContainerPort =
  cport_Name :: string
  cport_ContainerPort :: int

record HTTPGetAction =
  hg_Path :: string
  hg_Port :: IntOrString
  hg_Scheme :: string

record Probe =
  pr_HTTPGet :: "HTTPGetAction option"
  pr_Exec :: "string list option"
  pr_InitialDelaySeconds :: int
  pr_PeriodSeconds :: int
  pr_FailureThreshold :: int
  pr_TimeoutSeconds :: int

record SecurityContext =
  sctx_Privileged :: "bool option"
  sctx_Add :: "string list"
  sctx_Drop :: "string list"

record Container =
  ct_Name :: string
  ct_Image :: string
  ct_ImagePullPolicy :: string
  ct_WorkingDir :: string
  ct_Command :: "string list"
  ct_Args :: "string list"
  ct_Env :: "EnvVar list"
  ct_Resources :: ResourceRequirements
  ct_VolumeMounts :: "VolumeMount list"
  ct_Ports :: "ContainerPort list"
  ct_ReadinessProbe :: "Probe option"
  ct_SecurityContext :: "SecurityContext option"

record NodeSelectorRequirement =
  nsr_Key :: string
  nsr_Operator :: string
  nsr_Values :: "string list"

text \<open>\<open>pod_NodeAffinity\<close> is the list of terms required during scheduling.\<close>

record PodSpec =
  pod_Containers :: "Container list"
  pod_InitContainers :: "Container list"
  pod_NodeSelector :: "string gomap option"
  pod_ServiceAccountName :: string
  pod_NodeAffinity :: "NodeSelectorRequirement list list"
  pod_Tolerations :: "Toleration list"
  pod_Volumes :: "Volume list"
  pod_ImagePullSecrets :: "string list"
  pod_HostNetwork :: bool
  pod_HostPID :: bool
  pod_HostIPC :: bool
  pod_PriorityClassName :: string
  pod_DNSPolicy :: string

record PodTemplateSpec =
  pt_Labels :: "string gomap option"
  pt_Annotations :: "string gomap option"
  pt_Spec :: PodSpec

definition zeroContainer :: Container where
  "zeroContainer =
     \<lparr>ct_Name = [], ct_Image = [], ct_ImagePullPolicy = [], ct_WorkingDir = [], ct_Command = [], ct_Args = [],
      ct_Env = [], ct_Resources = zeroResources, ct_VolumeMounts = [], ct_Ports = [], ct_ReadinessProbe = None,
      ct_SecurityContext = None\<rparr>"

definition zeroPodSpec :: PodSpec where
  "zeroPodSpec =
     \<lparr>pod_Containers = [], pod_InitContainers = [], pod_NodeSelector = None, pod_ServiceAccountName = [],
      pod_NodeAffinity = [], pod_Tolerations = [], pod_Volumes = [], pod_ImagePullSecrets = [], pod_HostNetwork = False,
      pod_HostPID = False, pod_HostIPC = False, pod_PriorityClassName = [], pod_DNSPolicy = []\<rparr>"

definition envValue :: "string \<Rightarrow> string \<Rightarrow> EnvVar" where
  "envValue n v = \<lparr>env_Name = n, env_Value = v, env_ValueFrom = None\<rparr>"

definition envFrom :: "string \<Rightarrow> EnvVarSource \<Rightarrow> EnvVar" where
  "envFrom n s = \<lparr>env_Name = n, env_Value = [], env_ValueFrom = Some s\<rparr>"

definition PullAlways :: string where "PullAlways = ''Always''"

section \<open>Workloads and services\<close>

record StatefulSet =
  sts_Meta :: ObjectMeta
  sts_Replicas :: "32 word option"
  sts_PodManagementPolicy :: string
  sts_Selector :: "string gomap"
  sts_Template :: PodTemplateSpec

record DaemonSet =
  ds_Meta :: ObjectMeta
  ds_Selector :: "string gomap"
  ds_Template :: PodTemplateSpec
  ds_MaxUnavailable :: int
  ds_NumberReady :: "32 word"
  ds_CurrentNumberScheduled :: "32 word"

record ServicePort =
  sp_Protocol :: string
  sp_Port :: int
  sp_TargetPort :: IntOrString

record Service =
  svc_Meta :: ObjectMeta
  svc_Type :: string
  svc_Selector :: "string gomap"
  svc_Ports :: "ServicePort list"

text \<open>The key of an object with metadata.\<close>

abbreviation stsKey :: "StatefulSet \<Rightarrow> objkey" where "stsKey s \<equiv> metaKey (sts_Meta s)"
abbreviation dsKey :: "DaemonSet \<Rightarrow> objkey" where "dsKey d \<equiv> metaKey (ds_Meta d)"
abbreviation svcKey :: "Service \<Rightarrow> objkey" where "svcKey s \<equiv> metaKey (svc_Meta s)"

section \<open>Labels\<close>

text \<open>\<^verbatim>\<open>mergeLabels\<close> (the same function in both reconcilers): later maps win. A nil map has no entries.\<close>

definition entries :: "'v gomap option \<Rightarrow> 'v gomap" where
  "entries m = (case m of None \<Rightarrow> [] | Some l \<Rightarrow> l)"

definition mergeLabels :: "string gomap option list \<Rightarrow> string gomap" where
  "mergeLabels labels = foldl (\<lambda>res m. goputall res (entries m)) [] labels"

text \<open>A label selector matches a set of labels that has all its entries.\<close>

definition selects :: "string gomap \<Rightarrow> string gomap option \<Rightarrow> bool" where
  "selects selector labels \<longleftrightarrow> list_all (\<lambda>(k, v). map_of (entries labels) k = Some v) selector"

section \<open>The template hash\<close>

definition fnvOffset32 :: "32 word" where "fnvOffset32 = 2166136261"
definition fnvPrime32 :: "32 word" where "fnvPrime32 = 16777619"

definition fnv32 :: "string \<Rightarrow> 32 word" where
  "fnv32 data = foldl (\<lambda>h c. (h * fnvPrime32) XOR of_nat (of_char c)) fnvOffset32 data"

definition fnvHash :: "string \<Rightarrow> string" where
  "fnvHash data = itoa (unat (fnv32 data))"

definition AnnotationTemplateHash :: string where
  "AnnotationTemplateHash = ''internal.operator.dynatrace.com/template-hash''"
definition AnnotationVersion :: string where
  "AnnotationVersion = ''internal.operator.dynatrace.com/version''"
definition AnnotationCustomPropsHash :: string where
  "AnnotationCustomPropsHash = ''internal.operator.dynatrace.com/custom-properties-hash''"

definition GetTemplateHash :: "ObjectMeta \<Rightarrow> string" where
  "GetTemplateHash m =
     (case om_Annotations m of None \<Rightarrow> [] | Some annotations \<Rightarrow> goget annotations AnnotationTemplateHash [])"

definition storeTemplateHash :: "string \<Rightarrow> ObjectMeta \<Rightarrow> ObjectMeta" where
  "storeTemplateHash hash m =
     m\<lparr>om_Annotations := Some (AList.update AnnotationTemplateHash hash (entries (om_Annotations m)))\<rparr>"

section \<open>Deployment metadata (deploymentmetadata.go)\<close>

definition orchestrationTech :: string where "orchestrationTech = ''Operator''"
definition argumentPrefix :: string where "argumentPrefix = ''--set-deployment-metadata=''"
definition keyOperatorScriptVersion :: string where "keyOperatorScriptVersion = ''script_version''"
definition keyOrchestratorID :: string where "keyOrchestratorID = ''orchestrator_id''"
definition keyOrchestrationTech :: string where "keyOrchestrationTech = ''orchestration_tech''"

definition formatKeyValue :: "string \<Rightarrow> string \<Rightarrow> string" where
  "formatKeyValue key v = key @ ''='' @ v"

definition formatMetadataArgument :: "string \<Rightarrow> string \<Rightarrow> string" where
  "formatMetadataArgument key v = argumentPrefix @ key @ ''='' @ v"

text \<open>The metadata is the orchestrator's id; \<open>version\<close> is the version of the operator's build.\<close>

definition AsArgs :: "string \<Rightarrow> string \<Rightarrow> string list" where
  "AsArgs version orchestratorID =
     [formatMetadataArgument keyOrchestrationTech orchestrationTech,
      formatMetadataArgument keyOperatorScriptVersion version,
      formatMetadataArgument keyOrchestratorID orchestratorID]"

definition AsString :: "string \<Rightarrow> string \<Rightarrow> string" where
  "AsString version orchestratorID =
     formatKeyValue keyOrchestrationTech orchestrationTech @ '';'' @
     formatKeyValue keyOperatorScriptVersion version @ '';'' @
     formatKeyValue keyOrchestratorID orchestratorID"

section \<open>Lemmas\<close>

lemma goputall_distinct_empty: "distinct (map fst (goputall [] m))"
  by (simp add: distinct_goputall)

lemma map_of_mergeLabels:
  assumes "\<And>m. m \<in> set labels \<Longrightarrow> distinct (map fst (entries m))"
  shows "map_of (mergeLabels labels) = foldl (\<lambda>r m. r ++ map_of (entries m)) Map.empty labels"
proof -
  have "map_of (foldl (\<lambda>res m. goputall res (entries m)) acc labels) =
      foldl (\<lambda>r m. r ++ map_of (entries m)) (map_of acc) labels" for acc
    using assms by (induction labels arbitrary: acc) (simp_all add: map_of_goputall)
  from this [of "[]"] show ?thesis by (simp add: mergeLabels_def)
qed

lemma GetTemplateHash_store [simp]: "GetTemplateHash (storeTemplateHash h m) = h"
  by (simp add: GetTemplateHash_def storeTemplateHash_def goget_def update_conv')

lemma storeTemplateHash_simps [simp]:
  "metaKey (storeTemplateHash h m) = metaKey m" "om_Labels (storeTemplateHash h m) = om_Labels m"
  "om_Name (storeTemplateHash h m) = om_Name m" "om_Namespace (storeTemplateHash h m) = om_Namespace m"
  by (simp_all add: storeTemplateHash_def metaKey_def)

text \<open>The FNV-1 hash of the empty string and of one byte, as published with the algorithm.\<close>

lemma fnv32_test: "fnv32 [] = 0x811c9dc5" "fnv32 ''a'' = 0x050c5d7e" "fnv32 ''foobar'' = 0x31f0b262"
  by code_simp+

end
