(* ===== verification/Cluster.thy ===== *)
theory Cluster
  imports Workloads
begin

text \<open>
  Clients for several kinds of objects on one state. \<open>leaves\<close> says that a client does not touch
  what is seen through a view of something else; \<open>cluster\<close> is an API server that keeps each kind of
  object in a list, and \<open>onPart\<close> makes a client of one list a client of the cluster.
\<close>

section \<open>Clients that leave a view alone\<close>

definition leaves :: "('w, 'o) kclient \<Rightarrow> ('w \<Rightarrow> 'v) \<Rightarrow> bool" where
  "leaves c view \<longleftrightarrow>
     (\<forall>k w. view (snd (kGet c k w)) = view w) \<and> (\<forall>ns w. view (snd (kList c ns w)) = view w) \<and>
     (\<forall>ob w. view (snd (kCreate c ob w)) = view w) \<and> (\<forall>ob w. view (snd (kUpdate c ob w)) = view w) \<and>
     (\<forall>k w. view (snd (kDelete c k w)) = view w)"

lemma leavesD:
  assumes "leaves c view"
  shows "kGet c k w = (r1, w') \<Longrightarrow> view w' = view w" and "kList c ns w = (r2, w') \<Longrightarrow> view w' = view w"
    and "kCreate c ob w = (r3, w') \<Longrightarrow> view w' = view w" and "kUpdate c ob w = (r4, w') \<Longrightarrow> view w' = view w"
    and "kDelete c k w = (r5, w') \<Longrightarrow> view w' = view w"
  using assms unfolding leaves_def by (metis snd_conv)+

text \<open>The invariant form, for the rules of \<open>keeps\<close>.\<close>

lemma leaves_keeps [keeps_intros]:
  assumes "leaves c view"
  shows "keeps (\<lambda>w. view w = x) (kGet c k)" and "keeps (\<lambda>w. view w = x) (kList c ns)"
    and "keeps (\<lambda>w. view w = x) (kCreate c ob)" and "keeps (\<lambda>w. view w = x) (kUpdate c ob)"
    and "keeps (\<lambda>w. view w = x) (kDelete c k)"
  using assms unfolding leaves_def keeps_def by metis+

lemma lawful_kGet_keeps: "lawful c key view \<Longrightarrow> keeps (\<lambda>w. view w = x) (kGet c k)"
  by (rule keepsI) (auto dest: lawful_GetD(1))

section \<open>A cluster\<close>

record cluster =
  cl_Secrets :: "Secret store"
  cl_StatefulSets :: "StatefulSet store"
  cl_DaemonSets :: "DaemonSet store"
  cl_Services :: "Service store"
  cl_Namespaces :: "Namespace store"
  cl_DynaKubes :: "DynaKube store"

definition onPart :: "('w \<Rightarrow> 's) \<Rightarrow> ('s \<Rightarrow> 'w \<Rightarrow> 'w) \<Rightarrow> ('s, 'o) kclient \<Rightarrow> ('w, 'o) kclient" where
  "onPart get put c =
     \<lparr>kGet = (\<lambda>k. zoomE get put (kGet c k)), kList = (\<lambda>ns. zoomE get put (kList c ns)),
      kCreate = (\<lambda>ob. zoomE get put (kCreate c ob)), kUpdate = (\<lambda>ob. zoomE get put (kUpdate c ob)),
      kDelete = (\<lambda>k. zoomE get put (kDelete c k))\<rparr>"

lemma lawful_onPart:
  assumes law: "lawful c key view" and get: "\<And>x w. get (put x w) = x"
  shows "lawful (onPart get put c) key (\<lambda>w. view (get w))"
proof -
  have parts: "lawfulGet c view" "lawfulCreate c key view" "lawfulUpdate c key view" "lawfulDelete c view"
    using law by (simp_all add: lawful_def)
  have "lawfulGet (onPart get put c) (\<lambda>w. view (get w))"
    using parts(1) unfolding lawfulGet_def onPart_def by (simp add: zoomE_run split: prod.split) (metis get)
  moreover have "lawfulCreate (onPart get put c) key (\<lambda>w. view (get w))"
    using parts(2) unfolding lawfulCreate_def onPart_def by (simp add: zoomE_run split: prod.split) (metis get)
  moreover have "lawfulUpdate (onPart get put c) key (\<lambda>w. view (get w))"
    using parts(3) unfolding lawfulUpdate_def onPart_def by (simp add: zoomE_run split: prod.split) (metis get)
  moreover have "lawfulDelete (onPart get put c) (\<lambda>w. view (get w))"
    using parts(4) unfolding lawfulDelete_def onPart_def by (simp add: zoomE_run split: prod.split) (metis get)
  ultimately show ?thesis by (simp add: lawful_def)
qed

lemma leaves_onPart: "(\<And>x w. view (put x w) = view w) \<Longrightarrow> leaves (onPart get put c) view"
  by (simp add: leaves_def onPart_def zoomE_run split: prod.splits)

definition secretsOf :: "(cluster, Secret) kclient" where
  "secretsOf = onPart cl_Secrets (\<lambda>x w. w\<lparr>cl_Secrets := x\<rparr>) (storeClient (metaKey \<circ> sec_Meta))"
definition statefulSetsOf :: "(cluster, StatefulSet) kclient" where
  "statefulSetsOf = onPart cl_StatefulSets (\<lambda>x w. w\<lparr>cl_StatefulSets := x\<rparr>) (storeClient stsKey)"
definition daemonSetsOf :: "(cluster, DaemonSet) kclient" where
  "daemonSetsOf = onPart cl_DaemonSets (\<lambda>x w. w\<lparr>cl_DaemonSets := x\<rparr>) (storeClient dsKey)"
definition servicesOf :: "(cluster, Service) kclient" where
  "servicesOf = onPart cl_Services (\<lambda>x w. w\<lparr>cl_Services := x\<rparr>) (storeClient svcKey)"
definition namespacesOf :: "(cluster, Namespace) kclient" where
  "namespacesOf = onPart cl_Namespaces (\<lambda>x w. w\<lparr>cl_Namespaces := x\<rparr>) (storeClient (\<lambda>n. ([], ns_Name n)))"
definition dynaKubesOf :: "(cluster, DynaKube) kclient" where
  "dynaKubesOf = onPart cl_DynaKubes (\<lambda>x w. w\<lparr>cl_DynaKubes := x\<rparr>) (storeClient (metaKey \<circ> dk_Meta))"

lemmas cluster_client_defs = secretsOf_def statefulSetsOf_def daemonSetsOf_def servicesOf_def namespacesOf_def dynaKubesOf_def

lemma lawful_cluster:
  "lawful secretsOf (metaKey \<circ> sec_Meta) (\<lambda>w. map_of (cl_Secrets w))"
  "lawful statefulSetsOf stsKey (\<lambda>w. map_of (cl_StatefulSets w))"
  "lawful daemonSetsOf dsKey (\<lambda>w. map_of (cl_DaemonSets w))"
  "lawful servicesOf svcKey (\<lambda>w. map_of (cl_Services w))"
  "lawful dynaKubesOf (metaKey \<circ> dk_Meta) (\<lambda>w. map_of (cl_DynaKubes w))"
  unfolding cluster_client_defs by (rule lawful_onPart [OF lawful_storeClient], simp)+

text \<open>How the clients run.\<close>

lemma onPart_store_run:
  assumes "\<And>w. put (get w) w = w"
  shows "kGet (onPart get put (storeClient key)) k w =
      (case map_of (get w) k of None \<Rightarrow> Inl (ApiNotFound (snd k)) | Some ob \<Rightarrow> Inr ob, w)"
    and "kCreate (onPart get put (storeClient key)) ob w =
      (if map_of (get w) (key ob) = None then (Inr ob, put (AList.update (key ob) ob (get w)) w)
       else (Inl (ApiError ''already exists''), w))"
    and "kUpdate (onPart get put (storeClient key)) ob w =
      (if map_of (get w) (key ob) = None then (Inl (ApiNotFound (snd (key ob))), w)
       else (Inr ob, put (AList.update (key ob) ob (get w)) w))"
    and "kDelete (onPart get put (storeClient key)) k w =
      (if map_of (get w) k = None then (Inl (ApiNotFound (snd k)), w) else (Inr (), put (AList.delete k (get w)) w))"
  by (simp_all add: onPart_def storeClient_def zoomE_run assms)

lemmas secretsOf_run = onPart_store_run [of "\<lambda>x (w :: cluster). w\<lparr>cl_Secrets := x\<rparr>" cl_Secrets "metaKey \<circ> sec_Meta",
    folded secretsOf_def, simplified]
lemmas statefulSetsOf_run = onPart_store_run [of "\<lambda>x (w :: cluster). w\<lparr>cl_StatefulSets := x\<rparr>" cl_StatefulSets stsKey,
    folded statefulSetsOf_def, simplified]
lemmas daemonSetsOf_run = onPart_store_run [of "\<lambda>x (w :: cluster). w\<lparr>cl_DaemonSets := x\<rparr>" cl_DaemonSets dsKey,
    folded daemonSetsOf_def, simplified]
lemmas servicesOf_run = onPart_store_run [of "\<lambda>x (w :: cluster). w\<lparr>cl_Services := x\<rparr>" cl_Services svcKey,
    folded servicesOf_def, simplified]
lemmas namespacesOf_run = onPart_store_run [of "\<lambda>x (w :: cluster). w\<lparr>cl_Namespaces := x\<rparr>" cl_Namespaces "\<lambda>n. ([], ns_Name n)",
    folded namespacesOf_def, simplified]
lemmas dynaKubesOf_run = onPart_store_run [of "\<lambda>x (w :: cluster). w\<lparr>cl_DynaKubes := x\<rparr>" cl_DynaKubes "metaKey \<circ> dk_Meta",
    folded dynaKubesOf_def, simplified]

definition emptyCluster :: cluster where
  "emptyCluster = \<lparr>cl_Secrets = [], cl_StatefulSets = [], cl_DaemonSets = [], cl_Services = [], cl_Namespaces = [], cl_DynaKubes = []\<rparr>"

end
