(* ===== verification/Custom_Properties.thy ===== *)
theory Custom_Properties
  imports Reconciliation
begin

text \<open>
  The secret with the custom properties of an ActiveGate
  (\<^verbatim>\<open>src/controllers/customproperties/reconciler.go\<close>). A write to a nil map stops the process in
  Go; it is the error \<open>panicNilMap\<close>, which no caller handles.
\<close>

section \<open>The reconciler\<close>

definition cp_Suffix :: string where "cp_Suffix = ''custom-properties''"
definition cp_DataKey :: string where "cp_DataKey = ''customProperties''"
definition cp_DataPath :: string where "cp_DataPath = ''custom.properties''"
definition cp_VolumeName :: string where "cp_VolumeName = ''custom-properties''"
definition cp_MountPath :: string where
  "cp_MountPath = ''/var/lib/dynatrace/gateway/config_template/custom.properties''"

definition panicNilMap :: goerr where "panicNilMap = ErrMsg ''panic: assignment to entry in nil map''"

record 'w customprops =
  cpr_client :: "('w, Secret) kclient"
  cpr_SetControllerReference :: "DynaKube \<Rightarrow> ObjectMeta \<Rightarrow> goerr + ObjectMeta"
  cpr_source :: DynaKubeValueSource
  cpr_ownerName :: string
  cpr_instance :: DynaKube

definition hasCustomPropertiesValueOnly :: "'w customprops \<Rightarrow> bool" where
  "hasCustomPropertiesValueOnly r \<longleftrightarrow> dvs_Value (cpr_source r) \<noteq> [] \<and> dvs_ValueFrom (cpr_source r) = []"

definition buildCustomPropertiesName :: "'w customprops \<Rightarrow> string \<Rightarrow> string" where
  "buildCustomPropertiesName r name = name @ ''-'' @ cpr_ownerName r @ ''-'' @ cp_Suffix"

abbreviation cpr_key :: "'w customprops \<Rightarrow> objkey" where
  "cpr_key r \<equiv> (dk_Namespace (cpr_instance r), buildCustomPropertiesName r (dk_Name (cpr_instance r)))"

definition buildCustomPropertiesSecret :: "'w customprops \<Rightarrow> string \<Rightarrow> string \<Rightarrow> Secret" where
  "buildCustomPropertiesSecret r secretName value =
     \<lparr>sec_Meta = emptyMeta\<lparr>om_Name := secretName, om_Namespace := dk_Namespace (cpr_instance r)\<rparr>,
      sec_Type = [], sec_Data = Some [(cp_DataKey, value)]\<rparr>"

definition createCustomProperties :: "'w customprops \<Rightarrow> ('w, unit) act" where
  "createCustomProperties r =
     (let sec = buildCustomPropertiesSecret r (buildCustomPropertiesName r (dk_Name (cpr_instance r))) (dvs_Value (cpr_source r))
      in bindE (liftE (cpr_SetControllerReference r (cpr_instance r) (sec_Meta sec))) (\<lambda>m.
         bindE (kCreate (cpr_client r) (sec\<lparr>sec_Meta := m\<rparr>)) (\<lambda>_. retE ())))"

definition cp_isOutdated :: "'w customprops \<Rightarrow> Secret \<Rightarrow> bool" where
  "cp_isOutdated r customProperties \<longleftrightarrow> dvs_Value (cpr_source r) \<noteq> secretData customProperties cp_DataKey"

definition updateCustomProperties :: "'w customprops \<Rightarrow> Secret \<Rightarrow> ('w, unit) act" where
  "updateCustomProperties r customProperties =
     (case sec_Data customProperties of
        None \<Rightarrow> raiseE panicNilMap
      | Some m \<Rightarrow>
          bindE (kUpdate (cpr_client r)
                  (customProperties\<lparr>sec_Data := Some (AList.update cp_DataKey (dvs_Value (cpr_source r)) m)\<rparr>)) (\<lambda>_. retE ()))"

text \<open>The result tells whether the secret was created and must not be updated.\<close>

definition createCustomPropertiesIfNotExists :: "'w customprops \<Rightarrow> ('w, bool) act" where
  "createCustomPropertiesIfNotExists r =
     catchE (kGet (cpr_client r) (cpr_key r))
       (\<lambda>err. if isNotFound err then bindE (createCustomProperties r) (\<lambda>_. retE True) else raiseE err)
       (\<lambda>_. retE False)"

definition updateCustomPropertiesIfOutdated :: "'w customprops \<Rightarrow> ('w, unit) act" where
  "updateCustomPropertiesIfOutdated r =
     bindE (kGet (cpr_client r) (cpr_key r)) (\<lambda>customPropertiesSecret.
       if cp_isOutdated r customPropertiesSecret then updateCustomProperties r customPropertiesSecret else retE ())"

definition CustomProperties_Reconcile :: "'w customprops \<Rightarrow> ('w, unit) act" where
  "CustomProperties_Reconcile r =
     (if hasCustomPropertiesValueOnly r
      then bindE (createCustomPropertiesIfNotExists r) (\<lambda>mustNotUpdate.
             if \<not> mustNotUpdate then updateCustomPropertiesIfOutdated r else retE ())
      else retE ())"

section \<open>Lemmas\<close>

lemma createCustomProperties_effect:
  assumes law: "lawful (cpr_client r) (metaKey \<circ> sec_Meta) view" and owner: "lawfulOwner (cpr_SetControllerReference r)"
    and run: "createCustomProperties r w = (res, w')"
  shows "case res of Inl _ \<Rightarrow> view w' = view w
    | Inr _ \<Rightarrow> (\<exists>sec. view w' (cpr_key r) = Some sec \<and> sec_Data sec = Some [(cp_DataKey, dvs_Value (cpr_source r))]) \<and>
        (\<forall>k. k \<noteq> cpr_key r \<longrightarrow> view w' k = view w k)"
proof (cases "cpr_SetControllerReference r (cpr_instance r) (sec_Meta (buildCustomPropertiesSecret r
    (buildCustomPropertiesName r (dk_Name (cpr_instance r))) (dvs_Value (cpr_source r))))")
  case (Inl e)
  with run show ?thesis by (auto simp: createCustomProperties_def Let_def)
next
  case (Inr m)
  let ?sec = "(buildCustomPropertiesSecret r (buildCustomPropertiesName r (dk_Name (cpr_instance r)))
    (dvs_Value (cpr_source r)))\<lparr>sec_Meta := m\<rparr>"
  obtain q w1 where create: "kCreate (cpr_client r) ?sec w = (q, w1)" by (meson surj_pair)
  have "metaKey m = cpr_key r"
    using lawfulOwnerD(1) [OF owner Inr] by (simp add: buildCustomPropertiesSecret_def metaKey_def)
  with Inr create run lawful_CreateD [OF law create] show ?thesis
    by (cases q) (auto simp: createCustomProperties_def Let_def buildCustomPropertiesSecret_def bindE_run)
qed

lemma updateCustomProperties_effect:
  assumes law: "lawful (cpr_client r) (metaKey \<circ> sec_Meta) view" and key: "metaKey (sec_Meta sec) = cpr_key r"
    and data: "sec_Data sec = Some m" and run: "updateCustomProperties r sec w = (res, w')"
  shows "case res of Inl _ \<Rightarrow> view w' = view w
    | Inr _ \<Rightarrow> view w' = (view w)(cpr_key r \<mapsto> sec\<lparr>sec_Data := Some (AList.update cp_DataKey (dvs_Value (cpr_source r)) m)\<rparr>)"
proof -
  let ?sec = "sec\<lparr>sec_Data := Some (AList.update cp_DataKey (dvs_Value (cpr_source r)) m)\<rparr>"
  obtain q w1 where upd: "kUpdate (cpr_client r) ?sec w = (q, w1)" by (meson surj_pair)
  with run data key lawful_UpdateD [OF law upd] show ?thesis
    by (cases q) (auto simp: updateCustomProperties_def bindE_run)
qed

text \<open>The secret holds the value and keeps the other entries it had.\<close>

definition holdsProperties :: "'w customprops \<Rightarrow> Secret option \<Rightarrow> Secret option \<Rightarrow> bool" where
  "holdsProperties r before after \<longleftrightarrow>
     (case after of None \<Rightarrow> False
      | Some sec \<Rightarrow> secretData sec cp_DataKey = dvs_Value (cpr_source r) \<and>
          (case before of None \<Rightarrow> True | Some old \<Rightarrow> \<forall>k. k \<noteq> cp_DataKey \<longrightarrow> secretField sec k = secretField old k))"

lemma CustomProperties_update_effect:
  assumes law: "lawful (cpr_client r) (metaKey \<circ> sec_Meta) view" and keyed: "keyed (metaKey \<circ> sec_Meta) (view w)"
    and run: "updateCustomPropertiesIfOutdated r w = (res, w')"
  shows "case res of Inl _ \<Rightarrow> view w' = view w
    | Inr _ \<Rightarrow> holdsProperties r (view w (cpr_key r)) (view w' (cpr_key r)) \<and> (\<forall>k. k \<noteq> cpr_key r \<longrightarrow> view w' k = view w k)"
proof -
  obtain q w1 where get: "kGet (cpr_client r) (cpr_key r) w = (q, w1)" by (meson surj_pair)
  note unchanged = lawful_GetD(1) [OF law get]
  show ?thesis
  proof (cases q)
    case (Inl e)
    with get run unchanged show ?thesis by (auto simp: updateCustomPropertiesIfOutdated_def)
  next
    case (Inr sec)
    have sec: "view w (cpr_key r) = Some sec" using lawful_GetD(2) [OF law get] Inr by simp
    have key: "metaKey (sec_Meta sec) = cpr_key r" using keyed sec unfolding keyed_def o_def by blast
    show ?thesis
    proof (cases "cp_isOutdated r sec")
      case False
      with Inr get run unchanged sec show ?thesis
        by (auto simp: updateCustomPropertiesIfOutdated_def cp_isOutdated_def holdsProperties_def)
    next
      case True
      with Inr get run have upd: "updateCustomProperties r sec w1 = (res, w')" by (simp add: updateCustomPropertiesIfOutdated_def)
      show ?thesis
      proof (cases "sec_Data sec")
        case None
        with upd unchanged show ?thesis by (auto simp: updateCustomProperties_def)
      next
        case (Some m)
        from updateCustomProperties_effect [OF law key Some upd] unchanged sec Some show ?thesis
          by (cases res) (simp_all add: holdsProperties_def secretData_def secretField_def update_conv')
      qed
    qed
  qed
qed

section \<open>Properties\<close>

text \<open>Custom properties given as a value reach the cluster: after a reconciliation without an error the
  secret of the owner holds the value under \<^verbatim>\<open>customProperties\<close> and keeps its other entries, and every
  other secret is untouched; after an error no secret has changed.\<close>

theorem CustomProperties_established:
  assumes law: "lawful (cpr_client r) (metaKey \<circ> sec_Meta) view" and keyed: "keyed (metaKey \<circ> sec_Meta) (view w)"
    and owner: "lawfulOwner (cpr_SetControllerReference r)" and val: "hasCustomPropertiesValueOnly r"
    and run: "CustomProperties_Reconcile r w = (res, w')"
  shows "case res of Inl _ \<Rightarrow> view w' = view w
    | Inr _ \<Rightarrow> holdsProperties r (view w (cpr_key r)) (view w' (cpr_key r)) \<and> (\<forall>k. k \<noteq> cpr_key r \<longrightarrow> view w' k = view w k)"
proof -
  obtain q w1 where get: "kGet (cpr_client r) (cpr_key r) w = (q, w1)" by (meson surj_pair)
  note unchanged = lawful_GetD(1) [OF law get]
  show ?thesis
  proof (cases q)
    case (Inr sec)
    with get run val have "updateCustomPropertiesIfOutdated r w1 = (res, w')"
      by (simp add: CustomProperties_Reconcile_def createCustomPropertiesIfNotExists_def bindE_run catchE_run)
    from CustomProperties_update_effect [OF law _ this] keyed unchanged show ?thesis by (cases res) simp_all
  next
    case (Inl e)
    show ?thesis
    proof (cases "isNotFound e")
      case False
      with Inl get run val unchanged show ?thesis
        by (auto simp: CustomProperties_Reconcile_def createCustomPropertiesIfNotExists_def bindE_run catchE_run)
    next
      case True
      then have absent: "view w (cpr_key r) = None" using lawful_GetD(3) [OF law get] Inl by simp
      obtain c w2 where create: "createCustomProperties r w1 = (c, w2)" by (meson surj_pair)
      with True Inl get run val have res: "w' = w2" "res = c"
        by (auto simp: CustomProperties_Reconcile_def createCustomPropertiesIfNotExists_def bindE_run catchE_run split: sum.splits)
      from createCustomProperties_effect [OF law owner create] res unchanged absent show ?thesis
        by (cases c) (auto simp: holdsProperties_def secretData_def secretField_def)
    qed
  qed
qed

definition exampleProps :: "Secret store customprops" where
  "exampleProps =
     \<lparr>cpr_client = storeClient (metaKey \<circ> sec_Meta), cpr_SetControllerReference = setOwner,
      cpr_source = \<lparr>dvs_Value = ''a=b'', dvs_ValueFrom = []\<rparr>, cpr_ownerName = ''routing'',
      cpr_instance = zeroDynaKube\<lparr>dk_Meta := emptyMeta\<lparr>om_Name := ''dynakube'', om_Namespace := ''dynatrace''\<rparr>\<rparr>\<rparr>"

definition examplePropsSecret :: "string gomap option \<Rightarrow> Secret" where
  "examplePropsSecret data = emptySecret
     \<lparr>sec_Meta := emptyMeta\<lparr>om_Name := ''dynakube-routing-custom-properties'', om_Namespace := ''dynatrace''\<rparr>, sec_Data := data\<rparr>"

abbreviation examplePropsKey :: objkey where
  "examplePropsKey \<equiv> (''dynatrace'', ''dynakube-routing-custom-properties'')"

lemma exampleProps_key: "cpr_key exampleProps = examplePropsKey"
  by (simp add: exampleProps_def buildCustomPropertiesName_def cp_Suffix_def emptyMeta_def)

lemma exampleProps_run:
  "CustomProperties_Reconcile exampleProps [(examplePropsKey, examplePropsSecret (Some [(''other'', ''x'')]))] =
     (Inr (), [(examplePropsKey, examplePropsSecret (Some [(''other'', ''x''), (''customProperties'', ''a=b'')]))])"
proof -
  let ?w = "[(examplePropsKey, examplePropsSecret (Some [(''other'', ''x'')]))]"
  have get: "kGet (cpr_client exampleProps) examplePropsKey ?w = (Inr (examplePropsSecret (Some [(''other'', ''x'')])), ?w)"
    by (simp add: exampleProps_def storeClient_def)
  have key: "metaKey (sec_Meta (examplePropsSecret d)) = examplePropsKey" for d
    by (simp add: examplePropsSecret_def metaKey_def)
  have upd: "updateCustomProperties exampleProps (examplePropsSecret (Some [(''other'', ''x'')])) ?w =
      (Inr (), [(examplePropsKey, examplePropsSecret (Some [(''other'', ''x''), (''customProperties'', ''a=b'')]))])"
    using key by (simp add: updateCustomProperties_def bindE_run exampleProps_def storeClient_def cp_DataKey_def examplePropsSecret_def)
  have "hasCustomPropertiesValueOnly exampleProps" "cp_isOutdated exampleProps (examplePropsSecret (Some [(''other'', ''x'')]))"
    by (simp_all add: hasCustomPropertiesValueOnly_def exampleProps_def cp_isOutdated_def secretData_def secretField_def
        examplePropsSecret_def cp_DataKey_def)
  with get upd show ?thesis
    by (simp add: CustomProperties_Reconcile_def createCustomPropertiesIfNotExists_def updateCustomPropertiesIfOutdated_def
        exampleProps_key bindE_run catchE_run)
qed

theorem CustomProperties_established_witness:
  "holdsProperties exampleProps (Some (examplePropsSecret (Some [(''other'', ''x'')])))
     (map_of (snd (CustomProperties_Reconcile exampleProps [(examplePropsKey, examplePropsSecret (Some [(''other'', ''x'')]))]))
       examplePropsKey)"
proof -
  have "lawful (cpr_client exampleProps) (metaKey \<circ> sec_Meta) map_of" "lawfulOwner (cpr_SetControllerReference exampleProps)"
    "hasCustomPropertiesValueOnly exampleProps"
    by (simp_all add: exampleProps_def lawful_storeClient lawful_setOwner hasCustomPropertiesValueOnly_def)
  moreover have "keyed (metaKey \<circ> sec_Meta) (map_of [(examplePropsKey, examplePropsSecret (Some [(''other'', ''x'')]))])"
    by (auto simp: keyed_def examplePropsSecret_def metaKey_def emptyMeta_def split: if_splits)
  ultimately show ?thesis
    using CustomProperties_established [of exampleProps map_of, OF _ _ _ _ exampleProps_run]
    by (simp add: exampleProps_run exampleProps_key)
qed

text \<open>A secret of that name without data stops the operator: every reconciliation ends in the write to
  the nil map and leaves the secret as it is.\<close>

theorem CustomProperties_panics_without_data:
  assumes "kGet (cpr_client r) (cpr_key r) w = (Inr sec, w)" and "sec_Data sec = None" and "hasCustomPropertiesValueOnly r"
  shows "CustomProperties_Reconcile r w = (Inl panicNilMap, w)"
  using assms
  by (simp add: CustomProperties_Reconcile_def createCustomPropertiesIfNotExists_def updateCustomPropertiesIfOutdated_def
      updateCustomProperties_def cp_isOutdated_def secretData_def secretField_def hasCustomPropertiesValueOnly_def
      bindE_run catchE_run)

theorem CustomProperties_panics_without_data_witness:
  "CustomProperties_Reconcile exampleProps [(examplePropsKey, examplePropsSecret None)] =
     (Inl panicNilMap, [(examplePropsKey, examplePropsSecret None)])"
proof (rule CustomProperties_panics_without_data)
  show "kGet (cpr_client exampleProps) (cpr_key exampleProps) [(examplePropsKey, examplePropsSecret None)] =
      (Inr (examplePropsSecret None), [(examplePropsKey, examplePropsSecret None)])"
    unfolding exampleProps_key by (simp add: exampleProps_def storeClient_def)
qed (simp_all add: examplePropsSecret_def exampleProps_def hasCustomPropertiesValueOnly_def)

end
