(* ===== verification/ActiveGate.thy ===== *)
theory ActiveGate
  imports Cluster Custom_Properties
begin

text \<open>
  The ActiveGate (\<^verbatim>\<open>src/controllers/activegate\<close>): the capabilities, the stateful set and the service
  that are built for a capability, and their reconciliation. A \<^verbatim>\<open>StatefulSetEvent\<close> (a listener that
  changes the stateful set in place) is a function on stateful sets. The JSON encoder of the
  stateful set and \<^verbatim>\<open>SetControllerReference\<close> are parameters, as is the version of the operator's build.
\<close>

section \<open>Capabilities (capability.go)\<close>

record Configuration =
  cf_SetDnsEntryPoint :: bool
  cf_SetReadinessPort :: bool
  cf_SetCommunicationPort :: bool
  cf_CreateService :: bool
  cf_ServiceAccountOwner :: string

record Capability =
  cap_moduleName :: string
  cap_capabilityName :: string
  cap_properties :: CapabilityProperties
  cap_Configuration :: Configuration
  cap_initContainersTemplates :: "Container list"
  cap_containerVolumeMounts :: "VolumeMount list"
  cap_volumes :: "Volume list"

definition trustStoreVolume :: string where "trustStoreVolume = ''truststore-volume''"
definition k8scrt2jksPath :: string where "k8scrt2jksPath = ''/opt/dynatrace/gateway/k8scrt2jks.sh''"
definition activeGateCacertsPath :: string where
  "activeGateCacertsPath = ''/opt/dynatrace/gateway/jre/lib/security/cacerts''"
definition activeGateSslPath :: string where "activeGateSslPath = ''/var/lib/dynatrace/gateway/ssl''"
definition k8sCertificateFile :: string where "k8sCertificateFile = ''k8s-local.jks''"
definition k8scrt2jksWorkingDir :: string where "k8scrt2jksWorkingDir = ''/var/lib/dynatrace/gateway''"
definition initContainerTemplateName :: string where "initContainerTemplateName = ''certificate-loader''"

definition CalculateStatefulSetName :: "Capability \<Rightarrow> string \<Rightarrow> string" where
  "CalculateStatefulSetName capability instanceName = instanceName @ ''-'' @ cap_moduleName capability"

definition NewKubeMonCapability :: "CapabilityProperties \<Rightarrow> Capability" where
  "NewKubeMonCapability crProperties =
     \<lparr>cap_moduleName = ''kubemon'', cap_capabilityName = ''kubernetes_monitoring'', cap_properties = crProperties,
      cap_Configuration = \<lparr>cf_SetDnsEntryPoint = False, cf_SetReadinessPort = False, cf_SetCommunicationPort = False,
        cf_CreateService = False, cf_ServiceAccountOwner = ''kubernetes-monitoring''\<rparr>,
      cap_initContainersTemplates =
        [zeroContainer\<lparr>ct_Name := initContainerTemplateName, ct_ImagePullPolicy := PullAlways,
           ct_WorkingDir := k8scrt2jksWorkingDir, ct_Command := [''/bin/bash''], ct_Args := [''-c'', k8scrt2jksPath],
           ct_VolumeMounts := [\<lparr>vm_Name = trustStoreVolume, vm_ReadOnly = False, vm_MountPath = activeGateSslPath, vm_SubPath = []\<rparr>]\<rparr>],
      cap_containerVolumeMounts =
        [\<lparr>vm_Name = trustStoreVolume, vm_ReadOnly = True, vm_MountPath = activeGateCacertsPath, vm_SubPath = k8sCertificateFile\<rparr>],
      cap_volumes = [\<lparr>vol_Name = trustStoreVolume, vol_Source = zeroVolumeSource\<lparr>vs_EmptyDir := True\<rparr>\<rparr>]\<rparr>"

definition routedConfiguration :: Configuration where
  "routedConfiguration = \<lparr>cf_SetDnsEntryPoint = True, cf_SetReadinessPort = True, cf_SetCommunicationPort = True,
     cf_CreateService = True, cf_ServiceAccountOwner = []\<rparr>"

definition NewRoutingCapability :: "CapabilityProperties \<Rightarrow> Capability" where
  "NewRoutingCapability crProperties =
     \<lparr>cap_moduleName = ''routing'', cap_capabilityName = ''MSGrouter'', cap_properties = crProperties,
      cap_Configuration = routedConfiguration,
      cap_initContainersTemplates = [], cap_containerVolumeMounts = [], cap_volumes = []\<rparr>"

definition NewDataIngestCapability :: "CapabilityProperties \<Rightarrow> Capability" where
  "NewDataIngestCapability crProperties =
     \<lparr>cap_moduleName = ''data-ingest'', cap_capabilityName = ''metrics_ingest'', cap_properties = crProperties,
      cap_Configuration = routedConfiguration,
      cap_initContainersTemplates = [], cap_containerVolumeMounts = [], cap_volumes = []\<rparr>"

section \<open>Labels (labels.go)\<close>

definition KeyDynatrace :: string where "KeyDynatrace = ''dynatrace.com/component''"
definition KeyActiveGate :: string where "KeyActiveGate = ''operator.dynatrace.com/instance''"
definition KeyFeature :: string where "KeyFeature = ''operator.dynatrace.com/feature''"
definition ValueActiveGate :: string where "ValueActiveGate = ''activegate''"

definition BuildLabelsFromInstance :: "DynaKube \<Rightarrow> string \<Rightarrow> string gomap" where
  "BuildLabelsFromInstance instance feature =
     [(KeyDynatrace, ValueActiveGate), (KeyActiveGate, dk_Name instance), (KeyFeature, feature)]"

definition ag_buildLabels :: "DynaKube \<Rightarrow> string \<Rightarrow> CapabilityProperties \<Rightarrow> string gomap" where
  "ag_buildLabels instance feature capabilityProperties =
     mergeLabels [om_Labels (dk_Meta instance), Some (BuildLabelsFromInstance instance feature), cp_Labels capabilityProperties]"

section \<open>The stateful set (statefulset.go)\<close>

definition serviceAccountPrefix :: string where "serviceAccountPrefix = ''dynatrace-''"
definition OperatorName :: string where "OperatorName = ''dynatrace-operator''"
definition ProxyKey :: string where "ProxyKey = ''ProxyKey''"
definition DTCapabilities :: string where "DTCapabilities = ''DT_CAPABILITIES''"
definition DTIdSeedNamespace :: string where "DTIdSeedNamespace = ''DT_ID_SEED_NAMESPACE''"
definition DTIdSeedClusterId :: string where "DTIdSeedClusterId = ''DT_ID_SEED_K8S_CLUSTER_ID''"
definition DTNetworkZone :: string where "DTNetworkZone = ''DT_NETWORK_ZONE''"
definition DTGroup :: string where "DTGroup = ''DT_GROUP''"
definition DTInternalProxy :: string where "DTInternalProxy = ''DT_INTERNAL_PROXY''"
definition DTDeploymentMetadata :: string where "DTDeploymentMetadata = ''DT_DEPLOYMENT_METADATA''"

record statefulSetProperties =
  sp_DynaKube :: DynaKube
  sp_CapabilityProperties :: CapabilityProperties
  sp_customPropertiesHash :: string
  sp_kubeSystemUID :: string
  sp_feature :: string
  sp_capabilityName :: string
  sp_serviceAccountOwner :: string
  sp_OnAfterCreateListener :: "(StatefulSet \<Rightarrow> StatefulSet) list"
  sp_initContainersTemplates :: "Container list"
  sp_containerVolumeMounts :: "VolumeMount list"
  sp_volumes :: "Volume list"

definition NewStatefulSetProperties ::
  "DynaKube \<Rightarrow> CapabilityProperties \<Rightarrow> string \<Rightarrow> string \<Rightarrow> string \<Rightarrow> string \<Rightarrow> string
    \<Rightarrow> Container list \<Rightarrow> VolumeMount list \<Rightarrow> Volume list \<Rightarrow> statefulSetProperties" where
  "NewStatefulSetProperties instance capabilityProperties kubeSystemUID customPropertiesHash feature capabilityName
     serviceAccountOwner initContainers containerVolumeMounts volumes =
     \<lparr>sp_DynaKube = instance, sp_CapabilityProperties = capabilityProperties,
      sp_customPropertiesHash = customPropertiesHash, sp_kubeSystemUID = kubeSystemUID, sp_feature = feature,
      sp_capabilityName = capabilityName,
      sp_serviceAccountOwner = (if serviceAccountOwner = [] then feature else serviceAccountOwner),
      sp_OnAfterCreateListener = [], sp_initContainersTemplates = initContainers,
      sp_containerVolumeMounts = containerVolumeMounts, sp_volumes = volumes\<rparr>"

definition isCustomPropertiesNilOrEmpty :: "DynaKubeValueSource option \<Rightarrow> bool" where
  "isCustomPropertiesNilOrEmpty customProperties =
     (case customProperties of None \<Rightarrow> True | Some c \<Rightarrow> dvs_Value c = [] \<and> dvs_ValueFrom c = [])"

definition isProxyNilOrEmpty :: "DynaKubeProxy option \<Rightarrow> bool" where
  "isProxyNilOrEmpty proxy = (case proxy of None \<Rightarrow> True | Some p \<Rightarrow> px_Value p = [] \<and> px_ValueFrom p = [])"

definition determineCustomPropertiesSource :: "statefulSetProperties \<Rightarrow> DynaKubeValueSource \<Rightarrow> string" where
  "determineCustomPropertiesSource p customProperties =
     (if dvs_ValueFrom customProperties = []
      then dk_Name (sp_DynaKube p) @ ''-'' @ sp_serviceAccountOwner p @ ''-'' @ cp_Suffix
      else dvs_ValueFrom customProperties)"

definition ag_buildVolumes :: "statefulSetProperties \<Rightarrow> Volume list" where
  "ag_buildVolumes p =
     (case cp_CustomProperties (sp_CapabilityProperties p) of
        None \<Rightarrow> []
      | Some c \<Rightarrow>
          if isCustomPropertiesNilOrEmpty (Some c) then []
          else [\<lparr>vol_Name = cp_VolumeName,
                 vol_Source = zeroVolumeSource\<lparr>vs_Secret := Some (determineCustomPropertiesSource p c, [(cp_DataKey, cp_DataPath)])\<rparr>\<rparr>])
     @ sp_volumes p"

definition ag_buildVolumeMounts :: "statefulSetProperties \<Rightarrow> VolumeMount list" where
  "ag_buildVolumeMounts p =
     (if \<not> isCustomPropertiesNilOrEmpty (cp_CustomProperties (sp_CapabilityProperties p))
      then [\<lparr>vm_Name = cp_VolumeName, vm_ReadOnly = True, vm_MountPath = cp_MountPath, vm_SubPath = cp_DataPath\<rparr>] else [])
     @ sp_containerVolumeMounts p"

definition buildProxyEnv :: "DynaKubeProxy \<Rightarrow> EnvVar" where
  "buildProxyEnv proxy =
     (if px_ValueFrom proxy \<noteq> [] then envFrom DTInternalProxy (SecretKeyRef (px_ValueFrom proxy) ProxyKey)
      else envValue DTInternalProxy (px_Value proxy))"

definition ag_buildEnvs :: "string \<Rightarrow> statefulSetProperties \<Rightarrow> EnvVar list" where
  "ag_buildEnvs version p =
     (let spec = dk_Spec (sp_DynaKube p); props = sp_CapabilityProperties p
      in [envValue DTCapabilities (sp_capabilityName p),
          envValue DTIdSeedNamespace (dk_Namespace (sp_DynaKube p)),
          envValue DTIdSeedClusterId (sp_kubeSystemUID p),
          envValue DTDeploymentMetadata (AsString version (sp_kubeSystemUID p))]
         @ cp_Env props
         @ (case spec_Proxy spec of None \<Rightarrow> []
            | Some proxy \<Rightarrow> if isProxyNilOrEmpty (Some proxy) then [] else [buildProxyEnv proxy])
         @ (if cp_Group props \<noteq> [] then [envValue DTGroup (cp_Group props)] else [])
         @ (if spec_NetworkZone spec \<noteq> [] then [envValue DTNetworkZone (spec_NetworkZone spec)] else []))"

definition determineServiceAccountName :: "statefulSetProperties \<Rightarrow> string" where
  "determineServiceAccountName p =
     (if cp_ServiceAccountName (sp_CapabilityProperties p) = [] then serviceAccountPrefix @ sp_serviceAccountOwner p
      else cp_ServiceAccountName (sp_CapabilityProperties p))"

definition buildKubernetesExpression :: "string \<Rightarrow> string \<Rightarrow> NodeSelectorRequirement list" where
  "buildKubernetesExpression archKey osKey =
     [\<lparr>nsr_Key = archKey, nsr_Operator = ''In'', nsr_Values = [''amd64'']\<rparr>,
      \<lparr>nsr_Key = osKey, nsr_Operator = ''In'', nsr_Values = [''linux'']\<rparr>]"

definition buildInitContainers :: "statefulSetProperties \<Rightarrow> Container list" where
  "buildInitContainers p =
     map (\<lambda>ic. ic\<lparr>ct_Image := ActiveGateImage (sp_DynaKube p), ct_Resources := cp_Resources (sp_CapabilityProperties p)\<rparr>)
       (sp_initContainersTemplates p)"

definition buildContainer :: "string \<Rightarrow> statefulSetProperties \<Rightarrow> Container" where
  "buildContainer version p =
     zeroContainer
       \<lparr>ct_Name := OperatorName, ct_Image := ActiveGateImage (sp_DynaKube p),
        ct_Resources := cp_Resources (sp_CapabilityProperties p), ct_ImagePullPolicy := PullAlways,
        ct_Env := ag_buildEnvs version p, ct_VolumeMounts := ag_buildVolumeMounts p,
        ct_ReadinessProbe := Some
          \<lparr>pr_HTTPGet = Some \<lparr>hg_Path = ''/rest/health'', hg_Port = IntVal 9999, hg_Scheme = ''HTTPS''\<rparr>, pr_Exec = None,
           pr_InitialDelaySeconds = 90, pr_PeriodSeconds = 15, pr_FailureThreshold = 3, pr_TimeoutSeconds = 0\<rparr>\<rparr>"

definition buildTemplateSpec :: "string \<Rightarrow> statefulSetProperties \<Rightarrow> PodSpec" where
  "buildTemplateSpec version p =
     zeroPodSpec
       \<lparr>pod_Containers := [buildContainer version p], pod_InitContainers := buildInitContainers p,
        pod_NodeSelector := cp_NodeSelector (sp_CapabilityProperties p),
        pod_ServiceAccountName := determineServiceAccountName p,
        pod_NodeAffinity := [buildKubernetesExpression ''beta.kubernetes.io/arch'' ''beta.kubernetes.io/os'',
                             buildKubernetesExpression ''kubernetes.io/arch'' ''kubernetes.io/os''],
        pod_Tolerations := cp_Tolerations (sp_CapabilityProperties p), pod_Volumes := ag_buildVolumes p,
        pod_ImagePullSecrets := [dk_Name (sp_DynaKube p) @ PullSecretSuffix]\<rparr>"

definition generateStatefulSetHash :: "(StatefulSet \<Rightarrow> goerr + string) \<Rightarrow> StatefulSet \<Rightarrow> goerr + string" where
  "generateStatefulSetHash marshal sts = (case marshal sts of Inl err \<Rightarrow> Inl err | Inr data \<Rightarrow> Inr (fnvHash data))"

definition bareStatefulSet :: "string \<Rightarrow> statefulSetProperties \<Rightarrow> StatefulSet" where
  "bareStatefulSet version p =
     \<lparr>sts_Meta = emptyMeta\<lparr>om_Name := dk_Name (sp_DynaKube p) @ ''-'' @ sp_feature p,
        om_Namespace := dk_Namespace (sp_DynaKube p),
        om_Labels := Some (ag_buildLabels (sp_DynaKube p) (sp_feature p) (sp_CapabilityProperties p)),
        om_Annotations := Some []\<rparr>,
      sts_Replicas = cp_Replicas (sp_CapabilityProperties p), sts_PodManagementPolicy = ''Parallel'',
      sts_Selector = BuildLabelsFromInstance (sp_DynaKube p) (sp_feature p),
      sts_Template =
        \<lparr>pt_Labels = Some (ag_buildLabels (sp_DynaKube p) (sp_feature p) (sp_CapabilityProperties p)),
         pt_Annotations = Some [(AnnotationVersion, ver_Version (st_ActiveGate (dk_Status (sp_DynaKube p)))),
                                (AnnotationCustomPropsHash, sp_customPropertiesHash p)],
         pt_Spec = buildTemplateSpec version p\<rparr>\<rparr>"

definition CreateStatefulSet :: "(StatefulSet \<Rightarrow> goerr + string) \<Rightarrow> string \<Rightarrow> statefulSetProperties \<Rightarrow> goerr + StatefulSet" where
  "CreateStatefulSet marshal version p =
     (let sts = foldl (\<lambda>sts onAfterCreateListener. onAfterCreateListener sts) (bareStatefulSet version p) (sp_OnAfterCreateListener p)
      in case generateStatefulSetHash marshal sts of
           Inl err \<Rightarrow> Inl err
         | Inr hash \<Rightarrow> Inr (sts\<lparr>sts_Meta := storeTemplateHash hash (sts_Meta sts)\<rparr>))"

definition HasStatefulSetChanged :: "StatefulSet \<Rightarrow> StatefulSet \<Rightarrow> bool" where
  "HasStatefulSetChanged a b \<longleftrightarrow> GetTemplateHash (sts_Meta a) \<noteq> GetTemplateHash (sts_Meta b)"

section \<open>Reconciling the stateful set (statefulset/reconciler.go)\<close>

record 'w ag_env =
  ag_secrets :: "('w, Secret) kclient"
  ag_statefulSets :: "('w, StatefulSet) kclient"
  ag_services :: "('w, Service) kclient"
  ag_namespaces :: "('w, Namespace) kclient"
  ag_SetControllerReference :: "DynaKube \<Rightarrow> ObjectMeta \<Rightarrow> goerr + ObjectMeta"
  ag_marshal :: "StatefulSet \<Rightarrow> goerr + string"
  ag_version :: string

record sts_reconciler =
  sr_Instance :: DynaKube
  sr_feature :: string
  sr_capabilityName :: string
  sr_serviceAccountOwner :: string
  sr_capability :: CapabilityProperties
  sr_onAfterStatefulSetCreateListener :: "(StatefulSet \<Rightarrow> StatefulSet) list"
  sr_initContainersTemplates :: "Container list"
  sr_containerVolumeMounts :: "VolumeMount list"
  sr_volumes :: "Volume list"

definition sts_NewReconciler :: "DynaKube \<Rightarrow> Capability \<Rightarrow> sts_reconciler" where
  "sts_NewReconciler instance capability =
     (let owner = cf_ServiceAccountOwner (cap_Configuration capability)
      in \<lparr>sr_Instance = instance, sr_feature = cap_moduleName capability,
          sr_capabilityName = cap_capabilityName capability,
          sr_serviceAccountOwner = (if owner = [] then cap_moduleName capability else owner),
          sr_capability = cap_properties capability, sr_onAfterStatefulSetCreateListener = [],
          sr_initContainersTemplates = cap_initContainersTemplates capability,
          sr_containerVolumeMounts = cap_containerVolumeMounts capability, sr_volumes = cap_volumes capability\<rparr>)"

definition AddOnAfterStatefulSetCreateListener :: "(StatefulSet \<Rightarrow> StatefulSet) \<Rightarrow> sts_reconciler \<Rightarrow> sts_reconciler" where
  "AddOnAfterStatefulSetCreateListener event r =
     r\<lparr>sr_onAfterStatefulSetCreateListener := sr_onAfterStatefulSetCreateListener r @ [event]\<rparr>"

definition getDataFromCustomProperty :: "'w ag_env \<Rightarrow> sts_reconciler \<Rightarrow> DynaKubeValueSource \<Rightarrow> ('w, string) act" where
  "getDataFromCustomProperty env r customProperties =
     (if dvs_ValueFrom customProperties \<noteq> []
      then bindE (kGet (ag_secrets env) (dk_Namespace (sr_Instance r), dvs_ValueFrom customProperties)) (\<lambda>secret.
             case secretField secret cp_DataKey of
               None \<Rightarrow> raiseE (ErrMsg (''no custom properties found on secret '' @ dvs_ValueFrom customProperties
                         @ '' on namespace '' @ dk_Namespace (sr_Instance r)))
             | Some dataBytes \<Rightarrow> retE dataBytes)
      else retE (dvs_Value customProperties))"

definition calculateCustomPropertyHash :: "'w ag_env \<Rightarrow> sts_reconciler \<Rightarrow> ('w, string) act" where
  "calculateCustomPropertyHash env r =
     (case cp_CustomProperties (sr_capability r) of
        None \<Rightarrow> retE []
      | Some c \<Rightarrow>
          if dvs_Value c = [] \<and> dvs_ValueFrom c = [] then retE []
          else bindE (getDataFromCustomProperty env r c) (\<lambda>data. retE (fnvHash data)))"

definition buildDesiredStatefulSet :: "'w ag_env \<Rightarrow> sts_reconciler \<Rightarrow> ('w, StatefulSet) act" where
  "buildDesiredStatefulSet env r =
     bindE (GetUID (ag_namespaces env)) (\<lambda>kubeUID.
     bindE (calculateCustomPropertyHash env r) (\<lambda>cpHash.
       liftE (CreateStatefulSet (ag_marshal env) (ag_version env)
         ((NewStatefulSetProperties (sr_Instance r) (sr_capability r) kubeUID cpHash (sr_feature r) (sr_capabilityName r)
            (sr_serviceAccountOwner r) (sr_initContainersTemplates r) (sr_containerVolumeMounts r) (sr_volumes r))
          \<lparr>sp_OnAfterCreateListener := sr_onAfterStatefulSetCreateListener r\<rparr>))))"

definition getStatefulSet :: "'w ag_env \<Rightarrow> StatefulSet \<Rightarrow> ('w, StatefulSet) act" where
  "getStatefulSet env desiredSts = kGet (ag_statefulSets env) (stsKey desiredSts)"

definition createStatefulSetIfNotExists :: "'w ag_env \<Rightarrow> StatefulSet \<Rightarrow> ('w, bool) act" where
  "createStatefulSetIfNotExists env desiredSts =
     catchE (getStatefulSet env desiredSts)
       (\<lambda>err. if isNotFound err then bindE (kCreate (ag_statefulSets env) desiredSts) (\<lambda>_. retE True) else raiseE err)
       (\<lambda>_. retE False)"

definition updateStatefulSetIfOutdated :: "'w ag_env \<Rightarrow> StatefulSet \<Rightarrow> ('w, bool) act" where
  "updateStatefulSetIfOutdated env desiredSts =
     bindE (getStatefulSet env desiredSts) (\<lambda>currentSts.
       if \<not> HasStatefulSetChanged currentSts desiredSts then retE False
       else bindE (kUpdate (ag_statefulSets env) desiredSts) (\<lambda>_. retE True))"

definition deleteStatefulSetIfOldLabelsAreUsed :: "'w ag_env \<Rightarrow> StatefulSet \<Rightarrow> ('w, bool) act" where
  "deleteStatefulSetIfOldLabelsAreUsed env desiredSts =
     bindE (getStatefulSet env desiredSts) (\<lambda>currentSts.
       if \<not> deepEqualMap (om_Labels (sts_Meta currentSts)) (om_Labels (sts_Meta desiredSts))
       then bindE (kDelete (ag_statefulSets env) (stsKey desiredSts)) (\<lambda>_. retE True)
       else retE False)"

definition applyStatefulSet :: "'w ag_env \<Rightarrow> StatefulSet \<Rightarrow> ('w, bool) act" where
  "applyStatefulSet env desiredSts =
     bindE (createStatefulSetIfNotExists env desiredSts) (\<lambda>created.
       if created then retE True
       else bindE (deleteStatefulSetIfOldLabelsAreUsed env desiredSts) (\<lambda>deleted.
              if deleted then retE True
              else updateStatefulSetIfOutdated env desiredSts))"

definition manageStatefulSet :: "'w ag_env \<Rightarrow> sts_reconciler \<Rightarrow> ('w, bool) act" where
  "manageStatefulSet env r =
     bindE (buildDesiredStatefulSet env r) (\<lambda>sts.
     bindE (liftE (ag_SetControllerReference env (sr_Instance r) (sts_Meta sts))) (\<lambda>m.
       applyStatefulSet env (sts\<lparr>sts_Meta := m\<rparr>)))"

definition sts_customProperties :: "'w ag_env \<Rightarrow> sts_reconciler \<Rightarrow> DynaKubeValueSource \<Rightarrow> 'w customprops" where
  "sts_customProperties env r source =
     \<lparr>cpr_client = ag_secrets env, cpr_SetControllerReference = ag_SetControllerReference env, cpr_source = source,
      cpr_ownerName = sr_serviceAccountOwner r, cpr_instance = sr_Instance r\<rparr>"

definition sts_Reconcile :: "'w ag_env \<Rightarrow> sts_reconciler \<Rightarrow> ('w, bool) act" where
  "sts_Reconcile env r =
     bindE (case cp_CustomProperties (sr_capability r) of
              None \<Rightarrow> retE ()
            | Some source \<Rightarrow> CustomProperties_Reconcile (sts_customProperties env r source)) (\<lambda>_.
       manageStatefulSet env r)"

section \<open>The service (service.go)\<close>

definition ServicePortNumber :: int where "ServicePortNumber = 443"
definition ServiceTargetPort :: string where "ServiceTargetPort = ''ag-https''"

definition BuildServiceName :: "string \<Rightarrow> string \<Rightarrow> string" where
  "BuildServiceName instanceName module = instanceName @ ''-'' @ module"

definition createService :: "DynaKube \<Rightarrow> string \<Rightarrow> Service" where
  "createService instance feature =
     \<lparr>svc_Meta = emptyMeta\<lparr>om_Name := BuildServiceName (dk_Name instance) feature, om_Namespace := dk_Namespace instance,
        om_Labels := Some (BuildLabelsFromInstance instance feature)\<rparr>,
      svc_Type = ''ClusterIP'', svc_Selector = BuildLabelsFromInstance instance feature,
      svc_Ports = [\<lparr>sp_Protocol = ''TCP'', sp_Port = ServicePortNumber, sp_TargetPort = StrVal ServiceTargetPort\<rparr>]\<rparr>"

text \<open>\<^verbatim>\<open>strings.ReplaceAll(s, "-", "_")\<close>.\<close>

definition buildServiceHostName :: "string \<Rightarrow> string \<Rightarrow> string" where
  "buildServiceHostName instanceName module =
     (let serviceName = map (\<lambda>c. if c = CHR ''-'' then CHR ''_'' else c) (toUpper (BuildServiceName instanceName module))
      in ''$('' @ serviceName @ ''_SERVICE_HOST):$('' @ serviceName @ ''_SERVICE_PORT)'')"

section \<open>Reconciling a capability (capability/reconciler.go)\<close>

definition containerPort :: int where "containerPort = 9999"
definition dtDNSEntryPoint :: string where "dtDNSEntryPoint = ''DT_DNS_ENTRY_POINT''"

text \<open>A change of \<^verbatim>\<open>sts.Spec.Template.Spec.Containers[0]\<close>; the stateful set always has a container.\<close>

definition onFirstContainer :: "(Container \<Rightarrow> Container) \<Rightarrow> StatefulSet \<Rightarrow> StatefulSet" where
  "onFirstContainer f sts =
     (let t = sts_Template sts; spec = pt_Spec t
      in sts\<lparr>sts_Template := t\<lparr>pt_Spec := spec\<lparr>pod_Containers :=
           (case pod_Containers spec of [] \<Rightarrow> [] | c # cs \<Rightarrow> f c # cs)\<rparr>\<rparr>\<rparr>)"

definition setReadinessProbePort :: "StatefulSet \<Rightarrow> StatefulSet" where
  "setReadinessProbePort = onFirstContainer (\<lambda>c. c\<lparr>ct_ReadinessProbe :=
     map_option (\<lambda>p. p\<lparr>pr_HTTPGet := map_option (\<lambda>h. h\<lparr>hg_Port := StrVal ServiceTargetPort\<rparr>) (pr_HTTPGet p)\<rparr>)
       (ct_ReadinessProbe c)\<rparr>)"

definition setCommunicationsPort :: "StatefulSet \<Rightarrow> StatefulSet" where
  "setCommunicationsPort = onFirstContainer (\<lambda>c. c\<lparr>ct_Ports :=
     [\<lparr>cport_Name = ServiceTargetPort, cport_ContainerPort = containerPort\<rparr>]\<rparr>)"

definition buildDNSEntryPoint :: "DynaKube \<Rightarrow> string \<Rightarrow> string" where
  "buildDNSEntryPoint instance moduleName =
     ''https://'' @ buildServiceHostName (dk_Name instance) moduleName @ ''/communication''"

definition addDNSEntryPoint :: "DynaKube \<Rightarrow> string \<Rightarrow> StatefulSet \<Rightarrow> StatefulSet" where
  "addDNSEntryPoint instance moduleName = onFirstContainer (\<lambda>c. c\<lparr>ct_Env :=
     ct_Env c @ [envValue dtDNSEntryPoint (buildDNSEntryPoint instance moduleName)]\<rparr>)"

definition cap_NewReconciler :: "Capability \<Rightarrow> DynaKube \<Rightarrow> sts_reconciler" where
  "cap_NewReconciler capability instance =
     (let cf = cap_Configuration capability;
          r0 = sts_NewReconciler instance capability;
          r1 = (if cf_SetDnsEntryPoint cf
                then AddOnAfterStatefulSetCreateListener (addDNSEntryPoint instance (cap_moduleName capability)) r0 else r0);
          r2 = (if cf_SetCommunicationPort cf then AddOnAfterStatefulSetCreateListener setCommunicationsPort r1 else r1)
      in if cf_SetReadinessPort cf then AddOnAfterStatefulSetCreateListener setReadinessProbePort r2 else r2)"

definition createServiceIfNotExists :: "'w ag_env \<Rightarrow> DynaKube \<Rightarrow> string \<Rightarrow> ('w, bool) act" where
  "createServiceIfNotExists env instance moduleName =
     (let service = createService instance moduleName
      in catchE (kGet (ag_services env) (svcKey service))
           (\<lambda>err. if isNotFound err
                  then bindE (liftE (ag_SetControllerReference env instance (svc_Meta service))) (\<lambda>m.
                       bindE (kCreate (ag_services env) (service\<lparr>svc_Meta := m\<rparr>)) (\<lambda>_. retE True))
                  else raiseE err)
           (\<lambda>_. retE False))"

definition Capability_Reconcile :: "'w ag_env \<Rightarrow> Capability \<Rightarrow> DynaKube \<Rightarrow> ('w, bool) act" where
  "Capability_Reconcile env capability instance =
     (if cf_CreateService (cap_Configuration capability)
      then bindE (createServiceIfNotExists env instance (cap_moduleName capability)) (\<lambda>update.
             if update then retE True else sts_Reconcile env (cap_NewReconciler capability instance))
      else sts_Reconcile env (cap_NewReconciler capability instance))"

section \<open>Lemmas: one step towards the desired stateful set\<close>

text \<open>
  The abstract step: what one call does to the stored stateful set, and whether it reports an update.
  An object with other labels is deleted first (the selector of a stateful set cannot be changed) and
  created by the next call.
\<close>

definition nextStatefulSet :: "StatefulSet \<Rightarrow> StatefulSet option \<Rightarrow> bool \<times> StatefulSet option" where
  "nextStatefulSet desired current =
     (case current of
        None \<Rightarrow> (True, Some desired)
      | Some s \<Rightarrow>
          if \<not> deepEqualMap (om_Labels (sts_Meta s)) (om_Labels (sts_Meta desired)) then (True, None)
          else if HasStatefulSetChanged s desired then (True, Some desired) else (False, Some s))"

definition upToDate :: "StatefulSet \<Rightarrow> StatefulSet option \<Rightarrow> bool" where
  "upToDate desired current \<longleftrightarrow>
     (case current of None \<Rightarrow> False
      | Some s \<Rightarrow> deepEqualMap (om_Labels (sts_Meta s)) (om_Labels (sts_Meta desired)) \<and> \<not> HasStatefulSetChanged s desired)"

lemma nextStatefulSet_quiet: "fst (nextStatefulSet d cur) \<longleftrightarrow> \<not> upToDate d cur"
  by (simp add: nextStatefulSet_def upToDate_def split: option.split)

lemma nextStatefulSet_idle: "upToDate d cur \<Longrightarrow> nextStatefulSet d cur = (False, cur)"
  by (cases cur) (simp_all add: nextStatefulSet_def upToDate_def)

lemma nextStatefulSet_settles: "upToDate d (snd (nextStatefulSet d (snd (nextStatefulSet d cur))))"
  by (cases cur) (simp_all add: nextStatefulSet_def upToDate_def deepEqualMap_iff HasStatefulSetChanged_def)

lemma createStatefulSet_effect:
  assumes law: "lawful (ag_statefulSets env) stsKey view" and run: "createStatefulSetIfNotExists env d w = (res, w')"
  shows "case res of Inl _ \<Rightarrow> view w' = view w
    | Inr b \<Rightarrow> if b then view w (stsKey d) = None \<and> view w' = (view w)(stsKey d \<mapsto> d)
              else view w (stsKey d) \<noteq> None \<and> view w' = view w"
proof -
  obtain q w1 where get: "kGet (ag_statefulSets env) (stsKey d) w = (q, w1)" by (meson surj_pair)
  note g = lawful_GetD [OF law get]
  show ?thesis
  proof (cases q)
    case (Inr s)
    with get run g(1,2) show ?thesis by (auto simp: createStatefulSetIfNotExists_def getStatefulSet_def)
  next
    case (Inl e)
    obtain c w2 where create: "kCreate (ag_statefulSets env) d w1 = (c, w2)" by (meson surj_pair)
    from Inl get run g(1) create lawful_CreateD [OF law create] show ?thesis
      by (cases c) (auto simp: createStatefulSetIfNotExists_def getStatefulSet_def bindE_run split: if_splits)
  qed
qed

lemma deleteStatefulSet_effect:
  assumes law: "lawful (ag_statefulSets env) stsKey view" and run: "deleteStatefulSetIfOldLabelsAreUsed env d w = (res, w')"
  shows "case res of Inl _ \<Rightarrow> view w' = view w
    | Inr b \<Rightarrow> (\<exists>s. view w (stsKey d) = Some s \<and> b = (\<not> deepEqualMap (om_Labels (sts_Meta s)) (om_Labels (sts_Meta d)))) \<and>
              view w' = (if b then (view w)(stsKey d := None) else view w)"
proof -
  obtain q w1 where get: "kGet (ag_statefulSets env) (stsKey d) w = (q, w1)" by (meson surj_pair)
  obtain c w2 where del: "kDelete (ag_statefulSets env) (stsKey d) w1 = (c, w2)" by (meson surj_pair)
  from get run lawful_GetD [OF law get] del lawful_DeleteD [OF law del] show ?thesis
    by (cases q; cases c) (auto simp: deleteStatefulSetIfOldLabelsAreUsed_def getStatefulSet_def bindE_run split: if_splits)
qed

lemma updateStatefulSet_effect:
  assumes law: "lawful (ag_statefulSets env) stsKey view" and run: "updateStatefulSetIfOutdated env d w = (res, w')"
  shows "case res of Inl _ \<Rightarrow> view w' = view w
    | Inr b \<Rightarrow> (\<exists>s. view w (stsKey d) = Some s \<and> b = HasStatefulSetChanged s d) \<and>
              view w' = (if b then (view w)(stsKey d \<mapsto> d) else view w)"
proof -
  obtain q w1 where get: "kGet (ag_statefulSets env) (stsKey d) w = (q, w1)" by (meson surj_pair)
  obtain c w2 where upd: "kUpdate (ag_statefulSets env) d w1 = (c, w2)" by (meson surj_pair)
  from get run lawful_GetD [OF law get] upd lawful_UpdateD [OF law upd] show ?thesis
    by (cases q; cases c) (auto simp: updateStatefulSetIfOutdated_def getStatefulSet_def bindE_run split: if_splits)
qed

lemma applyStatefulSet_effect:
  assumes law: "lawful (ag_statefulSets env) stsKey view" and run: "applyStatefulSet env d w = (res, w')"
  shows "case res of Inl _ \<Rightarrow> view w' = view w
    | Inr b \<Rightarrow> (b, view w' (stsKey d)) = nextStatefulSet d (view w (stsKey d)) \<and> (\<forall>k. k \<noteq> stsKey d \<longrightarrow> view w' k = view w k)"
proof -
  obtain q w1 where create: "createStatefulSetIfNotExists env d w = (q, w1)" by (meson surj_pair)
  obtain r w2 where del: "deleteStatefulSetIfOldLabelsAreUsed env d w1 = (r, w2)" by (meson surj_pair)
  obtain s w3 where upd: "updateStatefulSetIfOutdated env d w2 = (s, w3)" by (meson surj_pair)
  note effects = createStatefulSet_effect [OF law create] deleteStatefulSet_effect [OF law del] updateStatefulSet_effect [OF law upd]
  consider (failed) e where "q = Inl e" | (created) "q = Inr True" | (nodelete) e where "q = Inr False" "r = Inl e"
    | (deleted) "q = Inr False" "r = Inr True" | (last) "q = Inr False" "r = Inr False"
    by (metis (full_types) sum.exhaust)
  then show ?thesis
  proof cases
    case failed
    with run create have "res = Inl e" "w' = w1" by (simp_all add: applyStatefulSet_def bindE_run)
    with failed effects(1) show ?thesis by simp
  next
    case created
    with run create have "res = Inr True" "w' = w1" by (simp_all add: applyStatefulSet_def bindE_run)
    with created effects(1) show ?thesis by (simp add: nextStatefulSet_def)
  next
    case nodelete
    with run create del have "res = Inl e" "w' = w2" by (simp_all add: applyStatefulSet_def bindE_run)
    with nodelete effects(1,2) show ?thesis by simp
  next
    case deleted
    with run create del have "res = Inr True" "w' = w2" by (simp_all add: applyStatefulSet_def bindE_run)
    with deleted effects(1,2) show ?thesis by (auto simp: nextStatefulSet_def)
  next
    case last
    with run create del upd have "res = s" "w' = w3" by (simp_all add: applyStatefulSet_def bindE_run)
    with last effects show ?thesis by (cases s) (auto simp: nextStatefulSet_def)
  qed
qed

text \<open>Building the desired stateful set only reads; it leaves every stateful set alone.\<close>

lemma buildDesired_keeps:
  assumes "leaves (ag_secrets env) view" and "leaves (ag_namespaces env) view"
  shows "keeps (\<lambda>w. view w = x) (buildDesiredStatefulSet env r)"
  unfolding buildDesiredStatefulSet_def GetUID_def calculateCustomPropertyHash_def getDataFromCustomProperty_def
  by (intro keeps_intros leaves_keeps(1) [OF assms(1)] leaves_keeps(1) [OF assms(2)])

text \<open>The desired stateful set of a reconciler, given what was read from the cluster.\<close>

definition propertiesOf :: "sts_reconciler \<Rightarrow> string \<Rightarrow> string \<Rightarrow> statefulSetProperties" where
  "propertiesOf r kubeUID cpHash =
     (NewStatefulSetProperties (sr_Instance r) (sr_capability r) kubeUID cpHash (sr_feature r) (sr_capabilityName r)
        (sr_serviceAccountOwner r) (sr_initContainersTemplates r) (sr_containerVolumeMounts r) (sr_volumes r))
       \<lparr>sp_OnAfterCreateListener := sr_onAfterStatefulSetCreateListener r\<rparr>"

definition desiredStatefulSet :: "'w ag_env \<Rightarrow> sts_reconciler \<Rightarrow> string \<Rightarrow> string \<Rightarrow> goerr + StatefulSet" where
  "desiredStatefulSet env r kubeUID cpHash = CreateStatefulSet (ag_marshal env) (ag_version env) (propertiesOf r kubeUID cpHash)"

lemma propertiesOf_fields [simp]:
  "sp_DynaKube (propertiesOf r u h) = sr_Instance r" "sp_CapabilityProperties (propertiesOf r u h) = sr_capability r"
  "sp_feature (propertiesOf r u h) = sr_feature r"
  "sp_OnAfterCreateListener (propertiesOf r u h) = sr_onAfterStatefulSetCreateListener r"
  "sp_serviceAccountOwner (propertiesOf r u h) = (if sr_serviceAccountOwner r = [] then sr_feature r else sr_serviceAccountOwner r)"
  by (simp_all add: propertiesOf_def NewStatefulSetProperties_def)

lemma manageStatefulSet_step:
  assumes law: "lawful (ag_statefulSets env) stsKey view"
    and leave: "leaves (ag_secrets env) view" "leaves (ag_namespaces env) view"
    and built: "buildDesiredStatefulSet env r w = (Inr sts, w1)"
    and owned: "ag_SetControllerReference env (sr_Instance r) (sts_Meta sts) = Inr m"
    and run: "manageStatefulSet env r w = (res, w')"
  defines "d \<equiv> sts\<lparr>sts_Meta := m\<rparr>"
  shows "case res of Inl _ \<Rightarrow> view w' = view w
    | Inr b \<Rightarrow> (b, view w' (stsKey d)) = nextStatefulSet d (view w (stsKey d)) \<and> (\<forall>k. k \<noteq> stsKey d \<longrightarrow> view w' k = view w k)"
proof -
  have "view w1 = view w" using keepsD [OF buildDesired_keeps [OF leave] refl built] .
  moreover have "applyStatefulSet env d w1 = (res, w')"
    using run built owned by (simp add: manageStatefulSet_def d_def bindE_run)
  ultimately show ?thesis using applyStatefulSet_effect [OF law, of d w1 res w'] by (cases res) simp_all
qed

section \<open>Lemmas: the shape of the stateful set\<close>

lemma onFirstContainer_simps [simp]:
  "sts_Meta (onFirstContainer f s) = sts_Meta s" "sts_Selector (onFirstContainer f s) = sts_Selector s"
  "pt_Labels (sts_Template (onFirstContainer f s)) = pt_Labels (sts_Template s)"
  "pod_Volumes (pt_Spec (sts_Template (onFirstContainer f s))) = pod_Volumes (pt_Spec (sts_Template s))"
  "pod_ImagePullSecrets (pt_Spec (sts_Template (onFirstContainer f s))) = pod_ImagePullSecrets (pt_Spec (sts_Template s))"
  "pod_Containers (pt_Spec (sts_Template (onFirstContainer f s))) =
     (case pod_Containers (pt_Spec (sts_Template s)) of [] \<Rightarrow> [] | c # cs \<Rightarrow> f c # cs)"
  by (simp_all add: onFirstContainer_def Let_def)

text \<open>The labels of the capability give none of the three keys that the operator selects by another value.\<close>

definition keepsSelector :: "DynaKube \<Rightarrow> string \<Rightarrow> string gomap option \<Rightarrow> bool" where
  "keepsSelector dk feature labels \<longleftrightarrow>
     list_all (\<lambda>(k, v). case map_of (entries labels) k of None \<Rightarrow> True | Some u \<Rightarrow> u = v) (BuildLabelsFromInstance dk feature)"

lemma selects_ag_buildLabels:
  assumes "distinct (map fst (entries (om_Labels (dk_Meta dk))))" and "distinct (map fst (entries (cp_Labels p)))"
  shows "selects (BuildLabelsFromInstance dk feature) (Some (ag_buildLabels dk feature p)) \<longleftrightarrow> keepsSelector dk feature (cp_Labels p)"
proof -
  let ?own = "BuildLabelsFromInstance dk feature"
  have dist: "distinct (map fst ?own)"
    by (simp add: BuildLabelsFromInstance_def KeyDynatrace_def KeyActiveGate_def KeyFeature_def)
  have "map_of (ag_buildLabels dk feature p) =
      map_of (entries (om_Labels (dk_Meta dk))) ++ map_of ?own ++ map_of (entries (cp_Labels p))"
    unfolding ag_buildLabels_def using assms dist by (subst map_of_mergeLabels) (auto simp: entries_def)
  then have "map_of (ag_buildLabels dk feature p) k = Some v \<longleftrightarrow>
      (case map_of (entries (cp_Labels p)) k of None \<Rightarrow> True | Some u \<Rightarrow> u = v)" if "(k, v) \<in> set ?own" for k v
    using map_of_is_SomeI [OF dist that] by (simp add: map_add_def split: option.split)
  then show ?thesis unfolding selects_def keepsSelector_def list_all_iff by (auto simp: entries_def)
qed

text \<open>The listeners run on the container the stateful set was built with.\<close>

lemma CreateStatefulSet_Inr:
  "CreateStatefulSet marshal version p = Inr sts \<longleftrightarrow>
     (\<exists>data. marshal (foldl (\<lambda>s f. f s) (bareStatefulSet version p) (sp_OnAfterCreateListener p)) = Inr data \<and>
        sts = (foldl (\<lambda>s f. f s) (bareStatefulSet version p) (sp_OnAfterCreateListener p))
          \<lparr>sts_Meta := storeTemplateHash (fnvHash data)
             (sts_Meta (foldl (\<lambda>s f. f s) (bareStatefulSet version p) (sp_OnAfterCreateListener p)))\<rparr>)"
  by (auto simp: CreateStatefulSet_def generateStatefulSetHash_def Let_def split: sum.splits)

section \<open>The contract of a capability\<close>

text \<open>A service reaches a stateful set: it selects its pods, and each target port is a named port of a container.\<close>

definition reaches :: "Service \<Rightarrow> StatefulSet \<Rightarrow> bool" where
  "reaches svc sts \<longleftrightarrow>
     om_Namespace (svc_Meta svc) = om_Namespace (sts_Meta sts) \<and>
     selects (svc_Selector svc) (pt_Labels (sts_Template sts)) \<and>
     list_all (\<lambda>port. list_ex (\<lambda>c. list_ex (\<lambda>cport. sp_TargetPort port = StrVal (cport_Name cport)) (ct_Ports c))
                        (pod_Containers (pt_Spec (sts_Template sts)))) (svc_Ports svc)"

text \<open>
  What the reconcilers rely on in an implementation of the interface \<^verbatim>\<open>Capability\<close>: it passes the
  properties of the resource on, its module has one name, and it opens a port where it asks for a
  service.
\<close>

locale capability_contract =
  fixes newCapability :: "CapabilityProperties \<Rightarrow> Capability"
  assumes properties_kept: "cap_properties (newCapability p) = p"
    and module_fixed: "cap_moduleName (newCapability p) = cap_moduleName (newCapability q)"
    and served: "cf_CreateService (cap_Configuration (newCapability p)) \<Longrightarrow>
        cf_SetCommunicationPort (cap_Configuration (newCapability p))"
begin

lemma reconciler_fields:
  "sr_Instance (cap_NewReconciler (newCapability p) dk) = dk"
  "sr_feature (cap_NewReconciler (newCapability p) dk) = cap_moduleName (newCapability p)"
  "sr_capability (cap_NewReconciler (newCapability p) dk) = p"
  by (simp_all add: cap_NewReconciler_def sts_NewReconciler_def AddOnAfterStatefulSetCreateListener_def Let_def properties_kept)

lemma listeners:
  "sr_onAfterStatefulSetCreateListener (cap_NewReconciler (newCapability p) dk) =
     (if cf_SetDnsEntryPoint (cap_Configuration (newCapability p))
      then [addDNSEntryPoint dk (cap_moduleName (newCapability p))] else []) @
     (if cf_SetCommunicationPort (cap_Configuration (newCapability p)) then [setCommunicationsPort] else []) @
     (if cf_SetReadinessPort (cap_Configuration (newCapability p)) then [setReadinessProbePort] else [])"
  by (simp add: cap_NewReconciler_def sts_NewReconciler_def AddOnAfterStatefulSetCreateListener_def Let_def)

lemma desired_shape:
  assumes "desiredStatefulSet env (cap_NewReconciler (newCapability p) dk) uid hash = Inr sts"
  shows "sts_Selector sts = BuildLabelsFromInstance dk (cap_moduleName (newCapability p))"
    and "pt_Labels (sts_Template sts) = Some (ag_buildLabels dk (cap_moduleName (newCapability p)) p)"
    and "om_Namespace (sts_Meta sts) = dk_Namespace dk"
  using assms unfolding desiredStatefulSet_def CreateStatefulSet_Inr
  by (auto simp: reconciler_fields listeners bareStatefulSet_def addDNSEntryPoint_def
      setCommunicationsPort_def setReadinessProbePort_def)

lemma desired_mounts:
  assumes "desiredStatefulSet env (cap_NewReconciler (newCapability p) dk) uid hash = Inr sts"
  defines "sp \<equiv> propertiesOf (cap_NewReconciler (newCapability p) dk) uid hash"
  shows "pod_Volumes (pt_Spec (sts_Template sts)) = ag_buildVolumes sp"
    and "\<exists>c. pod_Containers (pt_Spec (sts_Template sts)) = [c] \<and> ct_VolumeMounts c = ag_buildVolumeMounts sp"
  using assms(1) unfolding desiredStatefulSet_def CreateStatefulSet_Inr sp_def [symmetric]
  by (auto simp: sp_def [THEN meta_eq_to_obj_eq, THEN arg_cong [where f = sp_OnAfterCreateListener]] listeners bareStatefulSet_def
      buildTemplateSpec_def buildContainer_def addDNSEntryPoint_def setCommunicationsPort_def setReadinessProbePort_def)

lemma owner_name:
  "sp_serviceAccountOwner (propertiesOf (cap_NewReconciler (newCapability p) dk) uid hash) =
     sr_serviceAccountOwner (cap_NewReconciler (newCapability p) dk)"
  by (simp add: cap_NewReconciler_def sts_NewReconciler_def AddOnAfterStatefulSetCreateListener_def Let_def)

lemma mounts_custom_properties:
  assumes props: "cp_CustomProperties p = Some source" "dvs_Value source \<noteq> []" "dvs_ValueFrom source = []"
    and built: "desiredStatefulSet env (cap_NewReconciler (newCapability p) dk) uid hash = Inr sts"
  defines "secret \<equiv> cpr_key (sts_customProperties env (cap_NewReconciler (newCapability p) dk) source)"
  shows "fst secret = om_Namespace (sts_Meta sts)"
    and "\<exists>vol \<in> set (pod_Volumes (pt_Spec (sts_Template sts))).
       vs_Secret (vol_Source vol) = Some (snd secret, [(cp_DataKey, cp_DataPath)]) \<and>
       (\<exists>c \<in> set (pod_Containers (pt_Spec (sts_Template sts))). \<exists>mount \<in> set (ct_VolumeMounts c).
          vm_Name mount = vol_Name vol \<and> vm_MountPath mount = cp_MountPath \<and> vm_SubPath mount = cp_DataPath)"
proof -
  let ?sp = "propertiesOf (cap_NewReconciler (newCapability p) dk) uid hash"
  show "fst secret = om_Namespace (sts_Meta sts)"
    by (simp add: secret_def desired_shape(3) [OF built] sts_customProperties_def reconciler_fields)
  have "snd secret = determineCustomPropertiesSource ?sp source"
    using props(3) by (simp add: secret_def determineCustomPropertiesSource_def sts_customProperties_def buildCustomPropertiesName_def
        owner_name reconciler_fields del: propertiesOf_fields(5))
  with props have "\<lparr>vol_Name = cp_VolumeName,
      vol_Source = zeroVolumeSource\<lparr>vs_Secret := Some (snd secret, [(cp_DataKey, cp_DataPath)])\<rparr>\<rparr> \<in> set (ag_buildVolumes ?sp)"
    by (simp add: ag_buildVolumes_def reconciler_fields isCustomPropertiesNilOrEmpty_def)
  moreover have "\<lparr>vm_Name = cp_VolumeName, vm_ReadOnly = True, vm_MountPath = cp_MountPath, vm_SubPath = cp_DataPath\<rparr>
      \<in> set (ag_buildVolumeMounts ?sp)"
    using props by (simp add: ag_buildVolumeMounts_def reconciler_fields isCustomPropertiesNilOrEmpty_def)
  ultimately show "\<exists>vol \<in> set (pod_Volumes (pt_Spec (sts_Template sts))).
       vs_Secret (vol_Source vol) = Some (snd secret, [(cp_DataKey, cp_DataPath)]) \<and>
       (\<exists>c \<in> set (pod_Containers (pt_Spec (sts_Template sts))). \<exists>mount \<in> set (ct_VolumeMounts c).
          vm_Name mount = vol_Name vol \<and> vm_MountPath mount = cp_MountPath \<and> vm_SubPath mount = cp_DataPath)"
    using desired_mounts [OF built] by force
qed

lemma service_reaches_pods:
  assumes built: "desiredStatefulSet env (cap_NewReconciler (newCapability p) dk) uid hash = Inr sts"
    and labels: "distinct (map fst (entries (om_Labels (dk_Meta dk))))" "distinct (map fst (entries (cp_Labels p)))"
  shows "selects (sts_Selector sts) (pt_Labels (sts_Template sts)) \<longleftrightarrow> keepsSelector dk (cap_moduleName (newCapability p)) (cp_Labels p)"
    and "cf_CreateService (cap_Configuration (newCapability p)) \<Longrightarrow>
           reaches (createService dk (cap_moduleName (newCapability p))) sts \<longleftrightarrow> keepsSelector dk (cap_moduleName (newCapability p)) (cp_Labels p)"
proof -
  note shape = desired_shape [OF built]
  show "selects (sts_Selector sts) (pt_Labels (sts_Template sts)) \<longleftrightarrow> keepsSelector dk (cap_moduleName (newCapability p)) (cp_Labels p)"
    using selects_ag_buildLabels [OF labels] by (simp add: shape)
  assume "cf_CreateService (cap_Configuration (newCapability p))"
  then have "cf_SetCommunicationPort (cap_Configuration (newCapability p))" by (rule served)
  then have "list_ex (\<lambda>c. list_ex (\<lambda>cport. StrVal ServiceTargetPort = StrVal (cport_Name cport)) (ct_Ports c))
      (pod_Containers (pt_Spec (sts_Template sts)))"
    using built unfolding desiredStatefulSet_def CreateStatefulSet_Inr
    by (auto simp: reconciler_fields listeners bareStatefulSet_def buildTemplateSpec_def
        addDNSEntryPoint_def setCommunicationsPort_def setReadinessProbePort_def)
  with shape show "reaches (createService dk (cap_moduleName (newCapability p))) sts \<longleftrightarrow> keepsSelector dk (cap_moduleName (newCapability p)) (cp_Labels p)"
    using selects_ag_buildLabels [OF labels] by (simp add: reaches_def createService_def)
qed

end

interpretation kubemon: capability_contract NewKubeMonCapability
  by unfold_locales (simp_all add: NewKubeMonCapability_def)

interpretation routing: capability_contract NewRoutingCapability
  by unfold_locales (simp_all add: NewRoutingCapability_def routedConfiguration_def)

interpretation ingest: capability_contract NewDataIngestCapability
  by unfold_locales (simp_all add: NewDataIngestCapability_def routedConfiguration_def)

section \<open>An example\<close>

definition exampleAgEnv :: "cluster ag_env" where
  "exampleAgEnv =
     \<lparr>ag_secrets = secretsOf, ag_statefulSets = statefulSetsOf, ag_services = servicesOf, ag_namespaces = namespacesOf,
      ag_SetControllerReference = setOwner,
      ag_marshal = (\<lambda>s. Inr (concat (map ct_Image (pod_Containers (pt_Spec (sts_Template s)))))), ag_version = ''snapshot''\<rparr>"

definition exampleAgOwner :: DynaKube where
  "exampleAgOwner = zeroDynaKube
     \<lparr>dk_Meta := emptyMeta\<lparr>om_Name := ''dynakube'', om_Namespace := ''dynatrace''\<rparr>,
      dk_Spec := zeroSpec\<lparr>spec_APIURL := ''https://abc.live/api''\<rparr>\<rparr>"

definition exampleAgCluster :: cluster where
  "exampleAgCluster = emptyCluster\<lparr>cl_Namespaces := [(([], ''kube-system''),
     \<lparr>ns_Name = ''kube-system'', ns_Labels = None, ns_Annotations = None, ns_UID = ''uid''\<rparr>)]\<rparr>"

abbreviation exampleRouting :: sts_reconciler where
  "exampleRouting \<equiv> cap_NewReconciler (NewRoutingCapability (zeroCapability\<lparr>cp_Enabled := True\<rparr>)) exampleAgOwner"

lemma exampleAgEnv_facts:
  "lawful (ag_statefulSets exampleAgEnv) stsKey (\<lambda>w. map_of (cl_StatefulSets w))"
  "leaves (ag_secrets exampleAgEnv) (\<lambda>w. map_of (cl_StatefulSets w))"
  "leaves (ag_namespaces exampleAgEnv) (\<lambda>w. map_of (cl_StatefulSets w))"
  using lawful_cluster by (simp_all add: exampleAgEnv_def secretsOf_def namespacesOf_def leaves_onPart)

lemma example_desired: "\<exists>sts. desiredStatefulSet exampleAgEnv exampleRouting ''uid'' [] = Inr sts"
  by (simp add: desiredStatefulSet_def CreateStatefulSet_Inr exampleAgEnv_def)

lemma example_owned:
  assumes "desiredStatefulSet exampleAgEnv exampleRouting ''uid'' [] = Inr sts"
  shows "\<exists>m. setOwner exampleAgOwner (sts_Meta sts) = Inr m"
proof -
  have "om_Controller (sts_Meta sts) = None"
    using assms unfolding desiredStatefulSet_def CreateStatefulSet_Inr
    by (auto simp: routing.reconciler_fields routing.listeners bareStatefulSet_def addDNSEntryPoint_def
        setCommunicationsPort_def setReadinessProbePort_def storeTemplateHash_def emptyMeta_def)
  then show ?thesis by (simp add: setOwner_def)
qed

lemma example_built:
  assumes "cl_Namespaces w = cl_Namespaces exampleAgCluster"
    and "desiredStatefulSet exampleAgEnv exampleRouting ''uid'' [] = Inr sts"
  shows "buildDesiredStatefulSet exampleAgEnv exampleRouting w = (Inr sts, w)"
proof -
  have "GetUID (ag_namespaces exampleAgEnv) w = (Inr ''uid'', w)"
    using assms(1) by (simp add: GetUID_def exampleAgEnv_def namespacesOf_def onPart_def storeClient_def zoomE_run bindE_run
        kubesystem_Namespace_def exampleAgCluster_def)
  moreover have "cp_CustomProperties (sr_capability exampleRouting) = None"
    by (simp add: routing.reconciler_fields zeroCapability_def)
  ultimately show ?thesis
    using assms(2) by (simp add: buildDesiredStatefulSet_def desiredStatefulSet_def propertiesOf_def calculateCustomPropertyHash_def bindE_run)
qed

text \<open>From an empty cluster the first call creates the stateful set and the next ones do nothing.\<close>

lemma example_manage:
  assumes d: "desiredStatefulSet exampleAgEnv exampleRouting ''uid'' [] = Inr sts"
    and m: "setOwner exampleAgOwner (sts_Meta sts) = Inr m"
  defines "w1 \<equiv> exampleAgCluster\<lparr>cl_StatefulSets := [(metaKey m, sts\<lparr>sts_Meta := m\<rparr>)]\<rparr>"
  shows "manageStatefulSet exampleAgEnv exampleRouting exampleAgCluster = (Inr True, w1)"
    and "manageStatefulSet exampleAgEnv exampleRouting w1 = (Inr False, w1)"
proof -
  have inst: "sr_Instance exampleRouting = exampleAgOwner" by (simp add: routing.reconciler_fields)
  have own: "ag_SetControllerReference exampleAgEnv = setOwner" by (simp add: exampleAgEnv_def)
  note built = example_built [OF _ d, of exampleAgCluster, simplified] example_built [OF _ d, of w1, simplified w1_def, simplified]
  have none: "cl_StatefulSets exampleAgCluster = []" by (simp add: exampleAgCluster_def emptyCluster_def)
  have client: "ag_statefulSets exampleAgEnv = statefulSetsOf" by (simp add: exampleAgEnv_def)
  note unfold = manageStatefulSet_def bindE_run applyStatefulSet_def createStatefulSetIfNotExists_def getStatefulSet_def
    catchE_run deleteStatefulSetIfOldLabelsAreUsed_def updateStatefulSetIfOutdated_def HasStatefulSetChanged_def deepEqualMap_iff
    client statefulSetsOf_run
  show "manageStatefulSet exampleAgEnv exampleRouting exampleAgCluster = (Inr True, w1)"
    using m by (simp add: unfold built(1) inst own w1_def none)
  show "manageStatefulSet exampleAgEnv exampleRouting w1 = (Inr False, w1)"
    using m by (simp add: unfold built(2) inst own w1_def)
qed

section \<open>Properties\<close>

text \<open>C35. One call of \<^verbatim>\<open>manageStatefulSet\<close> refines the abstract step \<^term>\<open>nextStatefulSet\<close> on the stored
  stateful set: a missing one is created, one with other labels is deleted, one with another template hash is
  replaced, and otherwise nothing changes and no update is reported. No other stateful set is touched; after
  an error none is.\<close>

theorem manageStatefulSet_refines:
  assumes "lawful (ag_statefulSets env) stsKey view"
    and "leaves (ag_secrets env) view" and "leaves (ag_namespaces env) view"
    and "buildDesiredStatefulSet env r w = (Inr sts, w1)"
    and "ag_SetControllerReference env (sr_Instance r) (sts_Meta sts) = Inr m"
    and "manageStatefulSet env r w = (res, w')"
  shows "case res of
      Inl _ \<Rightarrow> view w' = view w
    | Inr b \<Rightarrow> (b, view w' (metaKey m)) = nextStatefulSet (sts\<lparr>sts_Meta := m\<rparr>) (view w (metaKey m)) \<and>
               (\<forall>k. k \<noteq> metaKey m \<longrightarrow> view w' k = view w k)"
  using manageStatefulSet_step [OF assms] by (cases res) simp_all

theorem manageStatefulSet_refines_witness:
  "\<exists>sts m w'. desiredStatefulSet exampleAgEnv exampleRouting ''uid'' [] = Inr sts \<and> setOwner exampleAgOwner (sts_Meta sts) = Inr m \<and>
     manageStatefulSet exampleAgEnv exampleRouting exampleAgCluster = (Inr True, w') \<and>
     (True, map_of (cl_StatefulSets w') (metaKey m)) =
       nextStatefulSet (sts\<lparr>sts_Meta := m\<rparr>) (map_of (cl_StatefulSets exampleAgCluster) (metaKey m))"
proof -
  obtain sts where d: "desiredStatefulSet exampleAgEnv exampleRouting ''uid'' [] = Inr sts" using example_desired by blast
  obtain m where m: "setOwner exampleAgOwner (sts_Meta sts) = Inr m" using example_owned [OF d] by blast
  have owner: "ag_SetControllerReference exampleAgEnv (sr_Instance exampleRouting) (sts_Meta sts) = Inr m"
    using m by (simp add: exampleAgEnv_def routing.reconciler_fields)
  note run = example_manage(1) [OF d m]
  from manageStatefulSet_refines [OF exampleAgEnv_facts example_built [OF refl d] owner run] d m run show ?thesis by auto
qed

text \<open>C36. The stateful set settles: whatever is stored, the third of three calls without an error finds the
  stateful set up to date, reports no update and changes nothing, provided that the same stateful set is
  desired each time.\<close>

theorem statefulSet_settles:
  assumes law: "lawful (ag_statefulSets env) stsKey view"
    and leave: "leaves (ag_secrets env) view" "leaves (ag_namespaces env) view"
    and built: "\<forall>v \<in> {w0, w1, w2}. \<exists>v'. buildDesiredStatefulSet env r v = (Inr sts, v')"
    and owned: "ag_SetControllerReference env (sr_Instance r) (sts_Meta sts) = Inr m"
    and runs: "manageStatefulSet env r w0 = (Inr b1, w1)" "manageStatefulSet env r w1 = (Inr b2, w2)"
      "manageStatefulSet env r w2 = (Inr b3, w3)"
  shows "\<not> b3 \<and> view w3 = view w2 \<and> upToDate (sts\<lparr>sts_Meta := m\<rparr>) (view w3 (metaKey m))"
proof -
  let ?d = "sts\<lparr>sts_Meta := m\<rparr>"
  obtain v0 v1 v2 where b: "buildDesiredStatefulSet env r w0 = (Inr sts, v0)" "buildDesiredStatefulSet env r w1 = (Inr sts, v1)"
      "buildDesiredStatefulSet env r w2 = (Inr sts, v2)" using built by blast
  note step = manageStatefulSet_step [OF law leave _ owned]
  have s1: "snd (nextStatefulSet ?d (view w0 (metaKey m))) = view w1 (metaKey m)" using step [OF b(1) runs(1)] by (simp add: prod_eq_iff)
  have s2: "snd (nextStatefulSet ?d (view w1 (metaKey m))) = view w2 (metaKey m)" using step [OF b(2) runs(2)] by (simp add: prod_eq_iff)
  have settled: "upToDate ?d (view w2 (metaKey m))" using nextStatefulSet_settles [of ?d "view w0 (metaKey m)"] s1 s2 by simp
  from step [OF b(3) runs(3)] have eq: "(b3, view w3 (metaKey m)) = nextStatefulSet ?d (view w2 (metaKey m))"
      and rest: "\<forall>k. k \<noteq> metaKey m \<longrightarrow> view w3 k = view w2 k" by simp_all
  from eq have "\<not> b3" "view w3 (metaKey m) = view w2 (metaKey m)" by (simp_all add: nextStatefulSet_idle [OF settled])
  moreover from this rest have "view w3 = view w2" by (metis ext)
  ultimately show ?thesis using settled by simp
qed

theorem statefulSet_settles_witness:
  "\<exists>w1 w2 w3 sts m. manageStatefulSet exampleAgEnv exampleRouting exampleAgCluster = (Inr True, w1) \<and>
     manageStatefulSet exampleAgEnv exampleRouting w1 = (Inr False, w2) \<and>
     manageStatefulSet exampleAgEnv exampleRouting w2 = (Inr False, w3) \<and>
     upToDate (sts\<lparr>sts_Meta := m\<rparr>) (map_of (cl_StatefulSets w3) (metaKey m))"
proof -
  obtain sts where d: "desiredStatefulSet exampleAgEnv exampleRouting ''uid'' [] = Inr sts" using example_desired by blast
  obtain m where m: "setOwner exampleAgOwner (sts_Meta sts) = Inr m" using example_owned [OF d] by blast
  have owner: "ag_SetControllerReference exampleAgEnv (sr_Instance exampleRouting) (sts_Meta sts) = Inr m"
    using m by (simp add: exampleAgEnv_def routing.reconciler_fields)
  let ?w = "exampleAgCluster\<lparr>cl_StatefulSets := [(metaKey m, sts\<lparr>sts_Meta := m\<rparr>)]\<rparr>"
  have "\<forall>v \<in> {exampleAgCluster, ?w, ?w}. \<exists>v'. buildDesiredStatefulSet exampleAgEnv exampleRouting v = (Inr sts, v')"
    using example_built [OF _ d] by simp
  from statefulSet_settles [OF exampleAgEnv_facts this owner example_manage(1) [OF d m] example_manage(2) [OF d m] example_manage(2) [OF d m]]
    example_manage [OF d m] show ?thesis by blast
qed

text \<open>C37. The service of a capability reaches its pods exactly if the labels that the user gives the capability do not set one of the three
  keys of the operator to another value. In that case, for the capabilities with a service, the service of the module selects the pods of the
  stateful set, and its target port is the named port of the container; and for every capability the selector of
  the stateful set matches its own pods. In the other case neither the service nor the stateful set selects the pods: the labels of the
  capability are merged over those of the operator. (The keys of a map are distinct.)\<close>

theorem ActiveGate_service_reaches_pods:
  assumes "new \<in> {NewKubeMonCapability, NewRoutingCapability, NewDataIngestCapability}"
    and "desiredStatefulSet env (cap_NewReconciler (new p) dk) uid hash = Inr sts"
    and "distinct (map fst (entries (om_Labels (dk_Meta dk))))" and "distinct (map fst (entries (cp_Labels p)))"
    and "harmless \<longleftrightarrow> list_all (\<lambda>(k, v). map_of (entries (cp_Labels p)) k \<in> {None, Some v})
      [(''dynatrace.com/component'', ''activegate''), (''operator.dynatrace.com/instance'', dk_Name dk),
       (''operator.dynatrace.com/feature'', cap_moduleName (new p))]"
  shows "(selects (sts_Selector sts) (pt_Labels (sts_Template sts)) \<longleftrightarrow> harmless) \<and>
    (cf_CreateService (cap_Configuration (new p)) \<longrightarrow> (reaches (createService dk (cap_moduleName (new p))) sts \<longleftrightarrow> harmless))"
proof -
  have keeps: "keepsSelector dk (cap_moduleName (new p)) (cp_Labels p) = harmless"
    unfolding assms(5) keepsSelector_def BuildLabelsFromInstance_def KeyDynatrace_def KeyActiveGate_def KeyFeature_def ValueActiveGate_def
    by (simp split: option.split)
  from assms(1) consider "new = NewKubeMonCapability" | "new = NewRoutingCapability" | "new = NewDataIngestCapability" by blast
  then show ?thesis
    using assms(2-4) keeps by cases (simp_all add: kubemon.service_reaches_pods routing.service_reaches_pods ingest.service_reaches_pods)
qed

theorem ActiveGate_service_reaches_pods_witness:
  "\<exists>sts. desiredStatefulSet exampleAgEnv exampleRouting ''uid'' [] = Inr sts \<and>
     reaches (createService exampleAgOwner ''routing'') sts"
proof -
  obtain sts where d: "desiredStatefulSet exampleAgEnv exampleRouting ''uid'' [] = Inr sts" using example_desired by blast
  have keys: "distinct (map fst (entries (om_Labels (dk_Meta exampleAgOwner))))" "distinct (map fst (entries (cp_Labels (zeroCapability\<lparr>cp_Enabled := True\<rparr>))))"
    by (simp_all add: exampleAgOwner_def zero_defs emptyMeta_def entries_def zeroCapability_def)
  from ActiveGate_service_reaches_pods [of NewRoutingCapability, OF _ d keys, of True] d show ?thesis
    by (auto simp: NewRoutingCapability_def routedConfiguration_def entries_def zeroCapability_def)
qed

text \<open>A label of the capability can cut the stateful set off from its own pods: the labels of the capability are
  merged over those of the operator, so that one with the key of the feature changes the label of the pods
  but not the selector.\<close>

theorem ActiveGate_labels_break_selector:
  assumes "cp_Labels p = Some [(KeyFeature, v)]" and "v \<noteq> ''routing''"
    and "distinct (map fst (entries (om_Labels (dk_Meta dk))))"
    and "desiredStatefulSet env (cap_NewReconciler (NewRoutingCapability p) dk) uid hash = Inr sts"
  shows "\<not> selects (sts_Selector sts) (pt_Labels (sts_Template sts))"
proof -
  have "cap_moduleName (NewRoutingCapability p) = ''routing''" by (simp add: NewRoutingCapability_def)
  note shape = routing.desired_shape [OF assms(4), unfolded this]
  have "map_of (ag_buildLabels dk ''routing'' p) KeyFeature = Some v"
    unfolding ag_buildLabels_def using assms(1,3)
    by (subst map_of_mergeLabels) (auto simp: entries_def BuildLabelsFromInstance_def KeyDynatrace_def KeyActiveGate_def KeyFeature_def)
  with assms(2) show ?thesis unfolding shape by (simp add: selects_def BuildLabelsFromInstance_def entries_def)
qed

theorem ActiveGate_labels_break_selector_witness:
  "\<exists>sts. desiredStatefulSet exampleAgEnv
       (cap_NewReconciler (NewRoutingCapability (zeroCapability\<lparr>cp_Labels := Some [(KeyFeature, ''mine'')]\<rparr>)) exampleAgOwner) ''uid'' [] = Inr sts \<and>
     \<not> selects (sts_Selector sts) (pt_Labels (sts_Template sts))"
proof -
  let ?p = "zeroCapability\<lparr>cp_Labels := Some [(KeyFeature, ''mine'')]\<rparr>"
  obtain sts where d: "desiredStatefulSet exampleAgEnv (cap_NewReconciler (NewRoutingCapability ?p) exampleAgOwner) ''uid'' [] = Inr sts"
    by (simp add: desiredStatefulSet_def CreateStatefulSet_Inr exampleAgEnv_def)
  have "distinct (map fst (entries (om_Labels (dk_Meta exampleAgOwner))))"
    by (simp add: exampleAgOwner_def zero_defs emptyMeta_def entries_def)
  from ActiveGate_labels_break_selector [OF _ _ this d, of "''mine''"] d show ?thesis by auto
qed

text \<open>Custom properties given as a value reach the ActiveGate: the stateful set mounts, at the path the gateway
  reads, the entry of the very secret that the reconciler of the custom properties establishes.\<close>

theorem ActiveGate_mounts_custom_properties:
  assumes new: "new \<in> {NewKubeMonCapability, NewRoutingCapability, NewDataIngestCapability}"
    and props: "cp_CustomProperties p = Some source" "dvs_Value source \<noteq> []" "dvs_ValueFrom source = []"
    and built: "desiredStatefulSet env (cap_NewReconciler (new p) dk) uid hash = Inr sts"
  shows "let secret = cpr_key (sts_customProperties env (cap_NewReconciler (new p) dk) source) in
    fst secret = om_Namespace (sts_Meta sts) \<and>
    (\<exists>vol \<in> set (pod_Volumes (pt_Spec (sts_Template sts))).
       vs_Secret (vol_Source vol) = Some (snd secret, [(cp_DataKey, cp_DataPath)]) \<and>
       (\<exists>c \<in> set (pod_Containers (pt_Spec (sts_Template sts))). \<exists>mount \<in> set (ct_VolumeMounts c).
          vm_Name mount = vol_Name vol \<and> vm_MountPath mount = cp_MountPath \<and> vm_SubPath mount = cp_DataPath))"
proof -
  from new consider "new = NewKubeMonCapability" | "new = NewRoutingCapability" | "new = NewDataIngestCapability" by blast
  then show ?thesis
  proof cases
    case 1
    from kubemon.mounts_custom_properties [OF props built [unfolded 1]] show ?thesis unfolding 1 Let_def by (rule conjI)
  next
    case 2
    from routing.mounts_custom_properties [OF props built [unfolded 2]] show ?thesis unfolding 2 Let_def by (rule conjI)
  next
    case 3
    from ingest.mounts_custom_properties [OF props built [unfolded 3]] show ?thesis unfolding 3 Let_def by (rule conjI)
  qed
qed

theorem ActiveGate_mounts_custom_properties_witness:
  "\<exists>sts. desiredStatefulSet exampleAgEnv (cap_NewReconciler (NewRoutingCapability
       (zeroCapability\<lparr>cp_CustomProperties := Some \<lparr>dvs_Value = ''a=b'', dvs_ValueFrom = []\<rparr>\<rparr>)) exampleAgOwner) ''uid'' [] = Inr sts \<and>
     (\<exists>vol \<in> set (pod_Volumes (pt_Spec (sts_Template sts))).
       vs_Secret (vol_Source vol) = Some (''dynakube-routing-custom-properties'', [(cp_DataKey, cp_DataPath)]))"
proof -
  let ?p = "zeroCapability\<lparr>cp_CustomProperties := Some \<lparr>dvs_Value = ''a=b'', dvs_ValueFrom = []\<rparr>\<rparr>"
  obtain sts where d: "desiredStatefulSet exampleAgEnv (cap_NewReconciler (NewRoutingCapability ?p) exampleAgOwner) ''uid'' [] = Inr sts"
    by (simp add: desiredStatefulSet_def CreateStatefulSet_Inr exampleAgEnv_def)
  have "snd (cpr_key (sts_customProperties exampleAgEnv (cap_NewReconciler (NewRoutingCapability ?p) exampleAgOwner) source)) =
      ''dynakube-routing-custom-properties''" for source
    by (simp add: sts_customProperties_def buildCustomPropertiesName_def cap_NewReconciler_def sts_NewReconciler_def
        AddOnAfterStatefulSetCreateListener_def Let_def NewRoutingCapability_def routedConfiguration_def exampleAgOwner_def cp_Suffix_def)
  with ActiveGate_mounts_custom_properties [of NewRoutingCapability ?p "\<lparr>dvs_Value = ''a=b'', dvs_ValueFrom = []\<rparr>", OF _ _ _ _ d] d
  show ?thesis by (auto simp: Let_def)
qed

end
