(* ===== verification/OneAgent.thy ===== *)
theory OneAgent
  imports Cluster
begin

text \<open>
  The OneAgent (\<^verbatim>\<open>src/controllers/oneagent\<close>): the daemon set of the agents, the instances and the phase in
  the status. The environment of the process, the JSON encoder of the daemon set, the listing of pods
  and \<^verbatim>\<open>SetControllerReference\<close> are parameters. The reconciler and the \<^verbatim>\<open>Reconciliation\<close> share one
  resource (the same pointer), which is \<open>rec_Instance\<close> here.
\<close>

section \<open>Arguments and environment (daemonset.go, oneagent\_controller.go)\<close>

definition InframonFeature :: string where "InframonFeature = ''inframon''"
definition ClassicFeature :: string where "ClassicFeature = ''classic''"
definition updateEnvVar :: string where "updateEnvVar = ''ONEAGENT_OPERATOR_UPDATE_INTERVAL''"
definition oa_defaultUpdateInterval :: duration where "oa_defaultUpdateInterval = 15 * timeMinute"

definition hasProxy :: "DynaKube \<Rightarrow> bool" where
  "hasProxy instance = (case spec_Proxy (dk_Spec instance) of None \<Rightarrow> False | Some p \<Rightarrow> px_ValueFrom p \<noteq> [] \<or> px_Value p \<noteq> [])"

definition prepareArgs :: "string \<Rightarrow> DynaKube \<Rightarrow> FullStackSpec \<Rightarrow> string \<Rightarrow> string \<Rightarrow> string list" where
  "prepareArgs version instance fs feature clusterID =
     fs_Args fs
     @ (if hasProxy instance then [''--set-proxy=$(https_proxy)''] else [])
     @ (if spec_NetworkZone (dk_Spec instance) \<noteq> [] then [''--set-network-zone='' @ spec_NetworkZone (dk_Spec instance)] else [])
     @ (if feature = InframonFeature then [''--set-host-id-source=k8s-node-name''] else [''--set-host-id-source=auto''])
     @ [''--set-host-property=OperatorVersion='' @ version]
     @ AsArgs version clusterID"

text \<open>
  The reserved variables with the value their \<^verbatim>\<open>Default\<close> gives them. For a proxy that is given as a
  value, the default of \<^verbatim>\<open>https_proxy\<close> assigns to the proxy of the resource, not to the variable.
\<close>

definition proxyDefault :: "DynaKubeProxy \<Rightarrow> EnvVar" where
  "proxyDefault p =
     (if px_ValueFrom p \<noteq> [] then envFrom ''https_proxy'' (SecretKeyRef (px_ValueFrom p) ''proxy'')
      else envValue ''https_proxy'' [])"

definition formatBool :: "bool \<Rightarrow> string" where
  "formatBool b = (if b then ''true'' else ''false'')"

definition reservedEnvVars :: "DynaKube \<Rightarrow> string \<Rightarrow> string \<Rightarrow> EnvVar list" where
  "reservedEnvVars instance feature clusterID =
     [envFrom ''DT_K8S_NODE_NAME'' (FieldRef ''spec.nodeName''), envValue ''DT_K8S_CLUSTER_ID'' clusterID]
     @ (if feature = InframonFeature then [envValue ''ONEAGENT_DISABLE_CONTAINER_INJECTION'' ''true''] else [])
     @ (if \<not> oast_UseImmutableImage (st_OneAgent (dk_Status instance))
        then [envFrom ''ONEAGENT_INSTALLER_DOWNLOAD_TOKEN'' (SecretKeyRef (Tokens instance) DynatracePaasToken),
              envValue ''ONEAGENT_INSTALLER_SCRIPT_URL''
                (spec_APIURL (dk_Spec instance) @ ''/v1/deployment/installer/agent/unix/default/latest?arch=x86&flavor=default''),
              envValue ''ONEAGENT_INSTALLER_SKIP_CERT_CHECK'' (formatBool (spec_SkipCertCheck (dk_Spec instance)))]
             @ (case spec_Proxy (dk_Spec instance) of None \<Rightarrow> []
                | Some p \<Rightarrow> if px_Value p \<noteq> [] \<or> px_ValueFrom p \<noteq> [] then [proxyDefault p] else [])
        else [])"

text \<open>The variables of the resource are split into values for reserved names and the rest.\<close>

fun splitEnv :: "string list \<Rightarrow> EnvVar list \<Rightarrow> EnvVar gomap \<Rightarrow> EnvVar list \<Rightarrow> EnvVar gomap \<times> EnvVar list" where
  "splitEnv names [] values remaining = (values, remaining)"
| "splitEnv names (e # es) values remaining =
     (if env_Name e \<in> set names then splitEnv names es (AList.update (env_Name e) e values) remaining
      else splitEnv names es values (remaining @ [e]))"

definition prepareEnvVars :: "DynaKube \<Rightarrow> FullStackSpec \<Rightarrow> string \<Rightarrow> string \<Rightarrow> EnvVar list" where
  "prepareEnvVars instance fs feature clusterID =
     (let reserved = reservedEnvVars instance feature clusterID;
          (values, remaining) = splitEnv (map env_Name reserved) (fs_Env fs) [] []
      in map (\<lambda>d. case map_of values (env_Name d) of Some e \<Rightarrow> e | None \<Rightarrow> d) reserved @ remaining)"

section \<open>The daemon set (oneagent\_controller.go)\<close>

definition oa_buildLabels :: "string \<Rightarrow> string \<Rightarrow> string gomap" where
  "oa_buildLabels name feature =
     [(''dynatrace.com/component'', ''operator''), (''operator.dynatrace.com/instance'', name),
      (''operator.dynatrace.com/feature'', feature)]"

definition prepareVolumes :: "DynaKube \<Rightarrow> Volume list" where
  "prepareVolumes instance =
     [\<lparr>vol_Name = ''host-root'', vol_Source = zeroVolumeSource\<lparr>vs_HostPath := Some ''/''\<rparr>\<rparr>]
     @ (if spec_TrustedCAs (dk_Spec instance) \<noteq> []
        then [\<lparr>vol_Name = ''certs'', vol_Source = zeroVolumeSource
                \<lparr>vs_ConfigMap := Some (spec_TrustedCAs (dk_Spec instance), [(''certs'', ''certs.pem'')])\<rparr>\<rparr>] else [])"

definition prepareVolumeMounts :: "DynaKube \<Rightarrow> VolumeMount list" where
  "prepareVolumeMounts instance =
     [\<lparr>vm_Name = ''host-root'', vm_ReadOnly = False, vm_MountPath = ''/mnt/root'', vm_SubPath = []\<rparr>]
     @ (if spec_TrustedCAs (dk_Spec instance) \<noteq> []
        then [\<lparr>vm_Name = ''certs'', vm_ReadOnly = False, vm_MountPath = ''/mnt/dynatrace/certs'', vm_SubPath = []\<rparr>] else [])"

definition setImage :: "string \<Rightarrow> PodSpec \<Rightarrow> PodSpec" where
  "setImage img p = p\<lparr>pod_Containers := (case pod_Containers p of [] \<Rightarrow> [] | c # cs \<Rightarrow> c\<lparr>ct_Image := img\<rparr> # cs)\<rparr>"

definition preparePodSpecInstaller :: "(string \<Rightarrow> string) \<Rightarrow> DynaKube \<Rightarrow> PodSpec \<Rightarrow> PodSpec" where
  "preparePodSpecInstaller getenv instance p =
     (let envVarImg = getenv ''RELATED_IMAGE_DYNATRACE_ONEAGENT''; img = oas_Image (spec_OneAgent (dk_Spec instance))
      in setImage (if img \<noteq> [] then img else if envVarImg \<noteq> [] then envVarImg
                   else ''docker.io/dynatrace/oneagent:latest'') p)"

definition preparePodSpecImmutableImage :: "DynaKube \<Rightarrow> PodSpec \<Rightarrow> PodSpec" where
  "preparePodSpecImmutableImage instance p =
     (let pullSecretName = (if spec_CustomPullSecret (dk_Spec instance) \<noteq> [] then spec_CustomPullSecret (dk_Spec instance)
                            else dk_Name instance @ ''-pull-secret'');
          img = oas_Image (spec_OneAgent (dk_Spec instance))
      in setImage (if img \<noteq> [] then img else ImmutableOneAgentImage instance)
           (p\<lparr>pod_ImagePullSecrets := pod_ImagePullSecrets p @ [pullSecretName]\<rparr>))"

text \<open>
  The quantity \<^verbatim>\<open>NewScaledQuantity(1, -1)\<close>, a tenth of a core, is written \<^verbatim>\<open>100m\<close>. Where the resource has a
  map of requests, the code adds the entry to that map, and so to the copy of the resource in memory as well; the
  resource is written back without its spec, and adding the entry again changes nothing.
\<close>

definition withCPU :: "ResourceRequirements \<Rightarrow> ResourceRequirements" where
  "withCPU resources =
     (let requests = entries (rr_Requests resources)
      in resources\<lparr>rr_Requests :=
           Some (if map_of requests ''cpu'' = None then AList.update ''cpu'' ''100m'' requests else requests)\<rparr>)"

definition agentCapabilities :: "string list" where
  "agentCapabilities = [''CHOWN'', ''DAC_OVERRIDE'', ''DAC_READ_SEARCH'', ''FOWNER'', ''FSETID'', ''KILL'', ''NET_ADMIN'',
     ''NET_RAW'', ''SETFCAP'', ''SETGID'', ''SETUID'', ''SYS_ADMIN'', ''SYS_CHROOT'', ''SYS_PTRACE'', ''SYS_RESOURCE'']"

definition agentAffinity :: "string \<Rightarrow> string \<Rightarrow> NodeSelectorRequirement list" where
  "agentAffinity archKey osKey =
     [\<lparr>nsr_Key = archKey, nsr_Operator = ''In'', nsr_Values = [''amd64'', ''arm64'']\<rparr>,
      \<lparr>nsr_Key = osKey, nsr_Operator = ''In'', nsr_Values = [''linux'']\<rparr>]"

definition agentContainer :: "string \<Rightarrow> DynaKube \<Rightarrow> FullStackSpec \<Rightarrow> string \<Rightarrow> bool \<Rightarrow> string \<Rightarrow> Container" where
  "agentContainer version instance fs feature unprivileged clusterID =
     zeroContainer
       \<lparr>ct_Args := prepareArgs version instance fs feature clusterID,
        ct_Env := prepareEnvVars instance fs feature clusterID,
        ct_Image := [], ct_ImagePullPolicy := PullAlways, ct_Name := ''dynatrace-oneagent'',
        ct_ReadinessProbe := Some
          \<lparr>pr_HTTPGet = None, pr_Exec = Some [''/bin/sh'', ''-c'', ''grep -q oneagentwatchdo /proc/[0-9]*/stat''],
           pr_InitialDelaySeconds = 30, pr_PeriodSeconds = 30, pr_FailureThreshold = 0, pr_TimeoutSeconds = 1\<rparr>,
        ct_Resources := withCPU (fs_Resources fs),
        ct_SecurityContext := Some (if unprivileged
          then \<lparr>sctx_Privileged = None, sctx_Add = agentCapabilities, sctx_Drop = [''ALL'']\<rparr>
          else \<lparr>sctx_Privileged = Some True, sctx_Add = [], sctx_Drop = []\<rparr>),
        ct_VolumeMounts := prepareVolumeMounts instance\<rparr>"

definition newPodSpecForCR ::
  "string \<Rightarrow> (string \<Rightarrow> string) \<Rightarrow> DynaKube \<Rightarrow> FullStackSpec \<Rightarrow> string \<Rightarrow> bool \<Rightarrow> string \<Rightarrow> PodSpec" where
  "newPodSpecForCR version getenv instance fs feature unprivileged clusterID =
     (let sa = (if fs_ServiceAccountName fs \<noteq> [] then fs_ServiceAccountName fs
                else if unprivileged then ''dynatrace-dynakube-oneagent-unprivileged'' else ''dynatrace-dynakube-oneagent'');
          p = zeroPodSpec
            \<lparr>pod_Containers := [agentContainer version instance fs feature unprivileged clusterID],
             pod_HostNetwork := True, pod_HostPID := True, pod_HostIPC := False,
             pod_NodeSelector := fs_NodeSelector fs, pod_PriorityClassName := fs_PriorityClassName fs,
             pod_ServiceAccountName := sa, pod_Tolerations := fs_Tolerations fs,
             pod_DNSPolicy := (if fs_DNSPolicy fs = [] then ''ClusterFirstWithHostNet'' else fs_DNSPolicy fs),
             pod_NodeAffinity := [agentAffinity ''beta.kubernetes.io/arch'' ''beta.kubernetes.io/os'',
                                  agentAffinity ''kubernetes.io/arch'' ''kubernetes.io/os''],
             pod_Volumes := prepareVolumes instance\<rparr>
      in if oast_UseImmutableImage (st_OneAgent (dk_Status instance)) then preparePodSpecImmutableImage instance p
         else preparePodSpecInstaller getenv instance p)"

definition generateDaemonSetHash :: "(DaemonSet \<Rightarrow> goerr + string) \<Rightarrow> DaemonSet \<Rightarrow> goerr + string" where
  "generateDaemonSetHash marshal ds = (case marshal ds of Inl err \<Rightarrow> Inl err | Inr data \<Rightarrow> Inr (fnvHash data))"

definition hasDaemonSetChanged :: "DaemonSet \<Rightarrow> DaemonSet \<Rightarrow> bool" where
  "hasDaemonSetChanged a b \<longleftrightarrow> GetTemplateHash (ds_Meta a) \<noteq> GetTemplateHash (ds_Meta b)"

definition newDaemonSetForCR ::
  "(DaemonSet \<Rightarrow> goerr + string) \<Rightarrow> string \<Rightarrow> (string \<Rightarrow> string) \<Rightarrow> DynaKube \<Rightarrow> FullStackSpec \<Rightarrow> string \<Rightarrow> string
    \<Rightarrow> goerr + DaemonSet" where
  "newDaemonSetForCR marshal version getenv instance fs clusterID feature =
     (let unprivileged = (case fs_UseUnprivilegedMode fs of None \<Rightarrow> True | Some b \<Rightarrow> b);
          selectorLabels = oa_buildLabels (dk_Name instance) feature;
          mergedLabels = mergeLabels [fs_Labels fs, Some selectorLabels];
          annotations = [(AnnotationVersion, ver_Version (oast_VersionStatus (st_OneAgent (dk_Status instance))))];
          ds = \<lparr>ds_Meta = emptyMeta\<lparr>om_Name := dk_Name instance @ ''-'' @ feature, om_Namespace := dk_Namespace instance,
                  om_Labels := Some mergedLabels, om_Annotations := Some []\<rparr>,
                ds_Selector = selectorLabels,
                ds_Template = \<lparr>pt_Labels = Some mergedLabels,
                  pt_Annotations = Some (if unprivileged
                    then AList.update ''container.apparmor.security.beta.kubernetes.io/dynatrace-oneagent'' ''unconfined'' annotations
                    else annotations),
                  pt_Spec = newPodSpecForCR version getenv instance fs feature unprivileged clusterID\<rparr>,
                ds_MaxUnavailable = FeatureOneAgentMaxUnavailable instance,
                ds_NumberReady = 0, ds_CurrentNumberScheduled = 0\<rparr>
      in case generateDaemonSetHash marshal ds of
           Inl err \<Rightarrow> Inl err
         | Inr hash \<Rightarrow> Inr (ds\<lparr>ds_Meta := storeTemplateHash hash (ds_Meta ds)\<rparr>))"

section \<open>Reconciling\<close>

text \<open>A pod as the reconciler sees it.\<close>

record AgentPod =
  apod_Name :: string
  apod_NodeName :: string
  apod_HostIP :: string
  apod_Phase :: string
  apod_ContainersReady :: "bool list"

record 'w oa_env =
  oa_daemonSets :: "('w, DaemonSet) kclient"
  oa_namespaces :: "('w, Namespace) kclient"
  oa_ListPods :: "string \<Rightarrow> string gomap \<Rightarrow> ('w, AgentPod list) act"
  oa_SetControllerReference :: "DynaKube \<Rightarrow> ObjectMeta \<Rightarrow> goerr + ObjectMeta"
  oa_marshal :: "DaemonSet \<Rightarrow> goerr + string"
  oa_getenv :: "string \<Rightarrow> string"
  oa_version :: string

type_synonym 'w recst = "Reconciliation \<times> 'w"

text \<open>Actions on the world, and changes of the reconciliation, inside of a reconciler.\<close>

definition inWorld :: "('w, 'a) act \<Rightarrow> ('w recst, 'a) act" where
  "inWorld m = zoomE snd (\<lambda>w s. (fst s, w)) m"

definition onRec :: "(Reconciliation \<Rightarrow> 'a \<times> Reconciliation) \<Rightarrow> ('w recst, 'a) act" where
  "onRec f = (\<lambda>(r, w). case f r of (x, r') \<Rightarrow> (Inr x, (r', w)))"

definition validate :: "DynaKube \<Rightarrow> goerr option" where
  "validate cr = (if spec_APIURL (dk_Spec cr) = [] then Some (ErrMsg ''.spec.apiUrl is missing'') else None)"

definition getDesiredDaemonSet :: "'w oa_env \<Rightarrow> DynaKube \<Rightarrow> FullStackSpec \<Rightarrow> string \<Rightarrow> ('w, DaemonSet) act" where
  "getDesiredDaemonSet env instance fs feature =
     bindE (GetUID (oa_namespaces env)) (\<lambda>kubeSysUID.
       liftE (newDaemonSetForCR (oa_marshal env) (oa_version env) (oa_getenv env) instance fs kubeSysUID feature))"

definition applyDaemonSet :: "'w oa_env \<Rightarrow> DaemonSet \<Rightarrow> ('w, unit) act" where
  "applyDaemonSet env dsDesired =
     catchE (kGet (oa_daemonSets env) (dsKey dsDesired))
       (\<lambda>err. if isNotFound err then bindE (kCreate (oa_daemonSets env) dsDesired) (\<lambda>_. retE ()) else raiseE err)
       (\<lambda>dsActual. if hasDaemonSetChanged dsDesired dsActual
                   then bindE (kUpdate (oa_daemonSets env) dsDesired) (\<lambda>_. retE ()) else retE ())"

definition storeTokens :: "Reconciliation \<Rightarrow> bool \<times> Reconciliation" where
  "storeTokens r =
     (let dk = rec_Instance r
      in if st_Tokens (dk_Status dk) \<noteq> Tokens dk
         then (True, r\<lparr>rec_Instance := dk\<lparr>dk_Status := (dk_Status dk)\<lparr>st_Tokens := Tokens dk\<rparr>\<rparr>\<rparr>)
         else (False, r))"

definition reconcileRollout :: "'w oa_env \<Rightarrow> FullStackSpec \<Rightarrow> string \<Rightarrow> ('w recst, bool) act" where
  "reconcileRollout env fs feature =
     bindE (getsE (rec_Instance \<circ> fst)) (\<lambda>instance.
     bindE (inWorld (getDesiredDaemonSet env instance fs feature)) (\<lambda>ds.
     bindE (liftE (oa_SetControllerReference env instance (ds_Meta ds))) (\<lambda>m.
     bindE (inWorld (applyDaemonSet env (ds\<lparr>ds_Meta := m\<rparr>))) (\<lambda>_.
       onRec storeTokens))))"

definition getInstanceStatuses :: "AgentPod list \<Rightarrow> OneAgentInstance gomap" where
  "getInstanceStatuses pods =
     foldl (\<lambda>instanceStatuses pod. AList.update (apod_NodeName pod)
        \<lparr>oai_PodName = apod_Name pod, oai_IPAddress = apod_HostIP pod\<rparr> instanceStatuses) [] pods"

text \<open>An error of the listing is logged; the items are then empty.\<close>

definition getPods :: "'w oa_env \<Rightarrow> DynaKube \<Rightarrow> string \<Rightarrow> ('w, AgentPod list) act" where
  "getPods env instance feature = oa_ListPods env (dk_Namespace instance) (oa_buildLabels (dk_Name instance) feature)"

definition storeInstances :: "AgentPod list \<Rightarrow> Reconciliation \<Rightarrow> bool \<times> Reconciliation" where
  "storeInstances pods r =
     (let instanceStatuses = getInstanceStatuses pods; dk = rec_Instance r; oa = st_OneAgent (dk_Status dk)
      in if oast_Instances oa = None \<or> \<not> deepEqualMap (oast_Instances oa) (Some instanceStatuses)
         then (True, r\<lparr>rec_Instance := dk\<lparr>dk_Status := (dk_Status dk)\<lparr>st_OneAgent := oa\<lparr>oast_Instances := Some instanceStatuses\<rparr>\<rparr>\<rparr>\<rparr>)
         else (False, r))"

definition reconcileInstanceStatuses :: "'w oa_env \<Rightarrow> string \<Rightarrow> ('w recst, bool) act" where
  "reconcileInstanceStatuses env feature =
     bindE (getsE (rec_Instance \<circ> fst)) (\<lambda>instance.
     bindE (catchE (inWorld (getPods env instance feature)) (\<lambda>_. retE []) retE) (\<lambda>pods.
       onRec (storeInstances pods)))"

definition setPhase :: "string \<Rightarrow> Reconciliation \<Rightarrow> bool \<times> Reconciliation" where
  "setPhase phase r =
     (let dk = rec_Instance r
      in (st_Phase (dk_Status dk) \<noteq> phase, r\<lparr>rec_Instance := dk\<lparr>dk_Status := (dk_Status dk)\<lparr>st_Phase := phase\<rparr>\<rparr>\<rparr>))"

definition determineOneAgentPhase :: "'w oa_env \<Rightarrow> string \<Rightarrow> ('w recst, bool) act" where
  "determineOneAgentPhase env feature =
     bindE (getsE (rec_Instance \<circ> fst)) (\<lambda>instance.
       catchE (inWorld (kGet (oa_daemonSets env) (dk_Namespace instance, dk_Name instance @ ''-'' @ feature)))
         (\<lambda>err. if isNotFound err then retE False else bindE (onRec (setPhase Error)) (\<lambda>_. raiseE err))
         (\<lambda>dsActual. onRec (setPhase (if ds_NumberReady dsActual = ds_CurrentNumberScheduled dsActual then Running else Deploying))))"

text \<open>\<^verbatim>\<open>time.Duration(x) * time.Minute\<close> wraps at 64 bits.\<close>

definition updateInterval :: "(string \<Rightarrow> string) \<Rightarrow> duration" where
  "updateInterval getenv =
     (let val = getenv updateEnvVar
      in if val = [] then oa_defaultUpdateInterval
         else case atoi val of
                Inl _ \<Rightarrow> oa_defaultUpdateInterval
              | Inr x \<Rightarrow> sint (word_of_int x * word_of_int timeMinute :: 64 word))"

definition touchHostsRequest :: "Reconciliation \<Rightarrow> unit \<times> Reconciliation" where
  "touchHostsRequest r =
     (let dk = rec_Instance r; oa = st_OneAgent (dk_Status dk);
          dk' = dk\<lparr>dk_Status := (dk_Status dk)\<lparr>st_OneAgent := oa\<lparr>oast_LastHostsRequestTimestamp := Some (rec_Now r)\<rparr>\<rparr>\<rparr>
      in ((), snd (rec_Update True (5 * timeMinute) (r\<lparr>rec_Instance := dk'\<rparr>))))"

definition storeImmutable :: "FullStackSpec \<Rightarrow> Reconciliation \<Rightarrow> unit \<times> Reconciliation" where
  "storeImmutable fs r =
     (case SetUseImmutableImageStatus (rec_Instance r) fs of
        (upd, dk) \<Rightarrow> ((), snd (rec_Update upd (5 * timeMinute) (r\<lparr>rec_Instance := dk\<rparr>))))"

text \<open>The part after the rollout. The error of the phase is recorded, not returned.\<close>

definition afterRollout :: "'w oa_env \<Rightarrow> string \<Rightarrow> bool \<Rightarrow> ('w recst, bool) act" where
  "afterRollout env feature upd0 =
     bindE (getsE fst) (\<lambda>r.
     bindE (if IsOutdated r (oast_LastHostsRequestTimestamp (st_OneAgent (dk_Status (rec_Instance r)))) (updateInterval (oa_getenv env))
            then bindE (onRec touchHostsRequest) (\<lambda>_.
                 bindE (reconcileInstanceStatuses env feature) (\<lambda>upd.
                 bindE (onRec (rec_Update upd (5 * timeMinute))) (\<lambda>_. retE upd)))
            else retE upd0) (\<lambda>upd.
     bindE (catchE (determineOneAgentPhase env feature) (\<lambda>err. bindE (onRec (rec_Error (Some err))) (\<lambda>_. retE ())) (\<lambda>_. retE ())) (\<lambda>_.
       retE upd)))"

definition OneAgent_Reconcile :: "'w oa_env \<Rightarrow> FullStackSpec \<Rightarrow> string \<Rightarrow> ('w recst, bool) act" where
  "OneAgent_Reconcile env fs feature =
     bindE (getsE (rec_Instance \<circ> fst)) (\<lambda>instance.
     case validate instance of
       Some err \<Rightarrow> raiseE err
     | None \<Rightarrow>
         bindE (onRec (storeImmutable fs)) (\<lambda>_.
         bindE (reconcileRollout env fs feature) (afterRollout env feature)))"

section \<open>Waiting for pods (oneagent\_utils.go)\<close>

definition getPodReadyState :: "AgentPod \<Rightarrow> bool" where
  "getPodReadyState p = foldl (\<lambda>ready c. ready \<and> c) True (apod_ContainersReady p)"

definition splayTimeSeconds :: "16 word" where "splayTimeSeconds = 10"

text \<open>One round after the sleep: \<open>Inl\<close> the status of a further round, \<open>Inr\<close> the status to return at once.\<close>

definition waitRound :: "AgentPod \<Rightarrow> goerr + AgentPod list \<Rightarrow> goerr option + goerr option" where
  "waitRound pod listing =
     (case listing of
        Inl err \<Rightarrow> Inl (Some err)
      | Inr items \<Rightarrow>
          let foundPods = filter (\<lambda>p. \<not> (apod_NodeName p \<noteq> apod_NodeName pod \<or> apod_Phase p \<noteq> ''Running'' \<or> apod_Name p = apod_Name pod)) items;
              n = length foundPods
          in if n = 0 then Inl (Some (ErrMsg (''waiting for pod to be recreated on node: '' @ apod_NodeName pod)))
             else if n = 1 \<and> getPodReadyState (hd foundPods) then Inr None
             else if n > 1 then Inl (Some (ErrMsg (''too many pods found: expected=1 actual='' @ itoa n)))
             else Inl None)"

text \<open>
  The loop counts in 16 bits. It runs on fuel, one unit per round; \<open>None\<close> means that it has not ended.
\<close>

fun waitLoop ::
  "nat \<Rightarrow> ('w, AgentPod list) act \<Rightarrow> AgentPod \<Rightarrow> 16 word \<Rightarrow> 16 word \<Rightarrow> goerr option \<Rightarrow> 'w \<Rightarrow> (goerr option \<times> 'w) option" where
  "waitLoop 0 lst pod waitSecs splay status w = None"
| "waitLoop (Suc fuel) lst pod waitSecs splay status w =
     (if \<not> splay < waitSecs then Some (status, w)
      else case lst w of
             (listing, w') \<Rightarrow>
               (case waitRound pod listing of
                  Inr status' \<Rightarrow> Some (status', w')
                | Inl status' \<Rightarrow> waitLoop fuel lst pod waitSecs (splay + splayTimeSeconds) status' w'))"

definition waitPodReadyState ::
  "nat \<Rightarrow> 'w oa_env \<Rightarrow> string \<Rightarrow> string gomap \<Rightarrow> AgentPod \<Rightarrow> 16 word \<Rightarrow> 'w \<Rightarrow> (goerr option \<times> 'w) option" where
  "waitPodReadyState fuel env ns labels pod waitSecs w = waitLoop fuel (oa_ListPods env ns labels) pod waitSecs 0 None w"

section \<open>Lemmas: actions of a reconciler\<close>

lemma inWorld_run [act_simps]: "inWorld m (r, w) = (case m w of (x, w') \<Rightarrow> (x, (r, w')))"
  by (simp add: inWorld_def zoomE_run split: prod.split)

lemma onRec_run [act_simps]: "onRec f (r, w) = (case f r of (x, r') \<Rightarrow> (Inr x, (r', w)))"
  by (simp add: onRec_def)

lemma keeps_inWorld [keeps_intros]: "keeps I m \<Longrightarrow> keeps (\<lambda>s. I (snd s) \<and> J (fst s)) (inWorld m)"
  by (rule keepsI) (auto simp: inWorld_run dest: keepsD split: prod.splits)

lemma keeps_onRec [keeps_intros]: "(\<And>r. J r \<Longrightarrow> J (snd (f r))) \<Longrightarrow> keeps (\<lambda>s. I (snd s) \<and> J (fst s)) (onRec f)"
  unfolding keeps_def by (auto simp: onRec_def split: prod.splits) (metis snd_conv)

section \<open>Lemmas: environment variables\<close>

lemma splitEnv_eq:
  "splitEnv names es vals rest =
     (foldl (\<lambda>vs e. AList.update (env_Name e) e vs) vals (filter (\<lambda>e. env_Name e \<in> set names) es),
      rest @ filter (\<lambda>e. env_Name e \<notin> set names) es)"
  by (induction names es vals rest rule: splitEnv.induct) simp_all

lemma map_of_updates:
  "map_of (foldl (\<lambda>vs e. AList.update (env_Name e) e vs) vals es) n =
     (case find (\<lambda>e. env_Name e = n) (rev es) of Some e \<Rightarrow> Some e | None \<Rightarrow> map_of vals n)"
proof (induction es rule: rev_induct)
  case (snoc e es)
  then show ?case by (auto simp: update_conv')
qed simp

lemma find_filter: "(\<And>e. P e \<Longrightarrow> Q e) \<Longrightarrow> find P (filter Q es) = find P es"
  by (induction es) auto

lemma prepareEnvVars_eq:
  "prepareEnvVars dk fs feature uid =
     map (\<lambda>d. case find (\<lambda>e. env_Name e = env_Name d) (rev (fs_Env fs)) of Some e \<Rightarrow> e | None \<Rightarrow> d) (reservedEnvVars dk feature uid)
     @ filter (\<lambda>e. env_Name e \<notin> env_Name ` set (reservedEnvVars dk feature uid)) (fs_Env fs)"
proof -
  let ?rs = "reservedEnvVars dk feature uid" and ?vals = "filter (\<lambda>e. env_Name e \<in> env_Name ` set (reservedEnvVars dk feature uid)) (fs_Env fs)"
  have "find (\<lambda>e. env_Name e = env_Name d) (rev ?vals) = find (\<lambda>e. env_Name e = env_Name d) (rev (fs_Env fs))" if "d \<in> set ?rs" for d
    using that by (simp add: rev_filter find_filter)
  then have "map (\<lambda>d. case map_of (foldl (\<lambda>vs e. AList.update (env_Name e) e vs) [] ?vals) (env_Name d) of Some e \<Rightarrow> e | None \<Rightarrow> d) ?rs =
      map (\<lambda>d. case find (\<lambda>e. env_Name e = env_Name d) (rev (fs_Env fs)) of Some e \<Rightarrow> e | None \<Rightarrow> d) ?rs"
    by (auto simp: map_of_updates split: option.splits)
  then show ?thesis by (simp add: prepareEnvVars_def Let_def splitEnv_eq)
qed

lemma prepareEnvVars_named:
  "filter (\<lambda>e. env_Name e = n) (prepareEnvVars dk fs feature uid) =
     (case filter (\<lambda>e. env_Name e = n) (reservedEnvVars dk feature uid) of
        [] \<Rightarrow> filter (\<lambda>e. env_Name e = n) (fs_Env fs)
      | ds \<Rightarrow> map (\<lambda>d. case find (\<lambda>e. env_Name e = n) (rev (fs_Env fs)) of Some e \<Rightarrow> e | None \<Rightarrow> d) ds)"
proof -
  let ?rs = "reservedEnvVars dk feature uid"
  let ?pick = "\<lambda>d. case find (\<lambda>e. env_Name e = env_Name d) (rev (fs_Env fs)) of Some e \<Rightarrow> e | None \<Rightarrow> d"
  have "env_Name (?pick d) = env_Name d" for d by (auto simp: find_Some_iff split: option.split)
  then have "filter (\<lambda>e. env_Name e = n) (map ?pick ?rs) = map ?pick (filter (\<lambda>e. env_Name e = n) ?rs)"
    by (simp add: filter_map comp_def)
  also have "\<dots> = map (\<lambda>d. case find (\<lambda>e. env_Name e = n) (rev (fs_Env fs)) of Some e \<Rightarrow> e | None \<Rightarrow> d) (filter (\<lambda>e. env_Name e = n) ?rs)"
    by (rule map_cong) auto
  finally have split: "filter (\<lambda>e. env_Name e = n) (prepareEnvVars dk fs feature uid) =
      map (\<lambda>d. case find (\<lambda>e. env_Name e = n) (rev (fs_Env fs)) of Some e \<Rightarrow> e | None \<Rightarrow> d) (filter (\<lambda>e. env_Name e = n) ?rs)
      @ filter (\<lambda>e. env_Name e = n \<and> n \<notin> env_Name ` set ?rs) (fs_Env fs)"
    by (auto simp: prepareEnvVars_eq intro!: filter_cong)
  have "n \<notin> env_Name ` set ?rs \<longleftrightarrow> filter (\<lambda>e. env_Name e = n) ?rs = []" by (auto simp: filter_empty_conv)
  then show ?thesis unfolding split by (simp split: list.split)
qed

lemma reservedEnvVars_names:
  "map env_Name (reservedEnvVars dk feature uid) =
     [''DT_K8S_NODE_NAME'', ''DT_K8S_CLUSTER_ID'']
     @ (if feature = InframonFeature then [''ONEAGENT_DISABLE_CONTAINER_INJECTION''] else [])
     @ (if oast_UseImmutableImage (st_OneAgent (dk_Status dk)) then []
        else [''ONEAGENT_INSTALLER_DOWNLOAD_TOKEN'', ''ONEAGENT_INSTALLER_SCRIPT_URL'', ''ONEAGENT_INSTALLER_SKIP_CERT_CHECK'']
             @ (if hasProxy dk then [''https_proxy''] else []))"
  by (simp add: reservedEnvVars_def proxyDefault_def envValue_def envFrom_def hasProxy_def split: option.split)

lemma reservedEnvVars_distinct: "distinct (map env_Name (reservedEnvVars dk feature uid))"
  by (simp add: reservedEnvVars_names)

section \<open>Lemmas: the rollout\<close>

lemma applyDaemonSet_effect:
  assumes law: "lawful (oa_daemonSets env) dsKey view" and run: "applyDaemonSet env d w = (res, w')"
  shows "case res of Inl _ \<Rightarrow> view w' = view w
    | Inr _ \<Rightarrow> (\<exists>s. view w' (dsKey d) = Some s \<and> \<not> hasDaemonSetChanged d s) \<and> (\<forall>k. k \<noteq> dsKey d \<longrightarrow> view w' k = view w k)"
proof -
  obtain q w1 where get: "kGet (oa_daemonSets env) (dsKey d) w = (q, w1)" by (meson surj_pair)
  obtain c w2 where create: "kCreate (oa_daemonSets env) d w1 = (c, w2)" by (meson surj_pair)
  obtain u w3 where upd: "kUpdate (oa_daemonSets env) d w1 = (u, w3)" by (meson surj_pair)
  note g = lawful_GetD [OF law get] and c = lawful_CreateD [OF law create] and u = lawful_UpdateD [OF law upd]
  show ?thesis
  proof (cases q)
    case (Inl e)
    with get create run g(1) c show ?thesis
      by (cases c) (auto simp: applyDaemonSet_def catchE_run bindE_run hasDaemonSetChanged_def split: if_splits)
  next
    case (Inr s)
    with get upd run g(1,2) u show ?thesis
      by (cases u) (auto simp: applyDaemonSet_def catchE_run bindE_run hasDaemonSetChanged_def split: if_splits)
  qed
qed

lemma newDaemonSetForCR_meta:
  assumes "newDaemonSetForCR marshal version getenv dk fs uid feature = Inr ds"
  shows "metaKey (ds_Meta ds) = (dk_Namespace dk, dk_Name dk @ ''-'' @ feature)"
    and "ds_Selector ds = oa_buildLabels (dk_Name dk) feature"
    and "pt_Labels (ds_Template ds) = Some (mergeLabels [fs_Labels fs, Some (oa_buildLabels (dk_Name dk) feature)])"
  using assms by (auto simp: newDaemonSetForCR_def Let_def metaKey_def split: sum.splits)

lemma GetUID_leaves:
  assumes "leaves (oa_namespaces env) view" and "GetUID (oa_namespaces env) w = (q, w1)"
  shows "view w1 = view w"
  using assms(2) leavesD(1) [OF assms(1)] by (auto simp: GetUID_def bindE_run split: prod.splits sum.splits)

lemma storeTokens_spec:
  assumes "storeTokens r = (upd, r')"
  shows "st_Tokens (dk_Status (rec_Instance r')) = Tokens (rec_Instance r') \<and> (upd \<longleftrightarrow> rec_Instance r' \<noteq> rec_Instance r)"
proof -
  have "Tokens (d\<lparr>dk_Status := s\<rparr>) = Tokens d" for d s by (simp add: Tokens_def)
  then show ?thesis
    using assms by (auto simp: storeTokens_def Let_def dest: arg_cong [where f = "st_Tokens \<circ> dk_Status"] split: if_splits)
qed

lemma reconcileRollout_effect:
  assumes law: "lawful (oa_daemonSets env) dsKey view" and leave: "leaves (oa_namespaces env) view"
    and owner: "lawfulOwner (oa_SetControllerReference env)"
    and run: "reconcileRollout env fs feature (r, w) = (res, (r', w'))"
  defines "dk \<equiv> rec_Instance r"
  defines "key \<equiv> (dk_Namespace dk, dk_Name dk @ ''-'' @ feature)"
  shows "case res of
      Inl _ \<Rightarrow> view w' = view w \<and> r' = r
    | Inr upd \<Rightarrow>
        (\<exists>uid ds s. newDaemonSetForCR (oa_marshal env) (oa_version env) (oa_getenv env) dk fs uid feature = Inr ds \<and>
           view w' key = Some s \<and> GetTemplateHash (ds_Meta s) = GetTemplateHash (ds_Meta ds)) \<and>
        (\<forall>k. k \<noteq> key \<longrightarrow> view w' k = view w k) \<and>
        st_Tokens (dk_Status (rec_Instance r')) = Tokens (rec_Instance r') \<and>
        (upd \<longleftrightarrow> rec_Instance r' \<noteq> dk)"
proof -
  obtain q w1 where uid: "GetUID (oa_namespaces env) w = (q, w1)" by (meson surj_pair)
  have w1: "view w1 = view w" by (rule GetUID_leaves [OF leave uid])
  show ?thesis
  proof (cases q)
    case (Inl e)
    with uid run w1 show ?thesis by (auto simp: reconcileRollout_def bindE_run inWorld_run getDesiredDaemonSet_def)
  next
    case (Inr u)
    define des where "des = newDaemonSetForCR (oa_marshal env) (oa_version env) (oa_getenv env) dk fs u feature"
    have desired: "getDesiredDaemonSet env dk fs feature w = (des, w1)"
      using Inr uid by (simp add: getDesiredDaemonSet_def bindE_run des_def)
    show ?thesis
    proof (cases des)
      case (Inl e)
      with desired run w1 show ?thesis by (auto simp: reconcileRollout_def bindE_run inWorld_run dk_def)
    next
      case (Inr ds)
      show ?thesis
      proof (cases "oa_SetControllerReference env dk (ds_Meta ds)")
        case (Inl e)
        with \<open>des = Inr ds\<close> desired run w1 show ?thesis by (auto simp: reconcileRollout_def bindE_run inWorld_run dk_def)
      next
        case (Inr m)
        have m: "metaKey m = key"
          using lawfulOwnerD(1) [OF owner Inr] newDaemonSetForCR_meta(1) [OF \<open>des = Inr ds\<close> [unfolded des_def]] by (simp add: key_def)
        have hash: "GetTemplateHash m = GetTemplateHash (ds_Meta ds)"
          using lawfulOwnerD(5) [OF owner Inr] by (simp add: GetTemplateHash_def)
        obtain a w2 where appl: "applyDaemonSet env (ds\<lparr>ds_Meta := m\<rparr>) w1 = (a, w2)" by (meson surj_pair)
        note eff = applyDaemonSet_effect [OF law appl]
        show ?thesis
        proof (cases a)
          case (Inl e)
          with \<open>des = Inr ds\<close> \<open>_ = Inr m\<close> desired run appl eff w1 show ?thesis
            by (auto simp: reconcileRollout_def bindE_run inWorld_run dk_def)
        next
          case (Inr x)
          with \<open>des = Inr ds\<close> \<open>oa_SetControllerReference env dk (ds_Meta ds) = Inr m\<close> desired run appl
          have fin: "w' = w2" "storeTokens r = (projr res, r')" "res = Inr (projr res)"
            by (auto simp: reconcileRollout_def bindE_run inWorld_run onRec_run dk_def split: prod.splits)
          note storeTokens_spec [OF fin(2)]
          moreover have "(\<exists>s. view w' key = Some s \<and> GetTemplateHash (ds_Meta s) = GetTemplateHash (ds_Meta ds)) \<and>
              (\<forall>k. k \<noteq> key \<longrightarrow> view w' k = view w k)"
            using eff Inr fin(1) hash by (auto simp: hasDaemonSetChanged_def m w1)
          ultimately show ?thesis
            using \<open>des = Inr ds\<close> fin(3) unfolding des_def dk_def by (cases res) auto
        qed
      qed
    qed
  qed
qed

text \<open>The parts of a reconciliation that the status does not touch.\<close>

definition sameResource :: "DynaKube \<Rightarrow> Reconciliation \<Rightarrow> bool" where
  "sameResource dk r \<longleftrightarrow> dk_Meta (rec_Instance r) = dk_Meta dk \<and> dk_Spec (rec_Instance r) = dk_Spec dk"

lemma sameResource_steps:
  assumes "sameResource dk r"
  shows "sameResource dk (snd (storeTokens r))" and "sameResource dk (snd (storeInstances pods r))"
    and "sameResource dk (snd (setPhase p r))" and "sameResource dk (snd (touchHostsRequest r))"
    and "sameResource dk (snd (storeImmutable fs r))" and "sameResource dk (snd (rec_Update u d r))"
    and "sameResource dk (snd (rec_Error e r))"
  using assms
  by (auto simp: sameResource_def storeTokens_def storeInstances_def setPhase_def touchHostsRequest_def storeImmutable_def
      rec_Update_def rec_Error_def SetUseImmutableImageStatus_def Let_def split: prod.splits option.splits)

lemma afterRollout_keeps:
  assumes "\<And>x k. keeps (\<lambda>w. view w = x) (kGet (oa_daemonSets env) k)"
    and "\<And>x ns labels. keeps (\<lambda>w. view w = x) (oa_ListPods env ns labels)"
  shows "keeps (\<lambda>s. view (snd s) = x \<and> sameResource dk (fst s)) (afterRollout env feature u)"
  unfolding afterRollout_def reconcileInstanceStatuses_def determineOneAgentPhase_def getPods_def
  by (intro keeps_intros assms sameResource_steps)

lemma reconcileRollout_keeps:
  assumes "leaves (oa_daemonSets env) view" and "leaves (oa_namespaces env) view"
  shows "keeps (\<lambda>s. view (snd s) = x \<and> sameResource dk (fst s)) (reconcileRollout env fs feature)"
  unfolding reconcileRollout_def getDesiredDaemonSet_def GetUID_def applyDaemonSet_def
  by (intro keeps_intros leaves_keeps [OF assms(1)] leaves_keeps [OF assms(2)] sameResource_steps)

lemma OneAgent_Reconcile_keeps:
  assumes "leaves (oa_daemonSets env) view" and "leaves (oa_namespaces env) view"
    and "\<And>x ns labels. keeps (\<lambda>w. view w = x) (oa_ListPods env ns labels)"
  shows "keeps (\<lambda>s. view (snd s) = x \<and> sameResource dk (fst s)) (OneAgent_Reconcile env fs feature)"
  unfolding OneAgent_Reconcile_def
  by (intro keeps_intros afterRollout_keeps reconcileRollout_keeps leaves_keeps [OF assms(1)] sameResource_steps assms)

lemma OneAgent_Reconcile_Inr:
  assumes "OneAgent_Reconcile env fs feature (r, w) = (Inr upd, (r', w'))"
  obtains u r2 w2 where "reconcileRollout env fs feature (snd (storeImmutable fs r), w) = (Inr u, (r2, w2))"
    and "afterRollout env feature u (r2, w2) = (Inr upd, (r', w'))"
  using assms by (auto simp: OneAgent_Reconcile_def bindE_run onRec_run storeImmutable_def split: option.splits prod.splits sum.splits)

lemma OneAgent_Reconcile_deploys:
  assumes law: "lawful (oa_daemonSets env) dsKey view" and leave: "leaves (oa_namespaces env) view"
    and owner: "lawfulOwner (oa_SetControllerReference env)"
    and pods: "\<And>x ns labels. keeps (\<lambda>w. view w = x) (oa_ListPods env ns labels)"
    and run: "OneAgent_Reconcile env fs feature (r, w) = (Inr upd, (r', w'))"
  defines "key \<equiv> (dk_Namespace (rec_Instance r), dk_Name (rec_Instance r) @ ''-'' @ feature)"
  shows "view w' key \<noteq> None \<and> (\<forall>k. k \<noteq> key \<longrightarrow> view w' k = view w k)"
proof -
  let ?dk = "rec_Instance (snd (storeImmutable fs r))"
  obtain u r2 w2 where roll: "reconcileRollout env fs feature (snd (storeImmutable fs r), w) = (Inr u, (r2, w2))"
      and rest: "afterRollout env feature u (r2, w2) = (Inr upd, (r', w'))"
    using run by (rule OneAgent_Reconcile_Inr)
  have "dk_Meta ?dk = dk_Meta (rec_Instance r)"
    using sameResource_steps(5) [of "rec_Instance r" r fs] by (simp add: sameResource_def)
  with reconcileRollout_effect [OF law leave owner roll]
  have "view w2 key \<noteq> None \<and> (\<forall>k. k \<noteq> key \<longrightarrow> view w2 k = view w k)" by (auto simp: key_def)
  moreover have "view w' = view w2"
    using keepsD [OF afterRollout_keeps [OF lawful_kGet_keeps [OF law] pods] _ rest, of "view w2" "rec_Instance r2"]
    by (simp add: sameResource_def)
  ultimately show ?thesis by simp
qed

section \<open>Lemmas: waiting\<close>

lemma waitLoop_steps:
  "(\<exists>r. waitLoop (k + f) lst pod ws splay st w = Some r) \<or>
   (\<exists>st' w'. waitLoop (k + f) lst pod ws splay st w = waitLoop f lst pod ws (splay + of_nat k * splayTimeSeconds) st' w')"
proof (induction k arbitrary: splay st w)
  case 0
  then show ?case by auto
next
  case (Suc k)
  obtain l w1 where lst: "lst w = (l, w1)" by (cases "lst w")
  have shift: "splay + splayTimeSeconds + of_nat k * splayTimeSeconds = splay + of_nat (Suc k) * splayTimeSeconds"
    by (simp add: algebra_simps)
  show ?case
    using Suc.IH [of "splay + splayTimeSeconds" _ w1] unfolding shift
    by (auto simp: lst split: sum.splits)
qed

lemma waitLoop_ends:
  assumes "unat splay + 10 * n \<le> 65535" and "unat ws \<le> unat splay + 10 * n"
  shows "\<exists>r. waitLoop (Suc n) lst pod ws splay st w = Some r"
  using assms
proof (induction n arbitrary: splay st w)
  case 0
  then have "\<not> splay < ws" by (simp add: word_less_nat_alt)
  then show ?case by simp
next
  case (Suc n)
  obtain l w1 where lst: "lst w = (l, w1)" by (cases "lst w")
  have "unat (splay + splayTimeSeconds) = unat splay + 10"
    using Suc.prems(1) by (simp add: splayTimeSeconds_def unat_word_ariths)
  then have "\<exists>r. waitLoop (Suc n) lst pod ws (splay + splayTimeSeconds) st' w1 = Some r" for st'
    using Suc.prems by (intro Suc.IH) simp_all
  then show ?case by (subst waitLoop.simps(2)) (auto simp: lst simp del: waitLoop.simps split: sum.splits)
qed

lemma waitLoop_never:
  assumes "\<And>w st. waitRound pod (fst (lst w)) \<noteq> Inr st" and "even (splay :: 16 word)"
  shows "waitLoop fuel lst pod 65535 splay st w = None"
  using assms(2)
proof (induction fuel arbitrary: splay st w)
  case (Suc fuel)
  have "splay \<noteq> 65535" using Suc.prems by auto
  then have "unat splay \<noteq> unat (65535 :: 16 word)" by (simp only: word_unat_eq_iff [symmetric]) simp
  then have "unat splay \<noteq> 65535" by simp
  moreover have "unat splay < 65536" using unsigned_less [of splay, where ?'a = nat] by simp
  ultimately have less: "splay < 65535" by (simp add: word_less_nat_alt)
  obtain l w1 where lst: "lst w = (l, w1)" by (cases "lst w")
  have "even (splay + splayTimeSeconds)" using Suc.prems by (simp add: splayTimeSeconds_def)
  moreover obtain st' where "waitRound pod l = Inl st'" using assms(1) [of w] lst by (cases "waitRound pod l") auto
  ultimately show ?case using less Suc.IH by (simp add: lst)
qed simp

section \<open>An example\<close>

definition exampleOaEnv :: "cluster oa_env" where
  "exampleOaEnv =
     \<lparr>oa_daemonSets = daemonSetsOf, oa_namespaces = namespacesOf, oa_ListPods = (\<lambda>ns labels. raiseE (ApiError ''down'')),
      oa_SetControllerReference = setOwner, oa_marshal = (\<lambda>d. Inr (om_Name (ds_Meta d))), oa_getenv = (\<lambda>_. []), oa_version = ''snapshot''\<rparr>"

definition exampleOaOwner :: DynaKube where
  "exampleOaOwner = zeroDynaKube
     \<lparr>dk_Meta := emptyMeta\<lparr>om_Name := ''dynakube'', om_Namespace := ''dynatrace''\<rparr>,
      dk_Spec := zeroSpec\<lparr>spec_APIURL := ''https://abc.live/api'', spec_Proxy := Some \<lparr>px_Value = ''http://proxy'', px_ValueFrom = []\<rparr>\<rparr>,
      dk_Status := zeroStatus\<lparr>st_OneAgent := (st_OneAgent zeroStatus)
        \<lparr>oast_Instances := Some [(''node'', \<lparr>oai_PodName = ''pod'', oai_IPAddress = ''10.0.0.1''\<rparr>)]\<rparr>\<rparr>\<rparr>"

definition exampleOaCluster :: cluster where
  "exampleOaCluster = emptyCluster\<lparr>cl_Namespaces := [(([], ''kube-system''),
     \<lparr>ns_Name = ''kube-system'', ns_Labels = None, ns_Annotations = None, ns_UID = ''uid''\<rparr>)]\<rparr>"

lemma exampleOaEnv_facts:
  "lawful (oa_daemonSets exampleOaEnv) dsKey (\<lambda>w. map_of (cl_DaemonSets w))"
  "leaves (oa_namespaces exampleOaEnv) (\<lambda>w. map_of (cl_DaemonSets w))"
  "lawfulOwner (oa_SetControllerReference exampleOaEnv)"
  using lawful_cluster by (simp_all add: exampleOaEnv_def namespacesOf_def leaves_onPart lawful_setOwner)

section \<open>Properties\<close>

text \<open>C38. The rollout establishes the daemon set: when \<^verbatim>\<open>reconcileRollout\<close> returns without an error, the daemon set
  of the feature exists with the template hash of the desired one, no other daemon set has changed, and the
  status names the token secret in use; the result tells whether the status has changed. After an error no
  daemon set and nothing of the resource has changed.\<close>

theorem reconcileRollout_establishes:
  assumes law: "lawful (oa_daemonSets env) dsKey view" and leave: "leaves (oa_namespaces env) view"
    and owner: "lawfulOwner (oa_SetControllerReference env)"
    and run: "reconcileRollout env fs feature (r, w) = (res, (r', w'))"
  defines "dk \<equiv> rec_Instance r"
  defines "key \<equiv> (dk_Namespace dk, dk_Name dk @ ''-'' @ feature)"
  shows "case res of
      Inl _ \<Rightarrow> view w' = view w \<and> r' = r
    | Inr upd \<Rightarrow>
        (\<exists>uid ds s. newDaemonSetForCR (oa_marshal env) (oa_version env) (oa_getenv env) dk fs uid feature = Inr ds \<and>
           view w' key = Some s \<and> GetTemplateHash (ds_Meta s) = GetTemplateHash (ds_Meta ds)) \<and>
        (\<forall>k. k \<noteq> key \<longrightarrow> view w' k = view w k) \<and>
        st_Tokens (dk_Status (rec_Instance r')) = Tokens (rec_Instance r') \<and>
        (upd \<longleftrightarrow> rec_Instance r' \<noteq> dk)"
  using reconcileRollout_effect [OF law leave owner run] unfolding dk_def key_def .

lemma exampleRollout_ok:
  "fst (reconcileRollout exampleOaEnv zeroFullStack ClassicFeature (NewReconciliation 0 exampleOaOwner, exampleOaCluster)) = Inr True"
  by (simp add: reconcileRollout_def bindE_run catchE_run inWorld_run onRec_run getDesiredDaemonSet_def GetUID_def exampleOaEnv_def
      namespacesOf_run daemonSetsOf_run exampleOaCluster_def emptyCluster_def newDaemonSetForCR_def generateDaemonSetHash_def
      applyDaemonSet_def setOwner_def storeTokens_def NewReconciliation_def exampleOaOwner_def zero_defs Tokens_def Let_def act_simps
      kubesystem_Namespace_def storeTemplateHash_def)

theorem reconcileRollout_establishes_witness:
  "case reconcileRollout exampleOaEnv zeroFullStack ClassicFeature (NewReconciliation 0 exampleOaOwner, exampleOaCluster) of
     (res, (r', w')) \<Rightarrow> res = Inr True \<and> map_of (cl_DaemonSets w') (''dynatrace'', ''dynakube-classic'') \<noteq> None"
proof -
  obtain res r' w' where run:
    "reconcileRollout exampleOaEnv zeroFullStack ClassicFeature (NewReconciliation 0 exampleOaOwner, exampleOaCluster) = (res, (r', w'))"
    by (metis prod_cases3)
  have ok: "res = Inr True" using exampleRollout_ok run by simp
  have key: "(dk_Namespace exampleOaOwner, dk_Name exampleOaOwner @ ''-'' @ ClassicFeature) = (''dynatrace'', ''dynakube-classic'')"
    by (simp add: exampleOaOwner_def ClassicFeature_def zeroDynaKube_def emptyMeta_def)
  have "rec_Instance (NewReconciliation 0 exampleOaOwner) = exampleOaOwner" by (simp add: NewReconciliation_def)
  with reconcileRollout_establishes [OF exampleOaEnv_facts run] ok key show ?thesis unfolding run by auto
qed

text \<open>The environment of the agent equals a reference: every reserved variable once, in the order of the code,
  with the value of the last entry of the resource under its name and the default otherwise, followed by the
  other variables of the resource in their order; the reserved names are distinct, so that no name of the
  resource is lost or doubled by the operator.\<close>

theorem prepareEnvVars_reference:
  "prepareEnvVars dk fs feature uid =
     map (\<lambda>d. case find (\<lambda>e. env_Name e = env_Name d) (rev (fs_Env fs)) of Some e \<Rightarrow> e | None \<Rightarrow> d) (reservedEnvVars dk feature uid)
     @ filter (\<lambda>e. env_Name e \<notin> env_Name ` set (reservedEnvVars dk feature uid)) (fs_Env fs)
   \<and> distinct (map env_Name (reservedEnvVars dk feature uid))
   \<and> env_Name ` set (prepareEnvVars dk fs feature uid) = env_Name ` set (reservedEnvVars dk feature uid) \<union> env_Name ` set (fs_Env fs)"
proof -
  let ?rs = "reservedEnvVars dk feature uid"
  let ?pick = "\<lambda>d. case find (\<lambda>e. env_Name e = env_Name d) (rev (fs_Env fs)) of Some e \<Rightarrow> e | None \<Rightarrow> d"
  have "env_Name (?pick d) = env_Name d" for d by (auto simp: find_Some_iff split: option.split)
  then have "env_Name ` ?pick ` set ?rs = env_Name ` set ?rs" by (simp add: image_image)
  then show ?thesis by (simp add: prepareEnvVars_eq reservedEnvVars_distinct image_Un) auto
qed

text \<open>A proxy that is given as a value never reaches the installer: the arguments of the agent refer to the
  variable \<^verbatim>\<open>https_proxy\<close>, but unless the resource defines that variable itself, the container has it with an
  empty value.\<close>

theorem proxy_value_lost:
  assumes "spec_Proxy (dk_Spec dk) = Some p" and "px_ValueFrom p = []" and "px_Value p \<noteq> []"
    and "\<not> oast_UseImmutableImage (st_OneAgent (dk_Status dk))" and "''https_proxy'' \<notin> env_Name ` set (fs_Env fs)"
  shows "''--set-proxy=$(https_proxy)'' \<in> set (prepareArgs version dk fs feature uid) \<and>
    filter (\<lambda>e. env_Name e = ''https_proxy'') (prepareEnvVars dk fs feature uid) = [envValue ''https_proxy'' []]"
proof -
  have args: "''--set-proxy=$(https_proxy)'' \<in> set (prepareArgs version dk fs feature uid)"
    using assms by (simp add: prepareArgs_def hasProxy_def)
  have "filter (\<lambda>e. env_Name e = ''https_proxy'') (reservedEnvVars dk feature uid) = [envValue ''https_proxy'' []]"
    using assms by (simp add: reservedEnvVars_def proxyDefault_def envValue_def envFrom_def)
  moreover have "find (\<lambda>e. env_Name e = ''https_proxy'') (rev (fs_Env fs)) = None"
    using assms(5) by (force simp: find_None_iff)
  moreover have "filter (\<lambda>e. env_Name e = ''https_proxy'') (fs_Env fs) = []"
    using assms(5) by (force simp: filter_empty_conv)
  ultimately show ?thesis using args by (simp add: prepareEnvVars_named envValue_def)
qed

theorem proxy_value_lost_witness:
  "filter (\<lambda>e. env_Name e = ''https_proxy'') (prepareEnvVars exampleOaOwner zeroFullStack ClassicFeature ''uid'') =
     [envValue ''https_proxy'' []]"
  using proxy_value_lost [of exampleOaOwner "\<lparr>px_Value = ''http://proxy'', px_ValueFrom = []\<rparr>" zeroFullStack]
  by (simp add: exampleOaOwner_def zero_defs)

text \<open>A failed listing of the pods wipes the instances: \<^verbatim>\<open>reconcileInstanceStatuses\<close> only logs the error, stores an
  empty map in the status and returns no error, so that the status claims that no agent is running; it reports
  a change exactly when the status held another map before.\<close>

theorem failed_listing_wipes_instances:
  assumes "oa_ListPods env (dk_Namespace (rec_Instance r)) (oa_buildLabels (dk_Name (rec_Instance r)) feature) w = (Inl err, w')"
  shows "\<exists>r'. reconcileInstanceStatuses env feature (r, w) =
      (Inr (oast_Instances (st_OneAgent (dk_Status (rec_Instance r))) \<noteq> Some []), (r', w')) \<and>
    oast_Instances (st_OneAgent (dk_Status (rec_Instance r'))) = Some []"
  using assms
  by (cases "oast_Instances (st_OneAgent (dk_Status (rec_Instance r)))")
    (auto simp: reconcileInstanceStatuses_def bindE_run catchE_run inWorld_run onRec_run getPods_def storeInstances_def
      getInstanceStatuses_def goeq_iff Let_def)

theorem failed_listing_wipes_instances_witness:
  "\<exists>r' w'. reconcileInstanceStatuses exampleOaEnv ClassicFeature (NewReconciliation 0 exampleOaOwner, exampleOaCluster) = (Inr True, (r', w')) \<and>
     oast_Instances (st_OneAgent (dk_Status (rec_Instance r'))) = Some []"
  using failed_listing_wipes_instances [of exampleOaEnv "NewReconciliation 0 exampleOaOwner" ClassicFeature exampleOaCluster "ApiError ''down''" exampleOaCluster]
  by (simp add: exampleOaEnv_def NewReconciliation_def exampleOaOwner_def zero_defs raiseE_def) blast

text \<open>C39. Waiting for a pod ends within 13108 rounds for every waiting time below 65535 seconds, whatever the cluster
  answers: the 16-bit counter may run past its end once, from 65530 to 4, and meets every such bound in the second lap.
  For 65535 seconds and a pod that never becomes ready it never ends, because the counter stays even.\<close>

theorem waitPodReadyState_termination:
  "(ws < 65535 \<longrightarrow> (\<exists>r. waitPodReadyState 13108 env ns labels pod ws w = Some r)) \<and>
   ((\<forall>w st. waitRound pod (fst (oa_ListPods env ns labels w)) \<noteq> Inr st) \<longrightarrow> (\<forall>fuel. waitPodReadyState fuel env ns labels pod 65535 w = None))"
proof (intro conjI impI allI)
  assume "ws < 65535"
  show "\<exists>r. waitPodReadyState 13108 env ns labels pod ws w = Some r"
    using waitLoop_steps [of 6554 6554 "oa_ListPods env ns labels" pod ws 0 None w]
  proof (elim disjE exE)
    fix r
    assume "waitLoop (6554 + 6554) (oa_ListPods env ns labels) pod ws 0 None w = Some r"
    then show ?thesis by (simp add: waitPodReadyState_def)
  next
    fix st' w'
    assume lap: "waitLoop (6554 + 6554) (oa_ListPods env ns labels) pod ws 0 None w =
      waitLoop 6554 (oa_ListPods env ns labels) pod ws (0 + of_nat 6554 * splayTimeSeconds) st' w'"
    have "unat ws < 65535" using \<open>ws < 65535\<close> by (simp add: word_less_nat_alt)
    then have "\<exists>r. waitLoop (Suc 6553) (oa_ListPods env ns labels) pod ws 4 st' w' = Some r"
      by (intro waitLoop_ends) simp_all
    moreover have "0 + of_nat 6554 * splayTimeSeconds = 4" by (simp add: splayTimeSeconds_def)
    ultimately show ?thesis using lap by (simp add: waitPodReadyState_def)
  qed
next
  fix fuel
  assume "\<forall>w st. waitRound pod (fst (oa_ListPods env ns labels w)) \<noteq> Inr st"
  then show "waitPodReadyState fuel env ns labels pod 65535 w = None"
    unfolding waitPodReadyState_def by (intro waitLoop_never) auto
qed

theorem waitPodReadyState_termination_witness:
  "(\<exists>r. waitPodReadyState 13108 exampleOaEnv ''dynatrace'' [] \<lparr>apod_Name = ''a'', apod_NodeName = ''n'', apod_HostIP = [],
       apod_Phase = ''Running'', apod_ContainersReady = []\<rparr> 65534 exampleOaCluster = Some r) \<and>
   (\<forall>fuel. waitPodReadyState fuel exampleOaEnv ''dynatrace'' [] \<lparr>apod_Name = ''a'', apod_NodeName = ''n'', apod_HostIP = [],
       apod_Phase = ''Running'', apod_ContainersReady = []\<rparr> 65535 exampleOaCluster = None)"
  using waitPodReadyState_termination [of 65534 exampleOaEnv "''dynatrace''" "[]" "\<lparr>apod_Name = ''a'', apod_NodeName = ''n'',
      apod_HostIP = [], apod_Phase = ''Running'', apod_ContainersReady = []\<rparr>" exampleOaCluster]
  by (simp add: exampleOaEnv_def raiseE_def waitRound_def)

end
