(* ===== verification/DynaKube_Controller.thy ===== *)
theory DynaKube_Controller
  imports Token_Reconciler Dynakube_Status Image_Updates Istio Pull_Secret ActiveGate OneAgent
begin

text \<open>
  The controller of the custom resource (\<^verbatim>\<open>src/controllers/dynakube/dynakube_controller.go\<close>): one
  reconciliation runs the sub-reconcilers of the other theories on one resource and one world, and
  writes the status back. A part of the reconciliation that may return early is a \<open>stage\<close>, a function
  on the state that tells whether the reconciliation goes on.
\<close>

section \<open>The environment of the controller\<close>

text \<open>
  The fields of \<^verbatim>\<open>ReconcileDynaKube\<close> and what its sub-reconcilers are built with. The clients for
  stateful sets, services and daemon sets are those of the environments of ActiveGate and OneAgent.
\<close>

record ('d, 'w) dk_env =
  dke_conditions :: "'w condition_lib"
  dke_clock :: "'w \<Rightarrow> gotime \<times> 'w"
  dke_dynaKubes :: "('w, DynaKube) kclient"
  dke_statusUpdate :: "DynaKube \<Rightarrow> ('w, unit) act"
  dke_secrets :: "('w, Secret) kclient"
  dke_namespaces :: "('w, Namespace) kclient"
  dke_dtcBuildFunc :: "DynaKube \<Rightarrow> Secret \<Rightarrow> ('w, 'd) act"
  dke_dtc :: "('d \<times> 'w) Client"
  dke_istio :: "'w istio_env"
  dke_pullSecret :: "'w pullsecret_env"
  dke_unmarshal :: "string \<Rightarrow> goerr + DockerAuth gomap option"
  dke_verProvider :: "'w VersionProviderCallback"
  dke_activeGate :: "'w ag_env"
  dke_oneAgent :: "'w oa_env"

definition dk_defaultUpdateInterval :: duration where "dk_defaultUpdateInterval = 5 * timeMinute"

section \<open>Stages\<close>

type_synonym 'w stage = "'w recst \<Rightarrow> bool \<times> 'w recst"

definition goOn :: "'w stage" where "goOn s = (True, s)"

definition andThen :: "'w stage \<Rightarrow> 'w stage \<Rightarrow> 'w stage" where
  "andThen f g s = (case f s of (True, s') \<Rightarrow> g s' | (False, s') \<Rightarrow> (False, s'))"

text \<open>\<^verbatim>\<open>x, err := ...; if rec.Error(err) { return }\<close>\<close>

definition orFail :: "('w recst, 'a) act \<Rightarrow> ('a \<Rightarrow> 'w stage) \<Rightarrow> 'w stage" where
  "orFail m k s =
     (case m s of
        (Inl err, (r, w)) \<Rightarrow> (False, (snd (rec_Error (Some err) r), w))
      | (Inr x, s') \<Rightarrow> k x s')"

text \<open>\<^verbatim>\<open>if rec.Update(upd, defaultUpdateInterval, ...) { return }\<close>\<close>

definition unlessUpdated :: "bool \<Rightarrow> 'w stage" where
  "unlessUpdated upd = (\<lambda>(r, w). case rec_Update upd dk_defaultUpdateInterval r of (stop, r') \<Rightarrow> (\<not> stop, (r', w)))"

fun runStages :: "'w stage list \<Rightarrow> 'w stage" where
  "runStages [] = goOn"
| "runStages (f # fs) = andThen f (runStages fs)"

section \<open>The reconciliation\<close>

definition ensureDeleted :: "('w, 'o) kclient \<Rightarrow> objkey \<Rightarrow> ('w, unit) act" where
  "ensureDeleted c key = catchE (kDelete c key) (\<lambda>err. if isNotFound err then retE () else raiseE err) retE"

text \<open>The client for the tenant, where the tokens are usable; an error comes without a client.\<close>

definition reconcileTokens :: "('d, 'w) dk_env \<Rightarrow> 'w recst \<Rightarrow> 'd option \<times> 'w recst" where
  "reconcileTokens env = (\<lambda>(r, w).
     case DynatraceClientReconciler_Reconcile (dke_conditions env) (dke_clock env) (dke_secrets env) (dke_dtcBuildFunc env)
            (dke_dtc env) 0 True True (rec_Instance r) w of
       ((dtc, upd, err), instance, w') \<Rightarrow>
         let r1 = snd (rec_Update upd dk_defaultUpdateInterval (r\<lparr>rec_Instance := instance\<rparr>));
             (failed, r2) = rec_Error err r1
         in (if failed then None else dtc, (r2, w')))"

definition reconcileStatus :: "('d, 'w) dk_env \<Rightarrow> 'd \<Rightarrow> 'w stage" where
  "reconcileStatus env dtc = (\<lambda>(r, w).
     case SetDynakubeStatus (onPart snd (\<lambda>w c. (fst c, w)) (dke_namespaces env)) (dke_dtc env) (rec_Instance r) (dtc, w) of
       (Inl err, (_, w')) \<Rightarrow> (False, (snd (rec_Error (Some err) r), w'))
     | (Inr instance, (_, w')) \<Rightarrow> (True, (r\<lparr>rec_Instance := instance\<rparr>, w')))"

definition getTokenSecret :: "('d, 'w) dk_env \<Rightarrow> DynaKube \<Rightarrow> ('w, Secret) act" where
  "getTokenSecret env instance = kGet (dke_secrets env) (dk_Namespace instance, Tokens instance)"

text \<open>Errors of Istio are logged only.\<close>

definition reconcileIstio :: "('d, 'w) dk_env \<Rightarrow> 'w stage" where
  "reconcileIstio env = (\<lambda>(r, w).
     if spec_EnableIstio (dk_Spec (rec_Instance r))
     then case ReconcileIstio (dke_istio env) (rec_Instance r) w of
            (Inl _, w') \<Rightarrow> (True, (r, w'))
          | (Inr upd, w') \<Rightarrow> (True, (if upd then snd (rec_Update True (30 * timeSecond) r) else r, w'))
     else (True, (r, w)))"

text \<open>An error of the versions is recorded, and the reconciliation goes on.\<close>

definition reconcileUpdates :: "('d, 'w) dk_env \<Rightarrow> 'w stage" where
  "reconcileUpdates env s =
     (case ReconcileVersions (dke_unmarshal env) (dke_secrets env) (dke_verProvider env) s of
        ((upd, err), (r, w)) \<Rightarrow> (True, (snd (rec_Error err (snd (rec_Update upd dk_defaultUpdateInterval r))), w)))"

definition capabilities :: "DynaKube \<Rightarrow> Capability list" where
  "capabilities instance =
     [NewKubeMonCapability (spec_KubernetesMonitoringSpec (dk_Spec instance)),
      NewRoutingCapability (spec_RoutingSpec (dk_Spec instance)),
      NewDataIngestCapability (spec_DataIngestSpec (dk_Spec instance))]"

definition reconcileCapability :: "('d, 'w) dk_env \<Rightarrow> Capability \<Rightarrow> 'w stage" where
  "reconcileCapability env c = (\<lambda>(r, w).
     let instance = rec_Instance r; ag = dke_activeGate env
     in if cp_Enabled (cap_properties c)
        then orFail (inWorld (Capability_Reconcile ag c instance)) unlessUpdated (r, w)
        else orFail (inWorld (ensureDeleted (ag_statefulSets ag) (dk_Namespace instance, CalculateStatefulSetName c (dk_Name instance))))
               (\<lambda>_. if cf_CreateService (cap_Configuration c)
                    then orFail (inWorld (ensureDeleted (ag_services ag)
                           (dk_Namespace instance, BuildServiceName (dk_Name instance) (cap_moduleName c)))) (\<lambda>_. goOn)
                    else goOn) (r, w))"

definition reconcileActiveGateCapabilities :: "('d, 'w) dk_env \<Rightarrow> 'w stage" where
  "reconcileActiveGateCapabilities env s = runStages (map (reconcileCapability env) (capabilities (rec_Instance (fst s)))) s"

definition reconcileOneAgent :: "('d, 'w) dk_env \<Rightarrow> (DynaKubeSpec \<Rightarrow> FullStackSpec) \<Rightarrow> string \<Rightarrow> 'w stage" where
  "reconcileOneAgent env fullStack feature = (\<lambda>(r, w).
     let instance = rec_Instance r; fs = fullStack (dk_Spec instance)
     in if fs_Enabled fs then orFail (OneAgent_Reconcile (dke_oneAgent env) fs feature) unlessUpdated (r, w)
        else orFail (inWorld (ensureDeleted (oa_daemonSets (dke_oneAgent env))
               (dk_Namespace instance, dk_Name instance @ ''-'' @ feature))) (\<lambda>_. goOn) (r, w))"

text \<open>The workloads of the resource.\<close>

definition reconcileWorkloads :: "('d, 'w) dk_env \<Rightarrow> 'w stage" where
  "reconcileWorkloads env =
     runStages [reconcileActiveGateCapabilities env,
                reconcileOneAgent env spec_InfraMonitoring InframonFeature,
                reconcileOneAgent env spec_ClassicFullStack ClassicFeature]"

definition reconcilePullSecretStage :: "('d, 'w) dk_env \<Rightarrow> Secret \<Rightarrow> 'w stage" where
  "reconcilePullSecretStage env secret = (\<lambda>(r, w).
     orFail (inWorld (PullSecret_Reconcile (dke_pullSecret env) (rec_Instance r) (Some secret))) (\<lambda>_. goOn) (r, w))"

text \<open>A failure to read the token secret ends the reconciliation without being recorded.\<close>

definition reconcileWithSecret :: "('d, 'w) dk_env \<Rightarrow> 'w stage" where
  "reconcileWithSecret env = (\<lambda>(r, w).
     case getTokenSecret env (rec_Instance r) w of
       (Inl _, w') \<Rightarrow> (False, (r, w'))
     | (Inr secret, w') \<Rightarrow>
         runStages [reconcileIstio env, reconcilePullSecretStage env secret, reconcileUpdates env, reconcileWorkloads env] (r, w'))"

definition reconcileStages :: "('d, 'w) dk_env \<Rightarrow> 'w stage" where
  "reconcileStages env s =
     (case reconcileTokens env s of
        (None, s') \<Rightarrow> (False, s')
      | (Some dtc, s') \<Rightarrow> andThen (reconcileStatus env dtc) (reconcileWithSecret env) s')"

definition reconcileDynaKube :: "('d, 'w) dk_env \<Rightarrow> 'w recst \<Rightarrow> 'w recst" where
  "reconcileDynaKube env s = snd (reconcileStages env s)"

section \<open>The request\<close>

definition updateCR :: "('d, 'w) dk_env \<Rightarrow> DynaKube \<Rightarrow> ('w, unit) act" where
  "updateCR env instance w =
     (let (now, w') = dke_clock env w
      in catchE (dke_statusUpdate env (instance\<lparr>dk_Status := (dk_Status instance)\<lparr>st_UpdatedTimestamp := now\<rparr>\<rparr>))
           (\<lambda>err. if isConflict err then retE () else raiseE err) retE w')"

text \<open>
  What is left to do after \<^verbatim>\<open>reconcileDynaKube\<close>. The right side of
  \<^verbatim>\<open>rec.Updated || instance.Status.SetPhaseOnError(rec.Err)\<close> is evaluated, and changes the phase, only
  where the left side is false. The result is the time until the request is repeated, 0 for never.
\<close>

definition TooManyRequests :: int where "TooManyRequests = 429"

definition finishReconcile :: "('d, 'w) dk_env \<Rightarrow> Reconciliation \<Rightarrow> ('w, duration) act" where
  "finishReconcile env r =
     (case rec_Err r of
        Some err \<Rightarrow>
          let instance = rec_Instance r;
              (write, instance') =
                (if rec_Updated r then (True, instance)
                 else case SetPhaseOnError (dk_Status instance) (Some err) of (changed, sts) \<Rightarrow> (changed, instance\<lparr>dk_Status := sts\<rparr>))
          in bindE (if write
                    then wrapE (''failed to update CR after failure, original, '' @ errorText err @ '', then: '') (updateCR env instance')
                    else retE ()) (\<lambda>_.
               if map_option fst (asServerError err) = Some TooManyRequests then retE timeMinute else raiseE err)
      | None \<Rightarrow>
          bindE (if rec_Updated r then updateCR env (rec_Instance r) else retE ()) (\<lambda>_. retE (rec_RequeueAfter r)))"

definition DynaKube_Reconcile :: "('d, 'w) dk_env \<Rightarrow> objkey \<Rightarrow> ('w, duration) act" where
  "DynaKube_Reconcile env request =
     catchE (kGet (dke_dynaKubes env) request)
       (\<lambda>err. if isNotFound err then retE 0 else raiseE err)
       (\<lambda>instance w.
          let (now, w1) = dke_clock env w;
              (r, w2) = reconcileDynaKube env (NewReconciliation now instance, w1)
          in finishReconcile env r w2)"

section \<open>Lemmas: what the reconcilers of ActiveGate leave alone\<close>

lemma CustomProperties_leaves:
  assumes "leaves (cpr_client r) view"
  shows "keeps (\<lambda>w. view w = x) (CustomProperties_Reconcile r)"
  unfolding CustomProperties_Reconcile_def createCustomPropertiesIfNotExists_def createCustomProperties_def
    updateCustomPropertiesIfOutdated_def updateCustomProperties_def Let_def
  by (intro keeps_intros leaves_keeps [OF assms])

lemma sts_Reconcile_leaves:
  assumes "leaves (ag_secrets env) view" and "leaves (ag_namespaces env) view" and "leaves (ag_statefulSets env) view"
  shows "keeps (\<lambda>w. view w = x) (sts_Reconcile env r)"
  unfolding sts_Reconcile_def manageStatefulSet_def applyStatefulSet_def createStatefulSetIfNotExists_def
    deleteStatefulSetIfOldLabelsAreUsed_def updateStatefulSetIfOutdated_def getStatefulSet_def
  by (intro keeps_intros buildDesired_keeps assms leaves_keeps [OF assms(3)] CustomProperties_leaves) (simp add: sts_customProperties_def assms)

lemma createService_leaves:
  assumes "leaves (ag_services env) view"
  shows "keeps (\<lambda>w. view w = x) (createServiceIfNotExists env dk m)"
  unfolding createServiceIfNotExists_def Let_def by (intro keeps_intros leaves_keeps [OF assms])

lemma ensureDeleted_leaves: "leaves c view \<Longrightarrow> keeps (\<lambda>w. view w = x) (ensureDeleted c k)"
  unfolding ensureDeleted_def by (intro keeps_intros leaves_keeps(5))

lemma ensureDeleted_effect:
  assumes law: "lawful c key view" and run: "ensureDeleted c k w = (Inr u, w')"
  shows "view w' = (view w)(k := None)"
proof -
  obtain q w1 where del: "kDelete c k w = (q, w1)" by (meson surj_pair)
  from del run lawful_DeleteD [OF law del] show ?thesis
    by (cases q) (auto simp: ensureDeleted_def catchE_run fun_upd_idem split: if_splits)
qed

section \<open>Lemmas: the effect of each stage on the workloads\<close>

text \<open>
  The promises of the API server on the workloads: the clients are lawful, no client touches objects of
  another kind, and the other requests touch no workload.
\<close>

definition lawfulWorkloads ::
  "('d, 'w) dk_env \<Rightarrow> ('w \<Rightarrow> objkey \<rightharpoonup> StatefulSet) \<Rightarrow> ('w \<Rightarrow> objkey \<rightharpoonup> Service) \<Rightarrow> ('w \<Rightarrow> objkey \<rightharpoonup> DaemonSet) \<Rightarrow> bool" where
  "lawfulWorkloads env stsv svcv dsv \<longleftrightarrow>
     (let ag = dke_activeGate env; oa = dke_oneAgent env; all = (\<lambda>w. (stsv w, svcv w, dsv w))
      in lawful (ag_statefulSets ag) stsKey stsv \<and> lawful (ag_services ag) svcKey svcv \<and> lawful (oa_daemonSets oa) dsKey dsv \<and>
         lawfulOwner (ag_SetControllerReference ag) \<and> lawfulOwner (oa_SetControllerReference oa) \<and>
         leaves (ag_statefulSets ag) (\<lambda>w. (svcv w, dsv w)) \<and> leaves (ag_services ag) (\<lambda>w. (stsv w, dsv w)) \<and>
         leaves (oa_daemonSets oa) (\<lambda>w. (stsv w, svcv w)) \<and>
         leaves (ag_secrets ag) all \<and> leaves (ag_namespaces ag) all \<and> leaves (oa_namespaces oa) all \<and>
         (\<forall>ns labels w. all (snd (oa_ListPods oa ns labels w)) = all w))"

lemma leaves_parts:
  assumes "leaves c (\<lambda>w. (f w, g w))"
  shows "leaves c f" and "leaves c g"
  using assms unfolding leaves_def by auto

lemma cap_NewReconciler_fields [simp]:
  "sr_Instance (cap_NewReconciler c dk) = dk" "sr_feature (cap_NewReconciler c dk) = cap_moduleName c"
  by (simp_all add: cap_NewReconciler_def sts_NewReconciler_def AddOnAfterStatefulSetCreateListener_def Let_def)

text \<open>The listeners of a capability change containers only.\<close>

lemma listeners_keep_meta:
  "sts_Meta (foldl (\<lambda>s f. f s) s (sr_onAfterStatefulSetCreateListener (cap_NewReconciler c dk))) = sts_Meta s"
  by (simp add: cap_NewReconciler_def sts_NewReconciler_def AddOnAfterStatefulSetCreateListener_def Let_def
      addDNSEntryPoint_def setCommunicationsPort_def setReadinessProbePort_def)

lemma desired_key:
  assumes "buildDesiredStatefulSet env (cap_NewReconciler c dk) w = (Inr sts, w1)"
  shows "metaKey (sts_Meta sts) = (dk_Namespace dk, CalculateStatefulSetName c (dk_Name dk))"
proof -
  obtain u h where "CreateStatefulSet (ag_marshal env) (ag_version env) (propertiesOf (cap_NewReconciler c dk) u h) = Inr sts"
    using assms unfolding propertiesOf_def by (auto simp: buildDesiredStatefulSet_def bindE_run split: prod.splits sum.splits)
  then show ?thesis
    unfolding CreateStatefulSet_Inr
    by (auto simp: listeners_keep_meta bareStatefulSet_def metaKey_def CalculateStatefulSetName_def storeTemplateHash_def)
qed

lemma manageStatefulSet_quiet:
  assumes law: "lawful (ag_statefulSets env) stsKey view" and owner: "lawfulOwner (ag_SetControllerReference env)"
    and leave: "leaves (ag_secrets env) view" "leaves (ag_namespaces env) view"
    and run: "manageStatefulSet env (cap_NewReconciler c dk) w = (Inr False, w')"
  defines "key \<equiv> (dk_Namespace dk, CalculateStatefulSetName c (dk_Name dk))"
  shows "view w' key \<noteq> None \<and> (\<forall>k. k \<noteq> key \<longrightarrow> view w' k = view w k)"
proof -
  let ?r = "cap_NewReconciler c dk"
  obtain sts w1 m where built: "buildDesiredStatefulSet env ?r w = (Inr sts, w1)"
      and owned: "ag_SetControllerReference env (sr_Instance ?r) (sts_Meta sts) = Inr m"
    using run by (auto simp: manageStatefulSet_def bindE_run split: prod.splits sum.splits)
  have m: "metaKey m = key"
    using lawfulOwnerD(1) [OF owner owned] desired_key [OF built] by (simp add: key_def)
  have "(False, view w' key) = nextStatefulSet (sts\<lparr>sts_Meta := m\<rparr>) (view w key) \<and> (\<forall>k. k \<noteq> key \<longrightarrow> view w' k = view w k)"
    using manageStatefulSet_step [OF law leave built owned run] by (simp add: m)
  then show ?thesis by (auto simp: nextStatefulSet_def split: option.splits if_splits)
qed

lemma sts_Reconcile_quiet:
  assumes law: "lawful (ag_statefulSets env) stsKey view" and owner: "lawfulOwner (ag_SetControllerReference env)"
    and leave: "leaves (ag_secrets env) view" "leaves (ag_namespaces env) view"
    and run: "sts_Reconcile env (cap_NewReconciler c dk) w = (Inr False, w')"
  defines "key \<equiv> (dk_Namespace dk, CalculateStatefulSetName c (dk_Name dk))"
  shows "view w' key \<noteq> None \<and> (\<forall>k. k \<noteq> key \<longrightarrow> view w' k = view w k)"
proof -
  let ?cp = "case cp_CustomProperties (sr_capability (cap_NewReconciler c dk)) of None \<Rightarrow> retE ()
    | Some source \<Rightarrow> CustomProperties_Reconcile (sts_customProperties env (cap_NewReconciler c dk) source)"
  obtain w1 where w1: "?cp w = (Inr (), w1)" "manageStatefulSet env (cap_NewReconciler c dk) w1 = (Inr False, w')"
    using run by (auto simp: sts_Reconcile_def dest!: bindE_InrD)
  have "keeps (\<lambda>w. view w = x) ?cp" for x
    using leave(1) by (intro keeps_intros CustomProperties_leaves) (simp add: sts_customProperties_def)
  from keepsD [OF this refl w1(1)] have "view w1 = view w" .
  with manageStatefulSet_quiet [OF law owner leave w1(2)] show ?thesis by (simp add: key_def)
qed

lemma Capability_quiet:
  assumes law: "lawful (ag_statefulSets env) stsKey stsv" "lawful (ag_services env) svcKey svcv"
    and owner: "lawfulOwner (ag_SetControllerReference env)"
    and leave: "leaves (ag_secrets env) (\<lambda>w. (stsv w, svcv w))" "leaves (ag_namespaces env) (\<lambda>w. (stsv w, svcv w))"
      "leaves (ag_statefulSets env) svcv" "leaves (ag_services env) stsv"
    and run: "Capability_Reconcile env c dk w = (Inr False, w')"
  defines "key \<equiv> (dk_Namespace dk, CalculateStatefulSetName c (dk_Name dk))"
  shows "stsv w' key \<noteq> None \<and> (\<forall>k. k \<noteq> key \<longrightarrow> stsv w' k = stsv w k) \<and> svcv w' = svcv w \<and>
    (cf_CreateService (cap_Configuration c) \<longrightarrow> svcv w' (dk_Namespace dk, BuildServiceName (dk_Name dk) (cap_moduleName c)) \<noteq> None)"
proof -
  note part = leaves_parts [OF leave(1)] leaves_parts [OF leave(2)]
  obtain w1 where w1: "stsv w1 = stsv w" "svcv w1 = svcv w" "sts_Reconcile env (cap_NewReconciler c dk) w1 = (Inr False, w')"
    and svc: "cf_CreateService (cap_Configuration c) \<Longrightarrow> svcv w (dk_Namespace dk, BuildServiceName (dk_Name dk) (cap_moduleName c)) \<noteq> None"
  proof (cases "cf_CreateService (cap_Configuration c)")
    case True
    let ?svc = "createService dk (cap_moduleName c)"
    obtain q w1 where get: "kGet (ag_services env) (svcKey ?svc) w = (q, w1)" by (meson surj_pair)
    have "\<exists>ob. q = Inr ob"
      using True get run by (cases q) (auto simp: Capability_Reconcile_def createServiceIfNotExists_def catchE_run bindE_run Let_def
          split: if_splits prod.splits sum.splits)
    then obtain ob where ob: "q = Inr ob" ..
    with True get run have "sts_Reconcile env (cap_NewReconciler c dk) w1 = (Inr False, w')"
      by (simp add: Capability_Reconcile_def createServiceIfNotExists_def bindE_run Let_def)
    moreover have "svcKey ?svc = (dk_Namespace dk, BuildServiceName (dk_Name dk) (cap_moduleName c))"
      by (simp add: createService_def metaKey_def)
    ultimately show thesis
      using that lawful_GetD [OF law(2) get] leavesD(1) [OF leave(4) get] ob by simp
  next
    case False
    with run that show thesis by (simp add: Capability_Reconcile_def)
  qed
  have "stsv w' key \<noteq> None \<and> (\<forall>k. k \<noteq> key \<longrightarrow> stsv w' k = stsv w k)"
    using sts_Reconcile_quiet [OF law(1) owner part(1,3) w1(3)] w1(1) by (simp add: key_def)
  moreover have "svcv w' = svcv w"
    using keepsD [OF sts_Reconcile_leaves [OF part(2,4) leave(3)] refl w1(3)] w1(2) by simp
  ultimately show ?thesis using svc by simp
qed

lemma orFail_True:
  assumes "orFail m k s = (True, s')"
  obtains x t where "m s = (Inr x, t)" and "k x t = (True, s')"
  using assms by (auto simp: orFail_def split: prod.splits sum.splits)

lemma unlessUpdated_True: "unlessUpdated u s = (True, s') \<longleftrightarrow> \<not> u \<and> s' = s"
  by (auto simp: unlessUpdated_def rec_Update_def split: prod.splits)

lemma andThen_True: "andThen f g s = (True, s') \<longleftrightarrow> (\<exists>t. f s = (True, t) \<and> g t = (True, s'))"
  by (auto simp: andThen_def split: prod.splits bool.splits)

lemma andThen_goOn [simp]: "andThen f goOn = f"
  by (auto simp: andThen_def goOn_def fun_eq_iff split: prod.splits bool.splits)

lemma andThen_run: "f s = (True, t) \<Longrightarrow> andThen f g s = g t"
  by (simp add: andThen_def)

lemma inWorld_Inr: "inWorld m s = (Inr x, t) \<longleftrightarrow> fst t = fst s \<and> m (snd s) = (Inr x, snd t)"
  by (cases s; cases t) (auto simp: inWorld_run split: prod.splits)

text \<open>The workloads of a capability and of a OneAgent feature exist exactly where they are enabled.\<close>

definition stsKeyOf :: "DynaKube \<Rightarrow> Capability \<Rightarrow> objkey" where
  "stsKeyOf dk c = (dk_Namespace dk, CalculateStatefulSetName c (dk_Name dk))"

definition svcKeyOf :: "DynaKube \<Rightarrow> Capability \<Rightarrow> objkey" where
  "svcKeyOf dk c = (dk_Namespace dk, BuildServiceName (dk_Name dk) (cap_moduleName c))"

definition dsKeyOf :: "DynaKube \<Rightarrow> string \<Rightarrow> objkey" where
  "dsKeyOf dk feature = (dk_Namespace dk, dk_Name dk @ ''-'' @ feature)"

definition capabilityDeployed :: "DynaKube \<Rightarrow> (objkey \<rightharpoonup> StatefulSet) \<Rightarrow> (objkey \<rightharpoonup> Service) \<Rightarrow> Capability \<Rightarrow> bool" where
  "capabilityDeployed dk stss svcs c \<longleftrightarrow>
     (stss (stsKeyOf dk c) \<noteq> None \<longleftrightarrow> cp_Enabled (cap_properties c)) \<and>
     (cf_CreateService (cap_Configuration c) \<longrightarrow> (svcs (svcKeyOf dk c) \<noteq> None \<longleftrightarrow> cp_Enabled (cap_properties c)))"

lemmas key_defs = stsKeyOf_def svcKeyOf_def dsKeyOf_def

lemma lawfulWorkloadsD:
  assumes "lawfulWorkloads env stsv svcv dsv"
  shows "lawful (ag_statefulSets (dke_activeGate env)) stsKey stsv" and "lawful (ag_services (dke_activeGate env)) svcKey svcv"
    and "lawful (oa_daemonSets (dke_oneAgent env)) dsKey dsv"
    and "lawfulOwner (ag_SetControllerReference (dke_activeGate env))" and "lawfulOwner (oa_SetControllerReference (dke_oneAgent env))"
    and "leaves (ag_statefulSets (dke_activeGate env)) (\<lambda>w. (svcv w, dsv w))"
    and "leaves (ag_services (dke_activeGate env)) (\<lambda>w. (stsv w, dsv w))"
    and "leaves (oa_daemonSets (dke_oneAgent env)) (\<lambda>w. (stsv w, svcv w))"
    and "leaves (ag_secrets (dke_activeGate env)) (\<lambda>w. (stsv w, svcv w, dsv w))"
    and "leaves (ag_namespaces (dke_activeGate env)) (\<lambda>w. (stsv w, svcv w, dsv w))"
    and "leaves (oa_namespaces (dke_oneAgent env)) (\<lambda>w. (stsv w, svcv w, dsv w))"
    and "keeps (\<lambda>w. (stsv w, svcv w, dsv w) = x) (oa_ListPods (dke_oneAgent env) ns labels)"
  using assms unfolding lawfulWorkloads_def Let_def keeps_def by auto

lemma leaves_pair: "leaves c f \<Longrightarrow> leaves c g \<Longrightarrow> leaves c (\<lambda>w. (f w, g w))"
  unfolding leaves_def by simp

lemma Capability_leaves:
  assumes "leaves (ag_secrets env) view" "leaves (ag_namespaces env) view" "leaves (ag_statefulSets env) view" "leaves (ag_services env) view"
  shows "keeps (\<lambda>w. view w = x) (Capability_Reconcile env c dk)"
  unfolding Capability_Reconcile_def by (intro keeps_intros createService_leaves sts_Reconcile_leaves assms)

lemma enabledCapability_True:
  assumes laws: "lawfulWorkloads env stsv svcv dsv" and run: "reconcileCapability env c (r, w) = (True, (r', w'))"
    and enabled: "cp_Enabled (cap_properties c)"
  shows "r' = r \<and> dsv w' = dsv w \<and> capabilityDeployed (rec_Instance r) (stsv w') (svcv w') c \<and>
    (\<forall>k. k \<noteq> stsKeyOf (rec_Instance r) c \<longrightarrow> stsv w' k = stsv w k) \<and> (\<forall>k. k \<noteq> svcKeyOf (rec_Instance r) c \<longrightarrow> svcv w' k = svcv w k)"
proof -
  note L = lawfulWorkloadsD [OF laws]
  from run enabled have r: "r' = r" and cap: "Capability_Reconcile (dke_activeGate env) c (rec_Instance r) w = (Inr False, w')"
    by (auto simp: reconcileCapability_def Let_def inWorld_Inr unlessUpdated_True elim!: orFail_True)
  note parts = leaves_parts [OF L(9)] leaves_parts [OF L(10)] leaves_parts [OF L(6)] leaves_parts [OF L(7)]
  have "dsv w' = dsv w"
    using keepsD [OF Capability_leaves [OF leaves_parts(2) [OF parts(2)] leaves_parts(2) [OF parts(4)] parts(6) parts(8)] refl cap] .
  with r Capability_quiet [OF L(1,2,4) leaves_pair [OF parts(1) leaves_parts(1) [OF parts(2)]]
      leaves_pair [OF parts(3) leaves_parts(1) [OF parts(4)]] parts(5,7) cap] enabled
  show ?thesis by (auto simp: capabilityDeployed_def key_defs)
qed

lemma disabledCapability_True:
  assumes laws: "lawfulWorkloads env stsv svcv dsv" and run: "reconcileCapability env c (r, w) = (True, (r', w'))"
    and disabled: "\<not> cp_Enabled (cap_properties c)"
  shows "r' = r \<and> dsv w' = dsv w \<and> capabilityDeployed (rec_Instance r) (stsv w') (svcv w') c \<and>
    (\<forall>k. k \<noteq> stsKeyOf (rec_Instance r) c \<longrightarrow> stsv w' k = stsv w k) \<and> (\<forall>k. k \<noteq> svcKeyOf (rec_Instance r) c \<longrightarrow> svcv w' k = svcv w k)"
proof -
  note L = lawfulWorkloadsD [OF laws]
  let ?sts = "ensureDeleted (ag_statefulSets (dke_activeGate env)) (stsKeyOf (rec_Instance r) c)"
  let ?svc = "ensureDeleted (ag_services (dke_activeGate env)) (svcKeyOf (rec_Instance r) c)"
  have "orFail (inWorld ?sts) (\<lambda>_. if cf_CreateService (cap_Configuration c) then orFail (inWorld ?svc) (\<lambda>_. goOn) else goOn) (r, w) =
      (True, (r', w'))"
    using run disabled unfolding key_defs by (simp add: reconcileCapability_def Let_def split del: if_split)
  then obtain u t where t: "inWorld ?sts (r, w) = (Inr u, t)"
    "(if cf_CreateService (cap_Configuration c) then orFail (inWorld ?svc) (\<lambda>_. goOn) else goOn) t = (True, (r', w'))"
    by (rule orFail_True)
  define w1 where "w1 = snd t"
  have sts: "?sts w = (Inr (), w1)" and r: "r' = r"
    and svc: "if cf_CreateService (cap_Configuration c) then ?svc w1 = (Inr (), w') else w' = w1"
    using t by (auto simp: w1_def inWorld_Inr goOn_def orFail_def inWorld_def zoomE_run split: if_splits prod.splits sum.splits)
  have "stsv w1 = (stsv w)(stsKeyOf (rec_Instance r) c := None)" using ensureDeleted_effect [OF L(1) sts] .
  moreover have "svcv w1 = svcv w" "dsv w1 = dsv w"
    using keepsD [OF ensureDeleted_leaves [OF L(6)] refl sts] by simp_all
  moreover have "stsv w' = stsv w1 \<and> dsv w' = dsv w1 \<and>
      svcv w' = (if cf_CreateService (cap_Configuration c) then (svcv w1)(svcKeyOf (rec_Instance r) c := None) else svcv w1)"
    using svc keepsD [OF ensureDeleted_leaves [OF L(7)] refl] ensureDeleted_effect [OF L(2)] by (auto split: if_splits)
  ultimately show ?thesis using r disabled by (auto simp: capabilityDeployed_def)
qed

lemma reconcileCapability_True:
  assumes "lawfulWorkloads env stsv svcv dsv" and "reconcileCapability env c (r, w) = (True, (r', w'))"
  shows "r' = r \<and> dsv w' = dsv w \<and> capabilityDeployed (rec_Instance r) (stsv w') (svcv w') c \<and>
    (\<forall>k. k \<noteq> stsKeyOf (rec_Instance r) c \<longrightarrow> stsv w' k = stsv w k) \<and> (\<forall>k. k \<noteq> svcKeyOf (rec_Instance r) c \<longrightarrow> svcv w' k = svcv w k)"
  using enabledCapability_True [OF assms] disabledCapability_True [OF assms] by blast

lemma capabilities_True:
  assumes laws: "lawfulWorkloads env stsv svcv dsv"
    and run: "runStages (map (reconcileCapability env) cs) (r, w) = (True, (r', w'))"
    and distinct: "distinct (map cap_moduleName cs)"
  shows "r' = r \<and> dsv w' = dsv w \<and> list_all (capabilityDeployed (rec_Instance r) (stsv w') (svcv w')) cs \<and>
    (\<forall>c. cap_moduleName c \<notin> cap_moduleName ` set cs \<longrightarrow>
       stsv w' (stsKeyOf (rec_Instance r) c) = stsv w (stsKeyOf (rec_Instance r) c) \<and>
       svcv w' (svcKeyOf (rec_Instance r) c) = svcv w (svcKeyOf (rec_Instance r) c))"
  using run distinct
proof (induction cs arbitrary: w)
  case Nil
  then show ?case by (simp add: goOn_def)
next
  case (Cons c cs)
  then obtain r1 w1 where c: "reconcileCapability env c (r, w) = (True, (r1, w1))"
    and cs: "runStages (map (reconcileCapability env) cs) (r1, w1) = (True, (r', w'))"
    by (auto simp: andThen_True)
  note one = reconcileCapability_True [OF laws c]
  have IH: "r' = r \<and> dsv w' = dsv w1 \<and> list_all (capabilityDeployed (rec_Instance r) (stsv w') (svcv w')) cs \<and>
    (\<forall>c. cap_moduleName c \<notin> cap_moduleName ` set cs \<longrightarrow>
       stsv w' (stsKeyOf (rec_Instance r) c) = stsv w1 (stsKeyOf (rec_Instance r) c) \<and>
       svcv w' (svcKeyOf (rec_Instance r) c) = svcv w1 (svcKeyOf (rec_Instance r) c))"
    using Cons.IH [of w1] Cons.prems(2) cs one by simp
  have other: "stsv w1 (stsKeyOf (rec_Instance r) d) = stsv w (stsKeyOf (rec_Instance r) d) \<and>
      svcv w1 (svcKeyOf (rec_Instance r) d) = svcv w (svcKeyOf (rec_Instance r) d)" if "cap_moduleName d \<noteq> cap_moduleName c" for d
  proof -
    have "stsKeyOf (rec_Instance r) d \<noteq> stsKeyOf (rec_Instance r) c" "svcKeyOf (rec_Instance r) d \<noteq> svcKeyOf (rec_Instance r) c"
      using that by (simp_all add: key_defs CalculateStatefulSetName_def BuildServiceName_def)
    with one show ?thesis by blast
  qed
  have "capabilityDeployed (rec_Instance r) (stsv w') (svcv w') c"
    using one IH Cons.prems(2) by (simp add: capabilityDeployed_def)
  then show ?case using one IH other by (simp del: split_paired_All)
qed

lemma reconcileOneAgent_True:
  assumes laws: "lawfulWorkloads env stsv svcv dsv" and run: "reconcileOneAgent env fullStack feature (r, w) = (True, (r', w'))"
  shows "sameResource (rec_Instance r) r' \<and> stsv w' = stsv w \<and> svcv w' = svcv w \<and>
    (dsv w' (dsKeyOf (rec_Instance r) feature) \<noteq> None \<longleftrightarrow> fs_Enabled (fullStack (dk_Spec (rec_Instance r)))) \<and>
    (\<forall>k. k \<noteq> dsKeyOf (rec_Instance r) feature \<longrightarrow> dsv w' k = dsv w k)"
proof -
  note L = lawfulWorkloadsD [OF laws]
  let ?fs = "fullStack (dk_Spec (rec_Instance r))" and ?oa = "dke_oneAgent env"
  have pods: "keeps (\<lambda>w. (stsv w, svcv w) = x) (oa_ListPods ?oa ns labels)" "keeps (\<lambda>w. dsv w = y) (oa_ListPods ?oa ns labels)" for x y ns labels
    using laws unfolding lawfulWorkloads_def Let_def keeps_def by auto
  note ns = leaves_pair [OF leaves_parts(1) [OF L(11)] leaves_parts(1) [OF leaves_parts(2) [OF L(11)]]] leaves_parts(2) [OF leaves_parts(2) [OF L(11)]]
  show ?thesis
  proof (cases "fs_Enabled ?fs")
    case True
    with run have "orFail (OneAgent_Reconcile ?oa ?fs feature) unlessUpdated (r, w) = (True, (r', w'))"
      by (simp add: reconcileOneAgent_def Let_def)
    then have oa: "OneAgent_Reconcile ?oa ?fs feature (r, w) = (Inr False, (r', w'))"
      by (rule orFail_True) (simp add: unlessUpdated_True)
    have "(stsv w', svcv w') = (stsv w, svcv w) \<and> sameResource (rec_Instance r) r'"
      using keepsD [OF OneAgent_Reconcile_keeps [OF L(8) ns(1) pods(1)] _ oa, of "(stsv w, svcv w)" "rec_Instance r"]
      by (simp add: sameResource_def)
    with OneAgent_Reconcile_deploys [OF L(3) ns(2) L(5) pods(2) oa] True show ?thesis by (simp add: dsKeyOf_def)
  next
    case False
    let ?del = "ensureDeleted (oa_daemonSets ?oa) (dsKeyOf (rec_Instance r) feature)"
    from False run have "orFail (inWorld ?del) (\<lambda>_. goOn) (r, w) = (True, (r', w'))"
      by (simp add: reconcileOneAgent_def Let_def dsKeyOf_def)
    then have "r' = r" and del: "?del w = (Inr (), w')"
      by (auto simp: inWorld_Inr goOn_def orFail_def split: prod.splits sum.splits)
    with False ensureDeleted_effect [OF L(3) del] keepsD [OF ensureDeleted_leaves [OF L(8)] refl del]
    show ?thesis by (simp add: sameResource_def)
  qed
qed

section \<open>Lemmas: the reconciliation as a whole\<close>

definition deployedAsSpecified ::
  "DynaKube \<Rightarrow> (objkey \<rightharpoonup> StatefulSet) \<Rightarrow> (objkey \<rightharpoonup> Service) \<Rightarrow> (objkey \<rightharpoonup> DaemonSet) \<Rightarrow> bool" where
  "deployedAsSpecified dk stss svcs dss \<longleftrightarrow>
     list_all (capabilityDeployed dk stss svcs) (capabilities dk) \<and>
     (dss (dsKeyOf dk InframonFeature) \<noteq> None \<longleftrightarrow> fs_Enabled (spec_InfraMonitoring (dk_Spec dk))) \<and>
     (dss (dsKeyOf dk ClassicFeature) \<noteq> None \<longleftrightarrow> fs_Enabled (spec_ClassicFullStack (dk_Spec dk)))"

lemma sameResource_eqs:
  assumes "sameResource dk r"
  shows "capabilities (rec_Instance r) = capabilities dk" and "stsKeyOf (rec_Instance r) = stsKeyOf dk"
    and "svcKeyOf (rec_Instance r) = svcKeyOf dk" and "dsKeyOf (rec_Instance r) = dsKeyOf dk"
    and "Tokens (rec_Instance r) = Tokens dk" and "dk_Namespace (rec_Instance r) = dk_Namespace dk"
    and "capabilityDeployed (rec_Instance r) = capabilityDeployed dk"
    and "deployedAsSpecified (rec_Instance r) = deployedAsSpecified dk"
  using assms by (simp_all add: sameResource_def capabilities_def key_defs Tokens_def capabilityDeployed_def deployedAsSpecified_def fun_eq_iff)

lemma reconcileWorkloads_True:
  assumes laws: "lawfulWorkloads env stsv svcv dsv" and run: "reconcileWorkloads env (r, w) = (True, (r', w'))"
  shows "deployedAsSpecified (rec_Instance r) (stsv w') (svcv w') (dsv w')"
proof -
  let ?dk = "rec_Instance r"
  obtain r1 w1 r2 w2 where ag: "runStages (map (reconcileCapability env) (capabilities ?dk)) (r, w) = (True, (r1, w1))"
    and infra: "reconcileOneAgent env spec_InfraMonitoring InframonFeature (r1, w1) = (True, (r2, w2))"
    and classic: "reconcileOneAgent env spec_ClassicFullStack ClassicFeature (r2, w2) = (True, (r', w'))"
    using run by (auto simp: reconcileWorkloads_def andThen_True goOn_def reconcileActiveGateCapabilities_def)
  have "distinct (map cap_moduleName (capabilities ?dk))"
    by (simp add: capabilities_def NewKubeMonCapability_def NewRoutingCapability_def NewDataIngestCapability_def)
  note ag' = capabilities_True [OF laws ag this]
  note infra' = reconcileOneAgent_True [OF laws infra] and classic' = reconcileOneAgent_True [OF laws classic]
  have same: "sameResource ?dk r2" using ag' infra' by (simp add: sameResource_def)
  have "dsKeyOf ?dk InframonFeature \<noteq> dsKeyOf ?dk ClassicFeature"
    by (simp add: dsKeyOf_def InframonFeature_def ClassicFeature_def)
  then have "dsv w' (dsKeyOf ?dk InframonFeature) = dsv w2 (dsKeyOf ?dk InframonFeature)"
    using classic' sameResource_eqs(4) [OF same] by (simp del: split_paired_All)
  then show ?thesis
    using ag' infra' classic' same unfolding deployedAsSpecified_def by (simp add: sameResource_eqs [OF same] sameResource_def)
qed

text \<open>A stage that ends the reconciliation has recorded an error or an update.\<close>

definition noticed :: "Reconciliation \<Rightarrow> bool" where
  "noticed r \<longleftrightarrow> rec_Err r \<noteq> None \<or> rec_Updated r"

definition stopsNoticed :: "'w stage \<Rightarrow> bool" where
  "stopsNoticed f \<longleftrightarrow> (\<forall>s s'. f s = (False, s') \<longrightarrow> noticed (fst s'))"

lemma stopsNoticed_orFail: "(\<And>x. stopsNoticed (k x)) \<Longrightarrow> stopsNoticed (orFail m k)"
  by (auto simp: stopsNoticed_def orFail_def noticed_def rec_Error_def split: prod.splits sum.splits)

lemma stopsNoticed_unlessUpdated: "stopsNoticed (unlessUpdated u)"
  by (auto simp: stopsNoticed_def unlessUpdated_def noticed_def rec_Update_def)

lemma stopsNoticed_goOn: "stopsNoticed goOn"
  by (simp add: stopsNoticed_def goOn_def)

lemma stopsNoticed_andThen: "stopsNoticed f \<Longrightarrow> stopsNoticed g \<Longrightarrow> stopsNoticed (andThen f g)"
  unfolding stopsNoticed_def andThen_def by (auto split: prod.splits bool.splits)

lemma stopsNoticed_runStages: "list_all stopsNoticed fs \<Longrightarrow> stopsNoticed (runStages fs)"
  by (induction fs) (simp_all add: stopsNoticed_goOn stopsNoticed_andThen)


lemmas stopsNoticed_intros = stopsNoticed_orFail stopsNoticed_unlessUpdated stopsNoticed_goOn

lemma stopsNoticedD: "f s = (False, s') \<Longrightarrow> stopsNoticed f \<Longrightarrow> noticed (fst s')"
  unfolding stopsNoticed_def by blast

lemma stopsNoticedI: "(\<And>r w s'. f (r, w) = (False, s') \<Longrightarrow> noticed (fst s')) \<Longrightarrow> stopsNoticed f"
  unfolding stopsNoticed_def by (metis surj_pair)

lemma reconcileCapability_noticed: "stopsNoticed (reconcileCapability env c)"
  by (rule stopsNoticedI)
    (auto simp: reconcileCapability_def Let_def stopsNoticed_intros dest!: stopsNoticedD split: if_splits)

lemma reconcileOneAgent_noticed: "stopsNoticed (reconcileOneAgent env fullStack feature)"
  by (rule stopsNoticedI)
    (auto simp: reconcileOneAgent_def Let_def stopsNoticed_intros dest!: stopsNoticedD split: if_splits)

lemma reconcileWorkloads_noticed: "stopsNoticed (reconcileWorkloads env)"
proof -
  have "stopsNoticed (reconcileActiveGateCapabilities env)"
    by (rule stopsNoticedI) (auto simp: reconcileActiveGateCapabilities_def reconcileCapability_noticed list_all_iff
        intro!: stopsNoticed_runStages dest!: stopsNoticedD)
  then show ?thesis
    unfolding reconcileWorkloads_def by (intro stopsNoticed_runStages) (simp add: reconcileOneAgent_noticed)
qed

text \<open>The stages before the workloads change only the status of the resource.\<close>

lemma DynatraceClient_result:
  assumes "DynatraceClientReconciler_Reconcile lib clock secrets dtf cl now p a dk w = ((dtc, upd, err), dk', w')"
  shows "(dtc = None \<longleftrightarrow> err \<noteq> None) \<and> dk_Meta dk' = dk_Meta dk \<and> dk_Spec dk' = dk_Spec dk"
  using assms
  by (auto simp: DynatraceClientReconciler_Reconcile_def Let_def split: prod.splits sum.splits if_splits)

lemma reconcileTokens_result:
  assumes "reconcileTokens env (r, w) = (dtc, (r', w'))"
  shows "sameResource (rec_Instance r) r'" and "dtc = None \<Longrightarrow> noticed r'"
proof -
  obtain d upd err dk where run: "DynatraceClientReconciler_Reconcile (dke_conditions env) (dke_clock env) (dke_secrets env)
      (dke_dtcBuildFunc env) (dke_dtc env) 0 True True (rec_Instance r) w = ((d, upd, err), dk, w')"
    using assms by (auto simp: reconcileTokens_def Let_def split: prod.splits)
  note result = DynatraceClient_result [OF run]
  have r': "r' = snd (rec_Error err (snd (rec_Update upd dk_defaultUpdateInterval (r\<lparr>rec_Instance := dk\<rparr>))))"
    and dtc: "dtc = (if err = None then d else None)"
    using assms run by (auto simp: reconcileTokens_def Let_def rec_Error_def split: prod.splits option.splits)
  show "sameResource (rec_Instance r) r'"
    using result unfolding r' by (auto simp: sameResource_def rec_Update_def rec_Error_def split: option.splits)
  show "noticed r'" if "dtc = None"
    using that result unfolding r' dtc by (auto simp: noticed_def rec_Error_def split: if_splits option.splits)
qed

lemma reconcileStatus_result:
  assumes "reconcileStatus env dtc (r, w) = (b, (r', w'))"
  shows "sameResource (rec_Instance r) r'" and "\<not> b \<Longrightarrow> noticed r'"
  using assms
  by (auto simp: reconcileStatus_def SetDynakubeStatus_def bindE_run sameResource_def noticed_def rec_Error_def
      split: prod.splits sum.splits)

lemma reconcileIstio_result: "\<exists>r' w'. reconcileIstio env (r, w) = (True, (r', w')) \<and> rec_Instance r' = rec_Instance r"
  by (auto simp: reconcileIstio_def rec_Update_def split: prod.splits sum.splits)

lemma reconcileUpdates_result: "\<exists>r' w'. reconcileUpdates env (r, w) = (True, (r', w')) \<and> sameResource (rec_Instance r) r'"
proof -
  obtain upd err r1 w1 where run: "ReconcileVersions (dke_unmarshal env) (dke_secrets env) (dke_verProvider env) (r, w) = ((upd, err), (r1, w1))"
    by (metis surj_pair)
  then show ?thesis
    using ReconcileVersions_frame(2,3) [OF run] sameResource_steps(6,7) by (auto simp: reconcileUpdates_def sameResource_def)
qed

lemma reconcilePullSecretStage_True:
  "reconcilePullSecretStage env secret (r, w) = (True, (r', w')) \<Longrightarrow> r' = r"
  by (auto simp: reconcilePullSecretStage_def goOn_def inWorld_Inr orFail_def split: prod.splits sum.splits)

lemma reconcilePullSecretStage_noticed: "stopsNoticed (reconcilePullSecretStage env secret)"
  by (rule stopsNoticedI) (auto simp: reconcilePullSecretStage_def stopsNoticed_intros dest!: stopsNoticedD)

lemma reconcileWithSecret_result:
  assumes run: "reconcileWithSecret env (r, w) = (b, (r', w'))" and get: "getTokenSecret env (rec_Instance r) w = (Inr secret, w1)"
  shows "b \<Longrightarrow> \<exists>r1 w1. sameResource (rec_Instance r) r1 \<and> reconcileWorkloads env (r1, w1) = (True, (r', w'))"
    and "\<not> b \<Longrightarrow> noticed r'"
proof -
  obtain r2 w2 where istio: "reconcileIstio env (r, w1) = (True, (r2, w2))" "rec_Instance r2 = rec_Instance r"
    using reconcileIstio_result [of env r w1] by blast
  have rest: "andThen (reconcilePullSecretStage env secret) (andThen (reconcileUpdates env) (reconcileWorkloads env)) (r2, w2) = (b, (r', w'))"
    using run get istio by (simp add: reconcileWithSecret_def andThen_run)
  have "stopsNoticed (reconcileUpdates env)"
    by (rule stopsNoticedI) (metis reconcileUpdates_result Pair_inject)
  then have "stopsNoticed (andThen (reconcilePullSecretStage env secret) (andThen (reconcileUpdates env) (reconcileWorkloads env)))"
    by (intro stopsNoticed_andThen reconcilePullSecretStage_noticed reconcileWorkloads_noticed)
  with rest show "noticed r'" if "\<not> b" using that stopsNoticedD by fastforce
  assume b
  with rest obtain r3 w3 r4 w4 where "reconcilePullSecretStage env secret (r2, w2) = (True, (r3, w3))"
    and upd: "reconcileUpdates env (r3, w3) = (True, (r4, w4))" and work: "reconcileWorkloads env (r4, w4) = (True, (r', w'))"
    by (auto simp: andThen_True)
  then have "rec_Instance r3 = rec_Instance r" using istio(2) by (auto dest: reconcilePullSecretStage_True)
  moreover have "sameResource (rec_Instance r3) r4" using reconcileUpdates_result [of env r3 w3] upd by auto
  ultimately show "\<exists>r1 w1. sameResource (rec_Instance r) r1 \<and> reconcileWorkloads env (r1, w1) = (True, (r', w'))"
    using work by auto
qed

text \<open>
  The error of the read of the token secret, where the reconciliation comes to this read: the code logs it and stops, but does not
  record it.
\<close>

definition droppedSecretError :: "('d, 'w) dk_env \<Rightarrow> 'w recst \<Rightarrow> goerr option" where
  "droppedSecretError env s =
     (case reconcileTokens env s of
        (None, _) \<Rightarrow> None
      | (Some dtc, s1) \<Rightarrow>
          (case reconcileStatus env dtc s1 of
             (False, _) \<Rightarrow> None
           | (True, (r, w)) \<Rightarrow> (case fst (getTokenSecret env (rec_Instance r) w) of Inl e \<Rightarrow> Some e | Inr _ \<Rightarrow> None)))"

lemma reconcileStages_result:
  assumes run: "reconcileStages env (r, w) = (b, (r', w'))"
  shows "b \<Longrightarrow> \<exists>r1 w1. sameResource (rec_Instance r) r1 \<and> reconcileWorkloads env (r1, w1) = (True, (r', w'))"
    and "\<not> b \<Longrightarrow> noticed r' \<or> droppedSecretError env (r, w) \<noteq> None"
proof -
  obtain dtc r1 w1 where tokens: "reconcileTokens env (r, w) = (dtc, (r1, w1))" by (metis surj_pair)
  note t = reconcileTokens_result [OF tokens]
  consider (failed) "dtc = None" | (client) d where "dtc = Some d" by fastforce
  then have "(b \<longrightarrow> (\<exists>r1 w1. sameResource (rec_Instance r) r1 \<and> reconcileWorkloads env (r1, w1) = (True, (r', w')))) \<and>
    (\<not> b \<longrightarrow> noticed r' \<or> droppedSecretError env (r, w) \<noteq> None)"
  proof cases
    case failed
    with run tokens t show ?thesis by (simp add: reconcileStages_def)
  next
    case (client d)
    obtain c r2 w2 where status: "reconcileStatus env d (r1, w1) = (c, (r2, w2))" by (metis surj_pair)
    note st = reconcileStatus_result [OF status]
    have same: "sameResource (rec_Instance r) r2" using t(1) st(1) by (simp add: sameResource_def)
    obtain g w3 where get: "getTokenSecret env (rec_Instance r2) w2 = (g, w3)" by fastforce
    have more: "if c then reconcileWithSecret env (r2, w2) = (b, (r', w')) else \<not> b \<and> r' = r2"
      using run tokens client status by (auto simp: reconcileStages_def andThen_def split: bool.splits if_splits)
    show ?thesis
    proof (cases c)
      case c: True
      show ?thesis
      proof (cases g)
        case (Inl e)
        with c more get have "\<not> b" by (simp add: reconcileWithSecret_def)
        moreover have "droppedSecretError env (r, w) = Some e"
          using tokens client status c get Inl by (simp add: droppedSecretError_def)
        ultimately show ?thesis by simp
      next
        case (Inr secret)
        with more c reconcileWithSecret_result [of env r2 w2 b r' w' secret w3] get same show ?thesis by (simp add: sameResource_def)
      qed
    next
      case False
      with more st(2) show ?thesis by simp
    qed
  qed
  then show "b \<Longrightarrow> \<exists>r1 w1. sameResource (rec_Instance r) r1 \<and> reconcileWorkloads env (r1, w1) = (True, (r', w'))"
    and "\<not> b \<Longrightarrow> noticed r' \<or> droppedSecretError env (r, w) \<noteq> None" by blast+
qed

section \<open>Lemmas: the request\<close>

text \<open>
  The promises of the API server about the status: an update that is accepted replaces the status of the stored resource and
  nothing else, and one that is refused, because of a conflict or for any other reason, changes nothing. Reading the clock does not
  change the resources.
\<close>

definition lawfulStatus :: "('d, 'w) dk_env \<Rightarrow> ('w \<Rightarrow> objkey \<rightharpoonup> DynaKube) \<Rightarrow> bool" where
  "lawfulStatus env view \<longleftrightarrow>
     (\<forall>ob w r w'. dke_statusUpdate env ob w = (r, w') \<longrightarrow>
        (case r of Inr _ \<Rightarrow> \<exists>stored. view w (metaKey (dk_Meta ob)) = Some stored \<and>
                             view w' = (view w)(metaKey (dk_Meta ob) \<mapsto> stored\<lparr>dk_Status := dk_Status ob\<rparr>)
         | Inl _ \<Rightarrow> view w' = view w)) \<and>
     (\<forall>w. view (snd (dke_clock env w)) = view w)"

lemma updateCR_answer:
  assumes law: "lawfulStatus env view" and clock: "dke_clock env w = (t, w1)"
    and upd: "dke_statusUpdate env (dk\<lparr>dk_Status := (dk_Status dk)\<lparr>st_UpdatedTimestamp := t\<rparr>\<rparr>) w1 = (answer, w2)"
  shows "updateCR env dk w = (case answer of Inl e \<Rightarrow> (if isConflict e then Inr () else Inl e) | Inr _ \<Rightarrow> Inr (), w2)"
    and "case answer of
        Inr _ \<Rightarrow> \<exists>stored. view w (metaKey (dk_Meta dk)) = Some stored \<and>
          view w2 = (view w)(metaKey (dk_Meta dk) \<mapsto> stored\<lparr>dk_Status := (dk_Status dk)\<lparr>st_UpdatedTimestamp := t\<rparr>\<rparr>)
      | Inl _ \<Rightarrow> view w2 = view w"
proof -
  let ?ob = "dk\<lparr>dk_Status := (dk_Status dk)\<lparr>st_UpdatedTimestamp := t\<rparr>\<rparr>"
  show "updateCR env dk w = (case answer of Inl e \<Rightarrow> (if isConflict e then Inr () else Inl e) | Inr _ \<Rightarrow> Inr (), w2)"
    using clock upd by (auto simp: updateCR_def catchE_run split: sum.splits)
  have "view w1 = view w" using law clock unfolding lawfulStatus_def by (metis snd_conv)
  moreover have "case answer of
        Inr _ \<Rightarrow> \<exists>stored. view w1 (metaKey (dk_Meta ?ob)) = Some stored \<and>
          view w2 = (view w1)(metaKey (dk_Meta ?ob) \<mapsto> stored\<lparr>dk_Status := dk_Status ?ob\<rparr>)
      | Inl _ \<Rightarrow> view w2 = view w1"
    using conjunct1 [OF law [unfolded lawfulStatus_def]] upd by blast
  ultimately show "case answer of
        Inr _ \<Rightarrow> \<exists>stored. view w (metaKey (dk_Meta dk)) = Some stored \<and>
          view w2 = (view w)(metaKey (dk_Meta dk) \<mapsto> stored\<lparr>dk_Status := (dk_Status dk)\<lparr>st_UpdatedTimestamp := t\<rparr>\<rparr>)
      | Inl _ \<Rightarrow> view w2 = view w" by (cases answer) simp_all
qed

section \<open>Examples\<close>

definition exampleNow :: gotime where "exampleNow = 1000"

definition quietIstio :: "cluster istio_env" where
  "quietIstio =
     \<lparr>ie_namespace = ''dynatrace'', ie_serverGroups = retE [], ie_newClient = retE (),
      ie_serviceEntries = \<lparr>ia_List = (\<lambda>_ _. retE []), ia_Create = (\<lambda>_ _. retE None), ia_Delete = (\<lambda>_ _. retE ()),
        ia_ProbeList = (\<lambda>_. retE ()), ia_ProbeGet = (\<lambda>_. retE ())\<rparr>,
      ie_virtualServices = \<lparr>ia_List = (\<lambda>_ _. retE []), ia_Create = (\<lambda>_ _. retE None), ia_Delete = (\<lambda>_ _. retE ()),
        ia_ProbeList = (\<lambda>_. retE ()), ia_ProbeGet = (\<lambda>_. retE ())\<rparr>,
      ie_SetControllerReference = setOwner\<rparr>"

definition exampleTenant :: "(unit \<times> cluster) Client" where
  "exampleTenant =
     \<lparr>cl_GetLatestAgentVersion = (\<lambda>_ _. retE ''1.203.0.20200908-220956''), cl_GetLatestAgent = (\<lambda>_ _ _ _. retE []),
      cl_GetConnectionInfo = retE \<lparr>ci_CommunicationHosts = [], ci_TenantUUID = ''abc''\<rparr>,
      cl_GetCommunicationHostForClient = retE \<lparr>ch_Protocol = ''https'', ch_Host = ''abc.live'', ch_Port = 443\<rparr>,
      cl_SendEvent = (\<lambda>_. retE ()), cl_GetEntityIDForIP = (\<lambda>_. retE []), cl_GetTokenScopes = (\<lambda>_. retE []),
      cl_GetTenantInfo = raiseE (ErrMsg ''unused'')\<rparr>"

definition storeStatus :: "DynaKube \<Rightarrow> (cluster, unit) act" where
  "storeStatus ob w =
     (case map_of (cl_DynaKubes w) (metaKey (dk_Meta ob)) of
        None \<Rightarrow> (Inl (ApiNotFound (dk_Name ob)), w)
      | Some stored \<Rightarrow> (Inr (), w\<lparr>cl_DynaKubes := AList.update (metaKey (dk_Meta ob)) (stored\<lparr>dk_Status := dk_Status ob\<rparr>) (cl_DynaKubes w)\<rparr>))"

definition exampleController :: "(cluster, Secret) kclient \<Rightarrow> (unit, cluster) dk_env" where
  "exampleController secrets =
     \<lparr>dke_conditions = listConditions, dke_clock = (\<lambda>w. (exampleNow, w)), dke_dynaKubes = dynaKubesOf,
      dke_statusUpdate = storeStatus, dke_secrets = secrets, dke_namespaces = namespacesOf,
      dke_dtcBuildFunc = (\<lambda>_ _. retE ()), dke_dtc = exampleTenant, dke_istio = quietIstio,
      dke_pullSecret = \<lparr>ps_client = secretsOf, ps_apiReader = secretsOf, ps_urlHost = Inr, ps_marshal = (\<lambda>_. Inr []),
        ps_SetControllerReference = setOwner\<rparr>,
      dke_unmarshal = (\<lambda>_. Inr None), dke_verProvider = (\<lambda>_ _. raiseE (ErrMsg ''no registry'')),
      dke_activeGate = exampleAgEnv, dke_oneAgent = exampleOaEnv\<rparr>"

lemma exampleController_lawful:
  "lawfulWorkloads (exampleController secrets) (\<lambda>w. map_of (cl_StatefulSets w)) (\<lambda>w. map_of (cl_Services w)) (\<lambda>w. map_of (cl_DaemonSets w))"
  using lawful_cluster
  by (simp add: lawfulWorkloads_def Let_def exampleController_def exampleAgEnv_def exampleOaEnv_def lawful_setOwner)
    (simp add: cluster_client_defs leaves_onPart)

lemma exampleController_status: "lawfulStatus (exampleController secrets) (\<lambda>w. map_of (cl_DynaKubes w))"
  by (auto simp: lawfulStatus_def exampleController_def storeStatus_def update_conv' split: option.splits)

text \<open>A resource with the classic full stack whose tokens and versions were looked up a moment ago.\<close>

definition exampleQuiet :: DynaKube where
  "exampleQuiet = zeroDynaKube
     \<lparr>dk_Meta := emptyMeta\<lparr>om_Name := ''dynakube'', om_Namespace := ''dynatrace''\<rparr>,
      dk_Spec := zeroSpec\<lparr>spec_APIURL := ''https://abc.live/api'', spec_CustomPullSecret := ''pull'',
        spec_ClassicFullStack := zeroFullStack\<lparr>fs_Enabled := True\<rparr>\<rparr>,
      dk_Status := zeroStatus
        \<lparr>st_LastAPITokenProbeTimestamp := Some exampleNow, st_LastPaaSTokenProbeTimestamp := Some exampleNow,
         st_Tokens := ''dynakube'',
         st_OneAgent := \<lparr>oast_VersionStatus = zeroVersionStatus\<lparr>ver_LastUpdateProbeTimestamp := Some exampleNow\<rparr>,
           oast_UseImmutableImage = False, oast_Instances = None, oast_LastHostsRequestTimestamp = Some exampleNow\<rparr>\<rparr>\<rparr>"

definition steadySecrets :: "(cluster, Secret) kclient" where
  "steadySecrets = secretsOf\<lparr>kGet := (\<lambda>_ w. (Inr (emptySecret\<lparr>sec_Data := Some [(''apiToken'', ''a''), (''paasToken'', ''p'')]\<rparr>), w))\<rparr>"

lemma trim_examples: "trimSpace ''a'' = ''a''" "trimSpace ''p'' = ''p''"
  by code_simp+

lemma exampleTokens_run:
  "reconcileTokens (exampleController steadySecrets) (NewReconciliation exampleNow exampleQuiet, w) =
     (Some (), (NewReconciliation exampleNow exampleQuiet, w))"
  by (simp add: reconcileTokens_def DynatraceClientReconciler_Reconcile_def exampleController_def steadySecrets_def exampleQuiet_def
      NewReconciliation_def exampleNow_def timeIsZero_def tokenConfigs_def paasTokenConfig_def apiTokenConfig_def migrateConditions_def
      Let_def secretData_def secretField_def DynatracePaasToken_def DynatraceApiToken_def probeToken_def probeDue_def trim_examples time_defs
      zero_defs rec_Update_def rec_Error_def)

definition exampleSettled :: DynaKube where
  "exampleSettled = exampleQuiet\<lparr>dk_Status := (dk_Status exampleQuiet)
     \<lparr>st_KubeSystemUUID := ''uid'', st_CommunicationHostForClient := \<lparr>chs_Protocol = ''https'', chs_Host = ''abc.live'', chs_Port = 443\<rparr>,
      st_ConnectionInfo := \<lparr>cis_CommunicationHosts = [], cis_TenantUUID = ''abc''\<rparr>,
      st_LatestAgentVersionUnixDefault := ''1.203.0.20200908-220956'', st_LatestAgentVersionUnixPaas := ''1.203.0.20200908-220956''\<rparr>\<rparr>"

lemma exampleStatus_run:
  "reconcileStatus (exampleController steadySecrets) () (NewReconciliation exampleNow exampleQuiet, exampleOaCluster) =
     (True, (NewReconciliation exampleNow exampleSettled, exampleOaCluster))"
  by (simp add: reconcileStatus_def SetDynakubeStatus_def bindE_run GetUID_def exampleController_def onPart_def zoomE_run namespacesOf_run
      exampleOaCluster_def emptyCluster_def kubesystem_Namespace_def exampleTenant_def NewReconciliation_def exampleSettled_def
      hostToStatus_def communicationHostsToStatus_def)

lemma exampleBefore_run:
  "reconcileStages (exampleController steadySecrets) (NewReconciliation exampleNow exampleQuiet, exampleOaCluster) =
     reconcileWorkloads (exampleController steadySecrets) (NewReconciliation exampleNow exampleSettled, exampleOaCluster)"
proof -
  let ?C = "exampleController steadySecrets" and ?s = "(NewReconciliation exampleNow exampleSettled, exampleOaCluster)"
  have istio: "reconcileIstio ?C ?s = (True, ?s)"
    by (simp add: reconcileIstio_def NewReconciliation_def exampleSettled_def exampleQuiet_def zero_defs)
  have pull: "reconcilePullSecretStage ?C secret ?s = (True, ?s)" for secret
    by (simp add: reconcilePullSecretStage_def orFail_def inWorld_run PullSecret_Reconcile_def NewReconciliation_def exampleSettled_def
        exampleQuiet_def zero_defs goOn_def)
  have updates: "reconcileUpdates ?C ?s = (True, ?s)"
    by (simp add: reconcileUpdates_def ReconcileVersions_def needsOneAgentUpdate_def needsActiveGateUpdate_def NeedsActiveGate_def
        IsOutdated_def ProbeThreshold_def NewReconciliation_def exampleSettled_def exampleQuiet_def zero_defs Let_def
        rec_Update_def rec_Error_def time_defs exampleNow_def)
  obtain secret where get: "getTokenSecret ?C (rec_Instance (fst ?s)) exampleOaCluster = (Inr secret, exampleOaCluster)"
    by (simp add: getTokenSecret_def exampleController_def steadySecrets_def)
  then have "reconcileWithSecret ?C ?s = reconcileWorkloads ?C ?s"
    by (simp add: reconcileWithSecret_def andThen_run istio pull updates)
  then show ?thesis
    by (simp add: reconcileStages_def exampleTokens_run andThen_run exampleStatus_run)
qed

lemma ensureDeleted_absent:
  "kDelete c k w = (Inl e, w) \<Longrightarrow> isNotFound e \<Longrightarrow> ensureDeleted c k w = (Inr (), w)"
  by (simp add: ensureDeleted_def)

lemma exampleClassic_run:
  "\<exists>r' w'. reconcileOneAgent (exampleController steadySecrets) spec_ClassicFullStack ClassicFeature
       (NewReconciliation exampleNow exampleSettled, exampleOaCluster) = (True, (r', w')) \<and> rec_Err r' = None \<and> \<not> rec_Updated r'"
proof -
  let ?r = "NewReconciliation exampleNow exampleSettled" and ?fs = "zeroFullStack\<lparr>fs_Enabled := True\<rparr>"
  have imm: "storeImmutable ?fs ?r = ((), ?r)" and fs: "spec_ClassicFullStack (dk_Spec exampleSettled) = ?fs"
    and valid: "validate exampleSettled = None" and inst: "rec_Instance ?r = exampleSettled"
    and fresh: "\<not> IsOutdated ?r (oast_LastHostsRequestTimestamp (st_OneAgent (dk_Status exampleSettled))) (updateInterval (oa_getenv exampleOaEnv))"
    by (simp_all add: storeImmutable_def SetUseImmutableImageStatus_def rec_Update_def NewReconciliation_def exampleSettled_def exampleQuiet_def
        zero_defs validate_def IsOutdated_def updateInterval_def exampleOaEnv_def oa_defaultUpdateInterval_def time_defs exampleNow_def)
  obtain ds where roll: "reconcileRollout exampleOaEnv ?fs ClassicFeature (?r, exampleOaCluster) =
      (Inr False, (?r, exampleOaCluster\<lparr>cl_DaemonSets := [(dsKeyOf exampleSettled ClassicFeature, ds)]\<rparr>))"
    by (simp add: reconcileRollout_def bindE_run catchE_run inWorld_run onRec_run getDesiredDaemonSet_def GetUID_def exampleOaEnv_def
      namespacesOf_run daemonSetsOf_run exampleOaCluster_def emptyCluster_def newDaemonSetForCR_def generateDaemonSetHash_def
      applyDaemonSet_def setOwner_def storeTokens_def NewReconciliation_def exampleSettled_def exampleQuiet_def zero_defs Tokens_def Let_def
      kubesystem_Namespace_def storeTemplateHash_def dsKeyOf_def metaKey_def)
  have "\<exists>r' w'. afterRollout exampleOaEnv ClassicFeature False (?r, exampleOaCluster\<lparr>cl_DaemonSets := [(dsKeyOf exampleSettled ClassicFeature, ds)]\<rparr>) =
      (Inr False, (r', w')) \<and> rec_Err r' = None \<and> \<not> rec_Updated r'"
    using fresh by (simp add: afterRollout_def bindE_run catchE_run inst determineOneAgentPhase_def inWorld_run onRec_run)
     (simp add: exampleOaEnv_def daemonSetsOf_run dsKeyOf_def setPhase_def NewReconciliation_def onRec_run Let_def)
  then show ?thesis
    using imm roll by (auto simp: reconcileOneAgent_def Let_def inst fs orFail_def OneAgent_Reconcile_def bindE_run onRec_run valid
        exampleController_def unlessUpdated_def rec_Update_def)
qed

lemma exampleWorkloads_run:
  "\<exists>r' w'. reconcileWorkloads (exampleController steadySecrets) (NewReconciliation exampleNow exampleSettled, exampleOaCluster) = (True, (r', w')) \<and>
     rec_Err r' = None \<and> \<not> rec_Updated r'"
proof -
  let ?C = "exampleController steadySecrets" and ?r = "NewReconciliation exampleNow exampleSettled"
  have off: "\<not> cp_Enabled (cap_properties c)" if "c \<in> set (capabilities exampleSettled)" for c
    using that by (auto simp: capabilities_def exampleSettled_def exampleQuiet_def zero_defs NewKubeMonCapability_def NewRoutingCapability_def
        NewDataIngestCapability_def)
  have "reconcileCapability ?C c (?r, exampleOaCluster) = (True, (?r, exampleOaCluster))" if "c \<in> set (capabilities exampleSettled)" for c
    using off [OF that]
    by (simp add: reconcileCapability_def Let_def orFail_def inWorld_run goOn_def ensureDeleted_def catchE_run exampleController_def exampleAgEnv_def
        statefulSetsOf_run servicesOf_run exampleOaCluster_def emptyCluster_def)
  then have ag: "reconcileActiveGateCapabilities ?C (?r, exampleOaCluster) = (True, (?r, exampleOaCluster))"
    by (simp add: reconcileActiveGateCapabilities_def NewReconciliation_def capabilities_def andThen_run)
  have infra: "reconcileOneAgent ?C spec_InfraMonitoring InframonFeature (?r, exampleOaCluster) = (True, (?r, exampleOaCluster))"
    by (simp add: reconcileOneAgent_def Let_def orFail_def inWorld_run goOn_def ensureDeleted_def catchE_run exampleController_def exampleOaEnv_def
        daemonSetsOf_run exampleOaCluster_def emptyCluster_def NewReconciliation_def exampleSettled_def exampleQuiet_def zero_defs)
  show ?thesis
    using exampleClassic_run by (simp add: reconcileWorkloads_def andThen_run ag infra)
qed

section \<open>Properties\<close>

text \<open>C1. A reconciliation without news certifies the cluster: when \<^verbatim>\<open>reconcileDynaKube\<close> records neither an error nor an
  update, the cluster runs exactly what the resource asks for: for every capability of the
  ActiveGate the stateful set and, where it has one, the service exist if and only if it is enabled, and the daemon
  set of infrastructure monitoring and of the classic full stack exist if and only if they are enabled. There is one exception:
  the run came to the read of the token secret and this read failed, an error that the code logs and does not record.\<close>

theorem reconcileDynaKube_deploys:
  assumes "lawfulWorkloads env stsv svcv dsv"
    and "reconcileDynaKube env (r, w) = (r', w')" and "rec_Err r' = None" and "\<not> rec_Updated r'"
  shows "deployedAsSpecified (rec_Instance r) (stsv w') (svcv w') (dsv w') \<or> droppedSecretError env (r, w) \<noteq> None"
proof -
  obtain b where run: "reconcileStages env (r, w) = (b, (r', w'))"
    using assms(2) by (metis reconcileDynaKube_def prod.collapse)
  have quiet: "\<not> noticed r'" using assms(3,4) by (simp add: noticed_def)
  show ?thesis
  proof (cases b)
    case True
    then obtain r1 w1 where "sameResource (rec_Instance r) r1" "reconcileWorkloads env (r1, w1) = (True, (r', w'))"
      using reconcileStages_result(1) [OF run] by blast
    then show ?thesis using reconcileWorkloads_True [OF assms(1)] sameResource_eqs(8) by metis
  next
    case False
    with reconcileStages_result(2) [OF run] quiet show ?thesis by blast
  qed
qed

theorem reconcileDynaKube_deploys_witness:
  "\<exists>r' w'. reconcileDynaKube (exampleController steadySecrets) (NewReconciliation exampleNow exampleQuiet, exampleOaCluster) = (r', w') \<and>
     deployedAsSpecified exampleQuiet (map_of (cl_StatefulSets w')) (map_of (cl_Services w')) (map_of (cl_DaemonSets w')) \<and>
     map_of (cl_DaemonSets w') (''dynatrace'', ''dynakube-classic'') \<noteq> None"
proof -
  obtain r' w' where run: "reconcileDynaKube (exampleController steadySecrets) (NewReconciliation exampleNow exampleQuiet, exampleOaCluster) = (r', w')"
    and quiet: "rec_Err r' = None" "\<not> rec_Updated r'"
    using exampleWorkloads_run by (auto simp: reconcileDynaKube_def exampleBefore_run)
  have "droppedSecretError (exampleController steadySecrets) (NewReconciliation exampleNow exampleQuiet, exampleOaCluster) = None"
    by (simp add: droppedSecretError_def exampleTokens_run exampleStatus_run getTokenSecret_def)
      (simp add: exampleController_def steadySecrets_def)
  with reconcileDynaKube_deploys [OF exampleController_lawful run quiet]
  have "deployedAsSpecified exampleQuiet (map_of (cl_StatefulSets w')) (map_of (cl_Services w')) (map_of (cl_DaemonSets w'))"
    by (simp add: NewReconciliation_def)
  moreover from this have "map_of (cl_DaemonSets w') (''dynatrace'', ''dynakube-classic'') \<noteq> None"
    by (auto simp: deployedAsSpecified_def dsKeyOf_def exampleQuiet_def zero_defs ClassicFeature_def)
  ultimately show ?thesis using run by blast
qed

text \<open>C8. The outcome of a request whose resource was read and reconciled, for every error, update and answer to the update of the
  status. The status is written when the reconciliation recorded an update, or recorded an error and the phase is not Error yet.
  An accepted status is the new one, with the phase Error after an error without an update; after an error that follows
  an update the phase keeps the value it had, because \<^verbatim>\<open>rec.Updated || SetPhaseOnError(...)\<close> skips its right side. Spec and metadata
  stay as they were. A conflict is passed over, so that the result is the one of an accepted status, although nothing is stored; any other
  refusal is the result, wrapped where the reconciliation had failed. The result is otherwise the recorded time without an
  error, and the error with one, except that a refusal for too many requests is repeated after a minute.\<close>

theorem DynaKube_Reconcile_outcome:
  assumes server: "lawfulStatus env view"
    and get: "kGet (dke_dynaKubes env) key w = (Inr dk, w1)" and clock: "dke_clock env w1 = (now, w2)"
    and run: "reconcileDynaKube env (NewReconciliation now dk, w2) = (r, w3)"
    and clock': "dke_clock env w3 = (t, w4)"
    and new: "new = (if rec_Err r \<noteq> None \<and> \<not> rec_Updated r then (dk_Status (rec_Instance r))\<lparr>st_Phase := Error\<rparr> else dk_Status (rec_Instance r))"
    and update: "dke_statusUpdate env ((rec_Instance r)\<lparr>dk_Status := new\<lparr>st_UpdatedTimestamp := t\<rparr>\<rparr>) w4 = (answer, w5)"
    and req: "DynaKube_Reconcile env key w = (res, w')"
  defines "old \<equiv> dk_Status (rec_Instance r)"
    and "report \<equiv> (case rec_Err r of None \<Rightarrow> Inr (rec_RequeueAfter r)
      | Some err \<Rightarrow> if map_option fst (asServerError err) = Some 429 then Inr timeMinute else Inl err)"
    and "place \<equiv> metaKey (dk_Meta (rec_Instance r))"
  shows "if rec_Updated r \<or> rec_Err r \<noteq> None \<and> st_Phase old \<noteq> Error
    then case answer of
        Inr _ \<Rightarrow> res = report \<and> (\<exists>stored. view w3 place = Some stored \<and>
          view w' = (view w3)(place \<mapsto> stored\<lparr>dk_Status := new\<lparr>st_UpdatedTimestamp := t\<rparr>\<rparr>))
      | Inl e \<Rightarrow> view w' = view w3 \<and> res = (if isConflict e then report
          else Inl (case rec_Err r of None \<Rightarrow> e | Some err \<Rightarrow> Wrap (''failed to update CR after failure, original, '' @ errorText err @ '', then: '') e))
    else res = report \<and> view w' = view w3"
proof -
  have fin: "finishReconcile env r w3 = (res, w')" using get clock run req by (simp add: DynaKube_Reconcile_def)
  let ?dk = "(rec_Instance r)\<lparr>dk_Status := new\<rparr>"
  have "dke_statusUpdate env (?dk\<lparr>dk_Status := (dk_Status ?dk)\<lparr>st_UpdatedTimestamp := t\<rparr>\<rparr>) w4 = (answer, w5)" using update by simp
  note upd = updateCR_answer [OF server clock' this]
  have dk: "rec_Instance r = ?dk" if "\<not> (rec_Err r \<noteq> None \<and> \<not> rec_Updated r)" using that by (auto simp: new)
  have res: "(res, w') = (if rec_Updated r \<or> rec_Err r \<noteq> None \<and> st_Phase old \<noteq> Error
      then (case answer of Inr _ \<Rightarrow> report | Inl e \<Rightarrow> if isConflict e then report
          else Inl (case rec_Err r of None \<Rightarrow> e | Some err \<Rightarrow> Wrap (''failed to update CR after failure, original, '' @ errorText err @ '', then: '') e), w5)
      else (report, w3))"
  proof (cases "rec_Err r")
    case None
    with fin upd(1) dk show ?thesis
      by (auto simp: finishReconcile_def bindE_run report_def split: sum.splits if_splits)
  next
    case (Some e)
    have phase: "SetPhaseOnError (dk_Status (rec_Instance r)) (Some e) = (st_Phase old \<noteq> Error, (dk_Status (rec_Instance r))\<lparr>st_Phase := Error\<rparr>)"
      by (auto simp: SetPhaseOnError_def SetPhase_def old_def)
    show ?thesis
    proof (cases "rec_Updated r")
      case True
      with Some fin upd(1) dk show ?thesis
        by (auto simp: finishReconcile_def bindE_run wrapE_run report_def TooManyRequests_def Let_def split: sum.splits if_splits)
    next
      case False
      with Some have "?dk = (rec_Instance r)\<lparr>dk_Status := (dk_Status (rec_Instance r))\<lparr>st_Phase := Error\<rparr>\<rparr>" by (simp add: new)
      with False Some fin upd(1) show ?thesis
        by (auto simp: finishReconcile_def phase bindE_run wrapE_run report_def TooManyRequests_def Let_def split: sum.splits if_splits)
    qed
  qed
  show ?thesis using res upd(2) by (auto simp: place_def split: sum.splits if_splits)
qed

definition exampleStored :: cluster where
  "exampleStored = exampleOaCluster\<lparr>cl_DynaKubes := [(metaKey (dk_Meta exampleQuiet), exampleQuiet)]\<rparr>"

text \<open>The token secret is missing: the conditions are updated, the error is recorded, and the phase stays empty.\<close>

lemma exampleMissing_run:
  "\<exists>r e. reconcileDynaKube (exampleController secretsOf) (NewReconciliation exampleNow exampleQuiet, exampleStored) = (r, exampleStored) \<and>
     rec_Err r = Some (ErrMsg e) \<and> rec_Updated r \<and> st_Phase (dk_Status (rec_Instance r)) = [] \<and> dk_Meta (rec_Instance r) = dk_Meta exampleQuiet"
  by (simp add: reconcileDynaKube_def reconcileStages_def reconcileTokens_def DynatraceClientReconciler_Reconcile_def exampleController_def
      secretsOf_run exampleStored_def exampleOaCluster_def emptyCluster_def exampleQuiet_def NewReconciliation_def timeIsZero_def
      exampleNow_def migrateConditions_def tokenConfigs_def reportAll_def reportCondition_def setCondition_def listConditions_def
      Let_def zero_defs rec_Update_def rec_Error_def)

theorem DynaKube_Reconcile_outcome_witness:
  "\<exists>e w' stored. DynaKube_Reconcile (exampleController secretsOf) (metaKey (dk_Meta exampleQuiet)) exampleStored = (Inl (ErrMsg e), w') \<and>
     map_of (cl_DynaKubes w') (metaKey (dk_Meta exampleQuiet)) = Some stored \<and> st_Phase (dk_Status stored) = []"
proof -
  let ?C = "exampleController secretsOf" and ?key = "metaKey (dk_Meta exampleQuiet)"
  obtain r e where run: "reconcileDynaKube ?C (NewReconciliation exampleNow exampleQuiet, exampleStored) = (r, exampleStored)"
    and r: "rec_Err r = Some (ErrMsg e)" "rec_Updated r" "st_Phase (dk_Status (rec_Instance r)) = []" "dk_Meta (rec_Instance r) = dk_Meta exampleQuiet"
    using exampleMissing_run by blast
  obtain res w' where req: "DynaKube_Reconcile ?C ?key exampleStored = (res, w')" by (meson surj_pair)
  have get: "kGet (dke_dynaKubes ?C) ?key exampleStored = (Inr exampleQuiet, exampleStored)"
    by (simp add: exampleController_def dynaKubesOf_run exampleStored_def)
  have clock: "dke_clock ?C exampleStored = (exampleNow, exampleStored)" by (simp add: exampleController_def)
  let ?new = "if rec_Err r \<noteq> None \<and> \<not> rec_Updated r then (dk_Status (rec_Instance r))\<lparr>st_Phase := Error\<rparr> else dk_Status (rec_Instance r)"
  obtain u w5 where upd: "dke_statusUpdate ?C ((rec_Instance r)\<lparr>dk_Status := ?new\<lparr>st_UpdatedTimestamp := exampleNow\<rparr>\<rparr>) exampleStored = (Inr u, w5)"
    by (simp add: exampleController_def storeStatus_def exampleStored_def r)
  from DynaKube_Reconcile_outcome [OF exampleController_status get clock run clock refl upd req] r req show ?thesis by auto
qed

end
