(* ===== verification/Webhook.thy ===== *)
theory Webhook
  imports Cluster
begin

text \<open>
  The admission webhook (\<^verbatim>\<open>src/webhook\<close>): it mutates the pods of namespaces that are assigned to a
  resource, so that the code modules are preloaded into every container. The decoder of requests, the
  JSON encoder of pods and the API server are parameters. A run-time panic of the handler is an
  error value; the handler itself never returns a Go error, its failures are responses.
\<close>

section \<open>Names (config.go)\<close>

definition LabelInstance :: string where "LabelInstance = ''oneagent.dynatrace.com/instance''"
definition AnnotationInject :: string where "AnnotationInject = ''oneagent.dynatrace.com/inject''"
definition AnnotationInjected :: string where "AnnotationInjected = ''oneagent.dynatrace.com/injected''"
definition AnnotationTechnologies :: string where "AnnotationTechnologies = ''oneagent.dynatrace.com/technologies''"
definition AnnotationInstallPath :: string where "AnnotationInstallPath = ''oneagent.dynatrace.com/install-path''"
definition AnnotationInstallerUrl :: string where "AnnotationInstallerUrl = ''oneagent.dynatrace.com/installer-url''"
definition AnnotationFailurePolicy :: string where "AnnotationFailurePolicy = ''oneagent.dynatrace.com/failure-policy''"
definition DefaultInstallPath :: string where "DefaultInstallPath = ''/opt/dynatrace/oneagent-paas''"
definition SecretConfigName :: string where "SecretConfigName = ''dynatrace-dynakube-config''"
definition InstallContainerName :: string where "InstallContainerName = ''install-oneagent''"
definition csi_DriverName :: string where "csi_DriverName = ''csi.oneagent.dynatrace.com''"
definition FlavorMultidistro :: string where "FlavorMultidistro = ''multidistro''"

section \<open>Library functions\<close>

text \<open>\<^verbatim>\<open>url.QueryEscape\<close> on bytes: a space becomes a plus sign, other reserved bytes two upper case hexadecimal digits.\<close>

definition upperHex :: "nat \<Rightarrow> char" where
  "upperHex d = (if d < 10 then char_of (48 + d) else char_of (55 + d))"

definition unreserved :: "char \<Rightarrow> bool" where
  "unreserved c \<longleftrightarrow>
     (let n = (of_char c :: nat)
      in 48 \<le> n \<and> n \<le> 57 \<or> 65 \<le> n \<and> n \<le> 90 \<or> 97 \<le> n \<and> n \<le> 122 \<or> c \<in> set ''-_.~'')"

definition escapeByte :: "char \<Rightarrow> string" where
  "escapeByte c =
     (if unreserved c then [c] else if c = CHR '' '' then ''+''
      else [CHR ''%'', upperHex (of_char c div 16), upperHex (of_char c mod 16)])"

definition queryEscape :: "string \<Rightarrow> string" where
  "queryEscape s = concat (map escapeByte s)"

text \<open>\<^verbatim>\<open>basePodName[:strings.LastIndex(basePodName, "-")]\<close>, all of it where there is no dash.\<close>

definition beforeLastDash :: "string \<Rightarrow> string" where
  "beforeLastDash s = (if CHR ''-'' \<in> set s then rev (tl (dropWhile (\<lambda>c. c \<noteq> CHR ''-'') (rev s))) else s)"

section \<open>Data (server.go)\<close>

record WebhookPod =
  wp_Name :: string
  wp_GenerateName :: string
  wp_Annotations :: "string gomap option"
  wp_Spec :: PodSpec

record podInjector =
  pi_image :: string
  pi_namespace :: string
  pi_apmExists :: bool
  pi_clusterID :: string

record admissionRequest =
  req_Namespace :: string
  req_Raw :: string

text \<open>
  \<open>Patched\<close> is a response without changes, \<open>PatchResponse\<close> the patch from the raw object to a new one.
\<close>

datatype admissionResponse = Patched | Errored int goerr | PatchResponse string string

record 'w webhook_env =
  we_namespaces :: "('w, Namespace) kclient"
  we_dynaKubes :: "('w, DynaKube) kclient"
  we_Decode :: "string \<Rightarrow> goerr + WebhookPod"
  we_marshal :: "WebhookPod \<Rightarrow> goerr + string"
  we_version :: string

definition StatusBadRequest :: int where "StatusBadRequest = 400"
definition StatusInternalServerError :: int where "StatusInternalServerError = 500"

definition panicIndex :: goerr where "panicIndex = ErrMsg ''panic: index out of range''"
definition panicNil :: goerr where "panicNil = ErrMsg ''panic: nil pointer dereference''"

section \<open>Containers\<close>

definition updateInstallContainer :: "Container \<Rightarrow> nat \<Rightarrow> string \<Rightarrow> string \<Rightarrow> Container" where
  "updateInstallContainer ic number name img =
     ic\<lparr>ct_Env := ct_Env ic @
       [envValue (''CONTAINER_'' @ itoa number @ ''_NAME'') name, envValue (''CONTAINER_'' @ itoa number @ ''_IMAGE'') img]\<rparr>"

definition installPathOf :: "string gomap option \<Rightarrow> string" where
  "installPathOf annotations = GetField annotations AnnotationInstallPath DefaultInstallPath"

definition updateContainer :: "string \<Rightarrow> string \<Rightarrow> DynaKube \<Rightarrow> string gomap option \<Rightarrow> Container \<Rightarrow> Container" where
  "updateContainer version clusterID oa annotations c =
     (let installPath = installPathOf annotations; spec = dk_Spec oa
      in c\<lparr>ct_VolumeMounts := ct_VolumeMounts c @
             [\<lparr>vm_Name = ''oneagent-share'', vm_ReadOnly = False, vm_MountPath = ''/etc/ld.so.preload'', vm_SubPath = ''ld.so.preload''\<rparr>,
              \<lparr>vm_Name = ''oneagent-bin'', vm_ReadOnly = False, vm_MountPath = installPath, vm_SubPath = []\<rparr>,
              \<lparr>vm_Name = ''oneagent-share'', vm_ReadOnly = False,
               vm_MountPath = ''/var/lib/dynatrace/oneagent/agent/config/container.conf'',
               vm_SubPath = ''container_'' @ ct_Name c @ ''.conf''\<rparr>],
           ct_Env := ct_Env c @
             [envValue ''LD_PRELOAD'' (installPath @ ''/agent/lib64/liboneagentproc.so''),
              envValue ''DT_DEPLOYMENT_METADATA'' (AsString version clusterID)]
             @ (case spec_Proxy spec of None \<Rightarrow> []
                | Some p \<Rightarrow> if px_Value p \<noteq> [] \<or> px_ValueFrom p \<noteq> []
                            then [envFrom ''DT_PROXY'' (SecretKeyRef SecretConfigName ''proxy'')] else [])
             @ (if spec_NetworkZone spec \<noteq> [] then [envValue ''DT_NETWORK_ZONE'' (spec_NetworkZone spec)] else [])\<rparr>)"

text \<open>The loop over the containers of a new pod: it lists each in the install container and prepares it.\<close>

fun injectContainers :: "(Container \<Rightarrow> Container) \<Rightarrow> nat \<Rightarrow> Container list \<Rightarrow> Container \<Rightarrow> Container list \<times> Container" where
  "injectContainers upd i [] ic = ([], ic)"
| "injectContainers upd i (c # cs) ic =
     (case injectContainers upd (i + 1) cs (updateInstallContainer ic (i + 1) (ct_Name c) (ct_Image c)) of
        (cs', ic') \<Rightarrow> (upd c # cs', ic'))"

definition preloaded :: "Container \<Rightarrow> bool" where
  "preloaded c = list_ex (\<lambda>e. env_Name e = ''LD_PRELOAD'') (ct_Env c)"

text \<open>A change of the first init container of the webhook; without one the pointer is nil.\<close>

fun updateInstalled :: "(Container \<Rightarrow> Container) \<Rightarrow> Container list \<Rightarrow> Container list option" where
  "updateInstalled f [] = None"
| "updateInstalled f (ic # ics) =
     (if ct_Name ic = InstallContainerName then Some (f ic # ics)
      else map_option (\<lambda>ics'. ic # ics') (updateInstalled f ics))"

text \<open>The loop over the containers of a pod that was injected before.\<close>

fun reinvokeContainers ::
  "(Container \<Rightarrow> Container) \<Rightarrow> nat \<Rightarrow> Container list \<Rightarrow> Container list \<Rightarrow> goerr + bool \<times> Container list \<times> Container list" where
  "reinvokeContainers upd i [] ics = Inr (False, [], ics)"
| "reinvokeContainers upd i (c # cs) ics =
     (if preloaded c
      then (case reinvokeContainers upd (i + 1) cs ics of
              Inl e \<Rightarrow> Inl e | Inr (needsUpdate, cs', ics') \<Rightarrow> Inr (needsUpdate, c # cs', ics'))
      else (case updateInstalled (\<lambda>ic. updateInstallContainer ic (i + 1) (ct_Name c) (ct_Image c)) ics of
              None \<Rightarrow> Inl panicNil
            | Some ics1 \<Rightarrow>
                (case reinvokeContainers upd (i + 1) cs ics1 of
                   Inl e \<Rightarrow> Inl e | Inr (_, cs', ics') \<Rightarrow> Inr (True, upd c # cs', ics'))))"

section \<open>The mutation of a new pod\<close>

definition volumeOf :: "DynaKube \<Rightarrow> VolumeSource" where
  "volumeOf oa =
     (let dkVol = cms_Volume (spec_CodeModules (dk_Spec oa))
      in if dkVol = zeroVolumeSource then dkVol\<lparr>vs_CSIDriver := Some csi_DriverName\<rparr> else dkVol)"

definition installContainer :: "podInjector \<Rightarrow> DynaKube \<Rightarrow> WebhookPod \<Rightarrow> SecurityContext option \<Rightarrow> Container" where
  "installContainer m oa pod sc =
     (let annotations = wp_Annotations pod;
          basePodName = (if wp_GenerateName pod = [] then wp_Name pod else wp_GenerateName pod)
      in zeroContainer
        \<lparr>ct_Name := InstallContainerName, ct_Image := pi_image m, ct_ImagePullPolicy := PullAlways,
         ct_Command := [''/usr/bin/env''], ct_Args := [''bash'', ''/mnt/config/init.sh''],
         ct_Env :=
           [envValue ''FLAVOR'' FlavorMultidistro,
            envValue ''TECHNOLOGIES'' (queryEscape (GetField annotations AnnotationTechnologies ''all'')),
            envValue ''INSTALLPATH'' (installPathOf annotations),
            envValue ''INSTALLER_URL'' (GetField annotations AnnotationInstallerUrl []),
            envValue ''FAILURE_POLICY'' (GetField annotations AnnotationFailurePolicy ''silent''),
            envValue ''CONTAINERS_COUNT'' (itoa (length (pod_Containers (wp_Spec pod)))),
            envValue ''MODE'' (if vs_EmptyDir (volumeOf oa) then ''installer'' else ''provisioned''),
            envFrom ''K8S_PODNAME'' (FieldRef ''metadata.name''), envFrom ''K8S_PODUID'' (FieldRef ''metadata.uid''),
            envValue ''K8S_BASEPODNAME'' (beforeLastDash basePodName),
            envFrom ''K8S_NAMESPACE'' (FieldRef ''metadata.namespace''), envFrom ''K8S_NODE_NAME'' (FieldRef ''spec.nodeName'')],
         ct_SecurityContext := sc,
         ct_VolumeMounts :=
           [\<lparr>vm_Name = ''oneagent-bin'', vm_ReadOnly = False, vm_MountPath = ''/mnt/bin'', vm_SubPath = []\<rparr>,
            \<lparr>vm_Name = ''oneagent-share'', vm_ReadOnly = False, vm_MountPath = ''/mnt/share'', vm_SubPath = []\<rparr>,
            \<lparr>vm_Name = ''oneagent-config'', vm_ReadOnly = False, vm_MountPath = ''/mnt/config'', vm_SubPath = []\<rparr>],
         ct_Resources := cms_Resources (spec_CodeModules (dk_Spec oa))\<rparr>)"

definition injectionVolumes :: "DynaKube \<Rightarrow> Volume list" where
  "injectionVolumes oa =
     [\<lparr>vol_Name = ''oneagent-bin'', vol_Source = volumeOf oa\<rparr>,
      \<lparr>vol_Name = ''oneagent-share'', vol_Source = zeroVolumeSource\<lparr>vs_EmptyDir := True\<rparr>\<rparr>,
      \<lparr>vol_Name = ''oneagent-config'', vol_Source = zeroVolumeSource\<lparr>vs_Secret := Some (SecretConfigName, [])\<rparr>\<rparr>]"

text \<open>
  From the annotation on: the parts of \<^verbatim>\<open>Handle\<close> that change a pod that was not injected before. A pod
  without containers ends in \<^verbatim>\<open>pod.Spec.Containers[0]\<close>.
\<close>

definition injectPod :: "string \<Rightarrow> podInjector \<Rightarrow> DynaKube \<Rightarrow> WebhookPod \<Rightarrow> goerr + WebhookPod" where
  "injectPod version m oa pod0 =
     (let annotations = Some (AList.update AnnotationInjected ''true'' (entries (wp_Annotations pod0)));
          pod = pod0\<lparr>wp_Annotations := annotations\<rparr>;
          spec = wp_Spec pod
      in case pod_Containers spec of
           [] \<Rightarrow> Inl panicIndex
         | c0 # _ \<Rightarrow>
             (case injectContainers (updateContainer version (pi_clusterID m) oa annotations) 0 (pod_Containers spec)
                     (installContainer m oa pod (ct_SecurityContext c0)) of
                (cs, ic) \<Rightarrow>
                  Inr (pod\<lparr>wp_Spec := spec
                    \<lparr>pod_Volumes := pod_Volumes spec @ injectionVolumes oa, pod_Containers := cs,
                     pod_InitContainers := pod_InitContainers spec @ [ic]\<rparr>\<rparr>)))"

definition reinvokePod :: "string \<Rightarrow> podInjector \<Rightarrow> DynaKube \<Rightarrow> WebhookPod \<Rightarrow> goerr + bool \<times> WebhookPod" where
  "reinvokePod version m oa pod =
     (case reinvokeContainers (updateContainer version (pi_clusterID m) oa (wp_Annotations pod)) 0
             (pod_Containers (wp_Spec pod)) (pod_InitContainers (wp_Spec pod)) of
        Inl e \<Rightarrow> Inl e
      | Inr (needsUpdate, cs, ics) \<Rightarrow>
          Inr (needsUpdate, pod\<lparr>wp_Spec := (wp_Spec pod)\<lparr>pod_Containers := cs, pod_InitContainers := ics\<rparr>\<rparr>))"

section \<open>The handler\<close>

definition getResponse :: "'w webhook_env \<Rightarrow> WebhookPod \<Rightarrow> admissionRequest \<Rightarrow> admissionResponse" where
  "getResponse env pod req =
     (case we_marshal env pod of
        Inl err \<Rightarrow> Errored StatusInternalServerError err
      | Inr marshaledPod \<Rightarrow> PatchResponse (req_Raw req) marshaledPod)"

definition injectionWanted :: "Namespace \<Rightarrow> WebhookPod \<Rightarrow> bool" where
  "injectionWanted ns pod \<longleftrightarrow>
     GetField (wp_Annotations pod) AnnotationInject (GetField (ns_Annotations ns) AnnotationInject ''true'') \<noteq> ''false''"

definition isInjected :: "WebhookPod \<Rightarrow> bool" where
  "isInjected pod \<longleftrightarrow> goget (entries (wp_Annotations pod)) AnnotationInjected [] = ''true''"

text \<open>What the handler does to a pod of an enabled resource; \<^verbatim>\<open>None\<close> for a response without changes.\<close>

definition mutatePod :: "string \<Rightarrow> podInjector \<Rightarrow> DynaKube \<Rightarrow> WebhookPod \<Rightarrow> goerr + WebhookPod option" where
  "mutatePod version m oa pod0 =
     (let pod = pod0\<lparr>wp_Annotations := Some (entries (wp_Annotations pod0))\<rparr>
      in if isInjected pod
         then (if FeatureEnableWebhookReinvocationPolicy oa
               then (case reinvokePod version m oa pod of
                       Inl e \<Rightarrow> Inl e
                     | Inr (needsUpdate, pod') \<Rightarrow> Inr (if needsUpdate then Some pod' else None))
               else Inr None)
         else (case injectPod version m oa pod of Inl e \<Rightarrow> Inl e | Inr pod' \<Rightarrow> Inr (Some pod')))"

definition Webhook_Handle :: "'w webhook_env \<Rightarrow> podInjector \<Rightarrow> admissionRequest \<Rightarrow> ('w, admissionResponse) act" where
  "Webhook_Handle env m req =
     (if pi_apmExists m then retE Patched
      else case we_Decode env (req_Raw req) of
        Inl err \<Rightarrow> retE (Errored StatusBadRequest err)
      | Inr pod \<Rightarrow>
          catchE (kGet (we_namespaces env) ([], req_Namespace req)) (\<lambda>err. retE (Errored StatusInternalServerError err)) (\<lambda>ns.
          if \<not> injectionWanted ns pod then retE Patched
          else
            let oaName = GetField (ns_Labels ns) LabelInstance []
            in if oaName = []
               then retE (Errored StatusBadRequest (ErrMsg (''no DynaKube instance set for namespace: '' @ req_Namespace req)))
               else
                 catchE (kGet (we_dynaKubes env) (pi_namespace m, oaName))
                   (\<lambda>err. if isNotFound err
                          then retE (Errored StatusBadRequest (ErrMsg (''namespace '' @ [CHR 0x27] @ req_Namespace req @ [CHR 0x27]
                                 @ '' is assigned to DynaKube instance '' @ [CHR 0x27] @ oaName @ [CHR 0x27] @ '' but doesn'' @ [CHR 0x27] @ ''t exist'')))
                          else retE (Errored StatusInternalServerError err))
                   (\<lambda>oa. if \<not> cms_Enabled (spec_CodeModules (dk_Spec oa)) then retE Patched
                         else case mutatePod (we_version env) m oa pod of
                                Inl panic \<Rightarrow> raiseE panic
                              | Inr None \<Rightarrow> retE Patched
                              | Inr (Some pod') \<Rightarrow> retE (getResponse env pod' req))))"

section \<open>Registration\<close>

text \<open>\<^verbatim>\<open>CheckIfOneAgentAPMExists\<close> on what the discovery client returns: the kinds of each resource list.\<close>

definition CheckIfOneAgentAPMExists :: "('w, string list list) act \<Rightarrow> ('w, bool) act" where
  "CheckIfOneAgentAPMExists serverGroupsAndResources =
     bindE serverGroupsAndResources (\<lambda>resourceList. retE (list_ex (list_ex (\<lambda>kind. kind = ''OneAgentAPM'')) resourceList))"

text \<open>The injector that is registered; the image is that of the first container of the webhook's own pod.\<close>

definition registerInjectEndpoint ::
  "('w, string list list) act \<Rightarrow> (objkey \<Rightarrow> ('w, WebhookPod) act) \<Rightarrow> ('w, Namespace) kclient \<Rightarrow> string \<Rightarrow> string \<Rightarrow> ('w, podInjector) act" where
  "registerInjectEndpoint discovery getPod namespaces ns podName =
     bindE (CheckIfOneAgentAPMExists discovery) (\<lambda>apmExists.
     bindE (getPod (ns, podName)) (\<lambda>pod.
     bindE (GetUID namespaces) (\<lambda>uid.
       case pod_Containers (wp_Spec pod) of
         [] \<Rightarrow> raiseE panicIndex
       | c # _ \<Rightarrow> retE \<lparr>pi_image = ct_Image c, pi_namespace = ns, pi_apmExists = apmExists, pi_clusterID = uid\<rparr>)))"

definition registerDebugInjectEndpoint :: "string \<Rightarrow> podInjector" where
  "registerDebugInjectEndpoint ns = \<lparr>pi_image = [], pi_namespace = ns, pi_apmExists = False, pi_clusterID = []\<rparr>"

definition Webhook_AddToManager ::
  "('w, string list list) act \<Rightarrow> (objkey \<Rightarrow> ('w, WebhookPod) act) \<Rightarrow> ('w, Namespace) kclient \<Rightarrow> (string \<Rightarrow> string) \<Rightarrow> string \<Rightarrow> ('w, podInjector) act" where
  "Webhook_AddToManager discovery getPod namespaces getenv ns =
     (let podName = getenv ''POD_NAME''
      in if podName = [] \<and> getenv ''DEBUG_OPERATOR'' = ''true'' then retE (registerDebugInjectEndpoint ns)
         else registerInjectEndpoint discovery getPod namespaces ns podName)"

section \<open>Lemmas: the containers\<close>

definition listing :: "nat \<Rightarrow> Container \<Rightarrow> EnvVar list" where
  "listing i c = [envValue (''CONTAINER_'' @ itoa i @ ''_NAME'') (ct_Name c), envValue (''CONTAINER_'' @ itoa i @ ''_IMAGE'') (ct_Image c)]"

definition listings :: "nat \<Rightarrow> Container list \<Rightarrow> EnvVar list" where
  "listings i cs = concat (map (\<lambda>(j, c). listing j c) (enumerate i cs))"

lemma listings_Cons [simp]: "listings i (c # cs) = listing i c @ listings (Suc i) cs" and listings_Nil [simp]: "listings i [] = []"
  by (simp_all add: listings_def)

lemma injectContainers_eq:
  "injectContainers upd i cs ic = (map upd cs, ic\<lparr>ct_Env := ct_Env ic @ listings (Suc i) cs\<rparr>)"
  by (induction upd i cs ic rule: injectContainers.induct) (simp_all add: updateInstallContainer_def listing_def)

lemma updateContainer_simps [simp]:
  "ct_Name (updateContainer v k oa a c) = ct_Name c" "ct_Image (updateContainer v k oa a c) = ct_Image c"
  "preloaded (updateContainer v k oa a c)"
  by (simp_all add: updateContainer_def Let_def preloaded_def envValue_def)

text \<open>The names of the variables of the install container are told apart.\<close>

lemma listing_names:
  "''CONTAINER_'' @ itoa i @ ''_NAME'' = ''CONTAINER_'' @ itoa j @ ''_NAME'' \<longleftrightarrow> i = j"
  "''CONTAINER_'' @ itoa i @ ''_IMAGE'' = ''CONTAINER_'' @ itoa j @ ''_IMAGE'' \<longleftrightarrow> i = j"
  "''CONTAINER_'' @ itoa i @ ''_NAME'' \<noteq> ''CONTAINER_'' @ itoa j @ ''_IMAGE''"
  "''CONTAINER_'' @ itoa i @ ''_IMAGE'' \<noteq> ''CONTAINER_'' @ itoa j @ ''_NAME''"
proof -
  have "rev (itoa i @ ''_NAME'') \<noteq> rev (itoa j @ ''_IMAGE'')" for i j by simp
  then show "''CONTAINER_'' @ itoa i @ ''_NAME'' \<noteq> ''CONTAINER_'' @ itoa j @ ''_IMAGE''"
    "''CONTAINER_'' @ itoa i @ ''_IMAGE'' \<noteq> ''CONTAINER_'' @ itoa j @ ''_NAME''" by (metis append_same_eq same_append_eq)+
qed (simp_all add: itoa_inj)

lemma filter_listings:
  "filter (\<lambda>e. env_Name e = ''CONTAINER_'' @ itoa k @ ''_NAME'') (listings i cs) =
     (if i \<le> k \<and> k < i + length cs then [envValue (''CONTAINER_'' @ itoa k @ ''_NAME'') (ct_Name (cs ! (k - i)))] else [])"
  "filter (\<lambda>e. env_Name e = ''CONTAINER_'' @ itoa k @ ''_IMAGE'') (listings i cs) =
     (if i \<le> k \<and> k < i + length cs then [envValue (''CONTAINER_'' @ itoa k @ ''_IMAGE'') (ct_Image (cs ! (k - i)))] else [])"
  by (induction cs arbitrary: i)
    (auto simp: listing_def envValue_def listing_names itoa_inj nth_Cons' simp del: append.simps split: if_splits)

lemma filter_listings_other:
  assumes "\<not> prefix ''CONTAINER_'' n"
  shows "filter (\<lambda>e. env_Name e = n) (listings i cs) = []"
  using assms by (induction cs arbitrary: i) (auto simp: listing_def envValue_def)

text \<open>A single variable of a container, by its name.\<close>

definition hasVar :: "Container \<Rightarrow> string \<Rightarrow> string \<Rightarrow> bool" where
  "hasVar c n v \<longleftrightarrow> filter (\<lambda>e. env_Name e = n) (ct_Env c) = [envValue n v]"

lemma filter_env_append: "filter P (ct_Env (ic\<lparr>ct_Env := ct_Env ic @ es\<rparr>)) = filter P (ct_Env ic) @ filter P es"
  by simp

lemma installContainer_var:
  assumes "prefix ''CONTAINER_'' n"
  shows "filter (\<lambda>e. env_Name e = n) (ct_Env (installContainer m oa pod sc)) = []"
proof -
  have "list_all (\<lambda>e. \<not> prefix ''CONTAINER_'' (env_Name e)) (ct_Env (installContainer m oa pod sc))"
    by (simp add: installContainer_def Let_def envValue_def envFrom_def)
  with assms show ?thesis by (auto simp: filter_empty_conv list_all_iff)
qed

lemma installContainer_count: "hasVar (installContainer m oa pod sc) ''CONTAINERS_COUNT'' (itoa (length (pod_Containers (wp_Spec pod))))"
  by (simp add: hasVar_def installContainer_def Let_def envValue_def envFrom_def)

definition installedContainer :: "podInjector \<Rightarrow> DynaKube \<Rightarrow> WebhookPod \<Rightarrow> SecurityContext option \<Rightarrow> Container" where
  "installedContainer m oa pod sc = (installContainer m oa pod sc)
     \<lparr>ct_Env := ct_Env (installContainer m oa pod sc) @ listings 1 (pod_Containers (wp_Spec pod))\<rparr>"

lemma installedContainer_vars:
  shows "ct_Name (installedContainer m oa pod sc) = InstallContainerName"
    and "hasVar (installedContainer m oa pod sc) ''CONTAINERS_COUNT'' (itoa (length (pod_Containers (wp_Spec pod))))"
    and "i < length (pod_Containers (wp_Spec pod)) \<Longrightarrow>
      hasVar (installedContainer m oa pod sc) (''CONTAINER_'' @ itoa (Suc i) @ ''_NAME'') (ct_Name (pod_Containers (wp_Spec pod) ! i)) \<and>
      hasVar (installedContainer m oa pod sc) (''CONTAINER_'' @ itoa (Suc i) @ ''_IMAGE'') (ct_Image (pod_Containers (wp_Spec pod) ! i))"
proof -
  show "ct_Name (installedContainer m oa pod sc) = InstallContainerName"
    by (simp add: installedContainer_def installContainer_def Let_def)
  show "hasVar (installedContainer m oa pod sc) ''CONTAINERS_COUNT'' (itoa (length (pod_Containers (wp_Spec pod))))"
    using installContainer_count [of m oa pod sc] by (simp add: hasVar_def installedContainer_def filter_listings_other)
  show "hasVar (installedContainer m oa pod sc) (''CONTAINER_'' @ itoa (Suc i) @ ''_NAME'') (ct_Name (pod_Containers (wp_Spec pod) ! i)) \<and>
      hasVar (installedContainer m oa pod sc) (''CONTAINER_'' @ itoa (Suc i) @ ''_IMAGE'') (ct_Image (pod_Containers (wp_Spec pod) ! i))"
    if "i < length (pod_Containers (wp_Spec pod))"
    using that unfolding hasVar_def installedContainer_def filter_env_append filter_listings
    by (simp add: installContainer_var del: append.simps)
qed

lemma installedContainer_next:
  assumes "k = Suc (length (pod_Containers (wp_Spec pod)))"
  shows "hasVar (updateInstallContainer (installedContainer m oa pod sc) k name img) (''CONTAINER_'' @ itoa k @ ''_NAME'') name"
proof -
  have "filter (\<lambda>e. env_Name e = ''CONTAINER_'' @ itoa k @ ''_NAME'') (ct_Env (installedContainer m oa pod sc)) = []"
    unfolding installedContainer_def filter_env_append filter_listings using assms
    by (simp add: installContainer_var del: append.simps)
  then show ?thesis
    unfolding hasVar_def updateInstallContainer_def filter_env_append
    by (simp add: envValue_def listing_names del: append.simps)
qed

lemma injectPod_Inr:
  assumes "injectPod version m oa pod = Inr pod'"
  defines "a \<equiv> Some (AList.update AnnotationInjected ''true'' (entries (wp_Annotations pod)))"
  shows "wp_Annotations pod' = a"
    and "pod_Containers (wp_Spec pod') = map (updateContainer version (pi_clusterID m) oa a) (pod_Containers (wp_Spec pod))"
    and "\<exists>sc. pod_InitContainers (wp_Spec pod') = pod_InitContainers (wp_Spec pod) @
           [installedContainer m oa (pod\<lparr>wp_Annotations := a\<rparr>) sc]"
    and "pod_Volumes (wp_Spec pod') = pod_Volumes (wp_Spec pod) @ injectionVolumes oa"
  using assms(1) unfolding injectPod_def Let_def a_def [symmetric]
  by (auto simp: injectContainers_eq installedContainer_def split: list.splits)

lemma isInjected_update: "isInjected (pod\<lparr>wp_Annotations := Some (AList.update AnnotationInjected ''true'' m)\<rparr>)"
  by (simp add: isInjected_def goget_def entries_def update_conv')

section \<open>Lemmas: a second call\<close>

lemma reinvokeContainers_done: "list_all preloaded cs \<Longrightarrow> reinvokeContainers upd i cs ics = Inr (False, cs, ics)"
  by (induction cs arbitrary: i) simp_all

lemma reinvokeContainers_preloads:
  assumes "\<And>c. preloaded (upd c)" and "reinvokeContainers upd i cs ics = Inr (b, cs', ics')"
  shows "list_all preloaded cs'"
  using assms(2) by (induction cs arbitrary: i ics b cs' ics')
    (auto simp: assms(1) split: if_splits sum.splits option.splits)

lemma mutatePod_None:
  assumes "isInjected pod" and "list_all preloaded (pod_Containers (wp_Spec pod))" and "wp_Annotations pod \<noteq> None"
  shows "mutatePod version m oa pod = Inr None"
proof -
  have "pod\<lparr>wp_Annotations := Some (entries (wp_Annotations pod))\<rparr> = pod" using assms(3) by (auto simp: entries_def)
  with assms(1,2) show ?thesis by (simp add: mutatePod_def reinvokePod_def reinvokeContainers_done)
qed

lemma updateInstalled_last:
  assumes "ct_Name ic = InstallContainerName" and "\<forall>d \<in> set ics. ct_Name d \<noteq> InstallContainerName"
  shows "updateInstalled f (ics @ [ic]) = Some (ics @ [f ic])"
  using assms by (induction ics) simp_all

lemma reinvokeContainers_append:
  assumes "list_all preloaded cs"
  shows "reinvokeContainers upd i (cs @ ds) ics =
    map_sum id (\<lambda>(b, ds', ics'). (b, cs @ ds', ics')) (reinvokeContainers upd (i + length cs) ds ics)"
  using assms
proof (induction cs arbitrary: i)
  case (Cons c cs)
  then show ?case by (cases "reinvokeContainers upd (Suc (i + length cs)) ds ics") auto
next
  case Nil
  show ?case by (cases "reinvokeContainers upd i ds ics") auto
qed

lemma reinvokePod_Inr:
  assumes "reinvokePod version m oa pod = Inr (b, pod')"
  obtains cs ics where "reinvokeContainers (updateContainer version (pi_clusterID m) oa (wp_Annotations pod)) 0
      (pod_Containers (wp_Spec pod)) (pod_InitContainers (wp_Spec pod)) = Inr (b, cs, ics)"
    and "pod' = pod\<lparr>wp_Spec := (wp_Spec pod)\<lparr>pod_Containers := cs, pod_InitContainers := ics\<rparr>\<rparr>"
  using assms unfolding reinvokePod_def by (cases "reinvokeContainers (updateContainer version (pi_clusterID m) oa (wp_Annotations pod)) 0
      (pod_Containers (wp_Spec pod)) (pod_InitContainers (wp_Spec pod))") auto

section \<open>Properties\<close>


text \<open>C10. The mutation is idempotent: what the webhook has produced, at the first call or at a reinvocation, it
  leaves alone when it sees it again.\<close>

theorem mutatePod_idempotent:
  assumes "mutatePod version m oa pod = Inr (Some pod')"
  shows "mutatePod version' m' oa' pod' = Inr None"
proof -
  define q where "q = pod\<lparr>wp_Annotations := Some (entries (wp_Annotations pod))\<rparr>"
  have annotated: "wp_Annotations q \<noteq> None" by (simp add: q_def)
  note run = assms [unfolded mutatePod_def Let_def, folded q_def]
  show ?thesis
  proof (cases "isInjected q")
    case True
    with run obtain b where "reinvokePod version m oa q = Inr (b, pod')"
      by (cases "reinvokePod version m oa q") (simp_all split: if_splits prod.splits)
    then obtain cs ics where "reinvokeContainers (updateContainer version (pi_clusterID m) oa (wp_Annotations q)) 0
        (pod_Containers (wp_Spec q)) (pod_InitContainers (wp_Spec q)) = Inr (b, cs, ics)"
      and pod': "pod' = q\<lparr>wp_Spec := (wp_Spec q)\<lparr>pod_Containers := cs, pod_InitContainers := ics\<rparr>\<rparr>"
      by (rule reinvokePod_Inr)
    then have "list_all preloaded cs" by (metis reinvokeContainers_preloads updateContainer_simps(3))
    with True annotated show ?thesis unfolding pod' by (intro mutatePod_None) (simp_all add: isInjected_def)
  next
    case False
    with run have inject: "injectPod version m oa q = Inr pod'" by (simp split: sum.splits)
    note parts = injectPod_Inr [OF inject]
    have "isInjected pod'" using isInjected_update parts(1) by (simp add: isInjected_def)
    then show ?thesis by (intro mutatePod_None) (simp_all add: parts(1,2) list_all_iff)
  qed
qed

definition exampleInjector :: podInjector where
  "exampleInjector = \<lparr>pi_image = ''operator'', pi_namespace = ''dynatrace'', pi_apmExists = False, pi_clusterID = ''uid''\<rparr>"

definition exampleReinvoked :: DynaKube where
  "exampleReinvoked = zeroDynaKube\<lparr>dk_Meta := emptyMeta\<lparr>om_Name := ''dynakube'', om_Namespace := ''dynatrace'',
     om_Annotations := Some [(annotationFeaturePrefix @ ''enable-webhook-reinvocation-policy'', ''true'')]\<rparr>\<rparr>"

definition examplePod :: WebhookPod where
  "examplePod = \<lparr>wp_Name = ''app-x'', wp_GenerateName = [], wp_Annotations = None,
     wp_Spec = zeroPodSpec\<lparr>pod_Containers := [zeroContainer\<lparr>ct_Name := ''app'', ct_Image := ''image''\<rparr>]\<rparr>\<rparr>"

definition exampleSidecar :: Container where
  "exampleSidecar = zeroContainer\<lparr>ct_Name := ''sidecar'', ct_Image := ''proxy''\<rparr>"

lemma examplePod_mutated: "\<exists>pod'. mutatePod v exampleInjector exampleReinvoked examplePod = Inr (Some pod')"
  by (simp add: mutatePod_def isInjected_def goget_def entries_def examplePod_def injectPod_def injectContainers_eq Let_def)

theorem mutatePod_idempotent_witness:
  "\<exists>pod'. mutatePod ''v'' exampleInjector exampleReinvoked examplePod = Inr (Some pod') \<and>
     mutatePod ''v'' exampleInjector exampleReinvoked pod' = Inr None"
proof -
  obtain pod' where "mutatePod ''v'' exampleInjector exampleReinvoked examplePod = Inr (Some pod')" using examplePod_mutated by blast
  with mutatePod_idempotent [OF this] show ?thesis by blast
qed

text \<open>C40. A container that is added after the injection is never configured: the reinvocation lists it in the install
  container under the next number, but leaves \<^verbatim>\<open>CONTAINERS_COUNT\<close> as it was, and the init script counts up to that
  number only.\<close>

theorem reinvocation_stale_count:
  assumes first: "mutatePod version m oa pod = Inr (Some pod')" "\<not> isInjected pod"
    and fresh: "\<forall>d \<in> set (pod_InitContainers (wp_Spec pod)). ct_Name d \<noteq> InstallContainerName"
    and policy: "FeatureEnableWebhookReinvocationPolicy oa" and new: "\<not> preloaded c"
  defines "n \<equiv> length (pod_Containers (wp_Spec pod))"
  defines "grown \<equiv> pod'\<lparr>wp_Spec := (wp_Spec pod')\<lparr>pod_Containers := pod_Containers (wp_Spec pod') @ [c]\<rparr>\<rparr>"
  shows "\<exists>pod'' ic. mutatePod version m oa grown = Inr (Some pod'') \<and> length (pod_Containers (wp_Spec pod'')) = Suc n \<and>
    ic \<in> set (pod_InitContainers (wp_Spec pod'')) \<and> ct_Name ic = InstallContainerName \<and>
    hasVar ic ''CONTAINERS_COUNT'' (itoa n) \<and> hasVar ic (''CONTAINER_'' @ itoa (Suc n) @ ''_NAME'') (ct_Name c)"
proof -
  define q where "q = pod\<lparr>wp_Annotations := Some (entries (wp_Annotations pod))\<rparr>"
  have "\<not> isInjected q" using first(2) by (simp add: q_def isInjected_def entries_def split: option.splits)
  with first(1) have inject: "injectPod version m oa q = Inr pod'"
    by (simp add: mutatePod_def q_def [symmetric] split: sum.splits)
  note parts = injectPod_Inr [OF inject]
  let ?a = "wp_Annotations pod'" and ?n = "length (pod_Containers (wp_Spec pod'))"
  obtain sc where init: "pod_InitContainers (wp_Spec pod') = pod_InitContainers (wp_Spec pod) @ [installedContainer m oa (q\<lparr>wp_Annotations := ?a\<rparr>) sc]"
    using parts(1,3) by (auto simp: q_def)
  let ?ic = "installedContainer m oa (q\<lparr>wp_Annotations := ?a\<rparr>) sc"
  let ?new = "updateInstallContainer ?ic (Suc n) (ct_Name c) (ct_Image c)"
  note vars = installedContainer_vars [where m = m and oa = oa and pod = "q\<lparr>wp_Annotations := ?a\<rparr>" and sc = sc]
  have n: "?n = n" "length (pod_Containers (wp_Spec q)) = n" by (simp_all add: parts(2) n_def q_def)
  have "list_all preloaded (pod_Containers (wp_Spec pod'))" by (simp add: parts(2) list_all_iff)
  moreover have "updateInstalled f (pod_InitContainers (wp_Spec pod') ) = Some (pod_InitContainers (wp_Spec pod) @ [f ?ic])" for f
    unfolding init by (rule updateInstalled_last [OF vars(1) fresh])
  ultimately have re: "reinvokeContainers upd 0 (pod_Containers (wp_Spec pod') @ [c]) (pod_InitContainers (wp_Spec pod')) =
      Inr (True, pod_Containers (wp_Spec pod') @ [upd c], pod_InitContainers (wp_Spec pod) @ [?new])" for upd
    using new by (simp add: reinvokeContainers_append n)
  have "wp_Annotations grown = Some (entries (wp_Annotations grown))" using parts(1) by (simp add: grown_def entries_def)
  then have same: "grown\<lparr>wp_Annotations := Some (entries (wp_Annotations grown))\<rparr> = grown" by simp
  have "isInjected grown" using isInjected_update parts(1) by (simp add: grown_def isInjected_def)
  then obtain pod'' where "mutatePod version m oa grown = Inr (Some pod'')"
    "pod_Containers (wp_Spec pod'') = pod_Containers (wp_Spec pod') @ [updateContainer version (pi_clusterID m) oa ?a c]"
    "pod_InitContainers (wp_Spec pod'') = pod_InitContainers (wp_Spec pod) @ [?new]"
    using policy re by (simp add: mutatePod_def same reinvokePod_def) (simp add: grown_def)
  moreover have "ct_Name ?new = InstallContainerName" "hasVar ?new ''CONTAINERS_COUNT'' (itoa n)"
    using vars(1,2) n(2) by (simp_all add: updateInstallContainer_def hasVar_def envValue_def)
  moreover have "hasVar ?new (''CONTAINER_'' @ itoa (Suc n) @ ''_NAME'') (ct_Name c)"
    by (rule installedContainer_next) (simp add: n)
  ultimately show ?thesis using n by (intro exI [of _ pod''] exI [of _ ?new]) simp
qed

theorem reinvocation_stale_count_witness:
  "\<exists>pod' pod'' ic. mutatePod ''v'' exampleInjector exampleReinvoked examplePod = Inr (Some pod') \<and>
     mutatePod ''v'' exampleInjector exampleReinvoked
       (pod'\<lparr>wp_Spec := (wp_Spec pod')\<lparr>pod_Containers := pod_Containers (wp_Spec pod') @ [exampleSidecar]\<rparr>\<rparr>) = Inr (Some pod'') \<and>
     length (pod_Containers (wp_Spec pod'')) = 2 \<and> ic \<in> set (pod_InitContainers (wp_Spec pod'')) \<and>
     hasVar ic ''CONTAINERS_COUNT'' (itoa 1) \<and> hasVar ic (''CONTAINER_'' @ itoa 2 @ ''_NAME'') ''sidecar''"
proof -
  obtain pod' where first: "mutatePod ''v'' exampleInjector exampleReinvoked examplePod = Inr (Some pod')"
    using examplePod_mutated by blast
  have "\<not> isInjected examplePod" by (simp add: isInjected_def examplePod_def goget_def entries_def)
  moreover have "\<forall>d \<in> set (pod_InitContainers (wp_Spec examplePod)). ct_Name d \<noteq> InstallContainerName"
    by (simp add: examplePod_def zeroPodSpec_def)
  moreover have "FeatureEnableWebhookReinvocationPolicy exampleReinvoked"
    by (simp add: exampleReinvoked_def FeatureEnableWebhookReinvocationPolicy_def annotation_def annotationFeaturePrefix_def goget_def)
  moreover have "\<not> preloaded exampleSidecar" by (simp add: preloaded_def exampleSidecar_def zeroContainer_def)
  ultimately show ?thesis
    using first reinvocation_stale_count [OF first, of exampleSidecar]
    by (auto simp: examplePod_def exampleSidecar_def numeral_2_eq_2 simp del: append.simps)
qed

text \<open>A pod that claims to be injected, but has lost its install container, makes the handler panic as soon as one
  of its containers does not preload the agent.\<close>

theorem reinvocation_panics:
  assumes "isInjected pod" and "FeatureEnableWebhookReinvocationPolicy oa"
    and "\<forall>d \<in> set (pod_InitContainers (wp_Spec pod)). ct_Name d \<noteq> InstallContainerName"
    and "\<not> list_all preloaded (pod_Containers (wp_Spec pod))"
  shows "mutatePod version m oa pod = Inl panicNil"
proof -
  have none: "updateInstalled f ics = None" if "\<forall>d \<in> set ics. ct_Name d \<noteq> InstallContainerName" for f ics
    using that by (induction ics) simp_all
  have "reinvokeContainers upd i cs ics = Inl panicNil"
    if "\<not> list_all preloaded cs" "\<forall>d \<in> set ics. ct_Name d \<noteq> InstallContainerName" for upd i cs ics
    using that by (induction cs arbitrary: i) (simp_all add: none)
  with assms show ?thesis by (simp add: mutatePod_def isInjected_def entries_def reinvokePod_def)
qed

theorem reinvocation_panics_witness:
  "mutatePod ''v'' exampleInjector exampleReinvoked (examplePod\<lparr>wp_Annotations := Some [(AnnotationInjected, ''true'')]\<rparr>) = Inl panicNil"
  by (rule reinvocation_panics)
    (simp_all add: isInjected_def goget_def entries_def examplePod_def zeroPodSpec_def preloaded_def zeroContainer_def
      exampleReinvoked_def FeatureEnableWebhookReinvocationPolicy_def annotation_def annotationFeaturePrefix_def)

text \<open>The pod's own annotation decides, and the one of the namespace where the pod has none or an empty one.\<close>

lemma injectionWanted_iff:
  "injectionWanted ns pod \<longleftrightarrow>
     (case map_of (entries (wp_Annotations pod)) AnnotationInject of
        Some (c # cs) \<Rightarrow> c # cs \<noteq> ''false''
      | _ \<Rightarrow> map_of (entries (ns_Annotations ns)) AnnotationInject \<noteq> Some ''false'')"
proof -
  have get: "GetField m k d = (case map_of (entries m) k of Some (c # cs) \<Rightarrow> c # cs | _ \<Rightarrow> d)" for m k d
    by (auto simp: GetField_def goget_def entries_def split: option.splits list.splits)
  show ?thesis unfolding injectionWanted_def get by (auto split: option.splits list.splits)
qed

text \<open>C11. The handler changes a pod only where the injection is configured: a response with a patch means that no
  \<^verbatim>\<open>OneAgentAPM\<close> was there, the pod was decoded, the annotation of the pod does not opt out and, where the pod has none, the one
  of its namespace does not either (a pod that opts in is changed in a namespace that opts out), the namespace names a
  resource, that resource exists in the operator's namespace and enables code modules; and the patch is from the object
  that was sent to the encoded result of the mutation.\<close>

theorem Webhook_Handle_patches:
  assumes law: "lawfulGet (we_namespaces env) nsView" "lawfulGet (we_dynaKubes env) dkView"
    and other: "leaves (we_namespaces env) dkView"
    and run: "Webhook_Handle env m req w = (Inr (PatchResponse raw patched), w')"
  shows "\<exists>pod ns oa pod'. \<not> pi_apmExists m \<and> we_Decode env (req_Raw req) = Inr pod \<and>
    nsView w ([], req_Namespace req) = Some ns \<and>
    (case map_of (entries (wp_Annotations pod)) AnnotationInject of
       Some (c # cs) \<Rightarrow> c # cs \<noteq> ''false''
     | _ \<Rightarrow> map_of (entries (ns_Annotations ns)) AnnotationInject \<noteq> Some ''false'') \<and>
    GetField (ns_Labels ns) LabelInstance [] \<noteq> [] \<and>
    dkView w (pi_namespace m, GetField (ns_Labels ns) LabelInstance []) = Some oa \<and> cms_Enabled (spec_CodeModules (dk_Spec oa)) \<and>
    mutatePod (we_version env) m oa pod = Inr (Some pod') \<and> we_marshal env pod' = Inr patched \<and> raw = req_Raw req"
proof -
  obtain pod where start: "\<not> pi_apmExists m" "we_Decode env (req_Raw req) = Inr pod"
    using run by (auto simp: Webhook_Handle_def split: if_splits sum.splits)
  obtain rn w1 where getNs: "kGet (we_namespaces env) ([], req_Namespace req) w = (rn, w1)" by fastforce
  obtain ns where ns: "rn = Inr ns" "injectionWanted ns pod" "GetField (ns_Labels ns) LabelInstance [] \<noteq> []"
    using run start getNs by (cases rn) (simp_all add: Webhook_Handle_def Let_def catchE_run split: if_splits)
  let ?name = "GetField (ns_Labels ns) LabelInstance []"
  obtain ro w2 where getDk: "kGet (we_dynaKubes env) (pi_namespace m, ?name) w1 = (ro, w2)" by fastforce
  obtain oa where oa: "ro = Inr oa" "cms_Enabled (spec_CodeModules (dk_Spec oa))"
    using run start getNs ns getDk by (cases ro) (simp_all add: Webhook_Handle_def Let_def catchE_run split: if_splits)
  have "\<exists>pod'. mutatePod (we_version env) m oa pod = Inr (Some pod') \<and> getResponse env pod' req = PatchResponse raw patched"
    using run start getNs ns getDk oa
    by (cases "mutatePod (we_version env) m oa pod") (simp_all add: Webhook_Handle_def Let_def catchE_run split: option.splits)
  then obtain pod' where pod': "mutatePod (we_version env) m oa pod = Inr (Some pod')" "getResponse env pod' req = PatchResponse raw patched"
    by blast
  then have "we_marshal env pod' = Inr patched" "raw = req_Raw req"
    by (cases "we_marshal env pod'"; simp add: getResponse_def)+
  note pod'(1) this
  moreover have "nsView w ([], req_Namespace req) = Some ns" using law(1) getNs ns(1) by (fastforce simp: lawfulGet_def)
  moreover have "dkView w (pi_namespace m, ?name) = Some oa"
    using law(2) getDk oa(1) leavesD(1) [OF other getNs] by (fastforce simp: lawfulGet_def)
  ultimately show ?thesis using start ns(2) [unfolded injectionWanted_iff] ns(3) oa(2) by blast
qed

definition exampleWebhook :: "cluster webhook_env" where
  "exampleWebhook = \<lparr>we_namespaces = namespacesOf, we_dynaKubes = dynaKubesOf,
     we_Decode = \<lambda>raw. if raw = ''pod'' then Inr examplePod else Inl (ErrMsg ''syntax''),
     we_marshal = \<lambda>pod. Inr (concat (map ct_Name (pod_InitContainers (wp_Spec pod)))), we_version = ''v''\<rparr>"

definition exampleInjected :: cluster where
  "exampleInjected = emptyCluster
     \<lparr>cl_Namespaces := [(([], ''apps''), \<lparr>ns_Name = ''apps'', ns_Labels = Some [(LabelInstance, ''dynakube'')], ns_Annotations = None, ns_UID = ''u''\<rparr>)],
      cl_DynaKubes := [((''dynatrace'', ''dynakube''), exampleReinvoked
        \<lparr>dk_Spec := (dk_Spec exampleReinvoked)\<lparr>spec_CodeModules := (spec_CodeModules (dk_Spec exampleReinvoked))\<lparr>cms_Enabled := True\<rparr>\<rparr>\<rparr>)]\<rparr>"

lemma lawful_namespacesOf: "lawful namespacesOf (\<lambda>n. ([], ns_Name n)) (\<lambda>w. map_of (cl_Namespaces w))"
  unfolding namespacesOf_def by (rule lawful_onPart [OF lawful_storeClient]) simp

theorem Webhook_Handle_patches_witness:
  "\<exists>w'. Webhook_Handle exampleWebhook exampleInjector \<lparr>req_Namespace = ''apps'', req_Raw = ''pod''\<rparr> exampleInjected =
     (Inr (PatchResponse ''pod'' InstallContainerName), w') \<and>
     (\<exists>oa. map_of (cl_DynaKubes exampleInjected) (''dynatrace'', ''dynakube'') = Some oa \<and> cms_Enabled (spec_CodeModules (dk_Spec oa)))"
proof -
  have laws: "lawfulGet (we_namespaces exampleWebhook) (\<lambda>w. map_of (cl_Namespaces w))"
    "lawfulGet (we_dynaKubes exampleWebhook) (\<lambda>w. map_of (cl_DynaKubes w))"
    "leaves (we_namespaces exampleWebhook) (\<lambda>w. map_of (cl_DynaKubes w))"
    using lawful_cluster(5) lawful_namespacesOf leaves_onPart
    by (simp_all add: exampleWebhook_def lawful_def) (simp add: namespacesOf_def leaves_onPart)
  obtain w' where "Webhook_Handle exampleWebhook exampleInjector \<lparr>req_Namespace = ''apps'', req_Raw = ''pod''\<rparr> exampleInjected =
     (Inr (PatchResponse ''pod'' InstallContainerName), w')"
    by (simp add: Webhook_Handle_def Let_def catchE_run exampleWebhook_def exampleInjected_def exampleInjector_def namespacesOf_run
        dynaKubesOf_run injectionWanted_def GetField_def goget_def emptyCluster_def exampleReinvoked_def mutatePod_def isInjected_def
        entries_def examplePod_def injectPod_def injectContainers_eq getResponse_def zeroPodSpec_def installContainer_def)
  with Webhook_Handle_patches [OF laws this] show ?thesis
    by (auto simp: exampleInjected_def)
qed

end
