(* ===== verification/Namespace_Controller.thy ===== *)
theory Namespace_Controller
  imports Webhook Token_Reconciler "HOL-Library.List_Lexorder" "HOL-Library.Char_ord"
begin

text \<open>
  The namespace controller (\<^verbatim>\<open>src/controllers/namespace/namespace_controller.go\<close>): it replicates what
  the init container of an injected pod needs into the pod's namespace, as the secret
  \<^verbatim>\<open>dynatrace-dynakube-config\<close>. The literal text of the embedded template \<^verbatim>\<open>init.sh.tmpl\<close> is data, given as
  the list of its pieces; the actions between the pieces are modelled. The objects are read and
  written with clients of the API server.
\<close>

section \<open>Data\<close>

record script =
  sc_DynaKube :: DynaKube
  sc_PaaSToken :: string
  sc_Proxy :: string
  sc_TrustedCAs :: "string option"
  sc_ClusterID :: string
  sc_IMNodes :: "string gomap"

record 'w ns_env =
  nse_namespaces :: "('w, Namespace) kclient"
  nse_dynaKubes :: "('w, DynaKube) kclient"
  nse_secrets :: "('w, Secret) kclient"
  nse_configMaps :: "('w, ConfigMap) kclient"
  nse_apiReader :: "('w, Secret) kclient"
  nse_template :: "string list"

record ReconcileNamespaces =
  rn_namespace :: string

definition SecretTypeOpaque :: string where "SecretTypeOpaque = ''Opaque''"

section \<open>The script (script, generate)\<close>

text \<open>
  \<^verbatim>\<open>text/template\<close> on the pieces of \<^verbatim>\<open>init.sh.tmpl\<close>: values are inserted as they are, a map is visited in the
  order of its keys, and a slice counts as true where it has elements.
\<close>

definition piece :: "string list \<Rightarrow> nat \<Rightarrow> string" where
  "piece ps i = (if i < length ps then ps ! i else [])"

definition templateBool :: "bool \<Rightarrow> string" where
  "templateBool b = (if b then ''true'' else ''false'')"

definition imEntry :: "string list \<Rightarrow> string gomap \<Rightarrow> string \<Rightarrow> string" where
  "imEntry ps nodes node = piece ps 7 @ node @ piece ps 8 @ goget nodes node [] @ piece ps 9"

definition executeScript :: "string list \<Rightarrow> script \<Rightarrow> string" where
  "executeScript ps s =
     piece ps 0 @ spec_APIURL (dk_Spec (sc_DynaKube s)) @
     piece ps 1 @ sc_PaaSToken s @
     piece ps 2 @ sc_Proxy s @
     piece ps 3 @ templateBool (spec_SkipCertCheck (dk_Spec (sc_DynaKube s))) @
     piece ps 4 @ templateBool (case sc_TrustedCAs s of None \<Rightarrow> False | Some cas \<Rightarrow> cas \<noteq> []) @
     piece ps 5 @ sc_ClusterID s @
     piece ps 6 @
     concat (map (imEntry ps (sc_IMNodes s)) (sorted_list_of_set (set (map fst (sc_IMNodes s))))) @
     piece ps 10 @ cis_TenantUUID (st_ConnectionInfo (dk_Status (sc_DynaKube s))) @
     piece ps 11"

definition script_generate :: "string list \<Rightarrow> script \<Rightarrow> string gomap" where
  "script_generate ps s =
     (let data = [(''init.sh'', executeScript ps s)];
          data = (case sc_TrustedCAs s of None \<Rightarrow> data | Some cas \<Rightarrow> AList.update ''ca.pem'' cas data)
      in if sc_Proxy s \<noteq> [] then AList.update ''proxy'' (sc_Proxy s) data else data)"

section \<open>What the script is made of (newScript)\<close>

definition scriptProxy :: "('w, Secret) kclient \<Rightarrow> DynaKube \<Rightarrow> string \<Rightarrow> ('w, string) act" where
  "scriptProxy secrets dynaKube ns =
     (case spec_Proxy (dk_Spec dynaKube) of
        None \<Rightarrow> retE []
      | Some p \<Rightarrow>
          if px_ValueFrom p \<noteq> []
          then bindE (wrapE ''failed to query proxy: '' (kGet secrets (ns, px_ValueFrom p))) (\<lambda>ps. retE (secretData ps ''proxy''))
          else retE (px_Value p))"

definition scriptCAs :: "('w, ConfigMap) kclient \<Rightarrow> DynaKube \<Rightarrow> string \<Rightarrow> ('w, string option) act" where
  "scriptCAs configMaps dynaKube ns =
     (if spec_TrustedCAs (dk_Spec dynaKube) \<noteq> []
      then bindE (wrapE ''failed to query ca: '' (kGet configMaps (ns, spec_TrustedCAs (dk_Spec dynaKube))))
             (\<lambda>cam. retE (Some (configField cam ''certs'')))
      else retE None)"

definition newScript :: "'w ns_env \<Rightarrow> DynaKube \<Rightarrow> Secret \<Rightarrow> string gomap \<Rightarrow> string \<Rightarrow> ('w, script) act" where
  "newScript env dynaKube tkns imNodes ns =
     bindE (wrapE ''failed to query for cluster ID: '' (kGet (nse_namespaces env) ([], ''kube-system''))) (\<lambda>kubeSystemNS.
     bindE (scriptProxy (nse_secrets env) dynaKube ns) (\<lambda>proxy.
     bindE (scriptCAs (nse_configMaps env) dynaKube ns) (\<lambda>trustedCAs.
       retE \<lparr>sc_DynaKube = dynaKube, sc_PaaSToken = secretData tkns DynatracePaasToken, sc_Proxy = proxy,
             sc_TrustedCAs = trustedCAs, sc_ClusterID = ns_UID kubeSystemNS, sc_IMNodes = imNodes\<rparr>)))"

section \<open>Reconciliation\<close>

text \<open>The nodes that run an infrastructure monitoring agent, with the tenant it reports to.\<close>

definition monitoredNodes :: "DynaKube \<Rightarrow> string list" where
  "monitoredNodes dk =
     (if cis_TenantUUID (st_ConnectionInfo (dk_Status dk)) \<noteq> [] \<and> fs_Enabled (spec_InfraMonitoring (dk_Spec dk))
      then filter (\<lambda>key. key \<noteq> []) (map fst (entries (oast_Instances (st_OneAgent (dk_Status dk))))) else [])"

definition imNodesOf :: "DynaKube list \<Rightarrow> string gomap" where
  "imNodesOf ims =
     foldl (\<lambda>nodes dk. foldl (\<lambda>nodes key. AList.update key (cis_TenantUUID (st_ConnectionInfo (dk_Status dk))) nodes)
       nodes (monitoredNodes dk)) [] ims"

definition ns_ensureSecretDeleted :: "('w, Secret) kclient \<Rightarrow> string \<Rightarrow> string \<Rightarrow> ('w, unit) act" where
  "ns_ensureSecretDeleted secrets name ns =
     catchE (kDelete secrets (ns, name)) (\<lambda>err. if isNotFound err then retE () else raiseE err) retE"

definition replicateConfig :: "'w ns_env \<Rightarrow> ReconcileNamespaces \<Rightarrow> string \<Rightarrow> DynaKube \<Rightarrow> ('w, duration) act" where
  "replicateConfig env r targetNS dk =
     bindE (wrapE ''failed to query DynaKubeList: '' (kList (nse_dynaKubes env) (rn_namespace r))) (\<lambda>ims.
     bindE (wrapE ''failed to query tokens: '' (kGet (nse_secrets env) (rn_namespace r, Tokens dk))) (\<lambda>tkns.
     bindE (wrapE ''failed to generate init script: '' (newScript env dk tkns (imNodesOf ims) (rn_namespace r))) (\<lambda>script.
     bindE (CreateOrUpdateSecretIfNotExists (nse_secrets env) (nse_apiReader env) SecretConfigName targetNS
             (Some (script_generate (nse_template env) script)) SecretTypeOpaque) (\<lambda>_.
       retE (5 * timeMinute)))))"

definition Namespace_Reconcile :: "'w ns_env \<Rightarrow> ReconcileNamespaces \<Rightarrow> string \<Rightarrow> ('w, duration) act" where
  "Namespace_Reconcile env r targetNS =
     catchE (kGet (nse_namespaces env) ([], targetNS))
       (\<lambda>err. if isNotFound err then retE 0 else raiseE (Wrap ''failed to query Namespace: '' err))
       (\<lambda>ns.
          case ns_Labels ns of
            None \<Rightarrow> retE 0
          | Some labels \<Rightarrow>
              let oaName = goget labels LabelInstance []
              in if oaName = [] then retE 0
                 else bindE (wrapE ''failed to query DynaKubes: '' (kGet (nse_dynaKubes env) (rn_namespace r, oaName))) (\<lambda>dk.
                   if \<not> cms_Enabled (spec_CodeModules (dk_Spec dk))
                   then catchE (ns_ensureSecretDeleted (nse_secrets env) (Tokens dk) targetNS)
                          (\<lambda>_. retE (5 * timeMinute)) (\<lambda>_. retE (5 * timeMinute))
                   else replicateConfig env r targetNS dk))"

text \<open>\<^verbatim>\<open>Add\<close>: the controller is registered unless the predecessor of this operator is installed.\<close>

definition Namespace_Add :: "('w, string list list) act \<Rightarrow> string \<Rightarrow> (ReconcileNamespaces \<Rightarrow> ('w, unit) act) \<Rightarrow> ('w, unit) act" where
  "Namespace_Add discovery ns add =
     bindE (CheckIfOneAgentAPMExists discovery) (\<lambda>apmExists.
       if apmExists then retE () else add \<lparr>rn_namespace = ns\<rparr>)"

section \<open>Lemmas\<close>

text \<open>What the reconciliation relies on: lawful clients of one API server, each for its own kind of object.\<close>

definition lawfulNsEnv ::
  "'w ns_env \<Rightarrow> ('w \<Rightarrow> objkey \<Rightarrow> Namespace option) \<Rightarrow> ('w \<Rightarrow> objkey \<Rightarrow> DynaKube option) \<Rightarrow> ('w \<Rightarrow> objkey \<Rightarrow> Secret option) \<Rightarrow>
    ('w \<Rightarrow> objkey \<Rightarrow> ConfigMap option) \<Rightarrow> bool" where
  "lawfulNsEnv env nsV dkV secV cmV \<longleftrightarrow>
     lawful (nse_secrets env) (metaKey \<circ> sec_Meta) secV \<and> lawful (nse_apiReader env) (metaKey \<circ> sec_Meta) secV \<and>
     lawfulGet (nse_namespaces env) nsV \<and> lawfulGet (nse_dynaKubes env) dkV \<and> lawfulGet (nse_configMaps env) cmV \<and>
     leaves (nse_namespaces env) dkV \<and> leaves (nse_namespaces env) secV \<and> leaves (nse_namespaces env) cmV \<and>
     leaves (nse_dynaKubes env) nsV \<and> leaves (nse_dynaKubes env) secV \<and> leaves (nse_dynaKubes env) cmV \<and>
     leaves (nse_secrets env) nsV \<and> leaves (nse_secrets env) cmV \<and> leaves (nse_configMaps env) secV"

lemma lawfulNsEnvD:
  assumes "lawfulNsEnv env nsV dkV secV cmV"
  shows "lawful (nse_secrets env) (metaKey \<circ> sec_Meta) secV" "lawful (nse_apiReader env) (metaKey \<circ> sec_Meta) secV"
    "lawfulGet (nse_namespaces env) nsV" "lawfulGet (nse_dynaKubes env) dkV" "lawfulGet (nse_configMaps env) cmV"
    "leaves (nse_namespaces env) dkV" "leaves (nse_namespaces env) secV" "leaves (nse_namespaces env) cmV"
    "leaves (nse_dynaKubes env) nsV" "leaves (nse_dynaKubes env) secV" "leaves (nse_dynaKubes env) cmV"
    "leaves (nse_secrets env) nsV" "leaves (nse_secrets env) cmV" "leaves (nse_configMaps env) secV"
  using assms by (simp_all add: lawfulNsEnv_def)

text \<open>The proxy of a resource, as the secrets of a namespace give it.\<close>

definition proxyIn :: "(objkey \<Rightarrow> Secret option) \<Rightarrow> string \<Rightarrow> DynaKube \<Rightarrow> string" where
  "proxyIn secrets ns dk =
     (case spec_Proxy (dk_Spec dk) of
        None \<Rightarrow> []
      | Some p \<Rightarrow> if px_ValueFrom p \<noteq> []
                  then (case secrets (ns, px_ValueFrom p) of None \<Rightarrow> [] | Some ps \<Rightarrow> secretData ps ''proxy'') else px_Value p)"

lemma scriptProxy_effect:
  assumes "lawful secrets (metaKey \<circ> sec_Meta) secV" and "scriptProxy secrets dk ns w = (res, w')"
  shows "secV w' = secV w" and "res = Inr proxy \<Longrightarrow> proxy = proxyIn (secV w) ns dk"
  using assms(2) lawful_GetD [OF assms(1)]
  by (auto simp: scriptProxy_def proxyIn_def bindE_run wrapE_run split: option.splits if_splits prod.splits sum.splits)

text \<open>The certificates of a resource, as the configuration maps of a namespace give them.\<close>

definition certsIn :: "(objkey \<Rightarrow> ConfigMap option) \<Rightarrow> string \<Rightarrow> DynaKube \<Rightarrow> string option" where
  "certsIn maps ns dk =
     (if spec_TrustedCAs (dk_Spec dk) = [] then None
      else map_option (\<lambda>cm. configField cm ''certs'') (maps (ns, spec_TrustedCAs (dk_Spec dk))))"

lemma lawfulGetD:
  assumes "lawfulGet c view" and "kGet c k w = (r, w')"
  shows "view w' = view w" and "r = Inr ob \<Longrightarrow> view w k = Some ob"
  using assms unfolding lawfulGet_def by fastforce+

lemma scriptCAs_effect:
  assumes "lawfulGet configMaps cmV" and "leaves configMaps secV" and "scriptCAs configMaps dk ns w = (res, w')"
  shows "secV w' = secV w" and "res = Inr cas \<Longrightarrow> cas = certsIn (cmV w) ns dk \<and> (cas = None \<longleftrightarrow> spec_TrustedCAs (dk_Spec dk) = [])"
  using assms(3) leavesD(1) [OF assms(2)] lawfulGetD(2) [OF assms(1)]
  by (auto simp: scriptCAs_def certsIn_def bindE_run wrapE_run split: if_splits prod.splits sum.splits)

text \<open>The script that belongs to a resource, given the cluster and the list of resources.\<close>

definition scriptFor ::
  "(objkey \<Rightarrow> Namespace option) \<Rightarrow> (objkey \<Rightarrow> Secret option) \<Rightarrow> (objkey \<Rightarrow> ConfigMap option) \<Rightarrow> string \<Rightarrow> DynaKube \<Rightarrow> Secret \<Rightarrow> string gomap
    \<Rightarrow> script" where
  "scriptFor namespaces secrets maps ns dk tkns imNodes =
     \<lparr>sc_DynaKube = dk, sc_PaaSToken = secretData tkns DynatracePaasToken, sc_Proxy = proxyIn secrets ns dk,
      sc_TrustedCAs = certsIn maps ns dk,
      sc_ClusterID = (case namespaces ([], ''kube-system'') of None \<Rightarrow> [] | Some sys \<Rightarrow> ns_UID sys), sc_IMNodes = imNodes\<rparr>"

lemma newScript_effect:
  assumes "lawfulNsEnv env nsV dkV secV cmV" and run: "newScript env dk tkns im ns w = (res, w')"
  shows "secV w' = secV w"
    and "res = Inr s \<Longrightarrow> s = scriptFor (nsV w) (secV w) (cmV w) ns dk tkns im \<and> nsV w ([], ''kube-system'') \<noteq> None \<and>
      (certsIn (cmV w) ns dk = None \<longleftrightarrow> spec_TrustedCAs (dk_Spec dk) = [])"
proof -
  note L = lawfulNsEnvD [OF assms(1)]
  obtain r1 w1 where 1: "kGet (nse_namespaces env) ([], ''kube-system'') w = (r1, w1)" by fastforce
  obtain r2 w2 where 2: "scriptProxy (nse_secrets env) dk ns w1 = (r2, w2)" by fastforce
  obtain r3 w3 where 3: "scriptCAs (nse_configMaps env) dk ns w2 = (r3, w3)" by fastforce
  note same = leavesD(1) [OF L(7) 1] leavesD(1) [OF L(8) 1] scriptProxy_effect(1) [OF L(1) 2] scriptCAs_effect(1) [OF L(5,14) 3]
  have maps: "cmV w2 = cmV w1"
    using 2 leavesD(1) [OF L(13)] by (auto simp: scriptProxy_def bindE_run wrapE_run split: option.splits if_splits prod.splits sum.splits)
  show "secV w' = secV w"
    using run same by (cases r1; cases r2; cases r3) (simp_all add: newScript_def bindE_run wrapE_run 1 2 3)
  show "res = Inr s \<Longrightarrow> s = scriptFor (nsV w) (secV w) (cmV w) ns dk tkns im \<and> nsV w ([], ''kube-system'') \<noteq> None \<and>
      (certsIn (cmV w) ns dk = None \<longleftrightarrow> spec_TrustedCAs (dk_Spec dk) = [])"
    using run same maps lawfulGetD(2) [OF L(3) 1] scriptProxy_effect(2) [OF L(1) 2] scriptCAs_effect(2) [OF L(5,14) 3]
    by (cases r1; cases r2; cases r3) (auto simp: newScript_def bindE_run wrapE_run 1 2 3 scriptFor_def)
qed

lemma script_generate_keys:
  "map_of (script_generate ps s) k =
     (if k = ''init.sh'' then Some (executeScript ps s)
      else if k = ''ca.pem'' then sc_TrustedCAs s
      else if k = ''proxy'' then (if sc_Proxy s \<noteq> [] then Some (sc_Proxy s) else None) else None)"
  by (auto simp: script_generate_def Let_def update_conv' split: option.splits)

text \<open>The two ways a reconciliation of a namespace of a resource goes.\<close>

lemma Namespace_Reconcile_run:
  assumes law: "lawfulNsEnv env nsV dkV secV cmV"
    and ns: "nsV w ([], targetNS) = Some ns" "goget (entries (ns_Labels ns)) LabelInstance [] = name" "name \<noteq> []"
    and dk: "dkV w (rn_namespace r, name) = Some dk"
    and run: "Namespace_Reconcile env r targetNS w = (Inr d, w')"
  obtains w1 where "secV w1 = secV w" and "nsV w1 = nsV w" and "cmV w1 = cmV w" and
    "(if cms_Enabled (spec_CodeModules (dk_Spec dk)) then replicateConfig env r targetNS dk
      else catchE (ns_ensureSecretDeleted (nse_secrets env) (Tokens dk) targetNS) (\<lambda>_. retE (5 * timeMinute)) (\<lambda>_. retE (5 * timeMinute))) w1
      = (Inr d, w')"
proof -
  have laws: "lawfulGet (nse_namespaces env) nsV" "lawfulGet (nse_dynaKubes env) dkV" "leaves (nse_namespaces env) dkV"
    "leaves (nse_namespaces env) secV" "leaves (nse_dynaKubes env) secV" "leaves (nse_namespaces env) cmV" "leaves (nse_dynaKubes env) cmV"
    "leaves (nse_dynaKubes env) nsV" using law by (simp_all add: lawfulNsEnv_def)
  obtain r1 w1 where 1: "kGet (nse_namespaces env) ([], targetNS) w = (r1, w1)" by fastforce
  obtain labels where labels: "ns_Labels ns = Some labels" "goget labels LabelInstance [] = name"
    using ns(2,3) by (cases "ns_Labels ns") (auto simp: entries_def goget_def)
  obtain r2 w2 where 2: "kGet (nse_dynaKubes env) (rn_namespace r, name) w1 = (r2, w2)" by fastforce
  have r1: "r1 = Inr ns"
  proof (cases r1)
    case (Inl e)
    then have "\<not> isNotFound e" using laws(1) 1 ns(1) by (fastforce simp: lawfulGet_def)
    then show ?thesis using run 1 Inl by (simp add: Namespace_Reconcile_def)
  next
    case (Inr ns')
    then show ?thesis using laws(1) 1 ns(1) by (fastforce simp: lawfulGet_def)
  qed
  have r2: "r2 = Inr dk"
  proof (cases r2)
    case (Inl e)
    then show ?thesis using run 1 r1 labels ns(3) 2 by (simp add: Namespace_Reconcile_def catchE_run Let_def wrapE_run)
  next
    case (Inr dk')
    then show ?thesis using laws(2) 2 dk leavesD(1) [OF laws(3) 1] by (fastforce simp: lawfulGet_def)
  qed
  show thesis
  proof (rule that)
    show "secV w2 = secV w" using leavesD(1) [OF laws(4) 1] leavesD(1) [OF laws(5) 2] by simp
    show "cmV w2 = cmV w" using leavesD(1) [OF laws(6) 1] leavesD(1) [OF laws(7) 2] by simp
    show "nsV w2 = nsV w" using lawfulGetD(1) [OF laws(1) 1] leavesD(1) [OF laws(8) 2] by simp
    show "(if cms_Enabled (spec_CodeModules (dk_Spec dk)) then replicateConfig env r targetNS dk
      else catchE (ns_ensureSecretDeleted (nse_secrets env) (Tokens dk) targetNS) (\<lambda>_. retE (5 * timeMinute)) (\<lambda>_. retE (5 * timeMinute))) w2
      = (Inr d, w')"
      using run 1 r1 labels ns(3) 2 r2
      by (cases "cms_Enabled (spec_CodeModules (dk_Spec dk))") (simp_all add: Namespace_Reconcile_def catchE_run Let_def wrapE_run bindE_run)
  qed
qed

section \<open>Properties\<close>

text \<open>What a successful replication leaves in the cluster.\<close>

lemma replicateConfig_effect:
  assumes law: "lawfulNsEnv env nsV dkV secV cmV" and keyed: "keyed (metaKey \<circ> sec_Meta) (secV w)"
    and run: "replicateConfig env r targetNS dk w = (Inr d, w')"
  obtains sec tkns ims w1 where "d = 5 * timeMinute" "kList (nse_dynaKubes env) (rn_namespace r) w = (Inr ims, w1)"
      "secV w (rn_namespace r, Tokens dk) = Some tkns" "secV w' (targetNS, SecretConfigName) = Some sec"
      "\<forall>k. secretField sec k = map_of (script_generate (nse_template env)
         (scriptFor (nsV w) (secV w) (cmV w) (rn_namespace r) dk tkns (imNodesOf ims))) k"
      "certsIn (cmV w) (rn_namespace r) dk = None \<longleftrightarrow> spec_TrustedCAs (dk_Spec dk) = []"
      "\<forall>k. k \<noteq> (targetNS, SecretConfigName) \<longrightarrow> secV w' k = secV w k" "nsV w ([], ''kube-system'') \<noteq> None"
proof -
  note L = lawfulNsEnvD [OF law]
  obtain ims w1 where 1: "kList (nse_dynaKubes env) (rn_namespace r) w = (Inr ims, w1)"
    using run by (cases "kList (nse_dynaKubes env) (rn_namespace r) w" rule: prod.exhaust)
      (auto simp: replicateConfig_def bindE_run wrapE_run split: sum.splits)
  obtain tkns w2 where 2: "kGet (nse_secrets env) (rn_namespace r, Tokens dk) w1 = (Inr tkns, w2)"
    using run 1 by (auto simp: replicateConfig_def bindE_run wrapE_run split: sum.splits prod.splits)
  obtain s w3 where 3: "newScript env dk tkns (imNodesOf ims) (rn_namespace r) w2 = (Inr s, w3)"
    using run 1 2 by (auto simp: replicateConfig_def bindE_run wrapE_run split: sum.splits prod.splits)
  have 4: "CreateOrUpdateSecretIfNotExists (nse_secrets env) (nse_apiReader env) SecretConfigName targetNS
             (Some (script_generate (nse_template env) s)) SecretTypeOpaque w3 = (Inr (), w')" and d: "d = 5 * timeMinute"
    using run 1 2 3 by (auto simp: replicateConfig_def bindE_run wrapE_run split: sum.splits prod.splits)
  have same: "secV w1 = secV w" "secV w2 = secV w" "secV w3 = secV w" "nsV w2 = nsV w" "cmV w2 = cmV w"
    using leavesD(2) [OF L(10) 1] lawful_GetD(1) [OF L(1) 2] newScript_effect(1) [OF law 3]
      leavesD(2) [OF L(9) 1] leavesD(2) [OF L(11) 1] leavesD(1) [OF L(12) 2] leavesD(1) [OF L(13) 2] by simp_all
  have "keyed (metaKey \<circ> sec_Meta) (secV w3)" using keyed same by simp
  from CreateOrUpdateSecret_effect [OF L(1,2) this 4] obtain sec where
    stored: "secV w' (targetNS, SecretConfigName) = Some sec" "deepEqualMap (Some (script_generate (nse_template env) s)) (sec_Data sec)"
      "\<forall>k. k \<noteq> (targetNS, SecretConfigName) \<longrightarrow> secV w' k = secV w k"
    unfolding same sum.case by blast
  have tokens: "secV w (rn_namespace r, Tokens dk) = Some tkns" using lawful_GetD(2) [OF L(1) 2 refl] same by simp
  have field: "secretField sec k = map_of (script_generate (nse_template env) s) k" for k
    using stored(2) by (auto simp: secretField_def deepEqualMap_iff split: option.splits)
  note script = newScript_effect(2) [OF law 3 refl, unfolded same]
  show thesis
    by (rule that [OF d 1 tokens stored(1) _ _ stored(3)]) (use script field in simp_all)
qed

text \<open>C14. The namespace controller replicates the configuration: when it succeeds for a namespace of a resource whose code
  modules are enabled, the namespace has the configuration secret. Its init script is the template, filled with the resource, the
  PaaS token of its token secret, its proxy, its certificates, the identity of the cluster and the monitored nodes; its certificates are those of the
  configuration map that the resource names, and it has none otherwise; its proxy is the one of the resource where this is not empty; and no
  other secret has changed. (For a resource whose code modules are disabled see \<open>disabled_code_modules_delete_tokens\<close>.)\<close>

theorem Namespace_Reconcile_replicates:
  assumes law: "lawfulNsEnv env nsV dkV secV cmV" and keyed: "keyed (metaKey \<circ> sec_Meta) (secV w)"
    and ns: "nsV w ([], targetNS) = Some ns" "goget (entries (ns_Labels ns)) LabelInstance [] = name" "name \<noteq> []"
    and dk: "dkV w (rn_namespace r, name) = Some dk" "cms_Enabled (spec_CodeModules (dk_Spec dk))"
    and run: "Namespace_Reconcile env r targetNS w = (Inr d, w')"
  shows "\<exists>sec tkns sys ims w1 w2. d = 5 * timeMinute \<and> secV w (rn_namespace r, Tokens dk) = Some tkns \<and>
      nsV w ([], ''kube-system'') = Some sys \<and> kList (nse_dynaKubes env) (rn_namespace r) w1 = (Inr ims, w2) \<and>
      secV w' (targetNS, SecretConfigName) = Some sec \<and>
      secretField sec ''init.sh'' = Some (executeScript (nse_template env)
        \<lparr>sc_DynaKube = dk, sc_PaaSToken = secretData tkns DynatracePaasToken, sc_Proxy = proxyIn (secV w) (rn_namespace r) dk,
         sc_TrustedCAs = certsIn (cmV w) (rn_namespace r) dk, sc_ClusterID = ns_UID sys, sc_IMNodes = imNodesOf ims\<rparr>) \<and>
      secretField sec ''proxy'' = (if proxyIn (secV w) (rn_namespace r) dk \<noteq> [] then Some (proxyIn (secV w) (rn_namespace r) dk) else None) \<and>
      (if spec_TrustedCAs (dk_Spec dk) = [] then secretField sec ''ca.pem'' = None
       else \<exists>cm. cmV w (rn_namespace r, spec_TrustedCAs (dk_Spec dk)) = Some cm \<and> secretField sec ''ca.pem'' = Some (configField cm ''certs'')) \<and>
      (\<forall>k. k \<noteq> (targetNS, SecretConfigName) \<longrightarrow> secV w' k = secV w k)"
proof -
  obtain w1 where w1: "secV w1 = secV w" "nsV w1 = nsV w" "cmV w1 = cmV w" "replicateConfig env r targetNS dk w1 = (Inr d, w')"
    by (rule Namespace_Reconcile_run [OF law ns dk(1) run]) (simp add: dk(2))
  have k1: "keyed (metaKey \<circ> sec_Meta) (secV w1)" using keyed w1(1) by simp
  obtain sec tkns ims w2 where
    eff: "d = 5 * timeMinute" "kList (nse_dynaKubes env) (rn_namespace r) w1 = (Inr ims, w2)"
      "secV w (rn_namespace r, Tokens dk) = Some tkns" "secV w' (targetNS, SecretConfigName) = Some sec"
      "\<forall>k. secretField sec k = map_of (script_generate (nse_template env)
         (scriptFor (nsV w) (secV w) (cmV w) (rn_namespace r) dk tkns (imNodesOf ims))) k"
      "certsIn (cmV w) (rn_namespace r) dk = None \<longleftrightarrow> spec_TrustedCAs (dk_Spec dk) = []"
      "\<forall>k. k \<noteq> (targetNS, SecretConfigName) \<longrightarrow> secV w' k = secV w k" "nsV w ([], ''kube-system'') \<noteq> None"
    by (rule replicateConfig_effect [OF law k1 w1(4), unfolded w1(1-3)]) (rule that)
  then obtain sys where sys: "nsV w ([], ''kube-system'') = Some sys" by blast
  have certs: "if spec_TrustedCAs (dk_Spec dk) = [] then secretField sec ''ca.pem'' = None
       else \<exists>cm. cmV w (rn_namespace r, spec_TrustedCAs (dk_Spec dk)) = Some cm \<and> secretField sec ''ca.pem'' = Some (configField cm ''certs'')"
    using eff(6) by (auto simp: eff(5) script_generate_keys scriptFor_def certsIn_def)
  have init: "secretField sec ''init.sh'' = Some (executeScript (nse_template env)
        \<lparr>sc_DynaKube = dk, sc_PaaSToken = secretData tkns DynatracePaasToken, sc_Proxy = proxyIn (secV w) (rn_namespace r) dk,
         sc_TrustedCAs = certsIn (cmV w) (rn_namespace r) dk, sc_ClusterID = ns_UID sys, sc_IMNodes = imNodesOf ims\<rparr>)"
    unfolding eff(5) [rule_format, of "''init.sh''"] script_generate_keys scriptFor_def sys by simp
  have proxy: "secretField sec ''proxy'' = (if proxyIn (secV w) (rn_namespace r) dk \<noteq> [] then Some (proxyIn (secV w) (rn_namespace r) dk) else None)"
    unfolding eff(5) [rule_format, of "''proxy''"] script_generate_keys scriptFor_def by simp
  show ?thesis
    by (intro exI [of _ sec] exI [of _ tkns] exI [of _ sys] exI [of _ ims] exI [of _ w1] exI [of _ w2] conjI)
      (fact eff(1-4,7) sys certs init proxy)+
qed

definition exampleCodeModules :: "bool \<Rightarrow> DynaKube" where
  "exampleCodeModules enabled = zeroDynaKube
     \<lparr>dk_Meta := emptyMeta\<lparr>om_Name := ''dynakube'', om_Namespace := ''dynatrace''\<rparr>,
      dk_Spec := zeroSpec\<lparr>spec_CodeModules := (spec_CodeModules zeroSpec)\<lparr>cms_Enabled := enabled\<rparr>,
        spec_Proxy := Some \<lparr>px_Value = ''http://proxy'', px_ValueFrom = []\<rparr>, spec_TrustedCAs := ''cas''\<rparr>\<rparr>"

definition exampleNamespaceOf :: "string \<Rightarrow> Namespace" where
  "exampleNamespaceOf name = \<lparr>ns_Name = name, ns_Labels = Some [(LabelInstance, ''dynakube'')], ns_Annotations = None, ns_UID = ''u''\<rparr>"

definition exampleNsCluster :: "bool \<Rightarrow> cluster" where
  "exampleNsCluster enabled = emptyCluster
     \<lparr>cl_Namespaces := map (\<lambda>n. (([], n), exampleNamespaceOf n)) [''apps'', ''dynatrace'', ''kube-system''],
      cl_DynaKubes := [((''dynatrace'', ''dynakube''), exampleCodeModules enabled)],
      cl_Secrets := [((''dynatrace'', ''dynakube''), emptySecret
        \<lparr>sec_Meta := emptyMeta\<lparr>om_Name := ''dynakube'', om_Namespace := ''dynatrace''\<rparr>, sec_Data := Some [(''paasToken'', ''p'')]\<rparr>)]\<rparr>"

text \<open>The certificates of the example.\<close>

definition exampleCerts :: ConfigMap where
  "exampleCerts = \<lparr>cm_Meta = emptyMeta\<lparr>om_Name := ''cas'', om_Namespace := ''dynatrace''\<rparr>, cm_Data = Some [(''certs'', ''PEM'')]\<rparr>"

definition exampleMaps :: "cluster \<Rightarrow> objkey \<Rightarrow> ConfigMap option" where
  "exampleMaps w = [(''dynatrace'', ''cas'') \<mapsto> exampleCerts]"

definition exampleNsEnv :: "cluster ns_env" where
  "exampleNsEnv = \<lparr>nse_namespaces = namespacesOf, nse_dynaKubes = dynaKubesOf, nse_secrets = secretsOf,
     nse_configMaps = downClient
       \<lparr>kGet := \<lambda>k w. (case exampleMaps w k of Some cm \<Rightarrow> Inr cm | None \<Rightarrow> Inl (ApiNotFound (snd k)), w)\<rparr>, nse_apiReader = secretsOf, nse_template = []\<rparr>"

lemma lawful_exampleNsEnv:
  "lawfulNsEnv exampleNsEnv (\<lambda>w. map_of (cl_Namespaces w)) (\<lambda>w. map_of (cl_DynaKubes w)) (\<lambda>w. map_of (cl_Secrets w)) exampleMaps"
proof -
  have "leaves namespacesOf (\<lambda>w. map_of (cl_DynaKubes w))" "leaves namespacesOf (\<lambda>w. map_of (cl_Secrets w))"
    "leaves dynaKubesOf (\<lambda>w. map_of (cl_Secrets w))" "leaves dynaKubesOf (\<lambda>w. map_of (cl_Namespaces w))"
    "leaves secretsOf (\<lambda>w. map_of (cl_Namespaces w))"
    unfolding namespacesOf_def dynaKubesOf_def secretsOf_def by (simp_all add: leaves_onPart)
  moreover have "leaves namespacesOf exampleMaps" "leaves dynaKubesOf exampleMaps" "leaves secretsOf exampleMaps"
    by (simp_all add: leaves_def exampleMaps_def)
  moreover have "lawfulGet (nse_configMaps exampleNsEnv) exampleMaps" "leaves (nse_configMaps exampleNsEnv) (\<lambda>w. map_of (cl_Secrets w))"
    by (auto simp: lawfulGet_def leaves_def exampleNsEnv_def downClient_def exampleMaps_def split: option.splits)
  moreover have "lawfulGet namespacesOf (\<lambda>w. map_of (cl_Namespaces w))" "lawfulGet dynaKubesOf (\<lambda>w. map_of (cl_DynaKubes w))"
    using lawful_namespacesOf lawful_cluster(5) by (simp_all add: lawful_def)
  ultimately show ?thesis using lawful_cluster(1) by (simp add: lawfulNsEnv_def) (simp add: exampleNsEnv_def)
qed

lemma exampleNsCluster_lookup:
  "map_of (cl_Namespaces (exampleNsCluster b)) ([], ''apps'') = Some (exampleNamespaceOf ''apps'')"
  "map_of (cl_Namespaces (exampleNsCluster b)) ([], ''dynatrace'') = Some (exampleNamespaceOf ''dynatrace'')"
  "goget (entries (ns_Labels (exampleNamespaceOf n))) LabelInstance [] = ''dynakube''"
  "map_of (cl_DynaKubes (exampleNsCluster b)) (''dynatrace'', ''dynakube'') = Some (exampleCodeModules b)"
  "keyed (metaKey \<circ> sec_Meta) (map_of (cl_Secrets (exampleNsCluster b)))"
  "cms_Enabled (spec_CodeModules (dk_Spec (exampleCodeModules b))) = b" "Tokens (exampleCodeModules b) = ''dynakube''"
  by (simp_all add: exampleNsCluster_def exampleNamespaceOf_def entries_def goget_def keyed_def metaKey_def exampleCodeModules_def
      Tokens_def zero_defs)

lemma exampleNs_head:
  "Namespace_Reconcile exampleNsEnv \<lparr>rn_namespace = ''dynatrace''\<rparr> n (exampleNsCluster b) =
     (if b then replicateConfig exampleNsEnv \<lparr>rn_namespace = ''dynatrace''\<rparr> n (exampleCodeModules b)
      else catchE (ns_ensureSecretDeleted secretsOf ''dynakube'' n) (\<lambda>_. retE (5 * timeMinute)) (\<lambda>_. retE (5 * timeMinute))) (exampleNsCluster b)"
  if "n \<in> {''apps'', ''dynatrace''}"
proof -
  have get: "kGet namespacesOf ([], n) (exampleNsCluster b) = (Inr (exampleNamespaceOf n), exampleNsCluster b)"
    using that by (auto simp: namespacesOf_run exampleNsCluster_lookup)
  have label: "ns_Labels (exampleNamespaceOf n) = Some [(LabelInstance, ''dynakube'')]" by (simp add: exampleNamespaceOf_def)
  have dk: "kGet dynaKubesOf (''dynatrace'', ''dynakube'') (exampleNsCluster b) = (Inr (exampleCodeModules b), exampleNsCluster b)"
    by (simp add: dynaKubesOf_run exampleNsCluster_lookup)
  show ?thesis by (simp add: Namespace_Reconcile_def get label dk exampleNsEnv_def wrapE_run goget_def exampleNsCluster_lookup)
qed

lemma exampleNs_run: "\<exists>d w'. Namespace_Reconcile exampleNsEnv \<lparr>rn_namespace = ''dynatrace''\<rparr> ''apps'' (exampleNsCluster True) = (Inr d, w')"
proof -
  let ?w = "exampleNsCluster True"
  obtain ims where list: "kList dynaKubesOf ''dynatrace'' ?w = (Inr ims, ?w)"
    by (simp add: dynaKubesOf_def onPart_def storeClient_def zoomE_run)
  obtain tkns where tokens: "kGet secretsOf (''dynatrace'', ''dynakube'') ?w = (Inr tkns, ?w)"
    by (simp add: secretsOf_run exampleNsCluster_def)
  obtain sys where sys: "kGet namespacesOf ([], ''kube-system'') ?w = (Inr sys, ?w)"
    by (simp add: namespacesOf_run exampleNsCluster_def)
  have px: "spec_Proxy (dk_Spec (exampleCodeModules True)) = Some \<lparr>px_Value = ''http://proxy'', px_ValueFrom = []\<rparr>"
    and ca: "spec_TrustedCAs (dk_Spec (exampleCodeModules True)) = ''cas''" by (simp_all add: exampleCodeModules_def zero_defs)
  obtain s where script: "newScript exampleNsEnv (exampleCodeModules True) tkns (imNodesOf ims) ''dynatrace'' ?w = (Inr s, ?w)"
    by (simp add: newScript_def exampleNsEnv_def sys wrapE_run scriptProxy_def scriptCAs_def px ca exampleMaps_def bindE_run)
  have get: "kGet secretsOf (''apps'', SecretConfigName) ?w = (Inl (ApiNotFound SecretConfigName), ?w)"
    by (simp add: secretsOf_run exampleNsCluster_def)
  let ?new = "\<lparr>sec_Meta = emptyMeta\<lparr>om_Name := SecretConfigName, om_Namespace := ''apps''\<rparr>, sec_Type = SecretTypeOpaque,
      sec_Data = Some (script_generate [] s)\<rparr>"
  obtain w' where "kCreate secretsOf ?new ?w = (Inr ?new, w')"
    by (simp add: secretsOf_run exampleNsCluster_def metaKey_def)
  with get have "CreateOrUpdateSecretIfNotExists secretsOf secretsOf SecretConfigName ''apps''
      (Some (script_generate [] s)) SecretTypeOpaque ?w = (Inr (), w')"
    by (simp add: CreateOrUpdateSecretIfNotExists_def wrapE_run)
  with list tokens script show ?thesis
    by (simp add: exampleNs_head replicateConfig_def wrapE_run exampleNsCluster_lookup) (simp add: exampleNsEnv_def bindE_run wrapE_run)
qed

theorem Namespace_Reconcile_replicates_witness:
  "\<exists>d w' sec. Namespace_Reconcile exampleNsEnv \<lparr>rn_namespace = ''dynatrace''\<rparr> ''apps'' (exampleNsCluster True) = (Inr d, w') \<and>
     map_of (cl_Secrets w') (''apps'', SecretConfigName) = Some sec \<and> secretField sec ''proxy'' = Some ''http://proxy'' \<and>
     secretField sec ''ca.pem'' = Some ''PEM''"
proof -
  obtain d w' where run: "Namespace_Reconcile exampleNsEnv \<lparr>rn_namespace = ''dynatrace''\<rparr> ''apps'' (exampleNsCluster True) = (Inr d, w')"
    using exampleNs_run by blast
  have px: "proxyIn secrets ns (exampleCodeModules True) = ''http://proxy''" for secrets ns
    by (simp add: proxyIn_def exampleCodeModules_def)
  have ca: "spec_TrustedCAs (dk_Spec (exampleCodeModules True)) = ''cas''" by (simp add: exampleCodeModules_def zero_defs)
  from Namespace_Reconcile_replicates [OF lawful_exampleNsEnv exampleNsCluster_lookup(5) [of True] exampleNsCluster_lookup(1) [of True] exampleNsCluster_lookup(3), where
      r = "\<lparr>rn_namespace = ''dynatrace''\<rparr>" and dk = "exampleCodeModules True", unfolded px ca, OF _ _ _ run]
  obtain sec where "map_of (cl_Secrets w') (''apps'', SecretConfigName) = Some sec" "secretField sec ''proxy'' = Some ''http://proxy''"
    "secretField sec ''ca.pem'' = Some ''PEM''"
    by (auto simp: exampleNsCluster_lookup exampleMaps_def exampleCerts_def configField_def goget_def)
  with run show ?thesis by blast
qed

text \<open>Switching the code modules off leaves the replicated configuration, with its PaaS token, where it is; what the
  controller deletes instead is the secret of the target namespace that has the name of the resource's token secret. For
  the operator's own namespace that is the token secret itself. A failing deletion is not reported.\<close>

theorem disabled_code_modules_delete_tokens:
  assumes law: "lawfulNsEnv env nsV dkV secV cmV"
    and ns: "nsV w ([], targetNS) = Some ns" "goget (entries (ns_Labels ns)) LabelInstance [] = name" "name \<noteq> []"
    and dk: "dkV w (rn_namespace r, name) = Some dk" "\<not> cms_Enabled (spec_CodeModules (dk_Spec dk))"
    and run: "Namespace_Reconcile env r targetNS w = (Inr d, w')"
    and named: "Tokens dk \<noteq> SecretConfigName"
  shows "d = 5 * timeMinute \<and> secV w' (targetNS, SecretConfigName) = secV w (targetNS, SecretConfigName) \<and>
    (secV w' = secV w \<or> secV w' = (secV w)((targetNS, Tokens dk) := None))"
proof -
  have secrets: "lawful (nse_secrets env) (metaKey \<circ> sec_Meta) secV" using law by (simp add: lawfulNsEnv_def)
  obtain w1 where w1: "secV w1 = secV w" "catchE (ns_ensureSecretDeleted (nse_secrets env) (Tokens dk) targetNS)
      (\<lambda>_. retE (5 * timeMinute)) (\<lambda>_. retE (5 * timeMinute)) w1 = (Inr d, w')"
    by (rule Namespace_Reconcile_run [OF law ns dk(1) run]) (simp add: dk(2))
  obtain q w2 where del: "kDelete (nse_secrets env) (targetNS, Tokens dk) w1 = (q, w2)" by fastforce
  have out: "d = 5 * timeMinute \<and> w' = w2"
    using w1(2) del by (cases q) (auto simp: ns_ensureSecretDeleted_def catchE_run split: if_splits)
  have "secV w' = secV w \<or> secV w' = (secV w)((targetNS, Tokens dk) := None)"
    using out w1(1) lawful_DeleteD(1,2) [OF secrets del] by (cases q) auto
  then show ?thesis using out named by (elim disjE) simp_all
qed

theorem disabled_code_modules_delete_tokens_witness:
  "\<exists>w'. Namespace_Reconcile exampleNsEnv \<lparr>rn_namespace = ''dynatrace''\<rparr> ''dynatrace'' (exampleNsCluster False) = (Inr (5 * timeMinute), w') \<and>
     map_of (cl_Secrets (exampleNsCluster False)) (''dynatrace'', ''dynakube'') \<noteq> None \<and>
     map_of (cl_Secrets w') = (map_of (cl_Secrets (exampleNsCluster False))) ((''dynatrace'', ''dynakube'') := None)"
proof -
  let ?w = "exampleNsCluster False" and ?r = "\<lparr>rn_namespace = ''dynatrace''\<rparr>"
  have there: "map_of (cl_Secrets ?w) (''dynatrace'', ''dynakube'') \<noteq> None" by (simp add: exampleNsCluster_def)
  obtain w' where run: "Namespace_Reconcile exampleNsEnv ?r ''dynatrace'' ?w = (Inr (5 * timeMinute), w')" and
    gone: "map_of (cl_Secrets w') (''dynatrace'', ''dynakube'') = None"
    using there by (auto simp: exampleNs_head ns_ensureSecretDeleted_def catchE_run secretsOf_run delete_conv')
  have effect: "d = 5 * timeMinute \<and> map_of (cl_Secrets w') (''dynatrace'', SecretConfigName) = map_of (cl_Secrets ?w) (''dynatrace'', SecretConfigName) \<and>
      (map_of (cl_Secrets w') = map_of (cl_Secrets ?w) \<or>
       map_of (cl_Secrets w') = (map_of (cl_Secrets ?w)) ((''dynatrace'', Tokens (exampleCodeModules False)) := None))"
    if "Namespace_Reconcile exampleNsEnv ?r ''dynatrace'' ?w = (Inr d, w')" for d
    by (rule disabled_code_modules_delete_tokens [OF lawful_exampleNsEnv exampleNsCluster_lookup(2) exampleNsCluster_lookup(3) _ _ _ that])
      (simp_all add: exampleNsCluster_lookup SecretConfigName_def)
  have "map_of (cl_Secrets w') = map_of (cl_Secrets ?w) \<or>
      map_of (cl_Secrets w') = (map_of (cl_Secrets ?w)) ((''dynatrace'', ''dynakube'') := None)"
    using effect [OF run] by (simp add: exampleNsCluster_lookup)
  with run there gone show ?thesis by auto
qed

text \<open>The keys of secrets that the variables of a container refer to.\<close>

definition secretRefs :: "Container \<Rightarrow> (string \<times> string) list" where
  "secretRefs c = concat (map (\<lambda>e. case env_ValueFrom e of Some (SecretKeyRef name key) \<Rightarrow> [(name, key)] | _ \<Rightarrow> []) (ct_Env c))"

lemma updateContainer_refs:
  "secretRefs (updateContainer v cid dk ann c) = secretRefs c @
     (case spec_Proxy (dk_Spec dk) of
        None \<Rightarrow> [] | Some p \<Rightarrow> if px_Value p \<noteq> [] \<or> px_ValueFrom p \<noteq> [] then [(SecretConfigName, ''proxy'')] else [])"
  by (simp add: secretRefs_def updateContainer_def Let_def envValue_def envFrom_def split: option.splits)

text \<open>C12. The webhook and the namespace controller agree: once the configuration is replicated into a namespace, the volume that the
  webhook gives a pod of that namespace for the configuration is from a secret that is there, with the script that the init
  container runs; and what the webhook makes the containers refer to has the value of the resource's proxy. There is one gap: for a
  proxy that is taken from a secret without a value the webhook adds the reference, and the key is not replicated.\<close>

theorem injected_pod_resolves:
  assumes law: "lawfulNsEnv env nsV dkV secV cmV" and keyed: "keyed (metaKey \<circ> sec_Meta) (secV w)"
    and run: "replicateConfig env r targetNS dk w = (Inr d, w')"
    and pod: "injectPod version m dk pod = Inr pod'"
  shows "(\<exists>v name sec. v \<in> set (pod_Volumes (wp_Spec pod')) \<and> vol_Name v = ''oneagent-config'' \<and> vs_Secret (vol_Source v) = Some (name, []) \<and>
      secV w' (targetNS, name) = Some sec \<and> secretField sec ''init.sh'' \<noteq> None) \<and>
    list_all2 (\<lambda>c c'. \<exists>refs. secretRefs c' = secretRefs c @ refs \<and>
        list_all (\<lambda>(name, key). \<exists>sec. secV w' (targetNS, name) = Some sec \<and>
          (case secretField sec key of Some value \<Rightarrow> value = proxyIn (secV w) (rn_namespace r) dk
           | None \<Rightarrow> proxyIn (secV w) (rn_namespace r) dk = [] \<and> (\<exists>p. spec_Proxy (dk_Spec dk) = Some p \<and> px_ValueFrom p \<noteq> []))) refs)
      (pod_Containers (wp_Spec pod)) (pod_Containers (wp_Spec pod'))"
proof -
  obtain sec tkns ims where eff: "secV w' (targetNS, SecretConfigName) = Some sec"
      "\<forall>k. secretField sec k = map_of (script_generate (nse_template env)
         (scriptFor (nsV w) (secV w) (cmV w) (rn_namespace r) dk tkns (imNodesOf ims))) k"
    by (rule replicateConfig_effect [OF law keyed run]) (rule that)
  have field: "secretField sec ''proxy'' = (if proxyIn (secV w) (rn_namespace r) dk \<noteq> [] then Some (proxyIn (secV w) (rn_namespace r) dk) else None)"
    unfolding eff(2) [rule_format, of "''proxy''"] script_generate_keys scriptFor_def by simp
  have "list_all (\<lambda>(name, key). \<exists>sec. secV w' (targetNS, name) = Some sec \<and>
          (case secretField sec key of Some value \<Rightarrow> value = proxyIn (secV w) (rn_namespace r) dk
           | None \<Rightarrow> proxyIn (secV w) (rn_namespace r) dk = [] \<and> (\<exists>p. spec_Proxy (dk_Spec dk) = Some p \<and> px_ValueFrom p \<noteq> [])))
      (case spec_Proxy (dk_Spec dk) of
         None \<Rightarrow> [] | Some p \<Rightarrow> if px_Value p \<noteq> [] \<or> px_ValueFrom p \<noteq> [] then [(SecretConfigName, ''proxy'')] else [])"
    using eff(1) by (cases "spec_Proxy (dk_Spec dk)") (auto simp: field proxyIn_def)
  then have "list_all2 (\<lambda>c c'. \<exists>refs. secretRefs c' = secretRefs c @ refs \<and>
        list_all (\<lambda>(name, key). \<exists>sec. secV w' (targetNS, name) = Some sec \<and>
          (case secretField sec key of Some value \<Rightarrow> value = proxyIn (secV w) (rn_namespace r) dk
           | None \<Rightarrow> proxyIn (secV w) (rn_namespace r) dk = [] \<and> (\<exists>p. spec_Proxy (dk_Spec dk) = Some p \<and> px_ValueFrom p \<noteq> []))) refs)
      (pod_Containers (wp_Spec pod)) (pod_Containers (wp_Spec pod'))"
    unfolding injectPod_Inr(2) [OF pod] by (simp add: list_all2_conv_all_nth updateContainer_refs)
  moreover have "\<exists>v name sec. v \<in> set (pod_Volumes (wp_Spec pod')) \<and> vol_Name v = ''oneagent-config'' \<and> vs_Secret (vol_Source v) = Some (name, []) \<and>
      secV w' (targetNS, name) = Some sec \<and> secretField sec ''init.sh'' \<noteq> None"
    using eff(1) unfolding injectPod_Inr(4) [OF pod]
    by (intro exI [of _ "last (injectionVolumes dk)"] exI [of _ SecretConfigName] exI [of _ sec])
      (simp add: injectionVolumes_def eff(2) script_generate_keys)
  ultimately show ?thesis by blast
qed

theorem injected_pod_resolves_witness:
  "\<exists>d w' pod' name sec. replicateConfig exampleNsEnv \<lparr>rn_namespace = ''dynatrace''\<rparr> ''apps'' (exampleCodeModules True) (exampleNsCluster True) = (Inr d, w') \<and>
     injectPod ''v'' exampleInjector (exampleCodeModules True) examplePod = Inr pod' \<and>
     map_of (cl_Secrets w') (''apps'', name) = Some sec \<and> secretField sec ''init.sh'' \<noteq> None"
proof -
  obtain d w' where run: "replicateConfig exampleNsEnv \<lparr>rn_namespace = ''dynatrace''\<rparr> ''apps'' (exampleCodeModules True) (exampleNsCluster True) = (Inr d, w')"
    using exampleNs_run by (auto simp: exampleNs_head)
  obtain pod' where pod: "injectPod ''v'' exampleInjector (exampleCodeModules True) examplePod = Inr pod'"
    by (simp add: injectPod_def injectContainers_eq Let_def examplePod_def)
  from injected_pod_resolves [OF lawful_exampleNsEnv exampleNsCluster_lookup(5) run pod] run pod show ?thesis by blast
qed

end
