(* ===== verification/Webhook_Certs.thy ===== *)
theory Webhook_Certs
  imports Webhook
begin

text \<open>
  The certificates of the webhook server (\<^verbatim>\<open>src/controllers/webhookcerts\<close>): \<^verbatim>\<open>certs.go\<close> creates and renews
  the root and the server certificate, \<^verbatim>\<open>controller.go\<close> keeps them in a secret and tells the API server
  about them. Cryptography (\<^verbatim>\<open>crypto/rsa\<close>, \<^verbatim>\<open>crypto/x509\<close>, \<^verbatim>\<open>encoding/pem\<close>, random numbers and the clock) is a
  parameter with its documented laws. The code renews what is missing in the data
  (a nil byte slice), and goes on to decode what is there, the empty slice included: an entry of the data is never nil here, and a
  missing one is nil.
\<close>

section \<open>Certificates and keys\<close>

record x509_Certificate =
  x_SerialNumber :: int
  x_Subject :: "string list"
  x_CommonName :: string
  x_DNSNames :: "string list"
  x_IsCA :: bool
  x_NotBefore :: gotime
  x_NotAfter :: gotime
  x_KeyUsage :: "string list"
  x_ExtKeyUsage :: "string list"
  x_BasicConstraintsValid :: bool

record ('w, 'k) x509_env =
  xe_Now :: "'w \<Rightarrow> gotime \<times> 'w"
  xe_pemDecode :: "string \<Rightarrow> string option"
  xe_pemEncode :: "string \<Rightarrow> string \<Rightarrow> string"
  xe_ParseCertificate :: "string \<Rightarrow> goerr + x509_Certificate"
  xe_ParsePKCS1PrivateKey :: "string \<Rightarrow> goerr + 'k"
  xe_MarshalPKCS1PrivateKey :: "'k \<Rightarrow> string"
  xe_GenerateKey :: "nat \<Rightarrow> ('w, 'k) act"
  xe_ValidateKey :: "'k \<Rightarrow> goerr option"
  xe_randInt :: "int \<Rightarrow> ('w, int) act"
  xe_CreateCertificate :: "x509_Certificate \<Rightarrow> x509_Certificate \<Rightarrow> 'k \<Rightarrow> 'k \<Rightarrow> ('w, string) act"

definition serialNumberLimit :: int where "serialNumberLimit = 2 ^ 128"
definition renewalThreshold :: duration where "renewalThreshold = 12 * timeHour"

record 'k Certs =
  cs_Domain :: string
  cs_SrcData :: "string gomap option"
  cs_Data :: "string gomap"
  cs_Now :: gotime
  cs_rootPrivateKey :: "'k option"
  cs_rootPublicCert :: "x509_Certificate option"

section \<open>Validation\<close>

definition certData :: "'k Certs \<Rightarrow> string \<Rightarrow> string" where
  "certData cs k = goget (cs_Data cs) k []"

definition putData :: "string \<Rightarrow> string \<Rightarrow> 'k Certs \<Rightarrow> 'k Certs" where
  "putData k v cs = cs\<lparr>cs_Data := AList.update k v (cs_Data cs)\<rparr>"

text \<open>\<^verbatim>\<open>validateRootCerts\<close> returns whether the root certificate has to be renewed, and remembers what it has parsed.\<close>

definition validateRootCerts :: "('w, 'k) x509_env \<Rightarrow> gotime \<Rightarrow> 'k Certs \<Rightarrow> bool \<times> 'k Certs" where
  "validateRootCerts env now cs =
     (if map_of (cs_Data cs) ''ca.key'' = None \<or> map_of (cs_Data cs) ''ca.crt'' = None then (True, cs)
      else case xe_pemDecode env (certData cs ''ca.crt'') of
        None \<Rightarrow> (True, cs)
      | Some block \<Rightarrow>
          (case xe_ParseCertificate env block of
             Inl _ \<Rightarrow> (True, cs\<lparr>cs_rootPublicCert := None\<rparr>)
           | Inr cert \<Rightarrow>
               let cs1 = cs\<lparr>cs_rootPublicCert := Some cert\<rparr>
               in if x_NotAfter cert - renewalThreshold < now then (True, cs1)
                  else (case xe_pemDecode env (certData cs ''ca.key'') of
                          None \<Rightarrow> (True, cs1)
                        | Some keyBlock \<Rightarrow>
                            (case xe_ParsePKCS1PrivateKey env keyBlock of
                               Inl _ \<Rightarrow> (True, cs1\<lparr>cs_rootPrivateKey := None\<rparr>)
                             | Inr key \<Rightarrow> (False, cs1\<lparr>cs_rootPrivateKey := Some key\<rparr>)))))"

definition validateServerCerts :: "('w, 'k) x509_env \<Rightarrow> gotime \<Rightarrow> 'k Certs \<Rightarrow> bool" where
  "validateServerCerts env now cs =
     (if map_of (cs_Data cs) ''tls.key'' = None \<or> map_of (cs_Data cs) ''tls.crt'' = None then True
      else case xe_pemDecode env (certData cs ''tls.crt'') of
        None \<Rightarrow> True
      | Some block \<Rightarrow>
          (case xe_ParseCertificate env block of
             Inl _ \<Rightarrow> True
           | Inr cert \<Rightarrow> x_NotAfter cert - renewalThreshold < now))"

section \<open>Generation\<close>

definition subjectNames :: "string list" where
  "subjectNames = [''AT'', ''UA'', ''Linz'', ''Dynatrace'', ''OneAgent Webhook'']"

definition keyUsages :: "string list" where
  "keyUsages = [''KeyEncipherment'', ''DigitalSignature'']"

definition rootTemplate :: "int \<Rightarrow> string \<Rightarrow> gotime \<Rightarrow> x509_Certificate" where
  "rootTemplate serialNumber domain now =
     \<lparr>x_SerialNumber = serialNumber, x_Subject = subjectNames, x_CommonName = domain, x_DNSNames = [], x_IsCA = True, x_NotBefore = now,
      x_NotAfter = now + 365 * 24 * timeHour, x_KeyUsage = keyUsages @ [''CertSign''],
      x_ExtKeyUsage = [''ServerAuth''], x_BasicConstraintsValid = True\<rparr>"

definition serverTemplate :: "int \<Rightarrow> string \<Rightarrow> gotime \<Rightarrow> x509_Certificate" where
  "serverTemplate serialNumber domain now =
     \<lparr>x_SerialNumber = serialNumber, x_Subject = subjectNames, x_CommonName = domain, x_DNSNames = [domain], x_IsCA = False, x_NotBefore = now,
      x_NotAfter = now + 7 * 24 * timeHour, x_KeyUsage = keyUsages,
      x_ExtKeyUsage = [''ServerAuth''], x_BasicConstraintsValid = True\<rparr>"

definition generateKeyPair :: "('w, 'k) x509_env \<Rightarrow> string \<Rightarrow> ('w, 'k) act" where
  "generateKeyPair env what =
     bindE (wrapE (''failed to generate '' @ what @ '' private key: '') (xe_GenerateKey env 4096)) (\<lambda>key.
       case xe_ValidateKey env key of
         Some err \<Rightarrow> raiseE (Wrap (''validation for '' @ what @ '' private key failed: '') err)
       | None \<Rightarrow> retE key)"

definition generateRootCerts :: "('w, 'k) x509_env \<Rightarrow> string \<Rightarrow> gotime \<Rightarrow> 'k Certs \<Rightarrow> ('w, 'k Certs) act" where
  "generateRootCerts env domain now cs =
     bindE (generateKeyPair env ''root'') (\<lambda>key.
     let cs1 = putData ''ca.key'' (xe_pemEncode env ''RSA PRIVATE KEY'' (xe_MarshalPKCS1PrivateKey env key)) (cs\<lparr>cs_rootPrivateKey := Some key\<rparr>)
     in bindE (wrapE ''failed to generate serial number for root certificate: '' (xe_randInt env serialNumberLimit)) (\<lambda>serialNumber.
        let cert = rootTemplate serialNumber domain now
        in bindE (wrapE ''failed to generate root certificate: '' (xe_CreateCertificate env cert cert key key)) (\<lambda>der.
             retE (putData ''ca.crt'' (xe_pemEncode env ''CERTIFICATE'' der)
                    (putData ''ca.crt.old'' (certData cs1 ''ca.crt'') (cs1\<lparr>cs_rootPublicCert := Some cert\<rparr>))))))"

text \<open>Without a root key or certificate the call of \<^verbatim>\<open>x509.CreateCertificate\<close> dereferences a nil pointer.\<close>

definition generateServerCerts :: "('w, 'k) x509_env \<Rightarrow> string \<Rightarrow> gotime \<Rightarrow> 'k Certs \<Rightarrow> ('w, 'k Certs) act" where
  "generateServerCerts env domain now cs =
     bindE (generateKeyPair env ''server'') (\<lambda>privKey.
     let cs1 = putData ''tls.key'' (xe_pemEncode env ''RSA PRIVATE KEY'' (xe_MarshalPKCS1PrivateKey env privKey)) cs
     in bindE (wrapE ''failed to generate serial number for server certificate: '' (xe_randInt env serialNumberLimit)) (\<lambda>serialNumber.
        case (cs_rootPublicCert cs, cs_rootPrivateKey cs) of
          (Some root, Some rootKey) \<Rightarrow>
            bindE (wrapE ''failed to generate server certificate: ''
                    (xe_CreateCertificate env (serverTemplate serialNumber domain now) root privKey rootKey))
              (\<lambda>der. retE (putData ''tls.crt'' (xe_pemEncode env ''CERTIFICATE'' der) cs1))
        | _ \<Rightarrow> raiseE panicNil))"

definition currentTime :: "('w, 'k) x509_env \<Rightarrow> 'k Certs \<Rightarrow> 'w \<Rightarrow> gotime \<times> 'w" where
  "currentTime env cs w = (case xe_Now env w of (t, w') \<Rightarrow> (if timeIsZero (cs_Now cs) then t else cs_Now cs, w'))"

definition renewCerts :: "('w, 'k) x509_env \<Rightarrow> gotime \<Rightarrow> 'k Certs \<Rightarrow> ('w, 'k Certs) act" where
  "renewCerts env now cs =
     (case validateRootCerts env now cs of
        (renewRootCerts, cs1) \<Rightarrow>
          bindE (if renewRootCerts then generateRootCerts env (cs_Domain cs1) now cs1 else retE cs1) (\<lambda>cs2.
            if renewRootCerts \<or> validateServerCerts env now cs2 then generateServerCerts env (cs_Domain cs2) now cs2
            else retE cs2))"

definition ValidateCerts :: "('w, 'k) x509_env \<Rightarrow> 'k Certs \<Rightarrow> ('w, 'k Certs) act" where
  "ValidateCerts env cs =
     (\<lambda>w. case currentTime env cs w of
            (now, w') \<Rightarrow> renewCerts env now (cs\<lparr>cs_Data := entries (cs_SrcData cs)\<rparr>) w')"

section \<open>The controller\<close>

definition webhookName :: string where "webhookName = ''dynatrace-webhook''"
definition SecretCertsName :: string where "SecretCertsName = ''dynatrace-webhook-certs''"

record MutatingWebhook =
  mw_Name :: string
  mw_AdmissionReviewVersions :: "string list"
  mw_Operations :: "string list"
  mw_APIGroups :: "string list"
  mw_APIVersions :: "string list"
  mw_Resources :: "string list"
  mw_Scope :: string
  mw_SelectorExists :: "string list"
  mw_Service :: objkey
  mw_Path :: string
  mw_CABundle :: string
  mw_SideEffects :: string

record MutatingWebhookConfiguration =
  mwc_Meta :: ObjectMeta
  mwc_Webhooks :: "MutatingWebhook list"

record 'w wc_env =
  wc_secrets :: "('w, Secret) kclient"
  wc_services :: "('w, Service) kclient"
  wc_configurations :: "('w, MutatingWebhookConfiguration) kclient"

record ReconcileWebhookCertificates =
  wcr_namespace :: string
  wcr_now :: gotime

definition webhookLabels :: "string gomap" where
  "webhookLabels = [(''dynatrace.com/operator'', ''oneagent''), (''internal.dynatrace.com/component'', ''webhook'')]"

definition expectedService :: "string \<Rightarrow> Service" where
  "expectedService ns =
     \<lparr>svc_Meta = emptyMeta\<lparr>om_Name := webhookName, om_Namespace := ns, om_Labels := Some webhookLabels\<rparr>, svc_Type = [],
      svc_Selector = [(''internal.dynatrace.com/component'', ''webhook''), (''internal.dynatrace.com/app'', ''webhook'')],
      svc_Ports = [\<lparr>sp_Protocol = ''TCP'', sp_Port = 443, sp_TargetPort = StrVal ''server-port''\<rparr>]\<rparr>"

definition reconcileService :: "'w wc_env \<Rightarrow> ReconcileWebhookCertificates \<Rightarrow> ('w, unit) act" where
  "reconcileService env r =
     catchE (kGet (wc_services env) (wcr_namespace r, webhookName))
       (\<lambda>err. if isNotFound err
              then bindE (kCreate (wc_services env) (expectedService (wcr_namespace r))) (\<lambda>_. retE ())
              else raiseE err)
       (\<lambda>_. retE ())"

definition newCerts :: "ReconcileWebhookCertificates \<Rightarrow> string gomap option \<Rightarrow> 'k Certs" where
  "newCerts r src =
     \<lparr>cs_Domain = webhookName @ ''.'' @ wcr_namespace r @ ''.svc'', cs_SrcData = src, cs_Data = [], cs_Now = wcr_now r,
      cs_rootPrivateKey = None, cs_rootPublicCert = None\<rparr>"

definition certBundle :: "'k Certs \<Rightarrow> string" where
  "certBundle cs = certData cs ''ca.crt'' @ certData cs ''ca.crt.old''"

definition reconcileCerts :: "('w, 'k) x509_env \<Rightarrow> 'w wc_env \<Rightarrow> ReconcileWebhookCertificates \<Rightarrow> ('w, string) act" where
  "reconcileCerts xe env r =
     catchE (kGet (wc_secrets env) (wcr_namespace r, SecretCertsName))
       (\<lambda>err. if isNotFound err
              then bindE (ValidateCerts xe (newCerts r None)) (\<lambda>cs.
                   bindE (kCreate (wc_secrets env)
                           (emptySecret\<lparr>sec_Meta := emptyMeta\<lparr>om_Name := SecretCertsName, om_Namespace := wcr_namespace r\<rparr>,
                                        sec_Data := Some (cs_Data cs)\<rparr>)) (\<lambda>_.
                     retE (certBundle cs)))
              else raiseE err)
       (\<lambda>secret.
          bindE (ValidateCerts xe (newCerts r (sec_Data secret))) (\<lambda>cs.
            if \<not> deepEqualMap (Some (cs_Data cs)) (sec_Data secret)
            then bindE (kUpdate (wc_secrets env) (secret\<lparr>sec_Data := Some (cs_Data cs)\<rparr>)) (\<lambda>_. retE (certBundle cs))
            else retE (certBundle cs)))"

definition expectedConfiguration :: "string \<Rightarrow> string \<Rightarrow> MutatingWebhookConfiguration" where
  "expectedConfiguration ns rootCerts =
     \<lparr>mwc_Meta = emptyMeta\<lparr>om_Name := webhookName, om_Labels := Some webhookLabels\<rparr>,
      mwc_Webhooks =
        [\<lparr>mw_Name = ''webhook.dynatrace.com'', mw_AdmissionReviewVersions = [''v1''], mw_Operations = [''CREATE''],
          mw_APIGroups = [[]], mw_APIVersions = [''v1''], mw_Resources = [''pods''], mw_Scope = ''Namespaced'',
          mw_SelectorExists = [LabelInstance], mw_Service = (ns, webhookName), mw_Path = ''/inject'',
          mw_CABundle = rootCerts, mw_SideEffects = ''None''\<rparr>]\<rparr>"

definition reconcileWebhookConfig :: "'w wc_env \<Rightarrow> ReconcileWebhookCertificates \<Rightarrow> string \<Rightarrow> ('w, unit) act" where
  "reconcileWebhookConfig env r rootCerts =
     (let webhookConfiguration = expectedConfiguration (wcr_namespace r) rootCerts
      in catchE (kGet (wc_configurations env) ([], webhookName))
           (\<lambda>err. if isNotFound err
                  then bindE (kCreate (wc_configurations env) webhookConfiguration) (\<lambda>_. retE ())
                  else raiseE err)
           (\<lambda>cfg. if length (mwc_Webhooks cfg) = 1 \<and> mw_CABundle (hd (mwc_Webhooks cfg)) = rootCerts then retE ()
                  else bindE (kUpdate (wc_configurations env) (cfg\<lparr>mwc_Webhooks := mwc_Webhooks webhookConfiguration\<rparr>)) (\<lambda>_. retE ())))"

definition WebhookCertificates_Reconcile :: "('w, 'k) x509_env \<Rightarrow> 'w wc_env \<Rightarrow> ReconcileWebhookCertificates \<Rightarrow> ('w, unit) act" where
  "WebhookCertificates_Reconcile xe env r =
     bindE (wrapE ''failed to reconcile certificates: '' (reconcileCerts xe env r)) (\<lambda>rootCerts.
     bindE (wrapE ''failed to reconcile service: '' (reconcileService env r)) (\<lambda>_.
       wrapE ''failed to reconcile webhook configuration: '' (reconcileWebhookConfig env r rootCerts)))"

section \<open>Laws of the cryptography\<close>

text \<open>
  \<open>signs\<close> says which key has signed an encoded certificate. Encodings can be read back, and the validity of a
  created certificate is that of its template, cut off to seconds.
\<close>

definition lawfulX509 :: "('w, 'k) x509_env \<Rightarrow> (string \<Rightarrow> 'k \<Rightarrow> bool) \<Rightarrow> bool" where
  "lawfulX509 env signs \<longleftrightarrow>
     xe_pemDecode env [] = None \<and> (\<forall>t b. xe_pemDecode env (xe_pemEncode env t b) = Some b) \<and>
     (\<forall>k. xe_ParsePKCS1PrivateKey env (xe_MarshalPKCS1PrivateKey env k) = Inr k) \<and>
     (\<forall>tpl parent pub signer w der w'. xe_CreateCertificate env tpl parent pub signer w = (Inr der, w') \<longrightarrow>
        signs der signer \<and> (\<exists>c. xe_ParseCertificate env der = Inr c \<and> x_NotAfter tpl - timeSecond < x_NotAfter c \<and> x_NotAfter c \<le> x_NotAfter tpl))"

lemma lawfulX509D:
  assumes "lawfulX509 env signs"
  shows "xe_pemDecode env [] = None" "xe_pemDecode env (xe_pemEncode env t b) = Some b"
    "xe_ParsePKCS1PrivateKey env (xe_MarshalPKCS1PrivateKey env k) = Inr k"
  using assms by (simp_all add: lawfulX509_def)

lemma lawfulX509_Create:
  assumes "lawfulX509 env signs" and "xe_CreateCertificate env tpl parent pub signer w = (Inr der, w')"
  shows "signs der signer" and "\<exists>c. xe_ParseCertificate env der = Inr c \<and> x_NotAfter tpl - timeSecond < x_NotAfter c"
  using assms unfolding lawfulX509_def by blast+

text \<open>A certificate of the data that is valid for the renewal threshold at least, and a key of the data.\<close>

definition certFresh :: "('w, 'k) x509_env \<Rightarrow> gotime \<Rightarrow> string \<Rightarrow> bool" where
  "certFresh env now pem \<longleftrightarrow>
     (\<exists>block c. xe_pemDecode env pem = Some block \<and> xe_ParseCertificate env block = Inr c \<and> now + renewalThreshold \<le> x_NotAfter c)"

definition keyIs :: "('w, 'k) x509_env \<Rightarrow> string \<Rightarrow> 'k \<Rightarrow> bool" where
  "keyIs env pem key \<longleftrightarrow> (\<exists>block. xe_pemDecode env pem = Some block \<and> xe_ParsePKCS1PrivateKey env block = Inr key)"

definition signedPem :: "('w, 'k) x509_env \<Rightarrow> (string \<Rightarrow> 'k \<Rightarrow> bool) \<Rightarrow> string \<Rightarrow> 'k \<Rightarrow> bool" where
  "signedPem env signs pem key \<longleftrightarrow> (\<exists>block. xe_pemDecode env pem = Some block \<and> signs block key)"

text \<open>The root and the server certificate, as far as they can be read, are signed with the key that is stored.\<close>

definition chained :: "('w, 'k) x509_env \<Rightarrow> (string \<Rightarrow> 'k \<Rightarrow> bool) \<Rightarrow> string gomap \<Rightarrow> bool" where
  "chained env signs data \<longleftrightarrow>
     (\<forall>key name. keyIs env (goget data ''ca.key'' []) key \<and> (name = ''ca.crt'' \<or> name = ''tls.crt'') \<and>
        xe_pemDecode env (goget data name []) \<noteq> None \<longrightarrow> signedPem env signs (goget data name []) key)"

section \<open>Lemmas: validation and generation\<close>

lemma goget_update [simp]: "goget (AList.update k v m) k' d = (if k = k' then v else goget m k' d)"
  by (simp add: goget_def update_conv')

lemma certData_putData [simp]: "certData (putData k v cs) k' = (if k = k' then v else certData cs k')"
  by (simp add: certData_def putData_def)

lemma putData_simps [simp]:
  "cs_rootPrivateKey (putData k v cs) = cs_rootPrivateKey cs" "cs_rootPublicCert (putData k v cs) = cs_rootPublicCert cs"
  "cs_Domain (putData k v cs) = cs_Domain cs"
  by (simp_all add: putData_def)

lemma certData_updates [simp]:
  "certData (cs\<lparr>cs_rootPrivateKey := k\<rparr>) n = certData cs n" "certData (cs\<lparr>cs_rootPublicCert := c\<rparr>) n = certData cs n"
  by (simp_all add: certData_def)

lemma validateRootCerts_data: "validateRootCerts env now cs = (b, cs') \<Longrightarrow> cs_Data cs' = cs_Data cs \<and> cs_Domain cs' = cs_Domain cs"
  unfolding validateRootCerts_def Let_def by (auto split: if_splits option.splits sum.splits)

lemma validateRootCerts_False:
  assumes "validateRootCerts env now cs = (False, cs')"
  shows "certFresh env now (certData cs ''ca.crt'')" and "\<exists>c key. cs_rootPublicCert cs' = Some c \<and> cs_rootPrivateKey cs' = Some key \<and>
    keyIs env (certData cs ''ca.key'') key"
  using assms unfolding validateRootCerts_def certFresh_def keyIs_def Let_def
  by (auto split: if_splits option.splits sum.splits)

lemma validateServerCerts_False: "\<not> validateServerCerts env now cs \<Longrightarrow> certFresh env now (certData cs ''tls.crt'')"
  unfolding validateServerCerts_def certFresh_def by (auto split: if_splits option.splits sum.splits)

lemma generateKeyPair_Inr: "generateKeyPair env what w = (Inr key, w') \<Longrightarrow> xe_GenerateKey env 4096 w = (Inr key, w')"
  unfolding generateKeyPair_def by (auto simp: bindE_run wrapE_run split: prod.splits sum.splits option.splits)

lemma created_fresh:
  assumes "lawfulX509 env signs" and "xe_CreateCertificate env tpl parent pub signer w = (Inr der, w')"
    and "now + renewalThreshold + timeSecond \<le> x_NotAfter tpl"
  shows "certFresh env now (xe_pemEncode env t der)" and "signedPem env signs (xe_pemEncode env t der) signer"
  using lawfulX509_Create [OF assms(1,2)] assms(3) lawfulX509D(2) [OF assms(1)]
  by (fastforce simp: certFresh_def signedPem_def)+

lemma generateRootCerts_effect:
  assumes law: "lawfulX509 env signs" and run: "generateRootCerts env domain now cs w = (Inr cs', w')"
  obtains key where "cs_rootPrivateKey cs' = Some key" "cs_rootPublicCert cs' \<noteq> None" "keyIs env (certData cs' ''ca.key'') key"
    "certFresh env now (certData cs' ''ca.crt'')" "signedPem env signs (certData cs' ''ca.crt'') key"
    "certData cs' ''ca.crt.old'' = certData cs ''ca.crt''" "cs_Domain cs' = cs_Domain cs"
proof -
  obtain key w1 where 1: "generateKeyPair env ''root'' w = (Inr key, w1)"
    using run by (auto simp: generateRootCerts_def bindE_run split: prod.splits sum.splits)
  obtain n w2 where 2: "xe_randInt env serialNumberLimit w1 = (Inr n, w2)"
    using run 1 by (auto simp: generateRootCerts_def Let_def bindE_run wrapE_run split: prod.splits sum.splits)
  let ?c = "rootTemplate n domain now"
  obtain der where 3: "xe_CreateCertificate env ?c ?c key key w2 = (Inr der, w')"
    and cs': "cs' = putData ''ca.crt'' (xe_pemEncode env ''CERTIFICATE'' der) (putData ''ca.crt.old'' (certData cs ''ca.crt'')
      ((putData ''ca.key'' (xe_pemEncode env ''RSA PRIVATE KEY'' (xe_MarshalPKCS1PrivateKey env key)) (cs\<lparr>cs_rootPrivateKey := Some key\<rparr>))
        \<lparr>cs_rootPublicCert := Some ?c\<rparr>))"
    using run 1 2 by (auto simp: generateRootCerts_def Let_def bindE_run wrapE_run split: prod.splits sum.splits)
  have "now + renewalThreshold + timeSecond \<le> x_NotAfter ?c" by (simp add: rootTemplate_def renewalThreshold_def time_defs)
  note fresh = created_fresh [OF law 3 this, of "''CERTIFICATE''"]
  show thesis
    by (rule that [of key]) (simp_all add: cs' fresh keyIs_def lawfulX509D [OF law])
qed

lemma generateServerCerts_effect:
  assumes law: "lawfulX509 env signs" and run: "generateServerCerts env domain now cs w = (Inr cs', w')"
    and key: "cs_rootPrivateKey cs = Some key"
  shows "certFresh env now (certData cs' ''tls.crt'')" and "signedPem env signs (certData cs' ''tls.crt'') key"
    and "n \<noteq> ''tls.crt'' \<Longrightarrow> n \<noteq> ''tls.key'' \<Longrightarrow> certData cs' n = certData cs n"
    and "\<exists>k. keyIs env (certData cs' ''tls.key'') k"
proof -
  obtain privKey w1 where 1: "generateKeyPair env ''server'' w = (Inr privKey, w1)"
    using run by (auto simp: generateServerCerts_def bindE_run split: prod.splits sum.splits)
  obtain m w2 where 2: "xe_randInt env serialNumberLimit w1 = (Inr m, w2)"
    using run 1 by (auto simp: generateServerCerts_def Let_def bindE_run wrapE_run split: prod.splits sum.splits)
  let ?c = "serverTemplate m domain now"
  obtain root der where 3: "xe_CreateCertificate env ?c root privKey key w2 = (Inr der, w')"
    and cs': "cs' = putData ''tls.crt'' (xe_pemEncode env ''CERTIFICATE'' der)
      (putData ''tls.key'' (xe_pemEncode env ''RSA PRIVATE KEY'' (xe_MarshalPKCS1PrivateKey env privKey)) cs)"
    using run 1 2 key by (auto simp: generateServerCerts_def Let_def bindE_run wrapE_run split: prod.splits sum.splits option.splits)
  have "now + renewalThreshold + timeSecond \<le> x_NotAfter ?c" by (simp add: serverTemplate_def renewalThreshold_def time_defs)
  note fresh = created_fresh [OF law 3 this, of "''CERTIFICATE''"]
  show "certFresh env now (certData cs' ''tls.crt'')" "signedPem env signs (certData cs' ''tls.crt'') key" by (simp_all add: cs' fresh)
  show "n \<noteq> ''tls.crt'' \<Longrightarrow> n \<noteq> ''tls.key'' \<Longrightarrow> certData cs' n = certData cs n" by (simp add: cs')
  show "\<exists>k. keyIs env (certData cs' ''tls.key'') k" by (auto simp: cs' keyIs_def lawfulX509D [OF law])
qed

text \<open>The three ways a validation ends: nothing to do, a new server certificate, and new certificates altogether.\<close>

lemma renewCerts_cases [consumes 2, case_names valid server root]:
  assumes law: "lawfulX509 env signs" and run: "renewCerts env now cs w = (Inr cs', w')"
  obtains (valid) "cs_Data cs' = cs_Data cs" "w' = w" "certFresh env now (certData cs ''ca.crt'')" "certFresh env now (certData cs ''tls.crt'')"
      "\<exists>k. keyIs env (certData cs ''ca.key'') k"
    | (server) key where "keyIs env (certData cs' ''ca.key'') key" "certFresh env now (certData cs' ''ca.crt'')"
      "certFresh env now (certData cs' ''tls.crt'')" "signedPem env signs (certData cs' ''tls.crt'') key"
      "\<And>n. n \<noteq> ''tls.crt'' \<Longrightarrow> n \<noteq> ''tls.key'' \<Longrightarrow> certData cs' n = certData cs n"
    | (root) key where "keyIs env (certData cs' ''ca.key'') key" "certFresh env now (certData cs' ''ca.crt'')"
      "certFresh env now (certData cs' ''tls.crt'')" "signedPem env signs (certData cs' ''tls.crt'') key"
      "signedPem env signs (certData cs' ''ca.crt'') key" "certData cs' ''ca.crt.old'' = certData cs ''ca.crt''"
proof -
  obtain b cs1 where val: "validateRootCerts env now cs = (b, cs1)" by fastforce
  note data = validateRootCerts_data [OF val]
  have same: "certData cs1 n = certData cs n" for n using data by (simp add: certData_def)
  show thesis
  proof (cases b)
    case True
    obtain cs2 w1 where gen: "generateRootCerts env (cs_Domain cs1) now cs1 w = (Inr cs2, w1)"
      and server: "generateServerCerts env (cs_Domain cs2) now cs2 w1 = (Inr cs', w')"
      using run True by (auto simp: renewCerts_def val bindE_run split: prod.splits sum.splits)
    from law gen obtain key where key: "cs_rootPrivateKey cs2 = Some key" "keyIs env (certData cs2 ''ca.key'') key"
      "certFresh env now (certData cs2 ''ca.crt'')" "signedPem env signs (certData cs2 ''ca.crt'') key"
      "certData cs2 ''ca.crt.old'' = certData cs1 ''ca.crt''" by (rule generateRootCerts_effect)
    note eff = generateServerCerts_effect [OF law server key(1)]
    show thesis by (rule root [of key]) (simp_all add: eff key same)
  next
    case False
    with val have val: "validateRootCerts env now cs = (False, cs1)" by simp
    obtain key where key: "cs_rootPrivateKey cs1 = Some key" "keyIs env (certData cs ''ca.key'') key"
      using validateRootCerts_False(2) [OF val] by blast
    show thesis
    proof (cases "validateServerCerts env now cs1")
      case True
      then have "generateServerCerts env (cs_Domain cs1) now cs1 w = (Inr cs', w')" using run val by (simp add: renewCerts_def)
      note eff = generateServerCerts_effect [OF law this key(1)]
      show thesis by (rule server [of key]) (simp_all add: eff key same validateRootCerts_False(1) [OF val])
    next
      case False
      then have "cs' = cs1" "w' = w" using run val by (simp_all add: renewCerts_def)
      then show thesis using data key validateRootCerts_False(1) [OF val] validateServerCerts_False [OF False] same by (intro valid) auto
    qed
  qed
qed

lemma ValidateCerts_run:
  "ValidateCerts env cs w = renewCerts env (fst (currentTime env cs w)) (cs\<lparr>cs_Data := entries (cs_SrcData cs)\<rparr>) (snd (currentTime env cs w))"
  by (simp add: ValidateCerts_def split: prod.splits)

lemma certData_src [simp]: "certData (cs\<lparr>cs_Data := m\<rparr>) n = goget m n []"
  by (simp add: certData_def)

lemma ValidateCerts_fresh_effect:
  assumes "lawfulX509 env signs" and "ValidateCerts env cs w = (Inr cs', w')"
  shows "certFresh env (fst (currentTime env cs w)) (certData cs' ''ca.crt'')"
    and "certFresh env (fst (currentTime env cs w)) (certData cs' ''tls.crt'')" and "\<exists>key. keyIs env (certData cs' ''ca.key'') key"
proof -
  have "certFresh env (fst (currentTime env cs w)) (certData cs' ''ca.crt'') \<and>
    certFresh env (fst (currentTime env cs w)) (certData cs' ''tls.crt'') \<and> (\<exists>key. keyIs env (certData cs' ''ca.key'') key)"
    using assms unfolding ValidateCerts_run by (cases rule: renewCerts_cases) (auto simp: certData_def)
  then show "certFresh env (fst (currentTime env cs w)) (certData cs' ''ca.crt'')"
    "certFresh env (fst (currentTime env cs w)) (certData cs' ''tls.crt'')" "\<exists>key. keyIs env (certData cs' ''ca.key'') key" by simp_all
qed

lemma keyIs_unique: "keyIs env pem key \<Longrightarrow> keyIs env pem key' \<Longrightarrow> key = key'"
  by (auto simp: keyIs_def)

lemma chainedI:
  assumes "keyIs env (goget data ''ca.key'' []) key"
    and "\<And>name. name = ''ca.crt'' \<or> name = ''tls.crt'' \<Longrightarrow> xe_pemDecode env (goget data name []) \<noteq> None \<Longrightarrow> signedPem env signs (goget data name []) key"
  shows "chained env signs data"
  unfolding chained_def using assms keyIs_unique [OF assms(1)] by blast

lemma chainedD: "chained env signs data \<Longrightarrow> keyIs env (goget data ''ca.key'' []) key \<Longrightarrow> xe_pemDecode env (goget data ''ca.crt'' []) \<noteq> None \<Longrightarrow>
    signedPem env signs (goget data ''ca.crt'' []) key"
  unfolding chained_def by blast

text \<open>Making certificates does not touch what is seen through a view of the API server, and the clock does not go behind a time.\<close>

definition x509Leaves :: "('w, 'k) x509_env \<Rightarrow> ('w \<Rightarrow> 'v) \<Rightarrow> bool" where
  "x509Leaves env view \<longleftrightarrow>
     (\<forall>w. view (snd (xe_Now env w)) = view w) \<and> (\<forall>n w. view (snd (xe_GenerateKey env n w)) = view w) \<and>
     (\<forall>n w. view (snd (xe_randInt env n w)) = view w) \<and>
     (\<forall>t p k s w. view (snd (xe_CreateCertificate env t p k s w)) = view w)"

definition clockFrom :: "('w, 'k) x509_env \<Rightarrow> ReconcileWebhookCertificates \<Rightarrow> gotime \<Rightarrow> bool" where
  "clockFrom env r t0 \<longleftrightarrow> (\<forall>w. t0 \<le> (if timeIsZero (wcr_now r) then fst (xe_Now env w) else wcr_now r))"

lemma ValidateCerts_leaves:
  assumes "x509Leaves env view"
  shows "keeps (\<lambda>w. view w = x) (ValidateCerts env cs)"
proof -
  have prims: "keeps (\<lambda>w. view w = x) (xe_GenerateKey env n)" "keeps (\<lambda>w. view w = x) (xe_randInt env l)"
    "keeps (\<lambda>w. view w = x) (xe_CreateCertificate env t p k s)" for n l t p k s
    using assms by (simp_all add: x509Leaves_def keeps_def)
  have key: "keeps (\<lambda>w. view w = x) (generateKeyPair env what)" for what
    unfolding generateKeyPair_def by (intro keeps_intros prims)
  have root: "keeps (\<lambda>w. view w = x) (generateRootCerts env d now c)" for d now c
    unfolding generateRootCerts_def Let_def by (intro keeps_intros prims key)
  have server: "keeps (\<lambda>w. view w = x) (generateServerCerts env d now c)" for d now c
    unfolding generateServerCerts_def Let_def
    by (cases "cs_rootPublicCert c"; cases "cs_rootPrivateKey c"; simp; intro keeps_intros prims key)
  have "keeps (\<lambda>w. view w = x) (renewCerts env now c)" for now c
    unfolding renewCerts_def by (cases "validateRootCerts env now c") (simp only: prod.case, intro keeps_intros root server)
  then show ?thesis using assms
    by (simp add: keeps_def ValidateCerts_run currentTime_def x509Leaves_def split: prod.splits) (metis snd_conv)
qed

lemma certFresh_mono: "certFresh env now pem \<Longrightarrow> t0 \<le> now \<Longrightarrow> certFresh env t0 pem"
  unfolding certFresh_def by force

lemma secretData_certData:
  "deepEqualMap (Some (cs_Data cs)) (sec_Data sec) \<Longrightarrow> secretData sec n = certData cs n"
  by (cases "sec_Data sec") (auto simp: deepEqualMap_iff secretData_def secretField_def certData_def goget_def split: option.splits)

lemma newCerts_fresh:
  assumes "lawfulX509 xe signs" and "clockFrom xe r t0" and "ValidateCerts xe (newCerts r src) w = (Inr cs, w')"
  shows "certFresh xe t0 (certData cs ''ca.crt'')" and "certFresh xe t0 (certData cs ''tls.crt'')"
proof -
  have "t0 \<le> fst (currentTime xe (newCerts r src) w)"
    using assms(2) [unfolded clockFrom_def, rule_format, of w] by (cases "xe_Now xe w") (auto simp: currentTime_def newCerts_def split: if_splits)
  then show "certFresh xe t0 (certData cs ''ca.crt'')" "certFresh xe t0 (certData cs ''tls.crt'')"
    using ValidateCerts_fresh_effect(1,2) [OF assms(1,3)] by (auto intro: certFresh_mono)
qed

lemma reconcileCerts_effect:
  assumes law: "lawfulX509 xe signs" "lawful (wc_secrets env) (metaKey \<circ> sec_Meta) secV" "x509Leaves xe secV" "clockFrom xe r t0"
    and keyed: "keyed (metaKey \<circ> sec_Meta) (secV w)" and run: "reconcileCerts xe env r w = (Inr roots, w')"
  obtains sec where "secV w' (wcr_namespace r, SecretCertsName) = Some sec"
    "roots = secretData sec ''ca.crt'' @ secretData sec ''ca.crt.old''"
    "certFresh xe t0 (secretData sec ''ca.crt'')" "certFresh xe t0 (secretData sec ''tls.crt'')"
proof -
  let ?key = "(wcr_namespace r, SecretCertsName)"
  obtain q w1 where get: "kGet (wc_secrets env) ?key w = (q, w1)" by fastforce
  note same = lawful_GetD(1) [OF law(2) get]
  have "\<exists>cs w2 src. ValidateCerts xe (newCerts r src) w1 = (Inr cs, w2) \<and> roots = certBundle cs \<and>
      (\<exists>sec. secV w' ?key = Some sec \<and> deepEqualMap (Some (cs_Data cs)) (sec_Data sec))"
  proof (cases q)
    case (Inl e)
    then obtain cs w2 ob where val: "isNotFound e" "ValidateCerts xe (newCerts r None) w1 = (Inr cs, w2)" "roots = certBundle cs"
      and create: "kCreate (wc_secrets env) (emptySecret\<lparr>sec_Meta := emptyMeta\<lparr>om_Name := SecretCertsName, om_Namespace := wcr_namespace r\<rparr>,
          sec_Data := Some (cs_Data cs)\<rparr>) w2 = (Inr ob, w')"
      using run get by (auto simp: reconcileCerts_def bindE_run split: prod.splits sum.splits if_splits)
    from lawful_CreateD(1) [OF law(2) create refl] have "\<exists>sec. secV w' ?key = Some sec \<and> deepEqualMap (Some (cs_Data cs)) (sec_Data sec)"
      by (simp add: metaKey_def deepEqualMap_iff)
    with val show ?thesis by blast
  next
    case (Inr sec)
    then obtain cs w2 where val: "ValidateCerts xe (newCerts r (sec_Data sec)) w1 = (Inr cs, w2)" "roots = certBundle cs"
      and rest: "(if \<not> deepEqualMap (Some (cs_Data cs)) (sec_Data sec)
            then bindE (kUpdate (wc_secrets env) (sec\<lparr>sec_Data := Some (cs_Data cs)\<rparr>)) (\<lambda>_. retE (certBundle cs))
            else retE (certBundle cs)) w2 = (Inr roots, w')"
      using run get by (auto simp: reconcileCerts_def bindE_run split: prod.splits sum.splits if_splits)
    have w2: "secV w2 ?key = Some sec"
      using keepsD [OF ValidateCerts_leaves [OF law(3)] refl val(1)] same lawful_GetD(2) [OF law(2) get Inr] by simp
    then have "metaKey (sec_Meta sec) = ?key" using keyed lawful_GetD(2) [OF law(2) get Inr] by (auto simp: keyed_def)
    then have "\<exists>sec. secV w' ?key = Some sec \<and> deepEqualMap (Some (cs_Data cs)) (sec_Data sec)"
      using rest w2 lawful_UpdateD(1) [OF law(2), of "sec\<lparr>sec_Data := Some (cs_Data cs)\<rparr>" w2]
      by (auto simp: bindE_run deepEqualMap_iff split: if_splits prod.splits sum.splits)
    with val show ?thesis by blast
  qed
  then obtain cs w2 src sec where val: "ValidateCerts xe (newCerts r src) w1 = (Inr cs, w2)" "roots = certBundle cs"
    and sec: "secV w' ?key = Some sec" "deepEqualMap (Some (cs_Data cs)) (sec_Data sec)" by blast
  show thesis
    by (rule that [OF sec(1)]) (simp_all add: secretData_certData [OF sec(2)] val(2) certBundle_def newCerts_fresh [OF law(1,4) val(1)])
qed

lemma reconcileService_effect:
  assumes "reconcileService env r w = (Inr (), w')" and "lawful (wc_services env) svcKey svcV"
  shows "svcV w' (wcr_namespace r, webhookName) \<noteq> None"
  using assms(1) lawful_GetD(1,2) [OF assms(2)] lawful_CreateD(1) [OF assms(2), of "expectedService (wcr_namespace r)"]
  by (fastforce simp: reconcileService_def catchE_run bindE_run expectedService_def metaKey_def split: prod.splits sum.splits if_splits)

lemma reconcileWebhookConfig_effect:
  assumes law: "lawful (wc_configurations env) (metaKey \<circ> mwc_Meta) cfgV" and keyed: "keyed (metaKey \<circ> mwc_Meta) (cfgV w)"
    and run: "reconcileWebhookConfig env r roots w = (Inr (), w')"
  shows "\<exists>cfg. cfgV w' ([], webhookName) = Some cfg \<and> map mw_CABundle (mwc_Webhooks cfg) = [roots]"
proof -
  let ?new = "expectedConfiguration (wcr_namespace r) roots"
  have new: "metaKey (mwc_Meta ?new) = ([], webhookName)" "map mw_CABundle (mwc_Webhooks ?new) = [roots]"
    by (simp_all add: expectedConfiguration_def metaKey_def emptyMeta_def)
  obtain q w1 where get: "kGet (wc_configurations env) ([], webhookName) w = (q, w1)" by fastforce
  show ?thesis
  proof (cases q)
    case (Inl e)
    then obtain ob where "kCreate (wc_configurations env) ?new w1 = (Inr ob, w')"
      using run get by (auto simp: reconcileWebhookConfig_def Let_def bindE_run split: prod.splits sum.splits if_splits)
    from lawful_CreateD(1) [OF law this refl] new show ?thesis by simp
  next
    case (Inr cfg)
    note cfg = lawful_GetD(1) [OF law get] lawful_GetD(2) [OF law get Inr]
    have "metaKey (mwc_Meta cfg) = ([], webhookName)" using keyed cfg(2) by (auto simp: keyed_def)
    moreover have "(if length (mwc_Webhooks cfg) = 1 \<and> mw_CABundle (hd (mwc_Webhooks cfg)) = roots then retE ()
        else bindE (kUpdate (wc_configurations env) (cfg\<lparr>mwc_Webhooks := mwc_Webhooks ?new\<rparr>)) (\<lambda>_. retE ())) w1 = (Inr (), w')"
      using run unfolding reconcileWebhookConfig_def Let_def
      by (subst (asm) catchE_Inr [where m = "kGet (wc_configurations env) ([], webhookName)", OF get [unfolded Inr]])
    ultimately show ?thesis
      using cfg new lawful_UpdateD(1) [OF law, of "cfg\<lparr>mwc_Webhooks := mwc_Webhooks ?new\<rparr>" w1]
      by (auto simp: bindE_run length_Suc_conv split: if_splits prod.splits sum.splits)
  qed
qed

text \<open>The secret after a reconciliation of the certificates, the service and the configuration of the webhook.\<close>

lemma WebhookCertificates_secret_there:
  assumes x509: "lawfulX509 xe signs" "x509Leaves xe secV" "clockFrom xe r t0"
    and law: "lawful (wc_secrets env) (metaKey \<circ> sec_Meta) secV"
    and other: "leaves (wc_services env) secV" "leaves (wc_configurations env) secV"
    and keyed: "keyed (metaKey \<circ> sec_Meta) (secV w)"
    and run: "WebhookCertificates_Reconcile xe env r w = (Inr (), w')"
  shows "\<exists>sec. secV w' (wcr_namespace r, SecretCertsName) = Some sec \<and> certFresh xe t0 (secretData sec ''tls.crt'')"
proof -
  obtain roots w1 where 1: "reconcileCerts xe env r w = (Inr roots, w1)"
    using run by (auto simp: WebhookCertificates_Reconcile_def bindE_run wrapE_run split: prod.splits sum.splits)
  obtain sec where sec: "secV w1 (wcr_namespace r, SecretCertsName) = Some sec" "certFresh xe t0 (secretData sec ''tls.crt'')"
    by (rule reconcileCerts_effect [OF x509(1) law x509(2,3) keyed 1])
  obtain w2 where 2: "reconcileService env r w1 = (Inr (), w2)"
    using run 1 by (auto simp: WebhookCertificates_Reconcile_def bindE_run wrapE_run split: prod.splits sum.splits)
  have 3: "reconcileWebhookConfig env r roots w2 = (Inr (), w')"
    using run 1 2 by (auto simp: WebhookCertificates_Reconcile_def wrapE_run split: prod.splits sum.splits)
  have keeps: "keeps (\<lambda>w. secV w = secV w1) (reconcileService env r)" "keeps (\<lambda>w. secV w = secV w1) (reconcileWebhookConfig env r roots)"
    unfolding reconcileService_def reconcileWebhookConfig_def Let_def by (intro keeps_intros other)+
  have "secV w' = secV w1" using keepsD [OF keeps(2) keepsD [OF keeps(1) refl 2] 3] .
  with sec show ?thesis by auto
qed

lemma WebhookCertificates_secret:
  assumes "lawfulX509 xe signs" "x509Leaves xe secV" "clockFrom xe r t0" and "lawful (wc_secrets env) (metaKey \<circ> sec_Meta) secV"
    and "leaves (wc_services env) secV" "leaves (wc_configurations env) secV" and "keyed (metaKey \<circ> sec_Meta) (secV w)"
    and "WebhookCertificates_Reconcile xe env r w = (Inr (), w')" and "secV w' (wcr_namespace r, SecretCertsName) = Some sec"
  shows "certFresh xe t0 (secretData sec ''tls.crt'')"
  using WebhookCertificates_secret_there [OF assms(1-8)] assms(9) by auto

section \<open>A cluster with a certificate authority\<close>

text \<open>Keys are numbers, a certificate is the end of its validity in seconds and the number of the key that has signed it.\<close>

record certWorld =
  cw_Secrets :: "Secret store"
  cw_Services :: "Service store"
  cw_Configurations :: "MutatingWebhookConfiguration store"
  cw_Keys :: nat
  cw_Clock :: gotime

definition readCertificate :: "string \<Rightarrow> goerr + x509_Certificate" where
  "readCertificate der =
     (if allDigits (takeWhile isDigit der)
      then Inr ((rootTemplate 0 [] 0)\<lparr>x_NotAfter := timeSecond * int (decimalValue (takeWhile isDigit der))\<rparr>)
      else Inl (ErrMsg ''malformed certificate''))"

definition exampleX509 :: "(certWorld, nat) x509_env" where
  "exampleX509 =
     \<lparr>xe_Now = (\<lambda>w. (max 0 (cw_Clock w), w)),
      xe_pemDecode = (\<lambda>s. case s of [] \<Rightarrow> None | _ # b \<Rightarrow> Some b), xe_pemEncode = (\<lambda>t b. CHR ''-'' # b),
      xe_ParseCertificate = readCertificate,
      xe_ParsePKCS1PrivateKey = (\<lambda>s. if allDigits s then Inr (decimalValue s) else Inl (ErrMsg ''malformed key'')),
      xe_MarshalPKCS1PrivateKey = itoa,
      xe_GenerateKey = (\<lambda>bits w. (Inr (cw_Keys w), w\<lparr>cw_Keys := Suc (cw_Keys w)\<rparr>)), xe_ValidateKey = (\<lambda>k. None),
      xe_randInt = (\<lambda>limit. retE 7),
      xe_CreateCertificate = (\<lambda>tpl parent pub signer.
        if x_NotAfter tpl < 0 then raiseE (ErrMsg ''validity'')
        else retE (itoa (nat (x_NotAfter tpl div timeSecond)) @ ''/'' @ itoa signer))\<rparr>"

definition exampleSigns :: "string \<Rightarrow> nat \<Rightarrow> bool" where
  "exampleSigns der key \<longleftrightarrow> der = takeWhile isDigit der @ ''/'' @ itoa key"

lemma takeWhile_itoa: "takeWhile isDigit (itoa n @ ''/'' @ s) = itoa n"
proof -
  have "\<forall>c \<in> set (itoa n). isDigit c" using itoa_allDigits [of n] by (simp add: allDigits_def list_all_iff)
  then show ?thesis by (simp add: takeWhile_append2 isDigit_def)
qed

lemma lawful_exampleX509: "lawfulX509 exampleX509 exampleSigns"
proof -
  have "exampleSigns der signer \<and> (\<exists>c. readCertificate der = Inr c \<and> e - timeSecond < x_NotAfter c \<and> x_NotAfter c \<le> e)"
    if "der = itoa (nat (e div timeSecond)) @ ''/'' @ itoa signer" "0 \<le> e" for der signer e
  proof -
    have digits: "takeWhile isDigit der = itoa (nat (e div timeSecond))" using that(1) takeWhile_itoa by simp
    have "int (nat (e div timeSecond)) = e div timeSecond" using that(2) by (simp add: pos_imp_zdiv_nonneg_iff timeSecond_def)
    moreover have "e - timeSecond < timeSecond * (e div timeSecond)" "timeSecond * (e div timeSecond) \<le> e" by (simp_all add: timeSecond_def)
    ultimately show ?thesis using that(1) digits by (simp add: exampleSigns_def readCertificate_def)
  qed
  then show ?thesis
    by (auto simp: lawfulX509_def exampleX509_def split: if_splits)
qed

definition exampleCertWorld :: certWorld where
  "exampleCertWorld = \<lparr>cw_Secrets = [], cw_Services = [], cw_Configurations = [], cw_Keys = 0, cw_Clock = 1000 * timeHour\<rparr>"

definition exampleWc :: ReconcileWebhookCertificates where
  "exampleWc = \<lparr>wcr_namespace = ''dynatrace'', wcr_now = 0\<rparr>"

lemma exampleCerts_first: "\<exists>cs w'. ValidateCerts exampleX509 (newCerts exampleWc None) exampleCertWorld = (Inr cs, w') \<and>
    cw_Secrets w' = [] \<and> cw_Services w' = [] \<and> cw_Configurations w' = []"
proof -
  let ?w = "exampleCertWorld"
  let ?cs = "(newCerts exampleWc None)\<lparr>cs_Data := []\<rparr> :: nat Certs"
  have time: "currentTime exampleX509 (newCerts exampleWc None) ?w = (1000 * timeHour, ?w)"
    by (simp add: currentTime_def exampleX509_def newCerts_def exampleWc_def exampleCertWorld_def timeIsZero_def time_defs)
  have validate: "validateRootCerts exampleX509 t ?cs = (True, ?cs)" for t
    by (simp add: validateRootCerts_def goget_def)
  have key: "generateKeyPair exampleX509 what w = (Inr (cw_Keys w), w\<lparr>cw_Keys := Suc (cw_Keys w)\<rparr>)" for what w
    by (simp add: generateKeyPair_def exampleX509_def wrapE_run bindE_run)
  have gen: "\<exists>cs2. generateRootCerts exampleX509 d (1000 * timeHour) cs w = (Inr cs2, w\<lparr>cw_Keys := Suc (cw_Keys w)\<rparr>) \<and>
      cs_rootPublicCert cs2 \<noteq> None \<and> cs_rootPrivateKey cs2 \<noteq> None" for d cs w
    by (simp add: generateRootCerts_def key bindE_run wrapE_run Let_def) (simp add: exampleX509_def rootTemplate_def time_defs bindE_run wrapE_run)
  have server: "\<exists>cs3. generateServerCerts exampleX509 d (1000 * timeHour) cs w = (Inr cs3, w\<lparr>cw_Keys := Suc (cw_Keys w)\<rparr>)"
    if "cs_rootPublicCert cs \<noteq> None" "cs_rootPrivateKey cs \<noteq> None" for d cs w
    using that by (auto simp: generateServerCerts_def key bindE_run wrapE_run Let_def) (simp add: exampleX509_def serverTemplate_def time_defs bindE_run wrapE_run)
  obtain cs2 where cs2: "generateRootCerts exampleX509 (cs_Domain ?cs) (1000 * timeHour) ?cs ?w = (Inr cs2, ?w\<lparr>cw_Keys := Suc (cw_Keys ?w)\<rparr>)"
    "cs_rootPublicCert cs2 \<noteq> None" "cs_rootPrivateKey cs2 \<noteq> None" using gen by blast
  from server [OF cs2(2,3)] obtain cs3 where
    "generateServerCerts exampleX509 (cs_Domain cs2) (1000 * timeHour) cs2 (?w\<lparr>cw_Keys := Suc (cw_Keys ?w)\<rparr>) =
      (Inr cs3, ?w\<lparr>cw_Keys := Suc (cw_Keys ?w)\<rparr>\<lparr>cw_Keys := Suc (cw_Keys (?w\<lparr>cw_Keys := Suc (cw_Keys ?w)\<rparr>))\<rparr>)" by blast
  moreover have "(newCerts exampleWc None)\<lparr>cs_Data := entries (cs_SrcData (newCerts exampleWc None :: nat Certs))\<rparr> = ?cs"
    by (simp add: newCerts_def entries_def)
  ultimately show ?thesis
    by (simp add: ValidateCerts_run time renewCerts_def validate bindE_run cs2(1) [simplified] del: certWorld.simps) (simp add: exampleCertWorld_def)
qed

section \<open>Properties\<close>

text \<open>C23. After a validation that succeeds, the root and the server certificate are there and stay valid for twelve hours at
  least, and the key of the root can be read: four of the checks that come every three hours may fail before a
  certificate expires.\<close>

theorem ValidateCerts_fresh:
  assumes "lawfulX509 env signs" and "ValidateCerts env cs w = (Inr cs', w')"
  shows "(\<forall>name \<in> {''ca.crt'', ''tls.crt''}. \<exists>block c. xe_pemDecode env (certData cs' name) = Some block \<and>
      xe_ParseCertificate env block = Inr c \<and> fst (currentTime env cs w) + 12 * timeHour \<le> x_NotAfter c) \<and>
    (\<exists>key. keyIs env (certData cs' ''ca.key'') key)"
  using ValidateCerts_fresh_effect [OF assms] by (simp add: certFresh_def renewalThreshold_def)

theorem ValidateCerts_fresh_witness:
  "\<exists>cs' w' block c. ValidateCerts exampleX509 (newCerts exampleWc None) exampleCertWorld = (Inr cs', w') \<and>
     xe_pemDecode exampleX509 (certData cs' ''tls.crt'') = Some block \<and> readCertificate block = Inr c \<and> 1012 * timeHour \<le> x_NotAfter c"
proof -
  obtain cs' w' where run: "ValidateCerts exampleX509 (newCerts exampleWc None) exampleCertWorld = (Inr cs', w')"
    using exampleCerts_first by blast
  have time: "fst (currentTime exampleX509 (newCerts exampleWc None) exampleCertWorld) = 1000 * timeHour"
    by (simp add: currentTime_def exampleX509_def newCerts_def exampleWc_def exampleCertWorld_def timeIsZero_def time_defs)
  have parse: "xe_ParseCertificate exampleX509 = readCertificate" by (simp add: exampleX509_def)
  from ValidateCerts_fresh [OF lawful_exampleX509 run, unfolded time parse] run show ?thesis by auto
qed

text \<open>C16. The certificates of the secret stay a chain: if the stored certificates are signed with the stored key, so are the
  ones a validation returns. A root certificate that is replaced stays in the bundle, so that a server that still presents
  the old certificate is trusted.\<close>

theorem ValidateCerts_chained:
  assumes law: "lawfulX509 env signs" and run: "ValidateCerts env cs w = (Inr cs', w')"
    and src: "chained env signs (entries (cs_SrcData cs))"
  shows "chained env signs (cs_Data cs') \<and> sublist (goget (entries (cs_SrcData cs)) ''ca.crt'' []) (certBundle cs')"
  using law run unfolding ValidateCerts_run
proof (cases rule: renewCerts_cases)
  case valid
  then show ?thesis using src by (simp add: certBundle_def certData_def)
next
  case (server key)
  have crt: "certData cs' ''ca.crt'' = goget (entries (cs_SrcData cs)) ''ca.crt'' []" "certData cs' ''ca.key'' = goget (entries (cs_SrcData cs)) ''ca.key'' []"
    using server(5) [of "''ca.crt''"] server(5) [of "''ca.key''"] by simp_all
  have "chained env signs (cs_Data cs')"
  proof (rule chainedI)
    show "keyIs env (goget (cs_Data cs') ''ca.key'' []) key" using server(1) by (simp add: certData_def)
    show "signedPem env signs (goget (cs_Data cs') name []) key"
      if "name = ''ca.crt'' \<or> name = ''tls.crt''" "xe_pemDecode env (goget (cs_Data cs') name []) \<noteq> None" for name
      using that server(1,4) chainedD [OF src, of key] crt by (auto simp: certData_def)
  qed
  then show ?thesis using crt by (simp add: certBundle_def)
next
  case (root key)
  have "chained env signs (cs_Data cs')"
    using root(1,4,5) by (intro chainedI [of env _ key]) (auto simp: certData_def)
  then show ?thesis using root(6) by (simp add: certBundle_def)
qed

theorem ValidateCerts_chained_witness:
  "\<exists>cs' w'. ValidateCerts exampleX509 (newCerts exampleWc None) exampleCertWorld = (Inr cs', w') \<and> chained exampleX509 exampleSigns (cs_Data cs')"
proof -
  obtain cs' w' where run: "ValidateCerts exampleX509 (newCerts exampleWc None) exampleCertWorld = (Inr cs', w')"
    using exampleCerts_first by blast
  have "chained exampleX509 exampleSigns (entries (cs_SrcData (newCerts exampleWc None :: nat Certs)))"
    by (simp add: chained_def newCerts_def entries_def keyIs_def goget_def exampleX509_def)
  from ValidateCerts_chained [OF lawful_exampleX509 run this] run show ?thesis by blast
qed

text \<open>C15. A successful reconciliation of the webhook certificates leaves the cluster in working order: the secret has certificates
  that are valid for twelve hours from the start at least, the service of the webhook exists, and the API server trusts exactly
  the current and the previous root certificate of that secret, in one webhook.\<close>

theorem WebhookCertificates_establishes:
  assumes x509: "lawfulX509 xe signs" "x509Leaves xe secV" "clockFrom xe r t0" "x509Leaves xe cfgV"
    and law: "lawful (wc_secrets env) (metaKey \<circ> sec_Meta) secV" "lawful (wc_services env) svcKey svcV"
      "lawful (wc_configurations env) (metaKey \<circ> mwc_Meta) cfgV"
    and other: "leaves (wc_services env) secV" "leaves (wc_configurations env) secV" "leaves (wc_configurations env) svcV"
      "leaves (wc_secrets env) cfgV" "leaves (wc_services env) cfgV"
    and keyed: "keyed (metaKey \<circ> sec_Meta) (secV w)" "keyed (metaKey \<circ> mwc_Meta) (cfgV w)"
    and run: "WebhookCertificates_Reconcile xe env r w = (Inr (), w')"
  shows "\<exists>sec cfg. secV w' (wcr_namespace r, SecretCertsName) = Some sec \<and>
    certFresh xe t0 (secretData sec ''ca.crt'') \<and> certFresh xe t0 (secretData sec ''tls.crt'') \<and>
    svcV w' (wcr_namespace r, webhookName) \<noteq> None \<and> cfgV w' ([], webhookName) = Some cfg \<and>
    map mw_CABundle (mwc_Webhooks cfg) = [secretData sec ''ca.crt'' @ secretData sec ''ca.crt.old'']"
proof -
  obtain roots w1 where 1: "reconcileCerts xe env r w = (Inr roots, w1)"
    using run by (auto simp: WebhookCertificates_Reconcile_def bindE_run wrapE_run split: prod.splits sum.splits)
  obtain w2 where 2: "reconcileService env r w1 = (Inr (), w2)"
    using run 1 by (auto simp: WebhookCertificates_Reconcile_def bindE_run wrapE_run split: prod.splits sum.splits)
  have 3: "reconcileWebhookConfig env r roots w2 = (Inr (), w')"
    using run 1 2 by (auto simp: WebhookCertificates_Reconcile_def wrapE_run split: prod.splits sum.splits)
  obtain sec where sec: "secV w1 (wcr_namespace r, SecretCertsName) = Some sec" "roots = secretData sec ''ca.crt'' @ secretData sec ''ca.crt.old''"
    "certFresh xe t0 (secretData sec ''ca.crt'')" "certFresh xe t0 (secretData sec ''tls.crt'')"
    by (rule reconcileCerts_effect [OF x509(1) law(1) x509(2,3) keyed(1) 1])
  have "keeps (\<lambda>w. secV w = secV w1) (reconcileService env r)"
    unfolding reconcileService_def by (intro keeps_intros other)
  from keepsD [OF this refl 2] have w2: "secV w2 = secV w1" .
  have "keeps (\<lambda>w. secV w = secV w2) (reconcileWebhookConfig env r roots)" "keeps (\<lambda>w. svcV w = svcV w2) (reconcileWebhookConfig env r roots)"
    unfolding reconcileWebhookConfig_def Let_def by (intro keeps_intros other)+
  from keepsD [OF this(1) refl 3] keepsD [OF this(2) refl 3] have same: "secV w' = secV w1" "svcV w' = svcV w2" by (simp_all add: w2)
  have svc: "svcV w' (wcr_namespace r, webhookName) \<noteq> None" unfolding same using 2 law(2) by (rule reconcileService_effect)
  have "keeps (\<lambda>w'. cfgV w' = cfgV w) (reconcileCerts xe env r)" "keeps (\<lambda>w. cfgV w = cfgV w1) (reconcileService env r)"
    unfolding reconcileCerts_def reconcileService_def
    by (intro keeps_intros other leaves_keeps [OF other(4)] leaves_keeps [OF other(5)] ValidateCerts_leaves [OF x509(4)])+
  from keepsD [OF this(1) refl 1] keepsD [OF this(2) refl 2] keyed(2) have "keyed (metaKey \<circ> mwc_Meta) (cfgV w2)" by simp
  from reconcileWebhookConfig_effect [OF law(3) this 3]
  obtain cfg where cfg: "cfgV w' ([], webhookName) = Some cfg" "map mw_CABundle (mwc_Webhooks cfg) = [roots]" by (elim exE conjE)
  show ?thesis
    using sec svc cfg(1) cfg(2) [unfolded sec(2)] unfolding same(1) by (intro exI [of _ sec] exI [of _ cfg] conjI)
qed

definition exampleWcEnv :: "certWorld wc_env" where
  "exampleWcEnv =
     \<lparr>wc_secrets = onPart cw_Secrets (\<lambda>x w. w\<lparr>cw_Secrets := x\<rparr>) (storeClient (metaKey \<circ> sec_Meta)),
      wc_services = onPart cw_Services (\<lambda>x w. w\<lparr>cw_Services := x\<rparr>) (storeClient svcKey),
      wc_configurations = onPart cw_Configurations (\<lambda>x w. w\<lparr>cw_Configurations := x\<rparr>) (storeClient (metaKey \<circ> mwc_Meta))\<rparr>"

lemma exampleWcEnv_laws:
  "lawful (wc_secrets exampleWcEnv) (metaKey \<circ> sec_Meta) (\<lambda>w. map_of (cw_Secrets w))"
  "lawful (wc_services exampleWcEnv) svcKey (\<lambda>w. map_of (cw_Services w))"
  "lawful (wc_configurations exampleWcEnv) (metaKey \<circ> mwc_Meta) (\<lambda>w. map_of (cw_Configurations w))"
  unfolding exampleWcEnv_def wc_env.simps by (rule lawful_onPart [OF lawful_storeClient], simp)+

lemma exampleWcEnv_run:
  "\<exists>w'. WebhookCertificates_Reconcile exampleX509 exampleWcEnv exampleWc exampleCertWorld = (Inr (), w')"
proof -
  obtain cs w' where first: "ValidateCerts exampleX509 (newCerts exampleWc None) exampleCertWorld = (Inr cs, w')"
    "cw_Secrets w' = []" "cw_Services w' = []" "cw_Configurations w' = []" using exampleCerts_first by blast
  have get: "kGet (wc_secrets exampleWcEnv) k exampleCertWorld = (Inl (ApiNotFound (snd k)), exampleCertWorld)" for k
    by (simp add: exampleWcEnv_def onPart_store_run exampleCertWorld_def)
  have "\<exists>roots w1. reconcileCerts exampleX509 exampleWcEnv exampleWc exampleCertWorld = (Inr roots, w1) \<and>
      cw_Services w1 = [] \<and> cw_Configurations w1 = []"
    using first by (simp add: reconcileCerts_def get) (simp add: exampleWcEnv_def onPart_store_run bindE_run)
  then obtain roots w1 where certs: "reconcileCerts exampleX509 exampleWcEnv exampleWc exampleCertWorld = (Inr roots, w1)"
    "cw_Services w1 = []" "cw_Configurations w1 = []" by blast
  then have "\<exists>w2. reconcileService exampleWcEnv exampleWc w1 = (Inr (), w2) \<and> cw_Configurations w2 = []"
    by (simp add: reconcileService_def exampleWcEnv_def onPart_store_run catchE_run bindE_run)
  then obtain w2 where svc: "reconcileService exampleWcEnv exampleWc w1 = (Inr (), w2)" "cw_Configurations w2 = []" by blast
  then have "\<exists>w3. reconcileWebhookConfig exampleWcEnv exampleWc roots w2 = (Inr (), w3)"
    by (simp add: reconcileWebhookConfig_def exampleWcEnv_def onPart_store_run catchE_run bindE_run Let_def)
  with certs svc show ?thesis by (auto simp: WebhookCertificates_Reconcile_def bindE_run wrapE_run)
qed

theorem WebhookCertificates_establishes_witness:
  "\<exists>w' sec. WebhookCertificates_Reconcile exampleX509 exampleWcEnv exampleWc exampleCertWorld = (Inr (), w') \<and>
     map_of (cw_Secrets w') (''dynatrace'', SecretCertsName) = Some sec \<and> certFresh exampleX509 0 (secretData sec ''tls.crt'')"
proof -
  obtain w' where run: "WebhookCertificates_Reconcile exampleX509 exampleWcEnv exampleWc exampleCertWorld = (Inr (), w')"
    using exampleWcEnv_run by blast
  let ?secV = "\<lambda>w. map_of (cw_Secrets w)" and ?svcV = "\<lambda>w. map_of (cw_Services w)" and ?cfgV = "\<lambda>w. map_of (cw_Configurations w)"
  have "x509Leaves exampleX509 ?secV" "x509Leaves exampleX509 ?cfgV" by (simp_all add: x509Leaves_def exampleX509_def)
  moreover have "clockFrom exampleX509 exampleWc 0" by (simp add: clockFrom_def exampleX509_def exampleWc_def timeIsZero_def)
  moreover have "leaves (wc_services exampleWcEnv) ?secV" "leaves (wc_configurations exampleWcEnv) ?secV"
    "leaves (wc_configurations exampleWcEnv) ?svcV" "leaves (wc_secrets exampleWcEnv) ?cfgV" "leaves (wc_services exampleWcEnv) ?cfgV"
    by (simp_all add: exampleWcEnv_def leaves_onPart)
  moreover have "keyed (metaKey \<circ> sec_Meta) (?secV exampleCertWorld)" "keyed (metaKey \<circ> mwc_Meta) (?cfgV exampleCertWorld)"
    by (simp_all add: keyed_def exampleCertWorld_def)
  ultimately have "\<exists>sec cfg. ?secV w' (wcr_namespace exampleWc, SecretCertsName) = Some sec \<and>
    certFresh exampleX509 0 (secretData sec ''ca.crt'') \<and> certFresh exampleX509 0 (secretData sec ''tls.crt'') \<and>
    ?svcV w' (wcr_namespace exampleWc, webhookName) \<noteq> None \<and> ?cfgV w' ([], webhookName) = Some cfg \<and>
    map mw_CABundle (mwc_Webhooks cfg) = [secretData sec ''ca.crt'' @ secretData sec ''ca.crt.old'']"
    using lawful_exampleX509 exampleWcEnv_laws run by (intro WebhookCertificates_establishes [where xe = exampleX509 and signs = exampleSigns])
  with run show ?thesis by (auto simp: exampleWc_def)
qed

end
