(* ===== verification/File_System.thy ===== *)
theory File_System
  imports Go_Values
begin

text \<open>
  Paths and files. The functions of \<^verbatim>\<open>path/filepath\<close> work on the text of a path and are modelled in full for
  Unix; the file system (\<^verbatim>\<open>github.com/spf13/afero\<close>) is no code of this repository: it is a record of actions with
  the laws of its documentation, and \<open>listFs\<close> is a file system that keeps its nodes in a list.
\<close>

section \<open>Text\<close>

fun splitOn :: "char \<Rightarrow> string \<Rightarrow> string list" where
  "splitOn c [] = [[]]"
| "splitOn c (x # xs) =
     (if x = c then [] # splitOn c xs
      else (case splitOn c xs of [] \<Rightarrow> [[x]] | y # ys \<Rightarrow> (x # y) # ys))"

fun joinWith :: "string \<Rightarrow> string list \<Rightarrow> string" where
  "joinWith sep [] = []"
| "joinWith sep [x] = x"
| "joinWith sep (x # y # zs) = x @ sep @ joinWith sep (y # zs)"

lemma splitOn_not_Nil [simp]: "splitOn c s \<noteq> []"
  by (cases s) (auto split: list.splits)

lemma splitOn_no_sep: "x \<in> set (splitOn c s) \<Longrightarrow> c \<notin> set x"
  by (induction c s arbitrary: x rule: splitOn.induct) (auto split: if_splits list.splits)

lemma splitOn_append: "c \<notin> set x \<Longrightarrow> splitOn c (x @ c # s) = x # splitOn c s"
  by (induction x) auto

lemma splitOn_single: "c \<notin> set x \<Longrightarrow> splitOn c x = [x]"
  by (induction x) auto

lemma splitOn_joinWith: "xs \<noteq> [] \<Longrightarrow> list_all (\<lambda>x. c \<notin> set x) xs \<Longrightarrow> splitOn c (joinWith [c] xs) = xs"
  by (induction "[c]" xs rule: joinWith.induct) (simp_all add: splitOn_append splitOn_single)

section \<open>Package path/filepath\<close>

abbreviation sep :: char where "sep \<equiv> CHR ''/''"

text \<open>
  \<^verbatim>\<open>filepath.Clean\<close>: empty elements and dots are dropped, a double dot takes the element before it away; what goes
  above the root is dropped, and what goes above the start of a relative path is kept.
\<close>

fun cleanComps :: "bool \<Rightarrow> string list \<Rightarrow> string list \<Rightarrow> string list" where
  "cleanComps rooted st [] = rev st"
| "cleanComps rooted st (c # cs) =
     (if c = [] \<or> c = ''.'' then cleanComps rooted st cs
      else if c = ''..'' then
        (case st of
           [] \<Rightarrow> cleanComps rooted (if rooted then [] else [''..'']) cs
         | d # ds \<Rightarrow> if d = ''..'' then cleanComps rooted (''..'' # st) cs else cleanComps rooted ds cs)
      else cleanComps rooted (c # st) cs)"

definition IsAbs :: "string \<Rightarrow> bool" where
  "IsAbs p = prefix ''/'' p"

definition filepath_Clean :: "string \<Rightarrow> string" where
  "filepath_Clean p =
     (let cs = cleanComps (IsAbs p) [] (splitOn sep p)
      in if IsAbs p then ''/'' @ joinWith ''/'' cs
         else if cs = [] then ''.'' else joinWith ''/'' cs)"

definition filepath_Join :: "string list \<Rightarrow> string" where
  "filepath_Join elems =
     (case dropWhile (\<lambda>e. e = []) elems of [] \<Rightarrow> [] | es \<Rightarrow> filepath_Clean (joinWith ''/'' es))"

definition filepath_Dir :: "string \<Rightarrow> string" where
  "filepath_Dir p = filepath_Clean (rev (dropWhile (\<lambda>c. c \<noteq> sep) (rev p)))"

text \<open>An element of a path that names something: neither empty nor a dot or a double dot, and without separator.\<close>

definition proper :: "string \<Rightarrow> bool" where
  "proper c \<longleftrightarrow> c \<noteq> [] \<and> c \<noteq> ''.'' \<and> c \<noteq> ''..'' \<and> sep \<notin> set c"

text \<open>The path below a directory, by elements; the absolute path of a list of elements.\<close>

definition under :: "string \<Rightarrow> string list \<Rightarrow> string" where
  "under dir cs = dir @ concat (map (\<lambda>c. sep # c) cs)"

abbreviation absPath :: "string list \<Rightarrow> string" where
  "absPath cs \<equiv> under [] cs"

lemma under_Nil [simp]: "under d [] = d"
  by (simp add: under_def)

lemma under_under [simp]: "under (under d cs) ds = under d (cs @ ds)"
  by (simp add: under_def)

lemma under_Cons: "under d (c # cs) = under (d @ ''/'' @ c) cs"
  by (simp add: under_def)

lemma joinWith_absPath: "cs \<noteq> [] \<Longrightarrow> ''/'' @ joinWith ''/'' cs = absPath cs"
  by (induction "''/''" cs rule: joinWith.induct) (simp_all add: under_def)

lemma cleanComps_proper:
  assumes "list_all proper st" and "list_all (\<lambda>c. sep \<notin> set c) cs"
  shows "list_all proper (cleanComps True st cs)"
  using assms
proof (induction True st cs rule: cleanComps.induct)
  case (2 st c cs)
  then show ?case by (cases st) (auto simp: proper_def)
qed simp

lemma cleanComps_id: "list_all proper cs \<Longrightarrow> cleanComps True st cs = rev st @ cs"
  by (induction cs arbitrary: st) (auto simp: proper_def)

lemma cleanComps_append: "cleanComps r st (xs @ ys) = cleanComps r (rev (cleanComps r st xs)) ys"
  by (induction r st xs rule: cleanComps.induct) (auto split: list.splits)

text \<open>The elements of an absolute path.\<close>

definition pathComps :: "string \<Rightarrow> string list" where
  "pathComps p = cleanComps True [] (splitOn sep p)"

lemma pathComps_proper: "list_all proper (pathComps p)"
  unfolding pathComps_def by (rule cleanComps_proper) (auto simp: list_all_iff dest: splitOn_no_sep)

lemma Clean_absolute:
  assumes "IsAbs p"
  shows "filepath_Clean p = (if pathComps p = [] then ''/'' else absPath (pathComps p))"
  using assms joinWith_absPath [of "pathComps p"] by (simp add: filepath_Clean_def pathComps_def)

lemma splitOn_absPath: "list_all proper cs \<Longrightarrow> cs \<noteq> [] \<Longrightarrow> splitOn sep (absPath cs) = [] # cs"
proof -
  assume cs: "list_all proper cs" "cs \<noteq> []"
  then have "splitOn sep (joinWith [sep] cs) = cs" by (intro splitOn_joinWith) (auto simp: list_all_iff proper_def)
  then have "splitOn sep (''/'' @ joinWith ''/'' cs) = [] # cs" by simp
  then show ?thesis unfolding joinWith_absPath [OF cs(2)] .
qed

lemma absPath_eq_Nil: "absPath cs = [] \<longleftrightarrow> cs = []"
  by (cases cs) (simp_all add: under_def)

lemma IsAbs_absPath: "cs \<noteq> [] \<Longrightarrow> IsAbs (absPath cs)"
  by (cases cs) (simp_all add: IsAbs_def under_def)

lemma pathComps_absPath [simp]: "list_all proper cs \<Longrightarrow> pathComps (absPath cs) = cs"
  by (cases "cs = []") (simp_all add: pathComps_def splitOn_absPath cleanComps_id)

lemma Clean_absPath: "list_all proper cs \<Longrightarrow> cs \<noteq> [] \<Longrightarrow> filepath_Clean (absPath cs) = absPath cs"
  by (simp add: Clean_absolute IsAbs_absPath)

text \<open>Joining proper elements to a path of proper elements.\<close>

lemma Join_under:
  assumes "list_all proper cs" "cs \<noteq> []" "list_all proper ds"
  shows "filepath_Join (absPath cs # ds) = absPath (cs @ ds)"
proof -
  have "absPath cs \<noteq> []" using assms(2) by (cases cs) (simp_all add: under_def)
  moreover have "joinWith ''/'' (p # ds) = under p ds" for p
    by (induction ds arbitrary: p rule: induct_list012) (simp_all add: under_def)
  ultimately have "filepath_Join (absPath cs # ds) = filepath_Clean (absPath (cs @ ds))" by (simp add: filepath_Join_def)
  also have "\<dots> = absPath (cs @ ds)" using assms by (intro Clean_absPath) simp_all
  finally show ?thesis .
qed

text \<open>
  A path that begins with the text of a directory and a separator lies below the directory: the elements
  of the directory come first, and proper elements follow.
\<close>

lemma takeWhile_comp: "sep \<notin> set c \<Longrightarrow> takeWhile (\<lambda>x. x \<noteq> sep) (c @ s) = c @ takeWhile (\<lambda>x. x \<noteq> sep) s"
  by (induction c) auto

lemma takeWhile_absPath [simp]: "takeWhile (\<lambda>x. x \<noteq> sep) (absPath cs) = []" "takeWhile (\<lambda>x. x \<noteq> sep) (absPath cs @ sep # s) = []"
  by (cases cs; simp add: under_def)+

lemma prefix_absPath:
  assumes "list_all proper ds" and "list_all proper cs" and "prefix (absPath ds @ ''/'') (absPath cs)"
  shows "\<exists>rest. rest \<noteq> [] \<and> cs = ds @ rest"
  using assms
proof (induction ds arbitrary: cs)
  case Nil
  then show ?case by (cases cs) (simp_all add: under_def)
next
  case (Cons d ds)
  obtain c cs' where cs: "cs = c # cs'" using Cons.prems(3) by (cases cs) (simp_all add: under_def)
  have no: "sep \<notin> set d" "sep \<notin> set c" using Cons.prems by (auto simp: cs proper_def)
  have "prefix (d @ absPath ds @ ''/'') (c @ absPath cs')" using Cons.prems(3) by (simp add: cs under_def)
  then obtain t where t: "c @ absPath cs' = d @ absPath ds @ ''/'' @ t" by (auto simp: prefix_def)
  then have "takeWhile (\<lambda>x. x \<noteq> sep) (c @ absPath cs') = takeWhile (\<lambda>x. x \<noteq> sep) (d @ absPath ds @ ''/'' @ t)" by simp
  then have same: "c = d" by (simp add: takeWhile_comp no)
  with t have "prefix (absPath ds @ ''/'') (absPath cs')" by simp
  with Cons.IH [of cs'] Cons.prems(1,2) same show ?case by (auto simp: cs)
qed

lemma Clean_prefix_below:
  assumes "IsAbs dir" and "IsAbs p" and "prefix (filepath_Clean dir @ ''/'') (filepath_Clean p)"
  shows "\<exists>rest. rest \<noteq> [] \<and> list_all proper rest \<and> pathComps dir \<noteq> [] \<and> filepath_Clean dir = absPath (pathComps dir) \<and>
    filepath_Clean p = absPath (pathComps dir @ rest)"
proof -
  have p: "pathComps p \<noteq> []" "filepath_Clean p = absPath (pathComps p)"
    using assms by (auto simp: Clean_absolute absPath_eq_Nil split: if_splits dest!: prefix_length_le)
  have d: "pathComps dir \<noteq> []"
  proof
    assume "pathComps dir = []"
    with assms(1,3) p obtain s where "absPath (pathComps p) = ''//'' @ s" by (auto simp: Clean_absolute prefix_def)
    moreover obtain c cs where "pathComps p = c # cs" "proper c" using p(1) pathComps_proper [of p] by (cases "pathComps p") auto
    ultimately show False by (cases c) (simp_all add: under_def proper_def)
  qed
  then have dir: "filepath_Clean dir = absPath (pathComps dir)" using assms(1) by (simp add: Clean_absolute)
  have "prefix (absPath (pathComps dir) @ ''/'') (absPath (pathComps p))" using assms(3) unfolding dir p(2) .
  from prefix_absPath [OF pathComps_proper pathComps_proper this] obtain rest where
    rest: "rest \<noteq> []" "pathComps p = pathComps dir @ rest" by blast
  have "list_all proper rest" using pathComps_proper [of p] unfolding rest(2) by simp
  with rest p(2) d dir show ?thesis by (intro exI [of _ rest]) simp
qed

section \<open>Files\<close>

definition errNotExist :: goerr where "errNotExist = ErrMsg ''file does not exist''"

definition isNotExist :: "goerr \<Rightarrow> bool" where
  "isNotExist e \<longleftrightarrow> e = errNotExist"

record FileInfo =
  fi_Name :: string
  fi_IsDir :: bool
  fi_Size :: int
  fi_ModTime :: gotime

text \<open>The operations of \<^verbatim>\<open>afero\<close>; \<open>fs_Walk\<close> gives what the function of a walk is called with, in this order.\<close>

record 'w afero =
  fs_ReadFile :: "string \<Rightarrow> ('w, string) act"
  fs_WriteFile :: "string \<Rightarrow> string \<Rightarrow> nat \<Rightarrow> ('w, unit) act"
  fs_MkdirAll :: "string \<Rightarrow> nat \<Rightarrow> ('w, unit) act"
  fs_Remove :: "string \<Rightarrow> ('w, unit) act"
  fs_RemoveAll :: "string \<Rightarrow> ('w, unit) act"
  fs_Stat :: "string \<Rightarrow> ('w, FileInfo) act"
  fs_ReadDir :: "string \<Rightarrow> ('w, FileInfo list) act"
  fs_DirExists :: "string \<Rightarrow> ('w, bool) act"
  fs_IsEmpty :: "string \<Rightarrow> ('w, bool) act"
  fs_Walk :: "string \<Rightarrow> ('w, (goerr + FileInfo) list) act"
  fs_OpenFile :: "string \<Rightarrow> nat \<Rightarrow> ('w, unit) act"
  fs_Copy :: "string \<Rightarrow> string \<Rightarrow> ('w, unit) act"
  fs_TempFile :: "string \<Rightarrow> string \<Rightarrow> ('w, string) act"

datatype fsnode = FileNode string | DirNode

type_synonym fsview = "string \<Rightarrow> fsnode option"

text \<open>\<open>within p q\<close>: the path \<open>q\<close> is \<open>p\<close> or lies below it.\<close>

definition within :: "string \<Rightarrow> string \<Rightarrow> bool" where
  "within p q \<longleftrightarrow> q = p \<or> prefix (p @ ''/'') q"

lemma within_comparable: "within q p \<Longrightarrow> within d p \<Longrightarrow> within d q \<or> within q d"
proof -
  have "within q d" if "prefix (q @ ''/'') (d @ ''/'')" for q d
    using that by (auto simp: within_def prefix_snoc)
  moreover assume "within q p" "within d p"
  ultimately show ?thesis
    by (auto simp: within_def dest: prefix_same_cases)
qed

text \<open>
  The promises: a read changes nothing and returns what is stored; a write stores the file, and a failed one changes no
  other; directories are created above the path and at it, where nothing is; a removal removes.
\<close>

definition lawfulReadFile :: "'w afero \<Rightarrow> ('w \<Rightarrow> fsview) \<Rightarrow> bool" where
  "lawfulReadFile fs view \<longleftrightarrow> (\<forall>p w r w'. fs_ReadFile fs p w = (r, w') \<longrightarrow> view w' = view w \<and>
     (case r of Inr s \<Rightarrow> view w p = Some (FileNode s) | Inl e \<Rightarrow> isNotExist e \<longrightarrow> view w p = None))"

definition lawfulStat :: "'w afero \<Rightarrow> ('w \<Rightarrow> fsview) \<Rightarrow> bool" where
  "lawfulStat fs view \<longleftrightarrow> (\<forall>p w r w'. fs_Stat fs p w = (r, w') \<longrightarrow> view w' = view w \<and>
     (case r of Inr _ \<Rightarrow> view w p \<noteq> None | Inl e \<Rightarrow> isNotExist e \<longrightarrow> view w p = None))"

definition lawfulReadDir :: "'w afero \<Rightarrow> ('w \<Rightarrow> fsview) \<Rightarrow> bool" where
  "lawfulReadDir fs view \<longleftrightarrow> (\<forall>p w r w'. fs_ReadDir fs p w = (r, w') \<longrightarrow> view w' = view w \<and>
     (case r of Inr infos \<Rightarrow> fi_Name ` set infos = {n. proper n \<and> view w (p @ ''/'' @ n) \<noteq> None} | Inl _ \<Rightarrow> True))"

definition lawfulQueries :: "'w afero \<Rightarrow> ('w \<Rightarrow> fsview) \<Rightarrow> bool" where
  "lawfulQueries fs view \<longleftrightarrow>
     (\<forall>p w. view (snd (fs_DirExists fs p w)) = view w) \<and> (\<forall>p w. view (snd (fs_IsEmpty fs p w)) = view w) \<and>
     (\<forall>p w. view (snd (fs_Walk fs p w)) = view w)"

definition lawfulWriteFile :: "'w afero \<Rightarrow> ('w \<Rightarrow> fsview) \<Rightarrow> bool" where
  "lawfulWriteFile fs view \<longleftrightarrow> (\<forall>p s m w r w'. fs_WriteFile fs p s m w = (r, w') \<longrightarrow>
     (case r of Inr _ \<Rightarrow> view w' = (view w)(p := Some (FileNode s)) | Inl _ \<Rightarrow> (\<forall>q. q \<noteq> p \<longrightarrow> view w' q = view w q)))"

definition lawfulMkdirAll :: "'w afero \<Rightarrow> ('w \<Rightarrow> fsview) \<Rightarrow> bool" where
  "lawfulMkdirAll fs view \<longleftrightarrow> (\<forall>p m w r w'. fs_MkdirAll fs p m w = (r, w') \<longrightarrow>
     (\<forall>q. view w' q = view w q \<or> view w q = None \<and> view w' q = Some DirNode \<and> within q p) \<and>
     (case r of Inr _ \<Rightarrow> view w' p = Some DirNode | Inl _ \<Rightarrow> True))"

definition lawfulRemove :: "'w afero \<Rightarrow> ('w \<Rightarrow> fsview) \<Rightarrow> bool" where
  "lawfulRemove fs view \<longleftrightarrow> (\<forall>p w r w'. fs_Remove fs p w = (r, w') \<longrightarrow>
     (case r of Inr _ \<Rightarrow> view w' = (view w)(p := None)
      | Inl e \<Rightarrow> view w' = view w \<and> (isNotExist e \<longrightarrow> view w p = None)))"

definition lawfulRemoveAll :: "'w afero \<Rightarrow> ('w \<Rightarrow> fsview) \<Rightarrow> bool" where
  "lawfulRemoveAll fs view \<longleftrightarrow> (\<forall>p w r w'. fs_RemoveAll fs p w = (r, w') \<longrightarrow>
     (\<forall>q. \<not> within p q \<longrightarrow> view w' q = view w q) \<and>
     (case r of Inr _ \<Rightarrow> (\<forall>q. within p q \<longrightarrow> view w' q = None) | Inl _ \<Rightarrow> True))"

definition lawfulFs :: "'w afero \<Rightarrow> ('w \<Rightarrow> fsview) \<Rightarrow> bool" where
  "lawfulFs fs view \<longleftrightarrow> lawfulReadFile fs view \<and> lawfulStat fs view \<and> lawfulReadDir fs view \<and> lawfulQueries fs view \<and>
     lawfulWriteFile fs view \<and> lawfulMkdirAll fs view \<and> lawfulRemove fs view \<and> lawfulRemoveAll fs view"

lemmas lawfulFs_defs = lawfulReadFile_def lawfulStat_def lawfulReadDir_def lawfulQueries_def lawfulWriteFile_def lawfulMkdirAll_def
  lawfulRemove_def lawfulRemoveAll_def

lemma lawfulFs_reads:
  assumes "lawfulFs fs view"
  shows "fs_ReadFile fs p w = (r, w') \<Longrightarrow> view w' = view w"
    and "fs_ReadFile fs p w = (Inr s, w') \<Longrightarrow> view w p = Some (FileNode s)"
    and "fs_ReadFile fs p w = (Inl e, w') \<Longrightarrow> isNotExist e \<Longrightarrow> view w p = None"
    and "fs_Stat fs p w = (q, w') \<Longrightarrow> view w' = view w"
    and "fs_Stat fs p w = (Inl e, w') \<Longrightarrow> isNotExist e \<Longrightarrow> view w p = None"
    and "fs_Stat fs p w = (Inr i, w') \<Longrightarrow> view w p \<noteq> None"
    and "fs_ReadDir fs p w = (l, w') \<Longrightarrow> view w' = view w"
    and "fs_ReadDir fs p w = (Inr infos, w') \<Longrightarrow> fi_Name ` set infos = {n. proper n \<and> view w (p @ ''/'' @ n) \<noteq> None}"
  using assms unfolding lawfulFs_def lawfulReadFile_def lawfulStat_def lawfulReadDir_def by fastforce+

lemma lawfulFs_leaves:
  assumes "lawfulFs fs view"
  shows "keeps (\<lambda>w. view w = x) (fs_ReadFile fs p)" "keeps (\<lambda>w. view w = x) (fs_Stat fs p)" "keeps (\<lambda>w. view w = x) (fs_ReadDir fs p)"
    "keeps (\<lambda>w. view w = x) (fs_DirExists fs p)" "keeps (\<lambda>w. view w = x) (fs_IsEmpty fs p)" "keeps (\<lambda>w. view w = x) (fs_Walk fs p)"
  using lawfulFs_reads(1,4,7) [OF assms] assms unfolding lawfulFs_def lawfulQueries_def keeps_def by (metis prod.collapse)+

lemma lawfulFs_Write:
  assumes "lawfulFs fs view" and "fs_WriteFile fs p s m w = (r, w')"
  shows "r = Inr u \<Longrightarrow> view w' = (view w)(p := Some (FileNode s))" and "q \<noteq> p \<Longrightarrow> view w' q = view w q"
proof -
  have law: "case r of Inr _ \<Rightarrow> view w' = (view w)(p := Some (FileNode s)) | Inl _ \<Rightarrow> (\<forall>q. q \<noteq> p \<longrightarrow> view w' q = view w q)"
    using assms unfolding lawfulFs_def lawfulWriteFile_def by fast
  then show "r = Inr u \<Longrightarrow> view w' = (view w)(p := Some (FileNode s))" by simp
  show "q \<noteq> p \<Longrightarrow> view w' q = view w q" using law by (cases r) auto
qed

lemma lawfulFs_Mkdir:
  assumes "lawfulFs fs view" and "fs_MkdirAll fs p m w = (r, w')"
  shows "view w' q = view w q \<or> view w q = None \<and> view w' q = Some DirNode \<and> within q p"
    and "r = Inr u \<Longrightarrow> view w' p = Some DirNode" and "view w q \<noteq> None \<Longrightarrow> view w' q = view w q"
proof -
  have law: "(\<forall>q. view w' q = view w q \<or> view w q = None \<and> view w' q = Some DirNode \<and> within q p) \<and>
      (case r of Inr _ \<Rightarrow> view w' p = Some DirNode | Inl _ \<Rightarrow> True)"
    using assms unfolding lawfulFs_def lawfulMkdirAll_def by fast
  then show "view w' q = view w q \<or> view w q = None \<and> view w' q = Some DirNode \<and> within q p" by blast
  then show "view w q \<noteq> None \<Longrightarrow> view w' q = view w q" by auto
  show "r = Inr u \<Longrightarrow> view w' p = Some DirNode" using law by simp
qed

lemma lawfulFs_Remove:
  assumes "lawfulFs fs view" and "fs_Remove fs p w = (r, w')"
  shows "r = Inr u \<Longrightarrow> view w' = (view w)(p := None)" and "r = Inl e \<Longrightarrow> view w' = view w"
    and "r = Inl e \<Longrightarrow> isNotExist e \<Longrightarrow> view w' = (view w)(p := None)" and "q \<noteq> p \<Longrightarrow> view w' q = view w q"
proof -
  have law: "case r of Inr _ \<Rightarrow> view w' = (view w)(p := None) | Inl e \<Rightarrow> view w' = view w \<and> (isNotExist e \<longrightarrow> view w p = None)"
    using assms unfolding lawfulFs_def lawfulRemove_def by fast
  then show "r = Inr u \<Longrightarrow> view w' = (view w)(p := None)" "r = Inl e \<Longrightarrow> view w' = view w"
    "r = Inl e \<Longrightarrow> isNotExist e \<Longrightarrow> view w' = (view w)(p := None)" by auto
  show "q \<noteq> p \<Longrightarrow> view w' q = view w q" using law by (cases r) auto
qed

lemma lawfulFs_RemoveAll:
  assumes "lawfulFs fs view" and "fs_RemoveAll fs p w = (r, w')"
  shows "\<not> within p q \<Longrightarrow> view w' q = view w q" and "r = Inr u \<Longrightarrow> within p q \<Longrightarrow> view w' q = None"
  using assms unfolding lawfulFs_def lawfulRemoveAll_def by fastforce+

text \<open>Opening a file for writing and writing to it change this file only; a temporary file is a new file.\<close>

definition lawfulFiles :: "'w afero \<Rightarrow> ('w \<Rightarrow> fsview) \<Rightarrow> bool" where
  "lawfulFiles fs view \<longleftrightarrow>
     (\<forall>p m w q. q \<noteq> p \<longrightarrow> view (snd (fs_OpenFile fs p m w)) q = view w q) \<and> (\<forall>p s w q. q \<noteq> p \<longrightarrow> view (snd (fs_Copy fs p s w)) q = view w q)"

definition lawfulTemp :: "'w afero \<Rightarrow> ('w \<Rightarrow> fsview) \<Rightarrow> bool" where
  "lawfulTemp fs view \<longleftrightarrow> (\<forall>d p w r w'. fs_TempFile fs d p w = (r, w') \<longrightarrow>
     (\<forall>q. view w q \<noteq> None \<longrightarrow> view w' q = view w q) \<and> (case r of Inr t \<Rightarrow> view w t = None | Inl _ \<Rightarrow> True))"

section \<open>A file system in a list\<close>

definition fileInfo :: "string \<Rightarrow> fsnode \<Rightarrow> FileInfo" where
  "fileInfo n node = \<lparr>fi_Name = n, fi_IsDir = (node = DirNode), fi_Size = (case node of FileNode s \<Rightarrow> int (length s) | DirNode \<Rightarrow> 0), fi_ModTime = 0\<rparr>"

definition children :: "(string \<times> fsnode) list \<Rightarrow> string \<Rightarrow> FileInfo list" where
  "children w p = map (\<lambda>(q, node). fileInfo (drop (Suc (length p)) q) node)
     (filter (\<lambda>(q, node). prefix (p @ ''/'') q \<and> proper (drop (Suc (length p)) q)) w)"

definition ancestors :: "string \<Rightarrow> string list" where
  "ancestors p = filter (\<lambda>q. within q p) (prefixes p)"

definition mkdirs :: "string list \<Rightarrow> (string \<times> fsnode) list \<Rightarrow> (string \<times> fsnode) list" where
  "mkdirs ps w = foldl (\<lambda>w q. if map_of w q = None then AList.update q DirNode w else w) w ps"

definition listFs :: "(string \<times> fsnode) list afero" where
  "listFs =
     \<lparr>fs_ReadFile = (\<lambda>p w. (case map_of w p of Some (FileNode s) \<Rightarrow> Inr s | Some DirNode \<Rightarrow> Inl (ErrMsg ''is a directory'')
                             | None \<Rightarrow> Inl errNotExist, w)),
      fs_WriteFile = (\<lambda>p s m w. if map_of w p = Some DirNode then (Inl (ErrMsg ''is a directory''), w)
                                else (Inr (), AList.update p (FileNode s) w)),
      fs_MkdirAll = (\<lambda>p m w. if list_ex (\<lambda>q. map_of w q \<notin> {None, Some DirNode}) (ancestors p) then (Inl (ErrMsg ''not a directory''), w)
                             else (Inr (), mkdirs (ancestors p) w)),
      fs_Remove = (\<lambda>p w. if map_of w p = None then (Inl errNotExist, w) else (Inr (), AList.delete p w)),
      fs_RemoveAll = (\<lambda>p w. (Inr (), filter (\<lambda>(q, node). \<not> within p q) w)),
      fs_Stat = (\<lambda>p w. (case map_of w p of None \<Rightarrow> Inl errNotExist | Some node \<Rightarrow> Inr (fileInfo p node), w)),
      fs_ReadDir = (\<lambda>p w. (if map_of w p = Some DirNode then Inr (children w p) else Inl errNotExist, w)),
      fs_DirExists = (\<lambda>p w. (Inr (map_of w p = Some DirNode), w)),
      fs_IsEmpty = (\<lambda>p w. (if map_of w p = Some DirNode then Inr (children w p = []) else Inl errNotExist, w)),
      fs_Walk = (\<lambda>p w. (Inr (map (\<lambda>(q, node). Inr (fileInfo q node)) (filter (\<lambda>(q, node). within p q) w)), w)),
      fs_OpenFile = (\<lambda>p m w. (Inr (), AList.update p (FileNode []) w)),
      fs_Copy = (\<lambda>p s w. (Inr (), AList.update p (FileNode s) w)),
      fs_TempFile = (\<lambda>dir pat w. if map_of w (''/tmp/'' @ pat) \<noteq> None then (Inl (ErrMsg ''file exists''), w)
                                else (Inr (''/tmp/'' @ pat), AList.update (''/tmp/'' @ pat) (FileNode []) w))\<rparr>"

lemma map_of_filter_key: "map_of (filter (\<lambda>(q, node). P q) w) k = (if P k then map_of w k else None)"
  by (induction w) auto

lemma map_of_mkdirs: "map_of (mkdirs ps w) q = (if map_of w q = None \<and> q \<in> set ps then Some DirNode else map_of w q)"
  unfolding mkdirs_def by (induction ps arbitrary: w) (auto simp: update_conv')

lemma set_ancestors: "set (ancestors p) = {q. within q p}"
  by (auto simp: ancestors_def within_def dest: append_prefixD)

lemma children_names:
  "fi_Name ` set (children w p) = {n. proper n \<and> map_of w (p @ ''/'' @ n) \<noteq> None}"
proof -
  have "fi_Name ` set (children w p) = {n. proper n \<and> p @ ''/'' @ n \<in> fst ` set w}"
    by (force simp: children_def fileInfo_def prefix_def image_iff)
  then show ?thesis by (simp add: map_of_eq_None_iff)
qed

lemma lawful_listFs: "lawfulFs listFs map_of"
proof -
  have "lawfulReadFile listFs map_of" "lawfulStat listFs map_of" "lawfulReadDir listFs map_of" "lawfulQueries listFs map_of"
    by (auto simp: lawfulReadFile_def lawfulStat_def lawfulReadDir_def lawfulQueries_def listFs_def children_names isNotExist_def errNotExist_def
        split: option.splits fsnode.splits if_splits)
  moreover have "lawfulWriteFile listFs map_of" "lawfulRemove listFs map_of" "lawfulRemoveAll listFs map_of"
    by (auto simp: lawfulWriteFile_def lawfulRemove_def lawfulRemoveAll_def listFs_def update_conv' delete_conv' map_of_filter_key
        isNotExist_def errNotExist_def split: if_splits)
  moreover have "lawfulMkdirAll listFs map_of"
    by (auto simp: lawfulMkdirAll_def listFs_def map_of_mkdirs set_ancestors list_ex_iff within_def split: if_splits)
  ultimately show ?thesis by (simp add: lawfulFs_def)
qed

lemma lawfulFiles_listFs: "lawfulFiles listFs map_of" "lawfulTemp listFs map_of"
  by (auto simp: lawfulFiles_def lawfulTemp_def listFs_def update_conv' split: if_splits)

text \<open>The same as a part of a larger state.\<close>

definition fsOnPart :: "('w \<Rightarrow> 's) \<Rightarrow> ('s \<Rightarrow> 'w \<Rightarrow> 'w) \<Rightarrow> 's afero \<Rightarrow> 'w afero" where
  "fsOnPart get put fs =
     \<lparr>fs_ReadFile = (\<lambda>p. zoomE get put (fs_ReadFile fs p)), fs_WriteFile = (\<lambda>p s m. zoomE get put (fs_WriteFile fs p s m)),
      fs_MkdirAll = (\<lambda>p m. zoomE get put (fs_MkdirAll fs p m)), fs_Remove = (\<lambda>p. zoomE get put (fs_Remove fs p)),
      fs_RemoveAll = (\<lambda>p. zoomE get put (fs_RemoveAll fs p)), fs_Stat = (\<lambda>p. zoomE get put (fs_Stat fs p)),
      fs_ReadDir = (\<lambda>p. zoomE get put (fs_ReadDir fs p)), fs_DirExists = (\<lambda>p. zoomE get put (fs_DirExists fs p)),
      fs_IsEmpty = (\<lambda>p. zoomE get put (fs_IsEmpty fs p)), fs_Walk = (\<lambda>p. zoomE get put (fs_Walk fs p)),
      fs_OpenFile = (\<lambda>p m. zoomE get put (fs_OpenFile fs p m)), fs_Copy = (\<lambda>p s. zoomE get put (fs_Copy fs p s)),
      fs_TempFile = (\<lambda>d p. zoomE get put (fs_TempFile fs d p))\<rparr>"

lemma zoomE_part: "(\<And>x w. get (put x w) = x) \<Longrightarrow> zoomE get put m w = (r, w') \<Longrightarrow> m (get w) = (r, get w')"
  by (auto simp: zoomE_run split: prod.splits)

lemma lawful_fsOnPart:
  assumes "lawfulFs fs view" and "\<And>x w. get (put x w) = x"
  shows "lawfulFs (fsOnPart get put fs) (\<lambda>w. view (get w))"
proof -
  let ?fs = "fsOnPart get put fs" and ?view = "\<lambda>w. view (get w)"
  have "lawfulReadFile fs view \<Longrightarrow> lawfulReadFile ?fs ?view" "lawfulStat fs view \<Longrightarrow> lawfulStat ?fs ?view"
    "lawfulReadDir fs view \<Longrightarrow> lawfulReadDir ?fs ?view" "lawfulWriteFile fs view \<Longrightarrow> lawfulWriteFile ?fs ?view"
    "lawfulMkdirAll fs view \<Longrightarrow> lawfulMkdirAll ?fs ?view" "lawfulRemove fs view \<Longrightarrow> lawfulRemove ?fs ?view"
    "lawfulRemoveAll fs view \<Longrightarrow> lawfulRemoveAll ?fs ?view"
    unfolding lawfulFs_defs fsOnPart_def afero.simps by ((intro allI impI, drule zoomE_part [where get = get and put = put, OF assms(2)], fast)+)
  moreover have "lawfulQueries fs view \<Longrightarrow> lawfulQueries ?fs ?view"
    by (simp add: lawfulQueries_def fsOnPart_def zoomE_run assms(2) split: prod.splits) (metis snd_conv)
  ultimately show ?thesis using assms(1) by (simp add: lawfulFs_def)
qed

lemma lawfulFiles_fsOnPart:
  assumes "\<And>x w. get (put x w) = x"
  shows "lawfulFiles fs view \<Longrightarrow> lawfulFiles (fsOnPart get put fs) (\<lambda>w. view (get w))"
    and "lawfulTemp fs view \<Longrightarrow> lawfulTemp (fsOnPart get put fs) (\<lambda>w. view (get w))"
proof -
  show "lawfulFiles fs view \<Longrightarrow> lawfulFiles (fsOnPart get put fs) (\<lambda>w. view (get w))"
    by (simp add: lawfulFiles_def fsOnPart_def zoomE_run assms split: prod.splits) (metis snd_conv)
  show "lawfulTemp fs view \<Longrightarrow> lawfulTemp (fsOnPart get put fs) (\<lambda>w. view (get w))"
    unfolding lawfulTemp_def fsOnPart_def afero.simps by (intro allI impI, drule zoomE_part [where get = get and put = put, OF assms]) fast
qed

end
