(* ===== verification/Csi_Driver.thy ===== *)
theory Csi_Driver
  imports Webhook File_System
begin

text \<open>
  The node service of the CSI driver (\<^verbatim>\<open>src/controllers/csi/driver\<close>): it mounts the binaries of a code module into a
  pod and keeps a reference to the version it has mounted, by which the garbage collection knows what is in
  use. The file system, the mounter, the JSON encoder, the gauges and the API server are parameters.
\<close>

section \<open>Options and data (config.go, server.go)\<close>

definition DataPath :: string where "DataPath = ''/data''"
definition GarbageCollectionPath :: string where "GarbageCollectionPath = ''gc''"
definition VersionDir :: string where "VersionDir = ''version''"
definition podNamespaceContextKey :: string where "podNamespaceContextKey = ''csi.storage.k8s.io/pod.namespace''"

record CSIOptions =
  opt_NodeID :: string
  opt_Endpoint :: string
  opt_RootDir :: string
  opt_GCInterval :: duration

record volumeMetadata =
  vmd_UsageFilePath :: string
  vmd_OverlayFSPath :: string

definition zeroMetadata :: volumeMetadata where
  "zeroMetadata = \<lparr>vmd_UsageFilePath = [], vmd_OverlayFSPath = []\<rparr>"

record volumeConfig =
  vcf_volumeId :: string
  vcf_targetPath :: string
  vcf_namespace :: string

record bindConfig =
  bc_agentDir :: string
  bc_envDir :: string
  bc_version :: string
  bc_volumeToVersionReferenceDir :: string

text \<open>A request to publish: the access types that the capability has, if there is one.\<close>

record VolumeCapability =
  cap_Block :: bool
  cap_Mount :: bool

record NodePublishVolumeRequest =
  req_VolumeCapability :: "VolumeCapability option"
  req_VolumeId :: string
  req_TargetPath :: string
  req_VolumeContext :: "string gomap option"

record 'w csi_env =
  ce_namespaces :: "('w, Namespace) kclient"
  ce_fs :: "'w afero"
  ce_IsNotMountPoint :: "string \<Rightarrow> ('w, bool) act"
  ce_Mount :: "string \<Rightarrow> string \<Rightarrow> string \<Rightarrow> string list \<Rightarrow> ('w, unit) act"
  ce_Unmount :: "string \<Rightarrow> ('w, unit) act"
  ce_marshal :: "volumeMetadata \<Rightarrow> goerr + string"
  ce_unmarshal :: "string \<Rightarrow> goerr option \<times> volumeMetadata"
  ce_Inc :: "string \<Rightarrow> 'w \<Rightarrow> 'w"
  ce_Dec :: "string \<Rightarrow> 'w \<Rightarrow> 'w"

text \<open>\<^verbatim>\<open>status.Error\<close> of gRPC, and \<^verbatim>\<open>_ = f()\<close>.\<close>

definition statusError :: "string \<Rightarrow> string \<Rightarrow> goerr" where
  "statusError code msg = ErrMsg (''rpc error: code = '' @ code @ '' desc = '' @ msg)"

definition ignoreE :: "('w, 'a) act \<Rightarrow> ('w, unit) act" where
  "ignoreE m = catchE m (\<lambda>_. retE ()) (\<lambda>_. retE ())"

definition ModePerm :: nat where "ModePerm = 511"

section \<open>Requests (volume\_config.go, server.go)\<close>

definition invalidArgument :: "string \<Rightarrow> goerr + 'a" where
  "invalidArgument msg = Inl (statusError ''InvalidArgument'' msg)"

definition parsePublishVolumeRequest :: "NodePublishVolumeRequest \<Rightarrow> goerr + volumeConfig" where
  "parsePublishVolumeRequest req =
     (case req_VolumeCapability req of
        None \<Rightarrow> invalidArgument ''Volume capability missing in request''
      | Some capability \<Rightarrow>
          if req_VolumeId req = [] then invalidArgument ''Volume ID missing in request''
          else if req_TargetPath req = [] then invalidArgument ''Target path missing in request''
          else if cap_Block capability then invalidArgument ''cannot have block access type''
          else if \<not> cap_Mount capability then invalidArgument ''expecting to have mount access type''
          else (case req_VolumeContext req of
                  None \<Rightarrow> invalidArgument ''Publish context missing in request''
                | Some volCtx \<Rightarrow>
                    let nsName = goget volCtx podNamespaceContextKey []
                    in if nsName = [] then invalidArgument ''No namespace included with request''
                       else Inr \<lparr>vcf_volumeId = req_VolumeId req, vcf_targetPath = req_TargetPath req, vcf_namespace = nsName\<rparr>))"

definition parseNodeUnpublishVolumeRequest :: "string \<Rightarrow> string \<Rightarrow> goerr + string \<times> string" where
  "parseNodeUnpublishVolumeRequest volumeID targetPath =
     (if volumeID = [] then invalidArgument ''Volume ID missing in request''
      else if targetPath = [] then invalidArgument ''Target path missing in request''
      else Inr (volumeID, targetPath))"

definition toLower :: "string \<Rightarrow> string" where
  "toLower = map (\<lambda>c. let n = (of_char c :: nat) in if 65 \<le> n \<and> n \<le> 90 then char_of (n + 32) else c)"

text \<open>\<^verbatim>\<open>strings.SplitN(ep, "://", 2)\<close>: what is before the first separator and after it.\<close>

fun cutScheme :: "string \<Rightarrow> (string \<times> string) option" where
  "cutScheme [] = None"
| "cutScheme (c # s) =
     (if prefix ''://'' (c # s) then Some ([], drop 3 (c # s))
      else map_option (\<lambda>(a, b). (c # a, b)) (cutScheme s))"

definition csi_parseEndpoint :: "string \<Rightarrow> goerr + string \<times> string" where
  "csi_parseEndpoint ep =
     (let invalid = Inl (ErrMsg (''invalid endpoint: '' @ ep))
      in if prefix ''unix://'' (toLower ep) \<or> prefix ''tcp://'' (toLower ep)
         then (case cutScheme ep of Some (proto, addr) \<Rightarrow> if addr \<noteq> [] then Inr (proto, addr) else invalid | None \<Rightarrow> invalid)
         else invalid)"

section \<open>Where to bind (bind\_config.go)\<close>

definition newBindConfig :: "'w csi_env \<Rightarrow> CSIOptions \<Rightarrow> volumeConfig \<Rightarrow> ('w, bindConfig) act" where
  "newBindConfig env opts volumeCfg =
     catchE (kGet (ce_namespaces env) ([], vcf_namespace volumeCfg))
       (\<lambda>err. raiseE (statusError ''FailedPrecondition'' (''failed to query namespace '' @ vcf_namespace volumeCfg @ '': '' @ errorText err)))
       (\<lambda>ns.
          let dkName = goget (entries (ns_Labels ns)) LabelInstance []
          in if dkName = []
             then raiseE (statusError ''FailedPrecondition''
                    (''namespace '' @ [CHR 0x27] @ vcf_namespace volumeCfg @ [CHR 0x27] @ '' doesn'' @ [CHR 0x27] @ ''t have DynaKube assigned''))
             else
               catchE (fs_ReadFile (ce_fs env) (filepath_Join [opt_RootDir opts, ''tenant-'' @ dkName]))
                 (\<lambda>err. raiseE (statusError ''Unavailable'' (''failed to extract tenant for DynaKube '' @ dkName @ '': '' @ errorText err)))
                 (\<lambda>tenantUUID.
                    let envDir = filepath_Join [opt_RootDir opts, tenantUUID]
                    in catchE (fs_ReadFile (ce_fs env) (filepath_Join [envDir, ''version'']))
                         (\<lambda>err. raiseE (statusError ''Internal'' (''Failed to query agent directory for DynaKube '' @ dkName @ '': '' @ errorText err)))
                         (\<lambda>version.
                            let agentDir = filepath_Join [envDir, ''bin'', version];
                                refDir = filepath_Join [envDir, GarbageCollectionPath, version]
                            in catchE (fs_MkdirAll (ce_fs env) refDir ModePerm)
                                 (\<lambda>err. raiseE (statusError ''Internal'' (''Failed to create pod to version reference directory: '' @ errorText err)))
                                 (\<lambda>_. retE \<lparr>bc_agentDir = agentDir, bc_envDir = envDir, bc_version = version,
                                              bc_volumeToVersionReferenceDir = refDir\<rparr>))))"

section \<open>Mounts and metadata (server.go)\<close>

definition isMounted :: "'w csi_env \<Rightarrow> string \<Rightarrow> ('w, bool) act" where
  "isMounted env targetPath =
     catchE (ce_IsNotMountPoint env targetPath)
       (\<lambda>err. if isNotExist err then retE False else raiseE (statusError ''Internal'' (errorText err)))
       (\<lambda>isNotMounted. retE (\<not> isNotMounted))"

definition mountOneAgent :: "'w csi_env \<Rightarrow> bindConfig \<Rightarrow> volumeConfig \<Rightarrow> ('w, unit) act" where
  "mountOneAgent env bindCfg volumeCfg =
     (let agentDirectoryForPod = filepath_Join [bc_envDir bindCfg, ''run'', vcf_volumeId volumeCfg];
          mappedDir = filepath_Join [agentDirectoryForPod, ''mapped''];
          upperDir = filepath_Join [agentDirectoryForPod, ''var''];
          workDir = filepath_Join [agentDirectoryForPod, ''work''];
          overlayOptions = [''lowerdir='' @ bc_agentDir bindCfg, ''upperdir='' @ upperDir, ''workdir='' @ workDir]
      in bindE (ignoreE (fs_MkdirAll (ce_fs env) mappedDir ModePerm)) (\<lambda>_.
         bindE (ignoreE (fs_MkdirAll (ce_fs env) upperDir ModePerm)) (\<lambda>_.
         bindE (ignoreE (fs_MkdirAll (ce_fs env) workDir ModePerm)) (\<lambda>_.
         bindE (fs_MkdirAll (ce_fs env) (vcf_targetPath volumeCfg) ModePerm) (\<lambda>_.
         bindE (ce_Mount env ''overlay'' mappedDir ''overlay'' overlayOptions) (\<lambda>_.
           catchE (ce_Mount env mappedDir (vcf_targetPath volumeCfg) [] [''bind''])
             (\<lambda>err. bindE (ignoreE (ce_Unmount env mappedDir)) (\<lambda>_. raiseE err)) retE))))))"

definition umountOneAgent :: "'w csi_env \<Rightarrow> string \<Rightarrow> volumeMetadata \<Rightarrow> ('w, unit) act" where
  "umountOneAgent env targetPath metadata =
     bindE (ignoreE (ce_Unmount env targetPath)) (\<lambda>_.
       if IsAbs (vmd_OverlayFSPath metadata)
       then ignoreE (ce_Unmount env (filepath_Join [vmd_OverlayFSPath metadata, ''mapped'']))
       else retE ())"

definition storeVolumeMetadata :: "'w csi_env \<Rightarrow> CSIOptions \<Rightarrow> bindConfig \<Rightarrow> string \<Rightarrow> ('w, unit) act" where
  "storeVolumeMetadata env opts bindCfg volumeID =
     (let podToVersionReference = filepath_Join [bc_volumeToVersionReferenceDir bindCfg, volumeID]
      in bindE (fs_WriteFile (ce_fs env) podToVersionReference [] 416) (\<lambda>_.
         let metadata = \<lparr>vmd_UsageFilePath = podToVersionReference, vmd_OverlayFSPath = filepath_Join [bc_envDir bindCfg, ''run'', volumeID]\<rparr>
         in bindE (liftE (ce_marshal env metadata)) (\<lambda>data.
              fs_WriteFile (ce_fs env) (filepath_Join [opt_RootDir opts, GarbageCollectionPath, volumeID]) data 416)))"

text \<open>The metadata as they are left; an error is only logged.\<close>

definition loadVolumeMetadata :: "'w csi_env \<Rightarrow> string \<Rightarrow> ('w, volumeMetadata) act" where
  "loadVolumeMetadata env metadataPath =
     catchE (fs_ReadFile (ce_fs env) metadataPath) (\<lambda>_. retE zeroMetadata) (\<lambda>data. retE (snd (ce_unmarshal env data)))"

definition fireVolumeUnpublishedMetric :: "'w csi_env \<Rightarrow> string \<Rightarrow> ('w, unit) act" where
  "fireVolumeUnpublishedMetric env usageFilePath =
     (if usageFilePath = [] then retE ()
      else let tmp = splitOn sep usageFilePath
           in if length tmp < 2 then raiseE panicIndex else modifyE (ce_Dec env (tmp ! (length tmp - 2))))"

section \<open>The node service\<close>

definition NodePublishVolume :: "'w csi_env \<Rightarrow> CSIOptions \<Rightarrow> NodePublishVolumeRequest \<Rightarrow> ('w, unit) act" where
  "NodePublishVolume env opts req =
     bindE (liftE (parsePublishVolumeRequest req)) (\<lambda>volumeCfg.
     bindE (isMounted env (vcf_targetPath volumeCfg)) (\<lambda>mounted.
       if mounted then retE ()
       else bindE (newBindConfig env opts volumeCfg) (\<lambda>bindCfg.
            catchE (mountOneAgent env bindCfg volumeCfg)
              (\<lambda>err. raiseE (statusError ''Internal'' (''failed to mount oneagent volume: '' @ errorText err)))
              (\<lambda>_. catchE (storeVolumeMetadata env opts bindCfg (vcf_volumeId volumeCfg))
                     (\<lambda>err. raiseE (statusError ''Internal'' (''Failed to store volume metadata: '' @ errorText err)))
                     (\<lambda>_. modifyE (ce_Inc env (bc_version bindCfg)))))))"

definition removeIfPresent :: "'w csi_env \<Rightarrow> string \<Rightarrow> string \<Rightarrow> ('w, unit) act" where
  "removeIfPresent env p msg =
     catchE (fs_Remove (ce_fs env) p)
       (\<lambda>err. if isNotExist err then retE () else raiseE (statusError ''Internal'' (msg @ errorText err))) retE"

definition NodeUnpublishVolume :: "'w csi_env \<Rightarrow> CSIOptions \<Rightarrow> string \<Rightarrow> string \<Rightarrow> ('w, unit) act" where
  "NodeUnpublishVolume env opts reqVolumeId reqTargetPath =
     bindE (liftE (parseNodeUnpublishVolumeRequest reqVolumeId reqTargetPath)) (\<lambda>(volumeID, targetPath).
     let volumeMetadataPath = filepath_Join [opt_RootDir opts, GarbageCollectionPath, volumeID]
     in bindE (loadVolumeMetadata env volumeMetadataPath) (\<lambda>metadata.
        bindE (umountOneAgent env targetPath metadata) (\<lambda>_.
        bindE (if prefix (opt_RootDir opts) (vmd_UsageFilePath metadata)
               then removeIfPresent env (vmd_UsageFilePath metadata) ''failed to remove version reference for pod: '' else retE ()) (\<lambda>_.
        bindE (removeIfPresent env volumeMetadataPath ''failed to remove volume to pod reference: '') (\<lambda>_.
        bindE (catchE (fs_RemoveAll (ce_fs env) targetPath) (\<lambda>err. raiseE (statusError ''Internal'' (errorText err))) retE) (\<lambda>_.
          fireVolumeUnpublishedMetric env (vmd_UsageFilePath metadata)))))))"

text \<open>The rest of the service: what the driver is, and what it does not offer.\<close>

definition GetPluginInfo :: "string \<Rightarrow> ('w, string \<times> string) act" where
  "GetPluginInfo version = retE (csi_DriverName, version)"

definition NodeGetInfo :: "CSIOptions \<Rightarrow> ('w, string) act" where
  "NodeGetInfo opts = retE (opt_NodeID opts)"

definition NodeStageVolume :: "('w, unit) act" where "NodeStageVolume = raiseE (statusError ''Unimplemented'' [])"
definition NodeUnstageVolume :: "('w, unit) act" where "NodeUnstageVolume = raiseE (statusError ''Unimplemented'' [])"
definition NodeGetVolumeStats :: "('w, unit) act" where "NodeGetVolumeStats = raiseE (statusError ''Unimplemented'' [])"
definition NodeExpandVolume :: "('w, unit) act" where "NodeExpandVolume = raiseE (statusError ''Unimplemented'' [])"

text \<open>\<^verbatim>\<open>Start\<close> up to the server's loop, which is a parameter.\<close>

definition csi_Start :: "'w csi_env \<Rightarrow> CSIOptions \<Rightarrow> (string \<Rightarrow> string \<Rightarrow> ('w, 'l) act) \<Rightarrow> ('l \<Rightarrow> ('w, unit) act) \<Rightarrow> ('w, unit) act" where
  "csi_Start env opts listen serve =
     catchE (liftE (csi_parseEndpoint (opt_Endpoint opts)))
       (\<lambda>err. raiseE (Wrap (''failed to parse endpoint '' @ [CHR 0x27] @ opt_Endpoint opts @ [CHR 0x27] @ '': '') err))
       (\<lambda>(proto, addr).
          bindE (if proto = ''unix''
                 then catchE (fs_Remove (ce_fs env) addr)
                        (\<lambda>err. if isNotExist err then retE ()
                               else raiseE (Wrap (''failed to remove old endpoint on '' @ [CHR 0x27] @ addr @ [CHR 0x27] @ '': '') err)) retE
                 else retE ()) (\<lambda>_.
          bindE (wrapE ''failed to start server: '' (listen proto addr)) (\<lambda>listener. ignoreE (serve listener))))"

section \<open>Lemmas\<close>

lemma ignoreE_run [act_simps]: "ignoreE m w = (Inr (), snd (m w))"
  by (simp add: ignoreE_def catchE_run split: prod.splits sum.splits)

lemma keeps_ignoreE [keeps_intros]: "keeps I m \<Longrightarrow> keeps I (ignoreE m)"
  unfolding ignoreE_def by (intro keeps_intros)

text \<open>The root directory is an absolute path without dots, such as \<^verbatim>\<open>/data\<close>.\<close>

definition cleanRoot :: "CSIOptions \<Rightarrow> bool" where
  "cleanRoot opts \<longleftrightarrow> (\<exists>rs. rs \<noteq> [] \<and> list_all proper rs \<and> opt_RootDir opts = absPath rs)"

lemma Join_root:
  assumes "cleanRoot opts" and "list_all proper ds" and "list_all proper es"
  shows "filepath_Join (under (opt_RootDir opts) ds # es) = under (opt_RootDir opts) (ds @ es)"
proof -
  obtain rs where rs: "rs \<noteq> []" "list_all proper rs" "opt_RootDir opts = absPath rs" using assms(1) by (auto simp: cleanRoot_def)
  have "under (opt_RootDir opts) ds = absPath (rs @ ds)" by (simp add: rs(3))
  moreover have "filepath_Join (absPath (rs @ ds) # es) = absPath ((rs @ ds) @ es)"
    using rs assms(2,3) by (intro Join_under) simp_all
  ultimately show ?thesis by (simp add: rs(3))
qed

lemma Join_root_simple: "cleanRoot opts \<Longrightarrow> list_all proper es \<Longrightarrow> filepath_Join (opt_RootDir opts # es) = under (opt_RootDir opts) es"
  using Join_root [of opts "[]" es] by simp

lemma root_nonempty: "cleanRoot opts \<Longrightarrow> opt_RootDir opts \<noteq> []"
  unfolding cleanRoot_def by (metis absPath_eq_Nil)

lemma under_inj: "list_all proper cs \<Longrightarrow> list_all proper ds \<Longrightarrow> under d cs = under d ds \<longleftrightarrow> cs = ds"
proof
  assume proper: "list_all proper cs" "list_all proper ds" and eq: "under d cs = under d ds"
  then have "absPath cs = absPath ds" by (simp add: under_def)
  then have "pathComps (absPath cs) = pathComps (absPath ds)" by simp
  with proper show "cs = ds" by simp
qed simp

lemma proper_names [simp]: "proper ''gc''" "proper ''version''" "proper ''run''" "proper ''bin''" "proper ''mapped''"
  by (simp_all add: proper_def)

lemma newBindConfig_Inr:
  assumes law: "lawfulFs (ce_fs env) view" "leaves (ce_namespaces env) view" and run: "newBindConfig env opts vc w = (Inr bc, w')"
  obtains dk tenant where "view w (filepath_Join [opt_RootDir opts, ''tenant-'' @ dk]) = Some (FileNode tenant)"
    "view w (filepath_Join [filepath_Join [opt_RootDir opts, tenant], ''version'']) = Some (FileNode (bc_version bc))"
    "bc_envDir bc = filepath_Join [opt_RootDir opts, tenant]"
    "bc_agentDir bc = filepath_Join [bc_envDir bc, ''bin'', bc_version bc]"
    "bc_volumeToVersionReferenceDir bc = filepath_Join [bc_envDir bc, GarbageCollectionPath, bc_version bc]"
proof -
  obtain ns w1 where 1: "kGet (ce_namespaces env) ([], vcf_namespace vc) w = (Inr ns, w1)"
    using run by (cases "kGet (ce_namespaces env) ([], vcf_namespace vc) w") (auto simp: newBindConfig_def catchE_run split: sum.splits)
  let ?dk = "goget (entries (ns_Labels ns)) LabelInstance []"
  obtain tenant w2 where 2: "fs_ReadFile (ce_fs env) (filepath_Join [opt_RootDir opts, ''tenant-'' @ ?dk]) w1 = (Inr tenant, w2)"
    using run 1 by (auto simp: newBindConfig_def catchE_run Let_def split: sum.splits prod.splits if_splits)
  let ?env = "filepath_Join [opt_RootDir opts, tenant]"
  obtain version w3 where 3: "fs_ReadFile (ce_fs env) (filepath_Join [?env, ''version'']) w2 = (Inr version, w3)"
    using run 1 2 by (auto simp: newBindConfig_def catchE_run Let_def split: sum.splits prod.splits if_splits)
  have bc: "bc = \<lparr>bc_agentDir = filepath_Join [?env, ''bin'', version], bc_envDir = ?env, bc_version = version,
      bc_volumeToVersionReferenceDir = filepath_Join [?env, GarbageCollectionPath, version]\<rparr>"
    using run 1 2 3 by (auto simp: newBindConfig_def catchE_run Let_def split: sum.splits prod.splits if_splits)
  have same: "view w1 = view w" "view w2 = view w" using leavesD(1) [OF law(2) 1] lawfulFs_reads(1) [OF law(1) 2] by simp_all
  show thesis
    using lawfulFs_reads(2) [OF law(1) 2] lawfulFs_reads(2) [OF law(1) 3] by (intro that [of ?dk tenant]) (simp_all add: same bc)
qed

text \<open>The names in the files that the provisioner writes are proper elements of a path.\<close>

definition provisioned :: "CSIOptions \<Rightarrow> fsview \<Rightarrow> bool" where
  "provisioned opts files \<longleftrightarrow>
     (\<forall>dk tenant. files (filepath_Join [opt_RootDir opts, ''tenant-'' @ dk]) = Some (FileNode tenant) \<longrightarrow> proper tenant \<and>
        (\<forall>version. files (under (opt_RootDir opts) [tenant, ''version'']) = Some (FileNode version) \<longrightarrow> proper version))"

lemma newBindConfig_layout:
  assumes "cleanRoot opts" and "lawfulFs (ce_fs env) view" "leaves (ce_namespaces env) view" and "provisioned opts (view w)"
    and "newBindConfig env opts vc w = (Inr bc, w')"
  obtains tenant where "proper tenant" "proper (bc_version bc)" "view w (under (opt_RootDir opts) [tenant, ''version'']) = Some (FileNode (bc_version bc))"
    "bc_envDir bc = under (opt_RootDir opts) [tenant]" "bc_agentDir bc = under (opt_RootDir opts) [tenant, ''bin'', bc_version bc]"
    "bc_volumeToVersionReferenceDir bc = under (opt_RootDir opts) [tenant, ''gc'', bc_version bc]"
proof -
  obtain dk tenant where bc: "view w (filepath_Join [opt_RootDir opts, ''tenant-'' @ dk]) = Some (FileNode tenant)"
    "view w (filepath_Join [filepath_Join [opt_RootDir opts, tenant], ''version'']) = Some (FileNode (bc_version bc))"
    "bc_envDir bc = filepath_Join [opt_RootDir opts, tenant]" "bc_agentDir bc = filepath_Join [bc_envDir bc, ''bin'', bc_version bc]"
    "bc_volumeToVersionReferenceDir bc = filepath_Join [bc_envDir bc, GarbageCollectionPath, bc_version bc]"
    by (rule newBindConfig_Inr [OF assms(2,3,5)])
  have tenant: "proper tenant" using assms(4) bc(1) by (auto simp: provisioned_def)
  have env: "filepath_Join [opt_RootDir opts, tenant] = under (opt_RootDir opts) [tenant]" using assms(1) tenant by (simp add: Join_root_simple)
  have join: "list_all proper es \<Longrightarrow> filepath_Join (under (opt_RootDir opts) [tenant] # es) = under (opt_RootDir opts) (tenant # es)" for es
    using Join_root [OF assms(1), of "[tenant]" es] tenant by simp
  have stored: "view w (under (opt_RootDir opts) [tenant, ''version'']) = Some (FileNode (bc_version bc))" using bc(2) join [of "[''version'']"] unfolding env by simp
  have version: "proper (bc_version bc)" using assms(4) bc(1) stored unfolding provisioned_def by blast
  show thesis
  proof (rule that [OF tenant version stored])
    show "bc_envDir bc = under (opt_RootDir opts) [tenant]" using bc(3) env by simp
    then show "bc_agentDir bc = under (opt_RootDir opts) [tenant, ''bin'', bc_version bc]"
      "bc_volumeToVersionReferenceDir bc = under (opt_RootDir opts) [tenant, ''gc'', bc_version bc]"
      using bc(4,5) join version by (simp_all add: GarbageCollectionPath_def)
  qed
qed

lemma NodePublishVolume_Inr:
  assumes "NodePublishVolume env opts req w = (Inr u, w')" and "isMounted env (req_TargetPath req) w = (Inr False, w0)"
  obtains vc bc w1 w2 w3 where "parsePublishVolumeRequest req = Inr vc" "newBindConfig env opts vc w0 = (Inr bc, w1)"
    "mountOneAgent env bc vc w1 = (Inr (), w2)" "storeVolumeMetadata env opts bc (vcf_volumeId vc) w2 = (Inr (), w3)" "w' = ce_Inc env (bc_version bc) w3"
proof -
  obtain vc where vc: "parsePublishVolumeRequest req = Inr vc"
    using assms(1) by (auto simp: NodePublishVolume_def bindE_run split: sum.splits prod.splits)
  then have "vcf_targetPath vc = req_TargetPath req"
    by (auto simp: parsePublishVolumeRequest_def invalidArgument_def Let_def split: option.splits if_splits)
  with vc assms show thesis
    by (auto simp: NodePublishVolume_def bindE_run catchE_run split: sum.splits prod.splits intro!: that)
qed

lemma parsePublish_fields: "parsePublishVolumeRequest req = Inr vc \<Longrightarrow> vcf_volumeId vc = req_VolumeId req \<and> vcf_targetPath vc = req_TargetPath req"
  by (auto simp: parsePublishVolumeRequest_def invalidArgument_def Let_def split: option.splits if_splits)

lemma storeVolumeMetadata_effect:
  assumes root: "cleanRoot opts" and law: "lawfulFs (ce_fs env) view" and vol: "proper vol" "proper tenant" "proper version"
    and bc: "bc_envDir bc = under (opt_RootDir opts) [tenant]" "bc_volumeToVersionReferenceDir bc = under (opt_RootDir opts) [tenant, ''gc'', version]"
    and run: "storeVolumeMetadata env opts bc vol w = (Inr (), w')"
  defines "ref \<equiv> under (opt_RootDir opts) [tenant, ''gc'', version, vol]" and "meta \<equiv> under (opt_RootDir opts) [''gc'', vol]"
  shows "\<exists>data. ce_marshal env \<lparr>vmd_UsageFilePath = ref, vmd_OverlayFSPath = under (opt_RootDir opts) [tenant, ''run'', vol]\<rparr> = Inr data \<and>
    view w' = (view w)(ref := Some (FileNode []), meta := Some (FileNode data))"
proof -
  have paths: "filepath_Join [bc_volumeToVersionReferenceDir bc, vol] = ref" "filepath_Join [opt_RootDir opts, GarbageCollectionPath, vol] = meta"
    "filepath_Join [bc_envDir bc, ''run'', vol] = under (opt_RootDir opts) [tenant, ''run'', vol]"
    using root vol Join_root [OF root, of "[tenant, ''gc'', version]" "[vol]"] Join_root [OF root, of "[tenant]" "[''run'', vol]"]
    by (simp_all add: bc ref_def meta_def Join_root_simple GarbageCollectionPath_def)
  obtain w1 where 1: "fs_WriteFile (ce_fs env) ref [] 416 w = (Inr (), w1)"
    using run by (auto simp: storeVolumeMetadata_def paths Let_def bindE_run split: sum.splits prod.splits)
  obtain data where data: "ce_marshal env \<lparr>vmd_UsageFilePath = ref, vmd_OverlayFSPath = under (opt_RootDir opts) [tenant, ''run'', vol]\<rparr> = Inr data"
    and 2: "fs_WriteFile (ce_fs env) meta data 416 w1 = (Inr (), w')"
    using run 1 by (auto simp: storeVolumeMetadata_def paths Let_def bindE_run split: sum.splits prod.splits)
  from data lawfulFs_Write(1) [OF law 1 refl] lawfulFs_Write(1) [OF law 2 refl] show ?thesis by simp
qed

lemma removeIfPresent_effect:
  assumes "lawfulFs (ce_fs env) view" and "removeIfPresent env p msg w = (Inr u, w')"
  shows "view w' = (view w)(p := None)"
  using assms(2) lawfulFs_Remove(1,3) [OF assms(1)]
  by (auto simp: removeIfPresent_def catchE_run split: prod.splits sum.splits if_splits)

lemma NodeUnpublishVolume_Inr:
  assumes run: "NodeUnpublishVolume env opts vol targetPath w = (Inr u, w')"
    and load: "loadVolumeMetadata env (filepath_Join [opt_RootDir opts, GarbageCollectionPath, vol]) w = (Inr md, w0)"
  obtains w1 w2 w3 w4 where "umountOneAgent env targetPath md w0 = (Inr (), w1)"
    "(if prefix (opt_RootDir opts) (vmd_UsageFilePath md)
      then removeIfPresent env (vmd_UsageFilePath md) ''failed to remove version reference for pod: '' else retE ()) w1 = (Inr (), w2)"
    "removeIfPresent env (filepath_Join [opt_RootDir opts, GarbageCollectionPath, vol]) ''failed to remove volume to pod reference: '' w2 = (Inr (), w3)"
    "fs_RemoveAll (ce_fs env) targetPath w3 = (Inr (), w4)" "fireVolumeUnpublishedMetric env (vmd_UsageFilePath md) w4 = (Inr (), w')"
proof -
  have parse: "parseNodeUnpublishVolumeRequest vol targetPath = Inr (vol, targetPath)"
    using run by (auto simp: NodeUnpublishVolume_def parseNodeUnpublishVolumeRequest_def invalidArgument_def split: if_splits)
  obtain r1 w1 where 1: "umountOneAgent env targetPath md w0 = (r1, w1)" by fastforce
  have r1: "r1 = Inr ()" using 1 by (auto simp: umountOneAgent_def bindE_run ignoreE_run split: if_splits)
  obtain r2 w2 where 2: "(if prefix (opt_RootDir opts) (vmd_UsageFilePath md)
      then removeIfPresent env (vmd_UsageFilePath md) ''failed to remove version reference for pod: '' else retE ()) w1 = (r2, w2)" by fastforce
  note start = run [unfolded NodeUnpublishVolume_def parse, simplified, unfolded Let_def, simplified load bindE_run, simplified]
  obtain w3 where r2: "r2 = Inr ()" and 3: "removeIfPresent env (filepath_Join [opt_RootDir opts, GarbageCollectionPath, vol])
      ''failed to remove volume to pod reference: '' w2 = (Inr (), w3)"
    using start 1 r1 2 by (auto simp: bindE_run split: sum.splits prod.splits)
  obtain w4 where 4: "fs_RemoveAll (ce_fs env) targetPath w3 = (Inr (), w4)" and 5: "fireVolumeUnpublishedMetric env (vmd_UsageFilePath md) w4 = (Inr u, w')"
    using start 1 r1 2 r2 3 by (auto simp: bindE_run catchE_run split: sum.splits prod.splits)
  show thesis using 1 r1 2 r2 3 4 5 by (intro that) simp_all
qed

lemma publish_effect:
  assumes root: "cleanRoot opts" and law: "lawfulFs (ce_fs env) view" "leaves (ce_namespaces env) view"
    and quiet: "\<And>p w. view (snd (ce_IsNotMountPoint env p w)) = view w" "\<And>v w. view (ce_Inc env v w) = view w"
    and names: "provisioned opts (view w)" "proper (req_VolumeId req)"
    and mounted: "isMounted env (req_TargetPath req) w = (Inr False, w0)" and run: "NodePublishVolume env opts req w = (Inr (), w')"
  shows "\<exists>tenant version data. proper tenant \<and> proper version \<and>
    view w (under (opt_RootDir opts) [tenant, ''version'']) = Some (FileNode version) \<and>
    view w' (under (opt_RootDir opts) [tenant, ''gc'', version, req_VolumeId req]) = Some (FileNode []) \<and>
    view w' (under (opt_RootDir opts) [''gc'', req_VolumeId req]) = Some (FileNode data) \<and>
    ce_marshal env \<lparr>vmd_UsageFilePath = under (opt_RootDir opts) [tenant, ''gc'', version, req_VolumeId req],
      vmd_OverlayFSPath = under (opt_RootDir opts) [tenant, ''run'', req_VolumeId req]\<rparr> = Inr data"
proof -
  obtain vc bc w1 w2 w3 where parts: "parsePublishVolumeRequest req = Inr vc" "newBindConfig env opts vc w0 = (Inr bc, w1)"
    "storeVolumeMetadata env opts bc (vcf_volumeId vc) w2 = (Inr (), w3)" "w' = ce_Inc env (bc_version bc) w3"
    by (rule NodePublishVolume_Inr [OF run mounted])
  have "keeps (\<lambda>s. view s = view w) (isMounted env p)" for p
    unfolding isMounted_def by (intro keeps_intros) (simp add: keeps_def quiet)
  from keepsD [OF this refl mounted] have w0: "view w0 = view w" .
  have vol: "vcf_volumeId vc = req_VolumeId req" using parsePublish_fields [OF parts(1)] by simp
  obtain tenant where bc: "proper tenant" "proper (bc_version bc)"
    "view w (under (opt_RootDir opts) [tenant, ''version'']) = Some (FileNode (bc_version bc))"
    "bc_envDir bc = under (opt_RootDir opts) [tenant]" "bc_volumeToVersionReferenceDir bc = under (opt_RootDir opts) [tenant, ''gc'', bc_version bc]"
    using newBindConfig_layout [OF root law, of w0 vc bc w1] names(1) parts(2) w0 by metis
  from storeVolumeMetadata_effect [OF root law(1) names(2) bc(1,2,4,5) parts(3) [unfolded vol]]
  obtain data where "ce_marshal env \<lparr>vmd_UsageFilePath = under (opt_RootDir opts) [tenant, ''gc'', bc_version bc, req_VolumeId req],
      vmd_OverlayFSPath = under (opt_RootDir opts) [tenant, ''run'', req_VolumeId req]\<rparr> = Inr data"
    "view w' (under (opt_RootDir opts) [tenant, ''gc'', bc_version bc, req_VolumeId req]) = Some (FileNode [])"
    "view w' (under (opt_RootDir opts) [''gc'', req_VolumeId req]) = Some (FileNode data)"
    using bc(1,2) names(2) by (auto simp: parts(4) quiet under_inj)
  with bc(1-3) show ?thesis by blast
qed

section \<open>Properties\<close>

text \<open>A volume that is published is recorded: when a volume is mounted, the version that the tenant has installed is referred to
  by a file of the volume, and the volume's metadata, with the path of that file, are stored under the volume's name.\<close>

theorem publish_records_use:
  assumes root: "cleanRoot opts" and law: "lawfulFs (ce_fs env) view" "leaves (ce_namespaces env) view"
    and quiet: "\<And>p w. view (snd (ce_IsNotMountPoint env p w)) = view w" "\<And>v w. view (ce_Inc env v w) = view w"
    and names: "provisioned opts (view w)" "proper (req_VolumeId req)"
    and mounted: "isMounted env (req_TargetPath req) w = (Inr False, w0)" and run: "NodePublishVolume env opts req w = (Inr (), w')"
  shows "\<exists>tenant version data. proper tenant \<and> proper version \<and>
    view w (under (opt_RootDir opts) [tenant, ''version'']) = Some (FileNode version) \<and>
    view w' (under (opt_RootDir opts) [tenant, ''gc'', version, req_VolumeId req]) = Some (FileNode []) \<and>
    view w' (under (opt_RootDir opts) [''gc'', req_VolumeId req]) = Some (FileNode data) \<and>
    ce_marshal env \<lparr>vmd_UsageFilePath = under (opt_RootDir opts) [tenant, ''gc'', version, req_VolumeId req],
      vmd_OverlayFSPath = under (opt_RootDir opts) [tenant, ''run'', req_VolumeId req]\<rparr> = Inr data"
  using assms by (rule publish_effect)

text \<open>C22. A volume that is unpublished is released: where its metadata can be read, neither they nor the reference they name are there
  afterwards. Where they cannot be read, for whatever reason, the call succeeds as well, the metadata are gone, and the
  reference stays for good: the version it refers to is never collected.\<close>

theorem unpublish_releases:
  assumes root: "cleanRoot opts" and law: "lawfulFs (ce_fs env) view" and vol: "proper vol"
    and quiet: "\<And>v w. view (ce_Dec env v w) = view w" "\<And>q p w. \<not> within p q \<Longrightarrow> view (snd (ce_Unmount env p w)) q = view w q"
    and run: "NodeUnpublishVolume env opts vol targetPath w = (Inr (), w')"
    and read: "fs_ReadFile (ce_fs env) (under (opt_RootDir opts) [''gc'', vol]) w = (r, w0)"
  shows "view w' (under (opt_RootDir opts) [''gc'', vol]) = None \<and>
    (case r of
       Inr data \<Rightarrow> prefix (opt_RootDir opts) (vmd_UsageFilePath (snd (ce_unmarshal env data))) \<longrightarrow>
         view w' (vmd_UsageFilePath (snd (ce_unmarshal env data))) = None
     | Inl _ \<Rightarrow> (\<forall>ref. \<not> within targetPath ref \<and> ref \<noteq> under (opt_RootDir opts) [''gc'', vol] \<longrightarrow> view w' ref = view w ref))"
proof -
  let ?meta = "under (opt_RootDir opts) [''gc'', vol]" and ?md = "case r of Inl _ \<Rightarrow> zeroMetadata | Inr data \<Rightarrow> snd (ce_unmarshal env data)"
  have meta: "filepath_Join [opt_RootDir opts, GarbageCollectionPath, vol] = ?meta" using root vol by (simp add: Join_root_simple GarbageCollectionPath_def)
  have load: "loadVolumeMetadata env (filepath_Join [opt_RootDir opts, GarbageCollectionPath, vol]) w = (Inr ?md, w0)"
    using read unfolding meta loadVolumeMetadata_def by (cases r) simp_all
  obtain w1 w2 w3 w4 where steps: "umountOneAgent env targetPath ?md w0 = (Inr (), w1)"
    "(if prefix (opt_RootDir opts) (vmd_UsageFilePath ?md)
      then removeIfPresent env (vmd_UsageFilePath ?md) ''failed to remove version reference for pod: '' else retE ()) w1 = (Inr (), w2)"
    "removeIfPresent env ?meta ''failed to remove volume to pod reference: '' w2 = (Inr (), w3)"
    "fs_RemoveAll (ce_fs env) targetPath w3 = (Inr (), w4)" "fireVolumeUnpublishedMetric env (vmd_UsageFilePath ?md) w4 = (Inr (), w')"
    by (rule NodeUnpublishVolume_Inr [OF run load, unfolded meta])
  have w': "view w' = view w4"
    using steps(5) by (auto simp: fireVolumeUnpublishedMetric_def Let_def quiet(1) split: if_splits)
  have w3: "view w3 = (view w2)(?meta := None)" by (rule removeIfPresent_effect [OF law steps(3)])
  have gone: "view w' q = None" if "view w3 q = None" for q
    using that lawfulFs_RemoveAll [OF law steps(4), where q = q] by (cases "within targetPath q") (simp_all add: w')
  show ?thesis
  proof (cases r)
    case (Inr data)
    then have "prefix (opt_RootDir opts) (vmd_UsageFilePath ?md) \<longrightarrow> view w2 (vmd_UsageFilePath ?md) = None"
      using steps(2) removeIfPresent_effect [OF law] by fastforce
    with Inr gone show ?thesis by (simp add: w3)
  next
    case (Inl e)
    have "view w' ref = view w ref" if "\<not> within targetPath ref" "ref \<noteq> ?meta" for ref
    proof -
      have md: "?md = zeroMetadata" using Inl by simp
      have "\<not> prefix (opt_RootDir opts) []" using root_nonempty [OF root] by simp
      then have "w2 = w1" using steps(2) unfolding md by (simp add: zeroMetadata_def)
      moreover have "view w1 ref = view w0 ref"
        using steps(1) that(1) quiet(2) unfolding md by (auto simp: umountOneAgent_def ignoreE_run bindE_run zeroMetadata_def IsAbs_def)
      moreover have "view w0 = view w" by (rule lawfulFs_reads(1) [OF law read])
      moreover have "view w4 ref = view w3 ref" using that(1) by (rule lawfulFs_RemoveAll(1) [OF law steps(4)])
      ultimately show ?thesis using that(2) by (simp add: w' w3)
    qed
    with Inl gone show ?thesis by (simp add: w3)
  qed
qed

section \<open>A node\<close>

record csiNode =
  nd_Files :: "(string \<times> fsnode) list"
  nd_Namespaces :: "Namespace store"
  nd_Mounts :: "string list"

definition exampleCsi :: "csiNode csi_env" where
  "exampleCsi =
     \<lparr>ce_namespaces = onPart nd_Namespaces (\<lambda>x w. w\<lparr>nd_Namespaces := x\<rparr>) (storeClient (\<lambda>n. ([], ns_Name n))),
      ce_fs = fsOnPart nd_Files (\<lambda>x w. w\<lparr>nd_Files := x\<rparr>) listFs,
      ce_IsNotMountPoint = (\<lambda>p w. (Inr (p \<notin> set (nd_Mounts w)), w)),
      ce_Mount = (\<lambda>src p fstype opts w. (Inr (), w\<lparr>nd_Mounts := p # nd_Mounts w\<rparr>)),
      ce_Unmount = (\<lambda>p w. (Inr (), w\<lparr>nd_Mounts := remove1 p (nd_Mounts w)\<rparr>)),
      ce_marshal = (\<lambda>md. Inr (vmd_UsageFilePath md @ [CHR 0x0A] @ vmd_OverlayFSPath md)),
      ce_unmarshal = (\<lambda>s. (None, \<lparr>vmd_UsageFilePath = takeWhile (\<lambda>c. c \<noteq> CHR 0x0A) s, vmd_OverlayFSPath = drop 1 (dropWhile (\<lambda>c. c \<noteq> CHR 0x0A) s)\<rparr>)),
      ce_Inc = (\<lambda>v w. w), ce_Dec = (\<lambda>v w. w)\<rparr>"

definition exampleOpts :: CSIOptions where
  "exampleOpts = \<lparr>opt_NodeID = ''node'', opt_Endpoint = ''unix:///csi.sock'', opt_RootDir = ''/data'', opt_GCInterval = timeHour\<rparr>"

definition exampleReq :: NodePublishVolumeRequest where
  "exampleReq = \<lparr>req_VolumeCapability = Some \<lparr>cap_Block = False, cap_Mount = True\<rparr>, req_VolumeId = ''vol'', req_TargetPath = ''/pods/p'',
     req_VolumeContext = Some [(podNamespaceContextKey, ''apps'')]\<rparr>"

definition exampleNode :: csiNode where
  "exampleNode = \<lparr>nd_Files = [(''/data/tenant-dk'', FileNode ''uuid''), (''/data/uuid/version'', FileNode ''v1'')],
     nd_Namespaces = [(([], ''apps''), \<lparr>ns_Name = ''apps'', ns_Labels = Some [(LabelInstance, ''dk'')], ns_Annotations = None, ns_UID = ''u''\<rparr>)],
     nd_Mounts = []\<rparr>"

lemma examplePublish_run: "fst (NodePublishVolume exampleCsi exampleOpts exampleReq exampleNode) = Inr ()"
  by code_simp

definition examplePublished :: csiNode where
  "examplePublished = snd (NodePublishVolume exampleCsi exampleOpts exampleReq exampleNode)"

abbreviation nodeFiles :: "csiNode \<Rightarrow> fsview" where
  "nodeFiles w \<equiv> map_of (nd_Files w)"

lemma exampleCsi_laws:
  "lawfulFs (ce_fs exampleCsi) nodeFiles" "leaves (ce_namespaces exampleCsi) nodeFiles"
  "nodeFiles (snd (ce_IsNotMountPoint exampleCsi p w)) = nodeFiles w" "nodeFiles (ce_Inc exampleCsi v w) = nodeFiles w"
  "nodeFiles (ce_Dec exampleCsi v w) = nodeFiles w" "nodeFiles (snd (ce_Unmount exampleCsi p w)) = nodeFiles w"
proof -
  show "lawfulFs (ce_fs exampleCsi) nodeFiles" unfolding exampleCsi_def csi_env.simps by (rule lawful_fsOnPart [OF lawful_listFs]) simp
  show "leaves (ce_namespaces exampleCsi) nodeFiles" by (simp add: exampleCsi_def leaves_onPart)
qed (simp_all add: exampleCsi_def)

lemma exampleOpts_root: "cleanRoot exampleOpts"
  unfolding cleanRoot_def by (rule exI [of _ "[''data'']"]) (simp add: exampleOpts_def proper_def under_def)

lemma exampleNode_provisioned: "provisioned exampleOpts (nodeFiles exampleNode)"
proof -
  have "t = ''uuid'' \<or> t = ''v1''" if "nodeFiles exampleNode p = Some (FileNode t)" for p t
    using that by (auto simp: exampleNode_def split: if_splits)
  moreover have "proper ''uuid''" "proper ''v1''" by (simp_all add: proper_def)
  ultimately show ?thesis unfolding provisioned_def by metis
qed

theorem publish_records_use_witness:
  "\<exists>w'. NodePublishVolume exampleCsi exampleOpts exampleReq exampleNode = (Inr (), w') \<and>
     (\<exists>tenant version. nodeFiles w' (under ''/data'' [tenant, ''gc'', version, ''vol'']) = Some (FileNode []))"
proof -
  obtain w' where run: "NodePublishVolume exampleCsi exampleOpts exampleReq exampleNode = (Inr (), w')"
    using examplePublish_run by (cases "NodePublishVolume exampleCsi exampleOpts exampleReq exampleNode") simp
  have "isMounted exampleCsi (req_TargetPath exampleReq) exampleNode = (Inr False, exampleNode)"
    by (simp add: isMounted_def exampleCsi_def exampleReq_def exampleNode_def catchE_run)
  moreover have "proper (req_VolumeId exampleReq)" by (simp add: exampleReq_def proper_def)
  ultimately show ?thesis
    using publish_records_use [OF exampleOpts_root exampleCsi_laws(1,2,3,4) exampleNode_provisioned _ _ run] run
    by (auto simp: exampleOpts_def exampleReq_def)
qed

theorem unpublish_releases_witness:
  "\<exists>w'. NodeUnpublishVolume exampleCsi exampleOpts ''vol'' ''/pods/p'' examplePublished = (Inr (), w') \<and>
     nodeFiles w' (under ''/data'' [''gc'', ''vol'']) = None \<and> nodeFiles w' ''/data/uuid/gc/v1/vol'' = None"
proof -
  have "fst (NodeUnpublishVolume exampleCsi exampleOpts ''vol'' ''/pods/p'' examplePublished) = Inr ()"
    unfolding examplePublished_def by code_simp
  then obtain w' where run: "NodeUnpublishVolume exampleCsi exampleOpts ''vol'' ''/pods/p'' examplePublished = (Inr (), w')"
    by (cases "NodeUnpublishVolume exampleCsi exampleOpts ''vol'' ''/pods/p'' examplePublished") simp
  have "fst (fs_ReadFile (ce_fs exampleCsi) (under (opt_RootDir exampleOpts) [''gc'', ''vol'']) examplePublished) =
      Inr (''/data/uuid/gc/v1/vol'' @ [CHR 0x0A] @ ''/data/uuid/run/vol'')"
    unfolding examplePublished_def by code_simp
  then obtain w0 where read: "fs_ReadFile (ce_fs exampleCsi) (under (opt_RootDir exampleOpts) [''gc'', ''vol'']) examplePublished =
      (Inr (''/data/uuid/gc/v1/vol'' @ [CHR 0x0A] @ ''/data/uuid/run/vol''), w0)"
    by (metis prod.collapse)
  have "proper ''vol''" by (simp add: proper_def)
  from unpublish_releases [OF exampleOpts_root exampleCsi_laws(1) this exampleCsi_laws(5) _ run read] run show ?thesis
    by (simp add: exampleCsi_laws(6)) (simp add: exampleCsi_def exampleOpts_def)
qed

end
