(* ===== verification/Webhook_Files.thy ===== *)
theory Webhook_Files
  imports Webhook_Certs Csi_Driver
begin

text \<open>
  The files that the webhook server serves TLS with (\<^verbatim>\<open>src/webhook/server/certs.go\<close> and the two loops of
  \<^verbatim>\<open>src/cmd/operator/webhook_server.go\<close> that call it): they are copied from the secret which the
  certificate controller keeps. The API reader, the file system and the clock are parameters.
\<close>

section \<open>Copying the secret (certs.go)\<close>

definition writeCertFile :: "'w afero \<Rightarrow> string \<Rightarrow> string \<Rightarrow> ('w, unit) act" where
  "writeCertFile fs f data = fs_WriteFile fs f data 438"

text \<open>A failed read leaves no data: it equals an entry of the secret only if that is empty.\<close>

fun updateFiles :: "'w afero \<Rightarrow> string \<Rightarrow> Secret \<Rightarrow> string list \<Rightarrow> ('w, bool) act" where
  "updateFiles fs certDir secret [] = retE True"
| "updateFiles fs certDir secret (filename # filenames) =
     (let f = filepath_Join [certDir, filename]; want = secretData secret filename
      in catchE (fs_ReadFile fs f)
           (\<lambda>err. if isNotExist err \<or> want \<noteq> []
                  then bindE (writeCertFile fs f want) (\<lambda>_. updateFiles fs certDir secret filenames)
                  else raiseE err)
           (\<lambda>data. if data \<noteq> want
                   then bindE (writeCertFile fs f want) (\<lambda>_. updateFiles fs certDir secret filenames)
                   else retE False))"

definition UpdateCertificate :: "('w, Secret) kclient \<Rightarrow> 'w afero \<Rightarrow> string \<Rightarrow> string \<Rightarrow> ('w, bool) act" where
  "UpdateCertificate apiReader fs certDir ns =
     bindE (kGet apiReader (ns, SecretCertsName)) (\<lambda>secret.
     bindE (catchE (fs_Stat fs certDir)
             (\<lambda>err. if isNotExist err
                    then catchE (fs_MkdirAll fs certDir 493) (\<lambda>err. raiseE (ErrMsg (''could not create cert directory: '' @ errorText err))) retE
                    else retE ())
             (\<lambda>_. retE ())) (\<lambda>_.
       updateFiles fs certDir secret [''tls.crt'', ''tls.key'']))"

section \<open>The loops of the server (webhook\_server.go)\<close>

text \<open>At the start, until the first success or for five minutes; \<open>fuel\<close> bounds the rounds.\<close>

fun awaitCertificates ::
  "('w \<Rightarrow> gotime \<times> 'w) \<Rightarrow> (duration \<Rightarrow> 'w \<Rightarrow> 'w) \<Rightarrow> ('w, bool) act \<Rightarrow> gotime \<Rightarrow> nat \<Rightarrow> 'w \<Rightarrow> 'w option" where
  "awaitCertificates Now sleep update threshold 0 w = None"
| "awaitCertificates Now sleep update threshold (Suc fuel) w =
     (case Now w of (now, w1) \<Rightarrow>
        if now < threshold
        then (case update w1 of
                (Inl err, w2) \<Rightarrow> awaitCertificates Now sleep update threshold fuel (sleep (10 * timeSecond) w2)
              | (Inr _, w2) \<Rightarrow> Some w2)
        else Some w1)"

definition startWebhookServer_certs ::
  "('w \<Rightarrow> gotime \<times> 'w) \<Rightarrow> (duration \<Rightarrow> 'w \<Rightarrow> 'w) \<Rightarrow> ('w, Secret) kclient \<Rightarrow> 'w afero \<Rightarrow> string \<Rightarrow> string \<Rightarrow> nat \<Rightarrow> 'w \<Rightarrow> 'w option" where
  "startWebhookServer_certs Now sleep apiReader fs certDir ns fuel w =
     (case Now w of (now, w1) \<Rightarrow>
        awaitCertificates Now sleep (UpdateCertificate apiReader fs certDir ns) (now + 5 * timeMinute) fuel w1)"

definition watchInterval :: duration where "watchInterval = 6 * timeHour"

text \<open>One round of the watcher.\<close>

definition certificateWatcher_round ::
  "(duration \<Rightarrow> 'w \<Rightarrow> 'w) \<Rightarrow> ('w, Secret) kclient \<Rightarrow> 'w afero \<Rightarrow> string \<Rightarrow> string \<Rightarrow> ('w, unit) act" where
  "certificateWatcher_round sleep apiReader fs certDir ns =
     bindE (modifyE (sleep watchInterval)) (\<lambda>_. ignoreE (UpdateCertificate apiReader fs certDir ns))"

section \<open>Lemmas: the files\<close>

text \<open>A directory of certificates such as \<^verbatim>\<open>/tmp/webhook/certs\<close>: an absolute path without dots.\<close>

definition cleanDir :: "string \<Rightarrow> bool" where
  "cleanDir d \<longleftrightarrow> (\<exists>cs. cs \<noteq> [] \<and> list_all proper cs \<and> d = absPath cs)"

lemma cert_paths:
  assumes "cleanDir d"
  shows "filepath_Join [d, ''tls.crt''] = d @ ''/tls.crt''" "filepath_Join [d, ''tls.key''] = d @ ''/tls.key''"
proof -
  obtain cs where cs: "cs \<noteq> []" "list_all proper cs" "d = absPath cs" using assms by (auto simp: cleanDir_def)
  have "proper ''tls.crt''" "proper ''tls.key''" by (simp_all add: proper_def)
  with cs show "filepath_Join [d, ''tls.crt''] = d @ ''/tls.crt''" "filepath_Join [d, ''tls.key''] = d @ ''/tls.key''"
    using Join_under [of cs "[''tls.crt'']"] Join_under [of cs "[''tls.key'']"] by (simp_all add: under_def)
qed


text \<open>Up to the loop, an update changes no path below the directory.\<close>

lemma UpdateCertificate_loop:
  assumes law: "lawful apiReader secKey secV" "leaves apiReader view" "lawfulFs fs view"
    and run: "UpdateCertificate apiReader fs d ns w = (r, w')" and sec: "secV w (ns, SecretCertsName) = Some sec"
  shows "(\<exists>w1. updateFiles fs d sec [''tls.crt'', ''tls.key''] w1 = (r, w') \<and> (\<forall>q. \<not> within q d \<longrightarrow> view w1 q = view w q)) \<or>
    isl r \<and> (\<forall>q. \<not> within q d \<longrightarrow> view w' q = view w q)"
proof -
  obtain g w1 where get: "kGet apiReader (ns, SecretCertsName) w = (g, w1)" by fastforce
  have same: "view w1 = view w" using keepsD [OF leaves_keeps(1) [OF law(2)] refl get] .
  show ?thesis
  proof (cases g)
    case (Inl e)
    then show ?thesis using run get same by (auto simp: UpdateCertificate_def bindE_run)
  next
    case (Inr sec')
    then have "sec' = sec" using lawful_GetD(2) [OF law(1) get] sec by auto
    define prepare where "prepare = catchE (fs_Stat fs d)
      (\<lambda>err. if isNotExist err
             then catchE (fs_MkdirAll fs d 493) (\<lambda>err. raiseE (ErrMsg (''could not create cert directory: '' @ errorText err))) retE
             else retE ()) (\<lambda>_. retE ())"
    obtain p w2 where p: "prepare w1 = (p, w2)" by fastforce
    let ?I = "\<lambda>s. \<forall>q. \<not> within q d \<longrightarrow> view s q = view w q"
    have "keeps ?I (fs_Stat fs d)" "keeps ?I (fs_MkdirAll fs d 493)"
      using lawfulFs_reads(4) [OF law(3)] lawfulFs_Mkdir(1) [OF law(3)] by (auto intro!: keepsI) metis+
    then have "keeps ?I prepare" unfolding prepare_def by (intro keeps_intros)
    from keepsD [OF this _ p] same have I: "?I w2" by simp
    have "bindE prepare (\<lambda>_. updateFiles fs d sec [''tls.crt'', ''tls.key'']) w1 = (r, w')"
      using run get Inr \<open>sec' = sec\<close> unfolding UpdateCertificate_def prepare_def by (simp add: bindE_run)
    then show ?thesis using p I by (cases p) (auto simp: bindE_run)
  qed
qed

lemma not_above: "\<not> within (d @ ''/tls.crt'') d" "\<not> within (d @ ''/tls.key'') d"
  by (auto simp: within_def dest: prefix_length_le)




section \<open>Lemmas: waiting\<close>

text \<open>Time does not run backwards during an action.\<close>

definition timeRuns :: "('w \<Rightarrow> gotime) \<Rightarrow> ('w, 'a) act \<Rightarrow> bool" where
  "timeRuns time m \<longleftrightarrow> (\<forall>x. keeps (\<lambda>w. x \<le> time w) m)"

definition timeRunsOn :: "('w \<Rightarrow> gotime) \<Rightarrow> ('w, Secret) kclient \<Rightarrow> 'w afero \<Rightarrow> bool" where
  "timeRunsOn time apiReader fs \<longleftrightarrow> (\<forall>k. timeRuns time (kGet apiReader k)) \<and> (\<forall>p. timeRuns time (fs_Stat fs p)) \<and>
     (\<forall>p m. timeRuns time (fs_MkdirAll fs p m)) \<and> (\<forall>p. timeRuns time (fs_ReadFile fs p)) \<and> (\<forall>p s m. timeRuns time (fs_WriteFile fs p s m))"

lemma timeRuns_UpdateCertificate:
  assumes "timeRunsOn time apiReader fs"
  shows "timeRuns time (UpdateCertificate apiReader fs d ns)"
proof -
  note ops = assms [unfolded timeRunsOn_def timeRuns_def]
  have "keeps (\<lambda>w. x \<le> time w) (updateFiles fs d sec names)" for x sec names
    using ops by (induction names) (auto simp: Let_def writeCertFile_def intro!: keeps_intros)
  then show ?thesis using ops unfolding timeRuns_def UpdateCertificate_def by (auto simp del: updateFiles.simps intro!: keeps_intros)
qed

lemma awaitCertificates_ends:
  assumes clock: "\<And>w. fst (Now w) = time w" "\<And>w. time w \<le> time (snd (Now w))" and sleep: "\<And>t w. time w + t \<le> time (sleep t w)"
    and runs: "timeRuns time update" and enough: "threshold \<le> time w + int n * (10 * timeSecond)"
  shows "\<exists>w'. awaitCertificates Now sleep update threshold (Suc n) w = Some w'"
  using enough
proof (induction n arbitrary: w)
  case 0
  then show ?case using clock(1) [of w] by (cases "Now w") simp
next
  case (Suc n)
  obtain now w1 where now: "Now w = (now, w1)" by fastforce
  obtain r w2 where upd: "update w1 = (r, w2)" by fastforce
  have "time w \<le> time w1" using clock(2) [of w] now by simp
  moreover have "time w1 \<le> time w2" using runs upd unfolding timeRuns_def by (meson keepsD order_refl)
  moreover have "time w2 + 10 * timeSecond \<le> time (sleep (10 * timeSecond) w2)" by (rule sleep)
  ultimately have "threshold \<le> time (sleep (10 * timeSecond) w2) + int n * (10 * timeSecond)"
    using Suc.prems by (simp add: algebra_simps)
  from Suc.IH [OF this] show ?case by (cases r) (simp_all add: now upd)
qed

lemma startup_wait_effect:
  assumes "\<And>w. fst (Now w) = time w" and "\<And>w. time w \<le> time (snd (Now w))" and "\<And>t w. time w + t \<le> time (sleep t w)"
    and "timeRunsOn time apiReader fs"
  shows "\<exists>w'. startWebhookServer_certs Now sleep apiReader fs d ns 31 w = Some w'"
proof -
  obtain now w1 where now: "Now w = (now, w1)" by fastforce
  have "now + 5 * timeMinute \<le> time w1 + int 30 * (10 * timeSecond)"
    using assms(1,2) [of w] now by (simp add: timeMinute_def)
  from awaitCertificates_ends [OF assms(1-3) timeRuns_UpdateCertificate [OF assms(4)] this]
  show ?thesis by (simp add: startWebhookServer_certs_def now numeral_eq_Suc)
qed

section \<open>Properties\<close>


text \<open>When the certificate file is current and the key file is not, which is what a failed write of the key leaves behind, an update does
  not repair it: it stops at the certificate, reports nothing, and the server keeps a key that does not belong to its certificate.\<close>

theorem stale_key_stays:
  assumes law: "lawful apiReader secKey secV" "leaves apiReader view" "lawfulFs fs view" and dir: "cleanDir d"
    and sec: "secV w (ns, SecretCertsName) = Some sec"
    and current: "view w (d @ ''/tls.crt'') = Some (FileNode (secretData sec ''tls.crt''))"
    and reads: "\<And>w e w'. view w (d @ ''/tls.crt'') = Some (FileNode (secretData sec ''tls.crt'')) \<Longrightarrow> fs_ReadFile fs (d @ ''/tls.crt'') w \<noteq> (Inl e, w')"
    and run: "UpdateCertificate apiReader fs d ns w = (r, w')"
  shows "view w' (d @ ''/tls.key'') = view w (d @ ''/tls.key'') \<and> (isl r \<or> r = Inr False)"
  using UpdateCertificate_loop [OF law run sec]
proof (elim disjE exE conjE)
  fix w1 assume loop: "updateFiles fs d sec [''tls.crt'', ''tls.key''] w1 = (r, w')" and same: "\<forall>q. \<not> within q d \<longrightarrow> view w1 q = view w q"
  obtain s w2 where read: "fs_ReadFile fs (d @ ''/tls.crt'') w1 = (s, w2)" by fastforce
  have w1: "view w1 (d @ ''/tls.crt'') = Some (FileNode (secretData sec ''tls.crt''))" using same not_above(1) current by simp
  with reads read have "s = Inr (secretData sec ''tls.crt'')" using lawfulFs_reads(2) [OF law(3)] by (cases s) fastforce+
  then have "r = Inr False" "w' = w2" using loop read by (simp_all add: cert_paths [OF dir] Let_def catchE_run)
  then show ?thesis using lawfulFs_reads(1) [OF law(3) read] same not_above(2) by simp
qed (use not_above in simp)

text \<open>The start of the server does not hang: whatever fails, the wait for the certificates is over after at most thirty failed rounds.\<close>

theorem startup_wait_ends:
  assumes "\<And>w. fst (Now w) = time w" and "\<And>w. time w \<le> time (snd (Now w))" and "\<And>t w. time w + t \<le> time (sleep t w)"
    and "timeRunsOn time apiReader fs"
  shows "\<exists>w'. startWebhookServer_certs Now sleep apiReader fs d ns 31 w = Some w'"
  using assms by (rule startup_wait_effect)

section \<open>A server\<close>

record certFiles =
  cf_Files :: "(string \<times> fsnode) list"
  cf_Secrets :: "Secret store"
  cf_Time :: gotime

definition exampleReader :: "(certFiles, Secret) kclient" where
  "exampleReader = onPart cf_Secrets (\<lambda>x w. w\<lparr>cf_Secrets := x\<rparr>) (storeClient (metaKey \<circ> sec_Meta))"

definition exampleDisk :: "certFiles afero" where
  "exampleDisk = fsOnPart cf_Files (\<lambda>x w. w\<lparr>cf_Files := x\<rparr>) listFs"

definition exampleCertSecret :: Secret where
  "exampleCertSecret = emptySecret\<lparr>sec_Meta := emptyMeta\<lparr>om_Name := SecretCertsName, om_Namespace := ''dynatrace''\<rparr>,
     sec_Data := Some [(''tls.crt'', ''-90000/0''), (''tls.key'', ''-0'')]\<rparr>"

definition exampleServer :: "(string \<times> fsnode) list \<Rightarrow> certFiles" where
  "exampleServer files = \<lparr>cf_Files = files, cf_Secrets = [((''dynatrace'', SecretCertsName), exampleCertSecret)], cf_Time = 0\<rparr>"

lemma exampleServer_laws:
  "lawful exampleReader (metaKey \<circ> sec_Meta) (\<lambda>w. map_of (cf_Secrets w))" "leaves exampleReader (\<lambda>w. map_of (cf_Files w))"
  "lawfulFs exampleDisk (\<lambda>w. map_of (cf_Files w))" "cleanDir ''/certs''"
  "map_of (cf_Secrets (exampleServer files)) (''dynatrace'', SecretCertsName) = Some exampleCertSecret"
proof -
  show "lawful exampleReader (metaKey \<circ> sec_Meta) (\<lambda>w. map_of (cf_Secrets w))"
    unfolding exampleReader_def by (rule lawful_onPart [OF lawful_storeClient]) simp
  show "leaves exampleReader (\<lambda>w. map_of (cf_Files w))" by (simp add: exampleReader_def leaves_onPart)
  show "lawfulFs exampleDisk (\<lambda>w. map_of (cf_Files w))" unfolding exampleDisk_def by (rule lawful_fsOnPart [OF lawful_listFs]) simp
  show "cleanDir ''/certs''" unfolding cleanDir_def by (rule exI [of _ "[''certs'']"]) (simp add: proper_def under_def)
qed (simp add: exampleServer_def)

lemma exampleCertSecret_data: "secretData exampleCertSecret ''tls.crt'' = ''-90000/0''" "secretData exampleCertSecret ''tls.key'' = ''-0''"
  by code_simp+



theorem stale_key_stays_witness:
  "\<exists>w'. UpdateCertificate exampleReader exampleDisk ''/certs'' ''dynatrace''
       (exampleServer [(''/certs/tls.crt'', FileNode ''-90000/0''), (''/certs/tls.key'', FileNode ''-7'')]) = (Inr False, w') \<and>
     map_of (cf_Files w') ''/certs/tls.key'' = Some (FileNode ''-7'')"
proof -
  let ?w = "exampleServer [(''/certs/tls.crt'', FileNode ''-90000/0''), (''/certs/tls.key'', FileNode ''-7'')]"
  have "fst (UpdateCertificate exampleReader exampleDisk ''/certs'' ''dynatrace'' ?w) = Inr False" by code_simp
  then obtain w' where run: "UpdateCertificate exampleReader exampleDisk ''/certs'' ''dynatrace'' ?w = (Inr False, w')" by (metis prod.collapse)
  have "fs_ReadFile exampleDisk p w \<noteq> (Inl e, w')" if "map_of (cf_Files w) p = Some (FileNode s)" for p w e w' s
    using that by (simp add: exampleDisk_def fsOnPart_def zoomE_run listFs_def)
  then have "map_of (cf_Files w') (''/certs'' @ ''/tls.key'') = map_of (cf_Files ?w) (''/certs'' @ ''/tls.key'') \<and> (isl (Inr False :: goerr + bool) \<or> (Inr False :: goerr + bool) = Inr False)"
    by (intro stale_key_stays [OF exampleServer_laws(1-4,5) _ _ run]) (simp_all add: exampleServer_def exampleCertSecret_data)
  with run show ?thesis by (simp add: exampleServer_def)
qed

lemma exampleDisk_time: "keeps (\<lambda>w. x \<le> cf_Time w) (zoomE cf_Files (\<lambda>y w. w\<lparr>cf_Files := y\<rparr>) m)"
  by (rule keepsI) (auto simp: zoomE_run split: prod.splits)

theorem startup_wait_ends_witness:
  "\<exists>w'. startWebhookServer_certs (\<lambda>w. (cf_Time w, w)) (\<lambda>t w. w\<lparr>cf_Time := cf_Time w + t\<rparr>) exampleReader exampleDisk ''/certs'' ''other'' 31
     (exampleServer []) = Some w'"
proof -
  have "keeps (\<lambda>w. x \<le> cf_Time w) (kGet exampleReader k)" for x k
    by (rule keepsI) (simp add: exampleReader_def onPart_store_run split: option.splits)
  then have "timeRunsOn cf_Time exampleReader exampleDisk"
    by (simp add: timeRunsOn_def timeRuns_def exampleDisk_def fsOnPart_def exampleDisk_time)
  then show ?thesis by (intro startup_wait_ends [where time = cf_Time]) simp_all
qed

end
