(* ===== verification/Csi_Gc.thy ===== *)
theory Csi_Gc
  imports Csi_Driver Dynakube_Status
begin

text \<open>
  The garbage collection of the CSI driver (\<^verbatim>\<open>src/controllers/csi/gc\<close>): binaries of versions that no pod uses, and
  log directories of volumes that are not mounted any more. The file system, the clock, the counters and the
  Dynatrace client are parameters. Sizes are sums of file sizes; they stay far below the range of 64 bits.
\<close>

section \<open>Data (controller.go)\<close>

record ('d, 'w) gc_env =
  gce_dynaKubes :: "('w, DynaKube) kclient"
  gce_secrets :: "('w, Secret) kclient"
  gce_dtcBuildFunc :: "DynaKube \<Rightarrow> Secret \<Rightarrow> ('w, 'd) act"
  gce_dtc :: "('d \<times> 'w) Client"
  gce_fs :: "'w afero"
  gce_Now :: "'w \<Rightarrow> gotime \<times> 'w"
  gce_runs :: "'w \<Rightarrow> 'w"
  gce_foldersRemoved :: "'w \<Rightarrow> 'w"
  gce_reclaimed :: "int \<Rightarrow> 'w \<Rightarrow> 'w"

section \<open>Binaries (binaries.go)\<close>

text \<open>The visits of a walk up to the first error.\<close>

fun walked :: "(goerr + FileInfo) list \<Rightarrow> FileInfo list" where
  "walked [] = []"
| "walked (Inl e # vs) = []"
| "walked (Inr i # vs) = i # walked vs"

definition walkedFiles :: "'w afero \<Rightarrow> string \<Rightarrow> ('w, FileInfo list) act" where
  "walkedFiles fs p = catchE (fs_Walk fs p) (\<lambda>_. retE []) (\<lambda>vs. retE (filter (\<lambda>i. \<not> fi_IsDir i) (walked vs)))"

definition dirSize :: "'w afero \<Rightarrow> string \<Rightarrow> ('w, int) act" where
  "dirSize fs p = bindE (walkedFiles fs p) (\<lambda>files. retE (sum_list (map fi_Size files)))"

definition getVersionReferences :: "('d, 'w) gc_env \<Rightarrow> CSIOptions \<Rightarrow> string \<Rightarrow> ('w, FileInfo list) act" where
  "getVersionReferences gc opts tenantUUID =
     (let versionReferencesBase = filepath_Join [opt_RootDir opts, tenantUUID, GarbageCollectionPath]
      in catchE (fs_ReadDir (gce_fs gc) versionReferencesBase)
           (\<lambda>err. catchE (fs_DirExists (gce_fs gc) versionReferencesBase) (\<lambda>_. retE [])
              (\<lambda>exists. if \<not> exists then retE [] else raiseE err)) retE)"

definition shouldDeleteVersion :: "'w afero \<Rightarrow> string \<Rightarrow> ('w, bool) act" where
  "shouldDeleteVersion fs references = catchE (fs_ReadDir fs references) (\<lambda>_. retE False) (\<lambda>podReferences. retE (podReferences = []))"

definition isNotLatestVersion :: "string \<Rightarrow> string \<Rightarrow> bool" where
  "isNotLatestVersion version latestVersion \<longleftrightarrow> version \<noteq> latestVersion"

definition removeUnusedVersion :: "('d, 'w) gc_env \<Rightarrow> string \<Rightarrow> string \<Rightarrow> ('w, unit) act" where
  "removeUnusedVersion gc binaryPath references =
     bindE (dirSize (gce_fs gc) binaryPath) (\<lambda>bytes.
     bindE (catchE (fs_RemoveAll (gce_fs gc) binaryPath) (\<lambda>_. retE ())
             (\<lambda>_. bindE (modifyE (gce_foldersRemoved gc)) (\<lambda>_. modifyE (gce_reclaimed gc bytes)))) (\<lambda>_.
       ignoreE (fs_RemoveAll (gce_fs gc) references)))"

definition collectVersion :: "('d, 'w) gc_env \<Rightarrow> CSIOptions \<Rightarrow> string \<Rightarrow> string \<Rightarrow> FileInfo \<Rightarrow> ('w, unit) act" where
  "collectVersion gc opts tenantUUID latestVersion info =
     (let version = fi_Name info;
          references = filepath_Join [filepath_Join [opt_RootDir opts, tenantUUID, GarbageCollectionPath], version]
      in bindE (if isNotLatestVersion version latestVersion then shouldDeleteVersion (gce_fs gc) references else retE False) (\<lambda>shouldDelete.
           if shouldDelete
           then removeUnusedVersion gc (filepath_Join [opt_RootDir opts, tenantUUID, ''bin'', version]) references
           else retE ()))"

definition runBinaryGarbageCollection :: "('d, 'w) gc_env \<Rightarrow> CSIOptions \<Rightarrow> string \<Rightarrow> string \<Rightarrow> ('w, unit) act" where
  "runBinaryGarbageCollection gc opts tenantUUID latestVersion =
     bindE (modifyE (gce_runs gc)) (\<lambda>_.
       catchE (getVersionReferences gc opts tenantUUID) (\<lambda>_. retE ())
         (\<lambda>versionReferences. foreachE versionReferences (collectVersion gc opts tenantUUID latestVersion)))"

section \<open>Logs (logs.go)\<close>

definition maxLogFolderSizeBytes :: int where "maxLogFolderSizeBytes = 300000"
definition maxNumberOfLogFiles :: int where "maxNumberOfLogFiles = 1000"
definition maxLogAge :: duration where "maxLogAge = 14 * 24 * timeHour"

record logFileInfo =
  lf_UnusedVolumeIDs :: "FileInfo list"
  lf_NumberOfFiles :: int
  lf_OverallSize :: int

fun unusedVolumes :: "'w afero \<Rightarrow> string \<Rightarrow> FileInfo list \<Rightarrow> ('w, FileInfo list) act" where
  "unusedVolumes fs dir [] = retE []"
| "unusedVolumes fs dir (volumeID # ids) =
     bindE (fs_IsEmpty fs (filepath_Join [dir, fi_Name volumeID, ''mapped''])) (\<lambda>unused.
     bindE (unusedVolumes fs dir ids) (\<lambda>rest. retE (if unused then volumeID # rest else rest)))"

definition getUnusedVolumeIDs :: "'w afero \<Rightarrow> string \<Rightarrow> ('w, FileInfo list) act" where
  "getUnusedVolumeIDs fs agentDirectoryForPod = bindE (fs_ReadDir fs agentDirectoryForPod) (unusedVolumes fs agentDirectoryForPod)"

fun countLogs :: "'w afero \<Rightarrow> string \<Rightarrow> FileInfo list \<Rightarrow> int \<Rightarrow> int \<Rightarrow> ('w, int \<times> int) act" where
  "countLogs fs dir [] nrOfFiles bytes = retE (nrOfFiles, bytes)"
| "countLogs fs dir (volumeID # ids) nrOfFiles bytes =
     bindE (walkedFiles fs (filepath_Join [dir, fi_Name volumeID, ''var''])) (\<lambda>files.
       countLogs fs dir ids (nrOfFiles + int (length files)) (bytes + sum_list (map fi_Size files)))"

definition getLogFileInfo :: "'w afero \<Rightarrow> string \<Rightarrow> ('w, logFileInfo) act" where
  "getLogFileInfo fs agentDirectoryForPod =
     bindE (getUnusedVolumeIDs fs agentDirectoryForPod) (\<lambda>unusedVolumeIDs.
     bindE (countLogs fs agentDirectoryForPod unusedVolumeIDs 0 0) (\<lambda>(nrOfFiles, bytes).
       retE \<lparr>lf_UnusedVolumeIDs = unusedVolumeIDs, lf_NumberOfFiles = nrOfFiles, lf_OverallSize = bytes\<rparr>))"

definition isOlderThanTwoWeeks :: "('d, 'w) gc_env \<Rightarrow> gotime \<Rightarrow> ('w, bool) act" where
  "isOlderThanTwoWeeks gc t = (\<lambda>w. case gce_Now gc w of (now, w') \<Rightarrow> (Inr (maxLogAge < timeSub now t), w'))"

definition tryRemoveLogFolders :: "('d, 'w) gc_env \<Rightarrow> FileInfo list \<Rightarrow> string \<Rightarrow> ('w, unit) act" where
  "tryRemoveLogFolders gc unusedVolumeIDs agentDirectoryForPod =
     foreachE unusedVolumeIDs (\<lambda>unusedVolumeID.
       bindE (isOlderThanTwoWeeks gc (fi_ModTime unusedVolumeID)) (\<lambda>old.
         if old then ignoreE (fs_RemoveAll (gce_fs gc) (filepath_Join [agentDirectoryForPod, fi_Name unusedVolumeID])) else retE ()))"

definition removeLogsIfNecessary :: "('d, 'w) gc_env \<Rightarrow> logFileInfo \<Rightarrow> int \<Rightarrow> int \<Rightarrow> string \<Rightarrow> ('w, unit) act" where
  "removeLogsIfNecessary gc logs maxSize maxFile agentDirectoryForPod =
     (if lf_NumberOfFiles logs > 0 \<and> (lf_OverallSize logs > maxSize \<or> lf_NumberOfFiles logs > maxFile)
      then tryRemoveLogFolders gc (lf_UnusedVolumeIDs logs) agentDirectoryForPod else retE ())"

definition runLogGarbageCollection :: "('d, 'w) gc_env \<Rightarrow> CSIOptions \<Rightarrow> string \<Rightarrow> ('w, unit) act" where
  "runLogGarbageCollection gc opts tenantUUID =
     (let agentDirectoryForPod = filepath_Join [opt_RootDir opts, tenantUUID, ''run'']
      in catchE (getLogFileInfo (gce_fs gc) agentDirectoryForPod) (\<lambda>_. retE ())
           (\<lambda>logs. removeLogsIfNecessary gc logs maxLogFolderSizeBytes maxNumberOfLogFiles agentDirectoryForPod))"

section \<open>Reconciliation (controller.go)\<close>

text \<open>An action of the Dynatrace client, with the client as it is afterwards.\<close>

definition onDtc :: "'d \<Rightarrow> ('d \<times> 'w, 'a) act \<Rightarrow> ('w, 'a \<times> 'd) act" where
  "onDtc dtc m = (\<lambda>w. case m (dtc, w) of (Inl e, s) \<Rightarrow> (Inl e, snd s) | (Inr x, s) \<Rightarrow> (Inr (x, fst s), snd s))"

definition gc_collect :: "('d, 'w) gc_env \<Rightarrow> CSIOptions \<Rightarrow> objkey \<Rightarrow> ('w, unit) act" where
  "gc_collect gc opts request =
     bindE (kGet (gce_dynaKubes gc) request) (\<lambda>dk.
     bindE (kGet (gce_secrets gc) (dk_Namespace dk, Tokens dk)) (\<lambda>tokens.
     bindE (gce_dtcBuildFunc gc dk tokens) (\<lambda>dtc.
     bindE (onDtc dtc (cl_GetConnectionInfo (gce_dtc gc))) (\<lambda>(ci, dtc1).
     bindE (onDtc dtc1 (cl_GetLatestAgentVersion (gce_dtc gc) OsUnix InstallerTypePaaS)) (\<lambda>(latestAgentVersion, dtc2).
     bindE (runBinaryGarbageCollection gc opts (ci_TenantUUID ci) latestAgentVersion) (\<lambda>_.
       runLogGarbageCollection gc opts (ci_TenantUUID ci)))))))"

text \<open>Every failure is only logged.\<close>

definition Gc_Reconcile :: "('d, 'w) gc_env \<Rightarrow> CSIOptions \<Rightarrow> objkey \<Rightarrow> ('w, duration) act" where
  "Gc_Reconcile gc opts request = bindE (ignoreE (gc_collect gc opts request)) (\<lambda>_. retE (opt_GCInterval opts))"

section \<open>Lemmas: directories apart\<close>

text \<open>Paths below different elements of a directory are different.\<close>

lemma within_element:
  assumes "sep \<notin> set c" and "within (under d (c # cs)) q"
  shows "takeWhile (\<lambda>x. x \<noteq> sep) (drop (Suc (length d)) q) = c"
proof -
  obtain s where "q = d @ sep # c @ s" "s = [] \<or> hd s = sep"
    using assms(2) by (cases cs) (auto simp: within_def under_def prefix_def)
  then show ?thesis using takeWhile_comp [OF assms(1), of s] by (cases s) auto
qed

lemma within_apart:
  assumes "proper b" "proper c" "b \<noteq> c" and "within (under d (b # bs)) q"
  shows "\<not> within (under d (c # cs)) q"
  using assms within_element [of b d bs q] within_element [of c d cs q] by (auto simp: proper_def)

lemma within_child: "within (under d cs) (under d (cs @ ds))"
  by (cases ds) (simp_all add: within_def under_def prefix_def)

section \<open>Lemmas: what a collection keeps\<close>

text \<open>The part of the file system that a version consists of: its binaries and its references.\<close>

definition ofVersion :: "CSIOptions \<Rightarrow> string \<Rightarrow> string \<Rightarrow> string \<Rightarrow> bool" where
  "ofVersion opts tenant v q \<longleftrightarrow>
     within (under (opt_RootDir opts) [tenant, ''bin'', v]) q \<or> within (under (opt_RootDir opts) [tenant, ''gc'', v]) q"

text \<open>The counters do not touch the files.\<close>

definition quietGc :: "('d, 'w) gc_env \<Rightarrow> ('w \<Rightarrow> fsview) \<Rightarrow> bool" where
  "quietGc gc view \<longleftrightarrow> (\<forall>w. view (gce_runs gc w) = view w) \<and> (\<forall>w. view (gce_foldersRemoved gc w) = view w) \<and>
     (\<forall>n w. view (gce_reclaimed gc n w) = view w) \<and> (\<forall>w. view (snd (gce_Now gc w)) = view w)"

lemma collect_paths:
  assumes "cleanRoot opts" "proper tenant" "proper u"
  shows "filepath_Join [opt_RootDir opts, tenant, GarbageCollectionPath] = under (opt_RootDir opts) [tenant, ''gc'']"
    and "filepath_Join [filepath_Join [opt_RootDir opts, tenant, GarbageCollectionPath], u] = under (opt_RootDir opts) [tenant, ''gc'', u]"
    and "filepath_Join [opt_RootDir opts, tenant, ''bin'', u] = under (opt_RootDir opts) [tenant, ''bin'', u]"
  using assms Join_root [OF assms(1), of "[tenant, ''gc'']" "[u]"] by (simp_all add: Join_root_simple GarbageCollectionPath_def)

lemma ofVersion_apart:
  assumes "proper u" "proper v" "u \<noteq> v" and "ofVersion opts tenant v q"
  shows "\<not> within (under (opt_RootDir opts) [tenant, ''bin'', u]) q" "\<not> within (under (opt_RootDir opts) [tenant, ''gc'', u]) q"
proof -
  have two: "under d [x, y, z] = under (under d [x]) [y, z]" "under d [x, y, z] = under (under d [x, y]) [z]" for d x y z by simp_all
  have "within (under d [tenant, ''bin'', v]) q \<Longrightarrow> \<not> within (under d [tenant, ''gc'', u]) q"
    "within (under d [tenant, ''gc'', v]) q \<Longrightarrow> \<not> within (under d [tenant, ''bin'', u]) q"
    "within (under d [tenant, x, v]) q \<Longrightarrow> \<not> within (under d [tenant, x, u]) q" for d x
    using within_apart [of "''bin''" "''gc''" "under d [tenant]" "[v]" q "[u]"] within_apart [of "''gc''" "''bin''" "under d [tenant]" "[v]" q "[u]"]
      within_apart [of v u "under d [tenant, x]" "[]" q "[]"] assms(1-3) by simp_all
  with assms(4) show "\<not> within (under (opt_RootDir opts) [tenant, ''bin'', u]) q" "\<not> within (under (opt_RootDir opts) [tenant, ''gc'', u]) q"
    unfolding ofVersion_def by blast+
qed

lemma removeUnusedVersion_keeps:
  assumes law: "lawfulFs (gce_fs gc) view" "quietGc gc view"
    and apart: "\<And>q. Q q \<Longrightarrow> \<not> within binaryPath q \<and> \<not> within references q"
  shows "keeps (\<lambda>w. \<forall>q. Q q \<longrightarrow> view w q = x q) (removeUnusedVersion gc binaryPath references)"
proof -
  have remove: "keeps (\<lambda>w. \<forall>q. Q q \<longrightarrow> view w q = x q) (fs_RemoveAll (gce_fs gc) p)" if "p = binaryPath \<or> p = references" for p
  proof (rule keepsI, intro allI impI)
    fix s r s' q assume I: "\<forall>q. Q q \<longrightarrow> view s q = x q" and run: "fs_RemoveAll (gce_fs gc) p s = (r, s')" and "Q q"
    then show "view s' q = x q" using apart [OF \<open>Q q\<close>] that lawfulFs_RemoveAll(1) [OF law(1) run, of q] by auto
  qed
  have walk: "keeps (\<lambda>w. \<forall>q. Q q \<longrightarrow> view w q = x q) (fs_Walk (gce_fs gc) p)" for p
    using lawfulFs_leaves(6) [OF law(1)] by (simp add: keeps_def)
  have "keeps (\<lambda>w. \<forall>q. Q q \<longrightarrow> view w q = x q) (modifyE (gce_foldersRemoved gc))" "keeps (\<lambda>w. \<forall>q. Q q \<longrightarrow> view w q = x q) (modifyE (gce_reclaimed gc n))" for n
    using law(2) by (simp_all add: keeps_modifyE quietGc_def)
  then show ?thesis unfolding removeUnusedVersion_def dirSize_def walkedFiles_def by (intro keeps_intros remove walk) simp_all
qed

text \<open>A version is used if it is the latest one or a volume refers to it.\<close>

definition versionUsed :: "CSIOptions \<Rightarrow> string \<Rightarrow> string \<Rightarrow> fsview \<Rightarrow> string \<Rightarrow> bool" where
  "versionUsed opts tenant latest files v \<longleftrightarrow>
     v = latest \<or> (\<exists>ref. proper ref \<and> files (under (opt_RootDir opts) [tenant, ''gc'', v, ref]) \<noteq> None)"

lemma collectVersion_keeps:
  assumes law: "lawfulFs (gce_fs gc) view" "quietGc gc view" and names: "cleanRoot opts" "proper tenant" "proper v" "proper (fi_Name info)"
    and used: "versionUsed opts tenant latest x v"
  shows "keeps (\<lambda>w. \<forall>q. ofVersion opts tenant v q \<longrightarrow> view w q = x q) (collectVersion gc opts tenant latest info)"
proof (cases "fi_Name info = v")
  case False
  have "\<not> within (under (opt_RootDir opts) [tenant, ''bin'', fi_Name info]) q \<and> \<not> within (under (opt_RootDir opts) [tenant, ''gc'', fi_Name info]) q"
    if "ofVersion opts tenant v q" for q using ofVersion_apart [OF names(4,3) False that] by blast
  moreover have "keeps (\<lambda>w. \<forall>q. ofVersion opts tenant v q \<longrightarrow> view w q = x q) (fs_ReadDir (gce_fs gc) p)" for p
    using lawfulFs_leaves(3) [OF law(1)] by (simp add: keeps_def)
  ultimately show ?thesis unfolding collectVersion_def Let_def collect_paths(2,3) [OF names(1,2,4)] shouldDeleteVersion_def
    by (intro keeps_intros removeUnusedVersion_keeps law) blast+
next
  case True
  show ?thesis
  proof (rule keepsI, intro allI impI)
    fix s r s' q assume I: "\<forall>q. ofVersion opts tenant v q \<longrightarrow> view s q = x q" and q: "ofVersion opts tenant v q"
      and run: "collectVersion gc opts tenant latest info s = (r, s')"
    have "view s' = view s"
    proof (cases "v = latest")
      case latest: True
      with run True show ?thesis by (simp add: collectVersion_def isNotLatestVersion_def Let_def)
    next
      case other: False
      with used obtain ref where ref: "proper ref" "x (under (opt_RootDir opts) [tenant, ''gc'', v, ref]) \<noteq> None"
        unfolding versionUsed_def by blast
      have "ofVersion opts tenant v (under (opt_RootDir opts) [tenant, ''gc'', v, ref])"
        using within_child [of "opt_RootDir opts" "[tenant, ''gc'', v]" "[ref]"] by (simp add: ofVersion_def)
      then have there: "view s (under (opt_RootDir opts) [tenant, ''gc'', v] @ ''/'' @ ref) \<noteq> None"
        using I ref(2) by (simp add: under_def)
      obtain l s1 where dir: "fs_ReadDir (gce_fs gc) (under (opt_RootDir opts) [tenant, ''gc'', v]) s = (l, s1)" by fastforce
      have nonempty: "infos \<noteq> []" if "l = Inr infos" for infos
        using lawfulFs_reads(8) [OF law(1) dir [unfolded that]] there ref(1) by auto
      then have "s' = s1" using run other True dir collect_paths [OF names(1,2), of v] names(3)
        by (cases l) (auto simp: collectVersion_def Let_def isNotLatestVersion_def shouldDeleteVersion_def catchE_run bindE_run)
      then show ?thesis using lawfulFs_reads(7) [OF law(1) dir] by simp
    qed
    with I q show "view s' q = x q" by simp
  qed
qed

lemma getVersionReferences_effect:
  assumes law: "lawfulFs (gce_fs gc) view" and names: "cleanRoot opts" "proper tenant"
    and run: "getVersionReferences gc opts tenant w = (r, w')"
  shows "view w' = view w" and "r = Inr infos \<Longrightarrow> i \<in> set infos \<Longrightarrow> proper (fi_Name i)"
proof -
  let ?base = "under (opt_RootDir opts) [tenant, ''gc'']"
  have base: "filepath_Join [opt_RootDir opts, tenant, GarbageCollectionPath] = ?base"
    using names by (simp add: Join_root_simple GarbageCollectionPath_def)
  obtain l w1 where dir: "fs_ReadDir (gce_fs gc) ?base w = (l, w1)" by fastforce
  have "keeps (\<lambda>s. view s = view w) (getVersionReferences gc opts tenant)"
    unfolding getVersionReferences_def Let_def by (intro keeps_intros lawfulFs_leaves [OF law])
  from keepsD [OF this refl run] show "view w' = view w" .
  show "proper (fi_Name i)" if "r = Inr infos" "i \<in> set infos"
  proof (cases l)
    case (Inr listed)
    then have "infos = listed" using run dir that(1) by (simp add: getVersionReferences_def base Let_def)
    with lawfulFs_reads(8) [OF law dir [unfolded Inr]] that(2) show ?thesis by auto
  next
    case (Inl e)
    then have "infos = []" using run dir that(1)
      by (auto simp: getVersionReferences_def base Let_def catchE_run split: prod.splits sum.splits if_splits)
    with that(2) show ?thesis by simp
  qed
qed

lemma runBinaryGarbageCollection_keeps:
  assumes law: "lawfulFs (gce_fs gc) view" "quietGc gc view" and names: "cleanRoot opts" "proper tenant" "proper v"
    and used: "versionUsed opts tenant latest (view w) v" and run: "runBinaryGarbageCollection gc opts tenant latest w = (r, w')"
    and q: "ofVersion opts tenant v q"
  shows "view w' q = view w q"
proof -
  let ?w = "gce_runs gc w"
  have start: "view ?w = view w" using law(2) by (simp add: quietGc_def)
  obtain l w1 where refs: "getVersionReferences gc opts tenant ?w = (l, w1)" by fastforce
  note same = getVersionReferences_effect(1) [OF law(1) names(1,2) refs]
  show ?thesis
  proof (cases l)
    case (Inl e)
    then show ?thesis using run refs same start by (simp add: runBinaryGarbageCollection_def bindE_run)
  next
    case (Inr infos)
    have "keeps (\<lambda>s. \<forall>q. ofVersion opts tenant v q \<longrightarrow> view s q = view w q) (foreachE infos (collectVersion gc opts tenant latest))"
      using getVersionReferences_effect(2) [OF law(1) names(1,2) refs Inr] by (intro keeps_foreachE collectVersion_keeps law names used)
    moreover have "foreachE infos (collectVersion gc opts tenant latest) w1 = (r, w')"
      using run refs Inr by (simp add: runBinaryGarbageCollection_def bindE_run)
    moreover have "\<forall>q. ofVersion opts tenant v q \<longrightarrow> view w1 q = view w q" by (simp add: same start)
    ultimately show ?thesis using q by (auto dest: keepsD)
  qed
qed

section \<open>Lemmas: logs\<close>

text \<open>Only a directory without entries is called empty.\<close>

definition lawfulIsEmpty :: "'w afero \<Rightarrow> ('w \<Rightarrow> fsview) \<Rightarrow> bool" where
  "lawfulIsEmpty fs view \<longleftrightarrow>
     (\<forall>p w w'. fs_IsEmpty fs p w = (Inr True, w') \<longrightarrow> (\<forall>n. proper n \<longrightarrow> view w (p @ ''/'' @ n) = None))"

lemma unusedVolumes_unmounted:
  assumes law: "lawfulFs fs view" "lawfulIsEmpty fs view" and n: "proper n"
    and mapped: "filepath_Join [dir, v, ''mapped''] = m" "view w (m @ ''/'' @ n) \<noteq> None"
    and run: "unusedVolumes fs dir ids w = (Inr unused, w')"
  shows "set unused \<subseteq> set ids \<and> v \<notin> fi_Name ` set unused"
  using mapped(2) run
proof (induction ids arbitrary: w unused)
  case (Cons i ids)
  obtain b w1 rest where empty: "fs_IsEmpty fs (filepath_Join [dir, fi_Name i, ''mapped'']) w = (Inr b, w1)"
    and rest: "unusedVolumes fs dir ids w1 = (Inr rest, w')" "unused = (if b then i # rest else rest)"
    using Cons.prems(2) by (auto simp: bindE_run split: prod.splits sum.splits)
  have same: "view w1 = view w" using keepsD [OF lawfulFs_leaves(5) [OF law(1)] refl empty] .
  have "b \<Longrightarrow> fi_Name i \<noteq> v" using law(2) empty n mapped(1) Cons.prems(1) unfolding lawfulIsEmpty_def by metis
  with Cons.IH [OF _ rest(1)] Cons.prems(1) same rest(2) show ?case by auto
qed simp

lemma countLogs_leaves:
  assumes "lawfulFs fs view"
  shows "keeps (\<lambda>w. view w = x) (countLogs fs dir ids nr sz)"
  by (induction ids arbitrary: nr sz) (auto simp: walkedFiles_def intro!: keeps_intros lawfulFs_leaves [OF assms])

lemma unusedVolumes_leaves:
  assumes "lawfulFs fs view"
  shows "keeps (\<lambda>w. view w = x) (unusedVolumes fs dir ids)"
  by (induction ids) (auto simp: keeps_retE simp del: retE_run intro!: keeps_intros lawfulFs_leaves [OF assms])

lemma getLogFileInfo_effect:
  assumes law: "lawfulFs fs view" "lawfulIsEmpty fs view" and n: "proper n"
    and mapped: "filepath_Join [dir, v, ''mapped''] = m" "view w (m @ ''/'' @ n) \<noteq> None"
    and run: "getLogFileInfo fs dir w = (r, w')"
  shows "view w' = view w" and "r = Inr logs \<Longrightarrow> fi_Name ` set (lf_UnusedVolumeIDs logs) \<subseteq> {u. proper u \<and> u \<noteq> v}"
proof -
  have "keeps (\<lambda>s. view s = view w) (getLogFileInfo fs dir)"
    unfolding getLogFileInfo_def getUnusedVolumeIDs_def split_def
    by (intro keeps_intros lawfulFs_leaves [OF law(1)] countLogs_leaves [OF law(1)] unusedVolumes_leaves [OF law(1)])
  from keepsD [OF this refl run] show "view w' = view w" .
  assume "r = Inr logs"
  then obtain infos w1 w2 where list: "fs_ReadDir fs dir w = (Inr infos, w1)"
    and unused: "unusedVolumes fs dir infos w1 = (Inr (lf_UnusedVolumeIDs logs), w2)"
    using run by (auto simp: getLogFileInfo_def getUnusedVolumeIDs_def bindE_run split: prod.splits sum.splits)
  have "view w1 = view w" using lawfulFs_reads(7) [OF law(1) list] .
  with mapped(2) have "view w1 (m @ ''/'' @ n) \<noteq> None" by simp
  from unusedVolumes_unmounted [OF law n mapped(1) this unused] lawfulFs_reads(8) [OF law(1) list]
  show "fi_Name ` set (lf_UnusedVolumeIDs logs) \<subseteq> {u. proper u \<and> u \<noteq> v}" by blast
qed

section \<open>Properties\<close>

text \<open>The garbage collection never takes anything away from a version that is in use: neither the binaries nor the references of the
  latest version, or of a version that some volume refers to, change.\<close>

theorem gc_keeps_used_versions:
  assumes "lawfulFs (gce_fs gc) view" and "quietGc gc view" and "cleanRoot opts" and "proper tenant" and "proper v"
    and "versionUsed opts tenant latest (view w) v" and "runBinaryGarbageCollection gc opts tenant latest w = (r, w')"
    and "within (under (opt_RootDir opts) [tenant, ''bin'', v]) q \<or> within (under (opt_RootDir opts) [tenant, ''gc'', v]) q"
  shows "view w' q = view w q"
  using assms by (intro runBinaryGarbageCollection_keeps) (simp_all add: ofVersion_def)

text \<open>Publishing protects: after a volume is published, a garbage collection, whatever version is the latest by then,
  leaves the binaries that were mounted into the pod as they are.\<close>

theorem published_version_survives_gc:
  assumes root: "cleanRoot opts" and law: "lawfulFs (ce_fs env) view" "leaves (ce_namespaces env) view"
    and quiet: "\<And>p w. view (snd (ce_IsNotMountPoint env p w)) = view w" "\<And>v w. view (ce_Inc env v w) = view w"
    and names: "provisioned opts (view w)" "proper (req_VolumeId req)"
    and mounted: "isMounted env (req_TargetPath req) w = (Inr False, w0)" and run: "NodePublishVolume env opts req w = (Inr (), w')"
    and gc: "lawfulFs (gce_fs gc) view" "quietGc gc view"
  shows "\<exists>tenant version. view w (under (opt_RootDir opts) [tenant, ''version'']) = Some (FileNode version) \<and>
    (\<forall>latest r w''. runBinaryGarbageCollection gc opts tenant latest w' = (r, w'') \<longrightarrow>
       (\<forall>q. within (under (opt_RootDir opts) [tenant, ''bin'', version]) q \<longrightarrow> view w'' q = view w' q))"
proof -
  from publish_effect [OF root law quiet names mounted run] obtain tenant version where
    proper: "proper tenant" "proper version" "view w (under (opt_RootDir opts) [tenant, ''version'']) = Some (FileNode version)"
    and ref: "view w' (under (opt_RootDir opts) [tenant, ''gc'', version, req_VolumeId req]) = Some (FileNode [])" by blast
  have "versionUsed opts tenant latest (view w') version" for latest
    using names(2) ref by (auto simp: versionUsed_def)
  then have "view w'' q = view w' q" if "runBinaryGarbageCollection gc opts tenant latest w' = (r, w'')"
    "within (under (opt_RootDir opts) [tenant, ''bin'', version]) q" for latest r w'' q
    using runBinaryGarbageCollection_keeps [OF gc root proper(1,2) _ that(1)] that(2) by (simp add: ofVersion_def)
  with proper(3) show ?thesis by blast
qed

text \<open>C24. The garbage collection of logs spares every volume that is mounted: while the directory where its overlay is mounted has an entry,
  nothing of the volume's directory changes, however many logs there are.\<close>

theorem log_gc_spares_mounted:
  assumes law: "lawfulFs (gce_fs gc) view" "lawfulIsEmpty (gce_fs gc) view" "quietGc gc view"
    and names: "cleanRoot opts" "proper tenant" "proper vol" "proper n"
    and mounted: "view w (under (opt_RootDir opts) [tenant, ''run'', vol, ''mapped'', n]) \<noteq> None"
    and run: "runLogGarbageCollection gc opts tenant w = (r, w')" and q: "within (under (opt_RootDir opts) [tenant, ''run'', vol]) q"
  shows "view w' q = view w q"
proof -
  let ?root = "opt_RootDir opts"
  have join: "filepath_Join [?root, tenant, ''run''] = under ?root [tenant, ''run'']"
    "filepath_Join [under ?root [tenant, ''run''], vol, ''mapped''] = under ?root [tenant, ''run'', vol, ''mapped'']"
    "proper u \<Longrightarrow> filepath_Join [under ?root [tenant, ''run''], u] = under ?root [tenant, ''run'', u]" for u
    using names Join_root_simple [OF names(1), of "[tenant, ''run'']"] Join_root [OF names(1), of "[tenant, ''run'']" "[vol, ''mapped'']"]
      Join_root [OF names(1), of "[tenant, ''run'']" "[u]"] by (simp_all add: proper_def)
  have there: "view w (under ?root [tenant, ''run'', vol, ''mapped''] @ ''/'' @ n) \<noteq> None" using mounted by (simp add: under_def)
  obtain g w1 where info: "getLogFileInfo (gce_fs gc) (under ?root [tenant, ''run'']) w = (g, w1)" by fastforce
  note effect = getLogFileInfo_effect [OF law(1,2) names(4) join(2) there info]
  show ?thesis
  proof (cases g)
    case (Inl e)
    then show ?thesis using run info effect(1) by (simp add: runLogGarbageCollection_def join(1) Let_def catchE_run)
  next
    case (Inr logs)
    let ?I = "\<lambda>s. \<forall>q. within (under ?root [tenant, ''run'', vol]) q \<longrightarrow> view s q = view w q"
    have "keeps ?I (fs_RemoveAll (gce_fs gc) (filepath_Join [under ?root [tenant, ''run''], u]))" if "proper u" "u \<noteq> vol" for u
    proof -
      have last: "under d [x, y, z] = under (under d [x, y]) [z]" for d x y z by simp
      have "\<not> within (under ?root [tenant, ''run'', u]) q" if "within (under ?root [tenant, ''run'', vol]) q" for q
        using within_apart [of vol u "under ?root [tenant, ''run'']" "[]" q "[]"] that \<open>proper u\<close> \<open>u \<noteq> vol\<close> names(3) unfolding last by auto
      then show ?thesis using lawfulFs_RemoveAll(1) [OF law(1)] unfolding join(3) [OF \<open>proper u\<close>] by (intro keepsI) metis
    qed
    moreover have "keeps ?I (isOlderThanTwoWeeks gc t)" for t
      using law(3) by (auto simp: keeps_def isOlderThanTwoWeeks_def quietGc_def split: prod.splits) (metis snd_conv)+
    ultimately have "keeps ?I (removeLogsIfNecessary gc logs maxLogFolderSizeBytes maxNumberOfLogFiles (under ?root [tenant, ''run'']))"
      using effect(2) [OF Inr] unfolding removeLogsIfNecessary_def tryRemoveLogFolders_def by (intro keeps_intros) auto
    moreover have "removeLogsIfNecessary gc logs maxLogFolderSizeBytes maxNumberOfLogFiles (under ?root [tenant, ''run'']) w1 = (r, w')"
      using run info Inr by (simp add: runLogGarbageCollection_def join(1) Let_def catchE_run)
    ultimately have "?I w'" using effect(1) keepsD [where I = ?I and s = w1] by simp
    with q show ?thesis by blast
  qed
qed

definition exampleGc :: "(unit, csiNode) gc_env" where
  "exampleGc =
     \<lparr>gce_dynaKubes = downClient, gce_secrets = downClient, gce_dtcBuildFunc = (\<lambda>_ _. raiseE (ErrMsg ''offline'')),
      gce_dtc =
        \<lparr>cl_GetLatestAgentVersion = (\<lambda>_ _. raiseE (ErrMsg ''offline'')), cl_GetLatestAgent = (\<lambda>_ _ _ _. raiseE (ErrMsg ''offline'')),
         cl_GetConnectionInfo = raiseE (ErrMsg ''offline''), cl_GetCommunicationHostForClient = raiseE (ErrMsg ''offline''),
         cl_SendEvent = (\<lambda>_. raiseE (ErrMsg ''offline'')), cl_GetEntityIDForIP = (\<lambda>_. raiseE (ErrMsg ''offline'')),
         cl_GetTokenScopes = (\<lambda>_. raiseE (ErrMsg ''offline'')), cl_GetTenantInfo = raiseE (ErrMsg ''offline'')\<rparr>,
      gce_fs = ce_fs exampleCsi, gce_Now = (\<lambda>w. (0, w)), gce_runs = (\<lambda>w. w), gce_foldersRemoved = (\<lambda>w. w), gce_reclaimed = (\<lambda>n w. w)\<rparr>"

lemma exampleGc_laws: "lawfulFs (gce_fs exampleGc) nodeFiles" "quietGc exampleGc nodeFiles"
  using exampleCsi_laws(1) by (simp_all add: exampleGc_def quietGc_def)

lemma examplePublished_ref: "nodeFiles examplePublished (under ''/data'' [''uuid'', ''gc'', ''v1'', ''vol'']) = Some (FileNode [])"
  unfolding examplePublished_def by code_simp

theorem gc_keeps_used_versions_witness:
  "\<exists>r w'. runBinaryGarbageCollection exampleGc exampleOpts ''uuid'' ''v2'' examplePublished = (r, w') \<and>
     nodeFiles w' (under ''/data'' [''uuid'', ''gc'', ''v1'', ''vol'']) = Some (FileNode [])"
proof -
  obtain r w' where run: "runBinaryGarbageCollection exampleGc exampleOpts ''uuid'' ''v2'' examplePublished = (r, w')" by fastforce
  have root: "opt_RootDir exampleOpts = ''/data''" by (simp add: exampleOpts_def)
  have "proper ''uuid''" "proper ''v1''" "proper ''vol''" by (simp_all add: proper_def)
  moreover have "versionUsed exampleOpts ''uuid'' ''v2'' (nodeFiles examplePublished) ''v1''"
    unfolding versionUsed_def root using examplePublished_ref \<open>proper ''vol''\<close> by blast
  moreover have "within (under (opt_RootDir exampleOpts) [''uuid'', ''gc'', ''v1'']) (under ''/data'' [''uuid'', ''gc'', ''v1'', ''vol''])"
    using within_child [of "''/data''" "[''uuid'', ''gc'', ''v1'']" "[''vol'']"] by (simp add: root)
  ultimately have "nodeFiles w' (under ''/data'' [''uuid'', ''gc'', ''v1'', ''vol'']) = nodeFiles examplePublished (under ''/data'' [''uuid'', ''gc'', ''v1'', ''vol''])"
    using gc_keeps_used_versions [OF exampleGc_laws exampleOpts_root _ _ _ run] by blast
  with run examplePublished_ref show ?thesis by simp
qed

theorem published_version_survives_gc_witness:
  "\<exists>w' tenant version. NodePublishVolume exampleCsi exampleOpts exampleReq exampleNode = (Inr (), w') \<and>
     (\<forall>latest. \<exists>r w''. runBinaryGarbageCollection exampleGc exampleOpts tenant latest w' = (r, w'') \<and>
        nodeFiles w'' (under ''/data'' [tenant, ''bin'', version]) = nodeFiles w' (under ''/data'' [tenant, ''bin'', version]))"
proof -
  obtain w' where run: "NodePublishVolume exampleCsi exampleOpts exampleReq exampleNode = (Inr (), w')"
    using examplePublish_run by (cases "NodePublishVolume exampleCsi exampleOpts exampleReq exampleNode") simp
  have mounted: "isMounted exampleCsi (req_TargetPath exampleReq) exampleNode = (Inr False, exampleNode)"
    by (simp add: isMounted_def exampleCsi_def exampleReq_def exampleNode_def catchE_run)
  have "proper (req_VolumeId exampleReq)" by (simp add: exampleReq_def proper_def)
  from published_version_survives_gc [OF exampleOpts_root exampleCsi_laws(1,2,3,4) exampleNode_provisioned this mounted run exampleGc_laws]
  obtain tenant version where
    keep: "\<forall>latest r w''. runBinaryGarbageCollection exampleGc exampleOpts tenant latest w' = (r, w'') \<longrightarrow>
       (\<forall>q. within (under (opt_RootDir exampleOpts) [tenant, ''bin'', version]) q \<longrightarrow> nodeFiles w'' q = nodeFiles w' q)" by blast
  have "\<exists>r w''. runBinaryGarbageCollection exampleGc exampleOpts tenant latest w' = (r, w'') \<and>
        nodeFiles w'' (under ''/data'' [tenant, ''bin'', version]) = nodeFiles w' (under ''/data'' [tenant, ''bin'', version])" for latest
    using keep [rule_format, of latest] by (cases "runBinaryGarbageCollection exampleGc exampleOpts tenant latest w'") (simp add: within_def exampleOpts_def)
  with run show ?thesis by blast
qed

text \<open>A mounted volume among logs of more than a thousand files would be needed to remove anything; here there are few.\<close>

definition exampleMounted :: csiNode where
  "exampleMounted = exampleNode\<lparr>nd_Files := nd_Files exampleNode @
     [(''/data/uuid/run'', DirNode), (''/data/uuid/run/vol'', DirNode), (''/data/uuid/run/vol/mapped'', DirNode),
      (''/data/uuid/run/vol/mapped/agent'', FileNode ''a''), (''/data/uuid/run/vol/var/log'', FileNode ''l'')]\<rparr>"

lemma lawfulIsEmpty_example: "lawfulIsEmpty (gce_fs exampleGc) nodeFiles"
proof -
  have "map_of w (p @ ''/'' @ n) = None" if "children w p = []" "proper n" for w p n
    using children_names [of w p] that by fastforce
  then show ?thesis
    by (auto simp: lawfulIsEmpty_def exampleGc_def exampleCsi_def fsOnPart_def listFs_def zoomE_run split: if_splits)
qed

theorem log_gc_spares_mounted_witness:
  "\<exists>r w'. runLogGarbageCollection exampleGc exampleOpts ''uuid'' exampleMounted = (r, w') \<and>
     nodeFiles w' (under ''/data'' [''uuid'', ''run'', ''vol'', ''var'', ''log'']) = Some (FileNode ''l'')"
proof -
  obtain r w' where run: "runLogGarbageCollection exampleGc exampleOpts ''uuid'' exampleMounted = (r, w')" by fastforce
  have root: "opt_RootDir exampleOpts = ''/data''" by (simp add: exampleOpts_def)
  have "proper ''uuid''" "proper ''vol''" "proper ''agent''" by (simp_all add: proper_def)
  moreover have "nodeFiles exampleMounted (under ''/data'' [''uuid'', ''run'', ''vol'', ''mapped'', ''agent'']) \<noteq> None"
    "nodeFiles exampleMounted (under ''/data'' [''uuid'', ''run'', ''vol'', ''var'', ''log'']) = Some (FileNode ''l'')" by code_simp+
  moreover have "within (under ''/data'' [''uuid'', ''run'', ''vol'']) (under ''/data'' [''uuid'', ''run'', ''vol'', ''var'', ''log''])"
    using within_child [of "''/data''" "[''uuid'', ''run'', ''vol'']" "[''var'', ''log'']"] by simp
  ultimately show ?thesis
    using log_gc_spares_mounted [OF exampleGc_laws(1) lawfulIsEmpty_example exampleGc_laws(2) exampleOpts_root, unfolded root] run by metis
qed

end
