(* ===== verification/Csi_Provisioner.thy ===== *)
theory Csi_Provisioner
  imports Csi_Gc
begin

text \<open>
  The provisioner of the CSI driver (\<^verbatim>\<open>src/controllers/csi/provisioner\<close>): it downloads the code modules of a tenant and
  unpacks them where the node service mounts them from. The archive reader (\<^verbatim>\<open>archive/zip\<close>) and the Dynatrace
  client are parameters; the checks of the paths inside an archive are those of the code.
\<close>

section \<open>Unpacking (agent.go)\<close>

definition agentConfPath :: string where "agentConfPath = ''agent/conf/''"

text \<open>An entry of an archive: opening it may fail, and so may reading it after the contents that \<^verbatim>\<open>io.Copy\<close> has passed on.\<close>

record zipEntry =
  ze_Name :: string
  ze_Mode :: nat
  ze_IsDir :: bool
  ze_Open :: "goerr + unit"
  ze_Content :: string
  ze_ReadErr :: "goerr option"

text \<open>\<^verbatim>\<open>mode |= 020\<close>: the bit of weight 16.\<close>

definition groupWritable :: "nat \<Rightarrow> nat" where
  "groupWritable mode = (if odd (mode div 16) then mode else mode + 16)"

definition entryMode :: "zipEntry \<Rightarrow> nat" where
  "entryMode zipf =
     (if ze_Name zipf \<noteq> agentConfPath \<and> prefix agentConfPath (ze_Name zipf) then groupWritable (ze_Mode zipf) else ze_Mode zipf)"

definition extractEntry :: "'w afero \<Rightarrow> string \<Rightarrow> zipEntry \<Rightarrow> ('w, unit) act" where
  "extractEntry fs outDir zipf =
     bindE (liftE (ze_Open zipf)) (\<lambda>_.
     let path = filepath_Join [outDir, ze_Name zipf]; mode = entryMode zipf
     in if \<not> prefix (filepath_Clean outDir @ ''/'') path then raiseE (ErrMsg (''illegal file path: '' @ path))
        else if ze_IsDir zipf then fs_MkdirAll fs path mode
        else bindE (fs_MkdirAll fs (filepath_Dir path) mode) (\<lambda>_.
             bindE (fs_OpenFile fs path mode) (\<lambda>_.
             bindE (fs_Copy fs path (ze_Content zipf)) (\<lambda>_.
               case ze_ReadErr zipf of None \<Rightarrow> retE () | Some err \<Rightarrow> raiseE err))))"

definition unzip :: "'w afero \<Rightarrow> string \<Rightarrow> zipEntry list \<Rightarrow> ('w, unit) act" where
  "unzip fs outDir r = bindE (ignoreE (fs_MkdirAll fs outDir 493)) (\<lambda>_. foreachE r (extractEntry fs outDir))"

definition ArchX86 :: string where "ArchX86 = ''x86''"
definition ArchARM :: string where "ArchARM = ''arm''"

text \<open>The archive is downloaded to a temporary file, which is removed in any case.\<close>

definition installAgent ::
  "('d, 'w) gc_env \<Rightarrow> 'w afero \<Rightarrow> (string \<Rightarrow> goerr + zipEntry list) \<Rightarrow> 'd \<Rightarrow> string \<Rightarrow> string \<Rightarrow> ('w, unit) act" where
  "installAgent env fs zipReader dtc arch targetDir =
     bindE (wrapE ''failed to create temporary file for download: '' (fs_TempFile fs [] ''download'')) (\<lambda>tmpFile.
     let body =
       bindE (wrapE ''failed to fetch latest OneAgent version: ''
               (bindE (onDtc dtc (cl_GetLatestAgent (gce_dtc env) OsUnix InstallerTypePaaS FlavorMultidistro arch))
                 (\<lambda>(package, dtc1). fs_Copy fs tmpFile package))) (\<lambda>_.
       bindE (wrapE ''failed to determine agent archive file size: '' (fs_Stat fs tmpFile)) (\<lambda>_.
       bindE (wrapE ''failed to open ZIP file: '' (bindE (fs_ReadFile fs tmpFile) (\<lambda>archive. liftE (zipReader archive)))) (\<lambda>zipr.
         wrapE ''failed to unzip file: '' (unzip fs targetDir zipr))))
     in catchE body
          (\<lambda>err. bindE (ignoreE (fs_Remove fs tmpFile)) (\<lambda>_. raiseE err))
          (\<lambda>_. ignoreE (fs_Remove fs tmpFile)))"

section \<open>Reconciliation (reconciler.go)\<close>

definition createCSIDirectories :: "'w afero \<Rightarrow> string \<Rightarrow> ('w, unit) act" where
  "createCSIDirectories fs envDir = wrapE (''failed to create directory '' @ envDir @ '': '') (fs_MkdirAll fs envDir 493)"

text \<open>The contents of a file, and the empty string where there is none.\<close>

definition readOrEmpty :: "'w afero \<Rightarrow> string \<Rightarrow> string \<Rightarrow> ('w, string) act" where
  "readOrEmpty fs p msg = catchE (fs_ReadFile fs p) (\<lambda>err. if isNotExist err then retE [] else raiseE (Wrap msg err)) retE"

definition updateTenantFile :: "'w afero \<Rightarrow> string \<Rightarrow> string \<Rightarrow> ('w, unit) act" where
  "updateTenantFile fs tenantUUID tenantFile =
     bindE (readOrEmpty fs tenantFile ''failed to query assigned DynaKube tenant: '') (\<lambda>oldDynaKubeTenant.
       if oldDynaKubeTenant \<noteq> tenantUUID then ignoreE (fs_WriteFile fs tenantFile tenantUUID 420) else retE ())"

definition installAgentVersion ::
  "('d, 'w) gc_env \<Rightarrow> (string \<Rightarrow> goerr + zipEntry list) \<Rightarrow> string \<Rightarrow> string \<Rightarrow> string \<Rightarrow> 'd \<Rightarrow> ('w, unit) act" where
  "installAgentVersion env zipReader goarch version envDir dtc =
     (let fs = gce_fs env; versionFile = filepath_Join [envDir, VersionDir];
          arch = (if goarch = ''arm64'' then ArchARM else ArchX86);
          gcDir = filepath_Join [envDir, GarbageCollectionPath, version];
          targetDir = filepath_Join [envDir, ''bin'', version]
      in bindE (fs_MkdirAll fs gcDir 493) (\<lambda>_.
         bindE (catchE (fs_Stat fs targetDir)
                 (\<lambda>err. if isNotExist err
                        then catchE (installAgent env fs zipReader dtc arch targetDir)
                               (\<lambda>err. bindE (ignoreE (fs_RemoveAll fs targetDir)) (\<lambda>_. raiseE (Wrap ''failed to install agent: '' err))) retE
                        else retE ())
                 (\<lambda>_. retE ())) (\<lambda>_.
           ignoreE (fs_WriteFile fs versionFile version 420))))"

definition updateAgent ::
  "('d, 'w) gc_env \<Rightarrow> (string \<Rightarrow> goerr + zipEntry list) \<Rightarrow> string \<Rightarrow> DynaKube \<Rightarrow> 'd \<Rightarrow> string \<Rightarrow> ('w, unit) act" where
  "updateAgent env zipReader goarch dk dtc envDir =
     (let versionFile = filepath_Join [envDir, VersionDir]; ver = st_LatestAgentVersionUnixPaas (dk_Status dk)
      in bindE (readOrEmpty (gce_fs env) versionFile ''failed to query installed OneAgent latestAgentVersion: '') (\<lambda>currentVersion.
         bindE (if ver \<noteq> currentVersion then installAgentVersion env zipReader goarch ver envDir dtc else retE ()) (\<lambda>_.
           fs_WriteFile (gce_fs env) versionFile ver 420)))"

definition isDynatraceOneAgentCSIVolumeSource :: "VolumeSource \<Rightarrow> bool" where
  "isDynatraceOneAgentCSIVolumeSource v \<longleftrightarrow> vs_CSIDriver v = Some csi_DriverName"

definition hasCodeModulesWithCSIVolumeEnabled :: "DynaKube \<Rightarrow> bool" where
  "hasCodeModulesWithCSIVolumeEnabled dk \<longleftrightarrow>
     (let cm = spec_CodeModules (dk_Spec dk)
      in cms_Enabled cm \<and> (cms_Volume cm = zeroVolumeSource \<or> isDynatraceOneAgentCSIVolumeSource (cms_Volume cm)))"

definition csi_buildDtc :: "('d, 'w) gc_env \<Rightarrow> DynaKube \<Rightarrow> ('w, 'd) act" where
  "csi_buildDtc env dk =
     bindE (wrapE ''failed to query tokens: '' (kGet (gce_secrets env) (dk_Namespace dk, Tokens dk))) (\<lambda>tkns.
       wrapE ''failed to create Dynatrace client: '' (gce_dtcBuildFunc env dk tkns))"

definition provision ::
  "('d, 'w) gc_env \<Rightarrow> (string \<Rightarrow> goerr + zipEntry list) \<Rightarrow> string \<Rightarrow> CSIOptions \<Rightarrow> DynaKube \<Rightarrow> ('w, duration) act" where
  "provision env zipReader goarch opts dk =
     (let tenantUUID = cis_TenantUUID (st_ConnectionInfo (dk_Status dk)) in
      if \<not> hasCodeModulesWithCSIVolumeEnabled dk then retE (30 * timeMinute)
      else if tenantUUID = [] then retE (15 * timeSecond)
      else bindE (csi_buildDtc env dk) (\<lambda>dtc.
           let envDir = filepath_Join [opt_RootDir opts, tenantUUID];
               tenantFile = filepath_Join [opt_RootDir opts, ''tenant-'' @ dk_Name dk]
           in bindE (createCSIDirectories (gce_fs env) envDir) (\<lambda>_.
              bindE (updateTenantFile (gce_fs env) tenantUUID tenantFile) (\<lambda>_.
              bindE (updateAgent env zipReader goarch dk dtc envDir) (\<lambda>_.
                retE (5 * timeMinute))))))"

definition Provisioner_Reconcile ::
  "('d, 'w) gc_env \<Rightarrow> (string \<Rightarrow> goerr + zipEntry list) \<Rightarrow> string \<Rightarrow> CSIOptions \<Rightarrow> objkey \<Rightarrow> ('w, duration) act" where
  "Provisioner_Reconcile env zipReader goarch opts request =
     catchE (kGet (gce_dynaKubes env) request) (\<lambda>err. if isNotFound err then retE 0 else raiseE err)
       (provision env zipReader goarch opts)"

section \<open>Lemmas: unpacking\<close>

lemma Join_abs:
  assumes "IsAbs dir"
  shows "\<exists>p. IsAbs p \<and> filepath_Join [dir, name] = filepath_Clean p"
proof -
  have "dir \<noteq> []" using assms by (auto simp: IsAbs_def)
  then have "filepath_Join [dir, name] = filepath_Clean (dir @ ''/'' @ name)" by (simp add: filepath_Join_def)
  moreover have "IsAbs (dir @ ''/'' @ name)" using assms by (cases dir) (simp_all add: IsAbs_def)
  ultimately show ?thesis by blast
qed

lemma filepath_Dir_under:
  assumes "list_all proper cs" "cs \<noteq> []"
  shows "filepath_Dir (absPath cs) = (if tl cs = [] then ''/'' else absPath (butlast cs))"
proof -
  obtain ds c where cs: "cs = ds @ [c]" using assms(2) by (metis append_butlast_last_id)
  have ds: "list_all proper ds" and c: "sep \<notin> set c" using assms(1) by (auto simp: cs proper_def)
  have "rev (absPath cs) = rev c @ sep # rev (absPath ds)" by (simp add: cs under_def)
  then have "dropWhile (\<lambda>x. x \<noteq> sep) (rev (absPath cs)) = sep # rev (absPath ds)"
    using c by (simp, subst dropWhile_append2) auto
  then have dir: "filepath_Dir (absPath cs) = filepath_Clean (absPath ds @ ''/'')" by (simp add: filepath_Dir_def)
  show ?thesis
  proof (cases "ds = []")
    case True
    then show ?thesis unfolding dir by (simp add: cs) code_simp
  next
    case False
    have "splitOn sep (absPath ds @ ''/'') = [] # ds @ [[]]"
    proof -
      have snoc: "es \<noteq> [] \<Longrightarrow> joinWith ''/'' es @ ''/'' = joinWith ''/'' (es @ [[]])" for es
        by (induction "''/''" es rule: joinWith.induct) simp_all
      have "absPath ds @ ''/'' = ''/'' @ joinWith ''/'' (ds @ [[]])" using snoc [OF False] by (simp add: joinWith_absPath [OF False, symmetric])
      moreover have "splitOn sep (joinWith [sep] (ds @ [[]])) = ds @ [[]]"
        using ds by (intro splitOn_joinWith) (auto simp: list_all_iff proper_def)
      ultimately show ?thesis by simp
    qed
    then have "pathComps (absPath ds @ ''/'') = ds" using ds by (simp add: pathComps_def cleanComps_append cleanComps_id)
    moreover have "IsAbs (absPath ds @ ''/'')" using IsAbs_absPath [OF False] by (simp add: IsAbs_def)
    ultimately show ?thesis unfolding dir using False by (simp add: Clean_absolute cs)
  qed
qed

text \<open>Where an entry of an archive goes, and what is above it.\<close>

lemma entry_place:
  assumes "IsAbs outDir" and "filepath_Clean outDir = outDir" and "prefix (filepath_Clean outDir @ ''/'') (filepath_Join [outDir, name])"
  shows "within outDir (filepath_Join [outDir, name])" and "within outDir (filepath_Dir (filepath_Join [outDir, name]))"
proof -
  obtain p where p: "IsAbs p" "filepath_Join [outDir, name] = filepath_Clean p" using Join_abs [OF assms(1)] by blast
  from Clean_prefix_below [OF assms(1) p(1)] assms(3) p(2) obtain rest where
    rest: "rest \<noteq> []" "list_all proper rest" "pathComps outDir \<noteq> []" "filepath_Clean outDir = absPath (pathComps outDir)"
      "filepath_Clean p = absPath (pathComps outDir @ rest)" by auto
  have out: "outDir = absPath (pathComps outDir)" using rest(4) assms(2) by simp
  show "within outDir (filepath_Join [outDir, name])" using assms(2,3) by (simp add: within_def)
  obtain es e where es: "rest = es @ [e]" using rest(1) by (metis append_butlast_last_id)
  have "list_all proper (pathComps outDir @ rest)" using rest(2) pathComps_proper [of outDir] by simp
  then have "filepath_Dir (absPath (pathComps outDir @ rest)) = absPath (pathComps outDir @ es)"
    using rest(3) by (subst filepath_Dir_under) (auto simp: es tl_append butlast_append neq_Nil_conv split: list.splits)
  moreover have "within (absPath (pathComps outDir)) (absPath (pathComps outDir @ es))" by (rule within_child)
  ultimately show "within outDir (filepath_Dir (filepath_Join [outDir, name]))" using out p(2) rest(5) by simp
qed

text \<open>Nothing outside of a directory changes, except that missing directories above it appear.\<close>

definition contained :: "string \<Rightarrow> fsview \<Rightarrow> fsview \<Rightarrow> bool" where
  "contained outDir before after \<longleftrightarrow>
     (\<forall>q. \<not> within outDir q \<longrightarrow> after q = before q \<or> before q = None \<and> after q = Some DirNode \<and> within q outDir)"

lemma contained_ops:
  assumes law: "lawfulFs fs view" "lawfulFiles fs view" and p: "within outDir p"
  shows "keeps (\<lambda>w. contained outDir x (view w)) (fs_MkdirAll fs p m)"
    and "keeps (\<lambda>w. contained outDir x (view w)) (fs_OpenFile fs p m)" and "keeps (\<lambda>w. contained outDir x (view w)) (fs_Copy fs p s)"
proof -
  show "keeps (\<lambda>w. contained outDir x (view w)) (fs_MkdirAll fs p m)"
  proof (rule keepsI)
    fix w r w' assume I: "contained outDir x (view w)" and run: "fs_MkdirAll fs p m w = (r, w')"
    show "contained outDir x (view w')" unfolding contained_def
    proof (intro allI impI)
      fix q assume q: "\<not> within outDir q"
      have "within q p \<Longrightarrow> within q outDir" using within_comparable [of q p outDir] p q by blast
      with I q lawfulFs_Mkdir(1) [OF law(1) run, of q] show "view w' q = x q \<or> x q = None \<and> view w' q = Some DirNode \<and> within q outDir"
        unfolding contained_def by metis
    qed
  qed
  have "q \<noteq> p" if "\<not> within outDir q" for q using that p by blast
  then show "keeps (\<lambda>w. contained outDir x (view w)) (fs_OpenFile fs p m)" "keeps (\<lambda>w. contained outDir x (view w)) (fs_Copy fs p s)"
    using law(2) unfolding lawfulFiles_def keeps_def contained_def by metis+
qed

lemma extractEntry_contained:
  assumes "lawfulFs fs view" "lawfulFiles fs view" and "IsAbs outDir" "filepath_Clean outDir = outDir"
  shows "keeps (\<lambda>w. contained outDir x (view w)) (extractEntry fs outDir zipf)"
proof (cases "prefix (filepath_Clean outDir @ ''/'') (filepath_Join [outDir, ze_Name zipf])")
  case True
  note place = entry_place [OF assms(3,4) True]
  note ops = contained_ops [OF assms(1,2) place(1)] contained_ops(1) [OF assms(1,2) place(2)]
  have "keeps (\<lambda>w. contained outDir x (view w)) (case ze_ReadErr zipf of None \<Rightarrow> retE () | Some err \<Rightarrow> raiseE err)"
    by (cases "ze_ReadErr zipf") (simp_all add: keeps_raiseE keeps_retE)
  then show ?thesis unfolding extractEntry_def Let_def by (intro keeps_intros ops)
next
  case False
  then have "extractEntry fs outDir zipf =
      bindE (liftE (ze_Open zipf)) (\<lambda>_. raiseE (ErrMsg (''illegal file path: '' @ filepath_Join [outDir, ze_Name zipf])))"
    by (simp add: extractEntry_def Let_def)
  then show ?thesis by (simp add: keeps_intros)
qed

lemma unzip_effect:
  assumes "lawfulFs fs view" "lawfulFiles fs view" and "IsAbs outDir" "filepath_Clean outDir = outDir"
  shows "keeps (\<lambda>w. contained outDir x (view w)) (unzip fs outDir zs)"
  unfolding unzip_def
  by (intro keeps_bindE keeps_ignoreE keeps_foreachE extractEntry_contained assms contained_ops) (simp add: within_def)

section \<open>Lemmas: installing beside what is there\<close>

text \<open>The client of the Dynatrace API leaves the files of the node alone.\<close>

definition quietDownload :: "('d, 'w) gc_env \<Rightarrow> ('w \<Rightarrow> fsview) \<Rightarrow> bool" where
  "quietDownload env view \<longleftrightarrow> (\<forall>os ty fl arch s. view (snd (snd (cl_GetLatestAgent (gce_dtc env) os ty fl arch s))) = view (snd s))"

text \<open>What was there, outside of a directory, is still the same.\<close>

definition untouched :: "string \<Rightarrow> fsview \<Rightarrow> fsview \<Rightarrow> bool" where
  "untouched d before after \<longleftrightarrow> (\<forall>q. \<not> within d q \<longrightarrow> before q \<noteq> None \<longrightarrow> after q = before q)"

lemma untouched_ops:
  assumes law: "lawfulFs fs view" "lawfulFiles fs view"
  shows "keeps (\<lambda>w. untouched d x (view w)) (fs_MkdirAll fs p m)" and "keeps (\<lambda>w. untouched d x (view w)) (fs_Stat fs p)"
    and "keeps (\<lambda>w. untouched d x (view w)) (fs_ReadFile fs p)" and "keeps (\<lambda>w. untouched d x (view w)) (fs_RemoveAll fs d)"
    and "within d t \<or> x t = None \<Longrightarrow> keeps (\<lambda>w. untouched d x (view w)) (fs_Copy fs t s)"
    and "within d t \<or> x t = None \<Longrightarrow> keeps (\<lambda>w. untouched d x (view w)) (fs_Remove fs t)"
proof -
  show "keeps (\<lambda>w. untouched d x (view w)) (fs_MkdirAll fs p m)"
    using lawfulFs_Mkdir(3) [OF law(1)] unfolding untouched_def by (intro keepsI) metis
  show "keeps (\<lambda>w. untouched d x (view w)) (fs_Stat fs p)" "keeps (\<lambda>w. untouched d x (view w)) (fs_ReadFile fs p)"
    using lawfulFs_reads(1,4) [OF law(1)] by (auto intro: keepsI)
  show "keeps (\<lambda>w. untouched d x (view w)) (fs_RemoveAll fs d)"
    using lawfulFs_RemoveAll(1) [OF law(1)] unfolding untouched_def by (intro keepsI) metis
  show "keeps (\<lambda>w. untouched d x (view w)) (fs_Copy fs t s)" if "within d t \<or> x t = None"
    using law(2) that unfolding lawfulFiles_def untouched_def keeps_def by metis
  show "keeps (\<lambda>w. untouched d x (view w)) (fs_Remove fs t)" if "within d t \<or> x t = None"
    using lawfulFs_Remove(4) [OF law(1)] that unfolding untouched_def by (intro keepsI) metis
qed

lemma unzip_untouched:
  assumes "lawfulFs fs view" "lawfulFiles fs view" and "IsAbs d" "filepath_Clean d = d"
  shows "keeps (\<lambda>w. untouched d x (view w)) (unzip fs d zs)"
proof (rule keepsI)
  fix w r w' assume I: "untouched d x (view w)" and run: "unzip fs d zs w = (r, w')"
  have "contained d (view w) (view w)" by (simp add: contained_def)
  from keepsD [OF unzip_effect [OF assms] this run] have c: "contained d (view w) (view w')" .
  show "untouched d x (view w')" unfolding untouched_def
  proof (intro allI impI)
    fix q assume q: "\<not> within d q" "x q \<noteq> None"
    with I have "view w q = x q" by (simp add: untouched_def)
    with c q show "view w' q = x q" unfolding contained_def by metis
  qed
qed

lemma onDtc_untouched:
  assumes "quietDownload env view"
  shows "keeps (\<lambda>w. untouched d x (view w)) (onDtc dtc (cl_GetLatestAgent (gce_dtc env) os ty fl arch))"
proof (rule keepsI)
  fix w r w' assume I: "untouched d x (view w)" and run: "onDtc dtc (cl_GetLatestAgent (gce_dtc env) os ty fl arch) w = (r, w')"
  have "w' = snd (snd (cl_GetLatestAgent (gce_dtc env) os ty fl arch (dtc, w)))"
    using run by (auto simp: onDtc_def split: prod.splits sum.splits)
  then have "view w' = view w" using assms by (simp add: quietDownload_def)
  with I show "untouched d x (view w')" by simp
qed

lemma installAgent_untouched:
  assumes law: "lawfulFs (gce_fs env) view" "lawfulFiles (gce_fs env) view" "lawfulTemp (gce_fs env) view" "quietDownload env view"
    and d: "IsAbs d" "filepath_Clean d = d"
  shows "keeps (\<lambda>w. untouched d x (view w)) (installAgent env (gce_fs env) zipReader dtc arch d)"
proof (rule keepsI)
  fix w r w' assume I: "untouched d x (view w)" and run: "installAgent env (gce_fs env) zipReader dtc arch d w = (r, w')"
  obtain tr w1 where tmp: "fs_TempFile (gce_fs env) [] ''download'' w = (tr, w1)" by fastforce
  have old: "view w1 q = view w q" if "view w q \<noteq> None" for q
    using law(3) tmp that unfolding lawfulTemp_def by blast
  have I1: "untouched d x (view w1)" using I old unfolding untouched_def by metis
  show "untouched d x (view w')"
  proof (cases tr)
    case (Inl e)
    then show ?thesis using run tmp I1 by (simp add: installAgent_def act_simps)
  next
    case (Inr t)
    then have "view w t = None" using law(3) tmp unfolding lawfulTemp_def by fastforce
    with I have t: "within d t \<or> x t = None" unfolding untouched_def by metis
    note ops = untouched_ops [OF law(1,2)] untouched_ops(5) [where d = d and x = x and t = t, OF law(1,2) t] untouched_ops(6) [where d = d and x = x and t = t, OF law(1,2) t] unzip_untouched [OF law(1,2) d] onDtc_untouched [OF law(4)]
    have split: "keeps I (case y of (a, b) \<Rightarrow> m a b)" if "\<And>a b. keeps I (m a b)" for I y and m :: "'k \<Rightarrow> 'l \<Rightarrow> ('w, 'm) act"
      using that by (cases y) simp
    note tmp' = wrapE_run tmp Inr
    show ?thesis
      using run unfolding installAgent_def Let_def
      apply (subst (asm) bindE_run)
      apply (simp add: tmp' del: catchE_run)
      apply (erule keepsD [rotated 2])
       apply (intro keeps_intros ops split t)
      apply (rule I1)
      done
  qed
qed

lemma installAgentVersion_untouched:
  assumes law: "lawfulFs (gce_fs env) view" "lawfulFiles (gce_fs env) view" "lawfulTemp (gce_fs env) view" "quietDownload env view"
    and names: "cleanRoot opts" "proper tenant" "proper version"
    and run: "installAgentVersion env zipReader goarch version (under (opt_RootDir opts) [tenant]) dtc w = (r, w')"
    and q: "\<not> within (under (opt_RootDir opts) [tenant, ''bin'', version]) q" "view w q \<noteq> None"
    and other: "q \<noteq> under (opt_RootDir opts) [tenant, ''version''] \<or> isl r"
  shows "view w' q = view w q"
proof -
  obtain rs where rs: "rs \<noteq> []" "list_all proper rs" "opt_RootDir opts = absPath rs" using names(1) by (auto simp: cleanRoot_def)
  let ?d = "under (opt_RootDir opts) [tenant, ''bin'', version]"
  have "proper ''bin''" by (simp add: proper_def)
  with rs names have "?d = absPath (rs @ [tenant, ''bin'', version])" "list_all proper (rs @ [tenant, ''bin'', version])" by simp_all
  then have d: "IsAbs ?d" "filepath_Clean ?d = ?d" using IsAbs_absPath [of "rs @ [tenant, ''bin'', version]"] by (simp_all add: Clean_absPath)
  have join: "filepath_Join [under (opt_RootDir opts) [tenant], ''bin'', version] = ?d"
    "filepath_Join [under (opt_RootDir opts) [tenant], VersionDir] = under (opt_RootDir opts) [tenant, ''version'']"
    using Join_root [OF names(1), of "[tenant]" "[''bin'', version]"] Join_root [OF names(1), of "[tenant]" "[''version'']"] names
    by (simp_all add: VersionDir_def proper_def)
  define prepare where "prepare = bindE (fs_MkdirAll (gce_fs env) (filepath_Join [under (opt_RootDir opts) [tenant], GarbageCollectionPath, version]) 493) (\<lambda>_.
    catchE (fs_Stat (gce_fs env) ?d)
      (\<lambda>err. if isNotExist err
             then catchE (installAgent env (gce_fs env) zipReader dtc (if goarch = ''arm64'' then ArchARM else ArchX86) ?d)
                    (\<lambda>err. bindE (ignoreE (fs_RemoveAll (gce_fs env) ?d)) (\<lambda>_. raiseE (Wrap ''failed to install agent: '' err))) retE
             else retE ()) (\<lambda>_. retE ()))"
  have "keeps (\<lambda>s. untouched ?d (view w) (view s)) prepare"
    unfolding prepare_def by (intro keeps_intros untouched_ops law installAgent_untouched d)
  moreover obtain p w1 where prepared: "prepare w = (p, w1)" by fastforce
  ultimately have "untouched ?d (view w) (view w1)" by (auto simp: untouched_def dest: keepsD)
  with q have same: "view w1 q = view w q" by (simp add: untouched_def)
  have "bindE prepare (\<lambda>_. ignoreE (fs_WriteFile (gce_fs env) (under (opt_RootDir opts) [tenant, ''version'']) version 420)) w = (r, w')"
    using run unfolding installAgentVersion_def Let_def join prepare_def bindE_assoc .
  then have "isl r \<and> w' = w1 \<or> \<not> isl r \<and> w' = snd (fs_WriteFile (gce_fs env) (under (opt_RootDir opts) [tenant, ''version'']) version 420 w1)"
    using prepared by (auto simp: bindE_run ignoreE_run split: sum.splits)
  with other same lawfulFs_Write(2) [OF law(1)] show ?thesis by (metis prod.collapse)
qed

section \<open>Properties\<close>

text \<open>C9. Unpacking an archive never leaves the target directory, whatever names the archive has: nothing outside of the
  directory changes, except that missing directories above it are created.\<close>

theorem unzip_contained:
  assumes "lawfulFs fs view" and "lawfulFiles fs view" and "IsAbs outDir" and "filepath_Clean outDir = outDir"
    and "unzip fs outDir zs w = (r, w')" and "\<not> within outDir q"
  shows "view w' q = view w q \<or> view w q = None \<and> view w' q = Some DirNode \<and> within q outDir"
proof -
  have "contained outDir (view w) (view w)" by (simp add: contained_def)
  from keepsD [OF unzip_effect [OF assms(1-4)] this assms(5)] assms(6) show ?thesis by (simp add: contained_def)
qed

text \<open>C19. Installing a version works beside the others: whatever happens during the download and the unpacking, every file and directory that
  was there outside of the directory of this version is as it was, apart from the file that names the version; and that file is
  as it was when the installation fails, so the node goes on with the version it has.\<close>

theorem install_works_beside:
  assumes "lawfulFs (gce_fs env) view" and "lawfulFiles (gce_fs env) view" and "lawfulTemp (gce_fs env) view" and "quietDownload env view"
    and "cleanRoot opts" and "proper tenant" and "proper version"
    and "installAgentVersion env zipReader goarch version (under (opt_RootDir opts) [tenant]) dtc w = (r, w')"
    and "\<not> within (under (opt_RootDir opts) [tenant, ''bin'', version]) q" and "view w q \<noteq> None"
    and "q \<noteq> under (opt_RootDir opts) [tenant, ''version''] \<or> isl r"
  shows "view w' q = view w q"
  using assms by (rule installAgentVersion_untouched)

text \<open>An update trusts the file that names the version: if it names the version that is wanted, the update touches nothing else, although
  the binaries of this version may be gone. The garbage collection, which goes by the latest version of the API and not by the version in the
  status, can have removed them; the node service would then mount a directory that does not exist.\<close>

theorem update_trusts_version_file:
  assumes law: "lawfulFs (gce_fs env) view" and names: "cleanRoot opts" "proper tenant"
    and installed: "view w (under (opt_RootDir opts) [tenant, ''version'']) = Some (FileNode (st_LatestAgentVersionUnixPaas (dk_Status dk)))"
    and run: "updateAgent env zipReader goarch dk dtc (under (opt_RootDir opts) [tenant]) w = (Inr (), w')"
  shows "view w' = view w"
proof -
  let ?f = "under (opt_RootDir opts) [tenant, ''version'']" and ?v = "st_LatestAgentVersionUnixPaas (dk_Status dk)"
  have join: "filepath_Join [under (opt_RootDir opts) [tenant], VersionDir] = ?f"
    using Join_root [OF names(1), of "[tenant]" "[''version'']"] names(2) by (simp add: VersionDir_def proper_def)
  obtain c w1 where read: "readOrEmpty (gce_fs env) ?f ''failed to query installed OneAgent latestAgentVersion: '' w = (Inr c, w1)"
    using run unfolding updateAgent_def Let_def join by (auto simp: bindE_run split: prod.splits sum.splits)
  obtain s w2 where file_read: "fs_ReadFile (gce_fs env) ?f w = (s, w2)" by fastforce
  note facts = lawfulFs_reads(1) [OF law file_read] lawfulFs_reads(2,3) [OF law, of ?f w _ w2] installed
  have "c = ?v \<and> w1 = w2"
    using read file_read facts by (cases s) (auto simp: readOrEmpty_def catchE_run split: if_splits)
  then have "fs_WriteFile (gce_fs env) ?f ?v 420 w2 = (Inr (), w')"
    using run read unfolding updateAgent_def Let_def join by (simp add: bindE_run)
  from lawfulFs_Write(1) [OF law this refl] facts(1) installed show ?thesis by (simp add: fun_upd_idem)
qed

lemma exampleGc_files: "lawfulFiles (gce_fs exampleGc) nodeFiles" "lawfulTemp (gce_fs exampleGc) nodeFiles" "quietDownload exampleGc nodeFiles"
proof -
  have "gce_fs exampleGc = fsOnPart nd_Files (\<lambda>x w. w\<lparr>nd_Files := x\<rparr>) listFs" by (simp add: exampleGc_def exampleCsi_def)
  then show "lawfulFiles (gce_fs exampleGc) nodeFiles" "lawfulTemp (gce_fs exampleGc) nodeFiles"
    using lawfulFiles_fsOnPart [where get = nd_Files and put = "\<lambda>x w. w\<lparr>nd_Files := x\<rparr>"] lawfulFiles_listFs by simp_all
  show "quietDownload exampleGc nodeFiles" by (simp add: quietDownload_def exampleGc_def)
qed

definition exampleEntry :: "string \<Rightarrow> zipEntry" where
  "exampleEntry name = \<lparr>ze_Name = name, ze_Mode = 420, ze_IsDir = False, ze_Open = Inr (), ze_Content = ''evil'', ze_ReadErr = None\<rparr>"

theorem unzip_contained_witness:
  "\<exists>r w'. unzip (gce_fs exampleGc) ''/data/uuid/bin/v1'' [exampleEntry ''agent/conf/a'', exampleEntry ''../../version''] exampleNode = (r, w') \<and>
     isl r \<and> nodeFiles w' ''/data/uuid/bin/v1/agent/conf/a'' = Some (FileNode ''evil'') \<and> nodeFiles w' ''/data/uuid/version'' = Some (FileNode ''v1'')"
proof -
  let ?run = "unzip (gce_fs exampleGc) ''/data/uuid/bin/v1'' [exampleEntry ''agent/conf/a'', exampleEntry ''../../version''] exampleNode"
  obtain r w' where run: "?run = (r, w')" by fastforce
  have out: "isl (fst ?run)" "nodeFiles (snd ?run) ''/data/uuid/bin/v1/agent/conf/a'' = Some (FileNode ''evil'')" by code_simp+
  have clean: "IsAbs ''/data/uuid/bin/v1''" "filepath_Clean ''/data/uuid/bin/v1'' = ''/data/uuid/bin/v1''" by code_simp+
  have "\<not> within ''/data/uuid/bin/v1'' ''/data/uuid/version''" "nodeFiles exampleNode ''/data/uuid/version'' = Some (FileNode ''v1'')"
    by (simp_all add: within_def exampleNode_def)
  with unzip_contained [OF exampleGc_laws(1) exampleGc_files(1) clean run] out run show ?thesis by fastforce
qed

theorem install_works_beside_witness:
  "\<exists>e w'. installAgentVersion exampleGc (\<lambda>_. Inr []) ''amd64'' ''v2'' (under ''/data'' [''uuid'']) () exampleNode = (Inl e, w') \<and>
     nodeFiles w' (under ''/data'' [''uuid'', ''version'']) = Some (FileNode ''v1'')"
proof -
  let ?run = "installAgentVersion exampleGc (\<lambda>_. Inr []) ''amd64'' ''v2'' (under (opt_RootDir exampleOpts) [''uuid'']) () exampleNode"
  have "isl (fst ?run)" by code_simp
  then obtain e w' where run: "?run = (Inl e, w')" by (metis isl_def prod.collapse)
  have "proper ''uuid''" "proper ''v2''" by (simp_all add: proper_def)
  moreover have "nodeFiles exampleNode (under (opt_RootDir exampleOpts) [''uuid'', ''version'']) = Some (FileNode ''v1'')"
    "\<not> within (under (opt_RootDir exampleOpts) [''uuid'', ''bin'', ''v2'']) (under (opt_RootDir exampleOpts) [''uuid'', ''version''])"
    by code_simp+
  ultimately show ?thesis
    using install_works_beside [OF exampleGc_laws(1) exampleGc_files exampleOpts_root _ _ run, of "under (opt_RootDir exampleOpts) [''uuid'', ''version'']"] run
    by (simp add: exampleOpts_def)
qed

text \<open>The wanted version is \<open>v1\<close>, no pod uses it, and the API has a newer one: it is collected and stays away.\<close>

definition exampleWanted :: DynaKube where
  "exampleWanted = zeroDynaKube\<lparr>dk_Status := (dk_Status zeroDynaKube)\<lparr>st_LatestAgentVersionUnixPaas := ''v1''\<rparr>\<rparr>"

definition exampleInstalled :: csiNode where
  "exampleInstalled = exampleNode\<lparr>nd_Files := nd_Files exampleNode @
     [(''/data/uuid/gc'', DirNode), (''/data/uuid/gc/v1'', DirNode), (''/data/uuid/bin/v1'', DirNode), (''/data/uuid/bin/v1/agent'', FileNode ''a'')]\<rparr>"

theorem update_trusts_version_file_witness:
  "\<exists>w1 w2. runBinaryGarbageCollection exampleGc exampleOpts ''uuid'' ''v2'' exampleInstalled = (Inr (), w1) \<and>
     updateAgent exampleGc (\<lambda>_. Inr []) ''amd64'' exampleWanted () (under ''/data'' [''uuid'']) w1 = (Inr (), w2) \<and>
     nodeFiles w2 ''/data/uuid/version'' = Some (FileNode ''v1'') \<and> nodeFiles w2 ''/data/uuid/bin/v1'' = None"
proof -
  let ?gc = "runBinaryGarbageCollection exampleGc exampleOpts ''uuid'' ''v2'' exampleInstalled"
  let ?up = "updateAgent exampleGc (\<lambda>_. Inr []) ''amd64'' exampleWanted () (under (opt_RootDir exampleOpts) [''uuid'']) (snd ?gc)"
  have runs: "fst ?gc = Inr ()" "fst ?up = Inr ()" by code_simp+
  have gone: "nodeFiles (snd ?gc) ''/data/uuid/bin/v1'' = None" "nodeFiles (snd ?gc) ''/data/uuid/version'' = Some (FileNode ''v1'')"
    "under (opt_RootDir exampleOpts) [''uuid'', ''version''] = ''/data/uuid/version''" by code_simp+
  have up: "?up = (Inr (), snd ?up)" using runs(2) by (metis prod.collapse)
  have "proper ''uuid''" "st_LatestAgentVersionUnixPaas (dk_Status exampleWanted) = ''v1''" by (simp_all add: proper_def exampleWanted_def)
  then have "nodeFiles (snd ?up) = nodeFiles (snd ?gc)"
    using gone by (intro update_trusts_version_file [OF exampleGc_laws(1) exampleOpts_root _ _ up]) simp_all
  with gone runs(1) up show ?thesis by (intro exI [of _ "snd ?gc"] exI [of _ "snd ?up"]) (simp add: prod_eq_iff exampleOpts_def)
qed

end
