(* ===== verification/Csi_Lifecycle.thy ===== *)
theory Csi_Lifecycle
  imports Csi_Provisioner
begin

text \<open>
  The parts of the CSI driver together: the node service, the provisioner and the garbage collections work on the same
  directories of a node at the same time. A step relation interleaves their operations; its
  invariant is what a pod with a mounted volume relies on.
\<close>

section \<open>Steps\<close>

text \<open>
  What the parts promise to each other: both views of the file system are one; the counters, the client and the look
  at the mounts leave it alone; mounting and unmounting change what is at the mount point.
\<close>

definition csiLaws :: "'w csi_env \<Rightarrow> ('d, 'w) gc_env \<Rightarrow> ('w \<Rightarrow> fsview) \<Rightarrow> bool" where
  "csiLaws env gc view \<longleftrightarrow>
     lawfulFs (ce_fs env) view \<and> leaves (ce_namespaces env) view \<and>
     lawfulFs (gce_fs gc) view \<and> lawfulFiles (gce_fs gc) view \<and> lawfulTemp (gce_fs gc) view \<and> quietDownload gc view \<and> quietGc gc view \<and>
     (\<forall>p w. view (snd (ce_IsNotMountPoint env p w)) = view w) \<and> (\<forall>v w. view (ce_Inc env v w) = view w) \<and> (\<forall>v w. view (ce_Dec env v w) = view w) \<and>
     (\<forall>src p t opts w q. \<not> within p q \<longrightarrow> view (snd (ce_Mount env src p t opts w)) q = view w q) \<and>
     (\<forall>p w q. \<not> within p q \<longrightarrow> view (snd (ce_Unmount env p w)) q = view w q)"

text \<open>A target path is away from the directory of the driver.\<close>

definition away :: "CSIOptions \<Rightarrow> string \<Rightarrow> bool" where
  "away opts target \<longleftrightarrow> \<not> within target (opt_RootDir opts) \<and> \<not> within (opt_RootDir opts) target"

text \<open>The metadata of a volume, if they can be read, are those that were stored for it.\<close>

definition ownMetadata :: "'w csi_env \<Rightarrow> CSIOptions \<Rightarrow> fsview \<Rightarrow> string \<Rightarrow> bool" where
  "ownMetadata env opts files v \<longleftrightarrow>
     (\<forall>data. files (under (opt_RootDir opts) [''gc'', v]) = Some (FileNode data) \<longrightarrow>
        (\<exists>t u. proper t \<and> proper u \<and>
           snd (ce_unmarshal env data) =
             \<lparr>vmd_UsageFilePath = under (opt_RootDir opts) [t, ''gc'', u, v], vmd_OverlayFSPath = under (opt_RootDir opts) [t, ''run'', v]\<rparr>))"

inductive csiStep ::
  "'w csi_env \<Rightarrow> ('d, 'w) gc_env \<Rightarrow> (string \<Rightarrow> goerr + zipEntry list) \<Rightarrow> string \<Rightarrow> CSIOptions \<Rightarrow> ('w \<Rightarrow> fsview) \<Rightarrow> string \<Rightarrow> 'w \<Rightarrow> 'w \<Rightarrow> bool"
  for env gc zipReader goarch opts view vol where
  collect: "proper t \<Longrightarrow> csiStep env gc zipReader goarch opts view vol w (snd (runBinaryGarbageCollection gc opts t latest w))"
| collectLogs: "proper t \<Longrightarrow> csiStep env gc zipReader goarch opts view vol w (snd (runLogGarbageCollection gc opts t w))"
| publish: "req_VolumeId req \<noteq> vol \<Longrightarrow> proper (req_VolumeId req) \<Longrightarrow> away opts (req_TargetPath req) \<Longrightarrow> provisioned opts (view w) \<Longrightarrow>
    csiStep env gc zipReader goarch opts view vol w (snd (NodePublishVolume env opts req w))"
| unpublish: "v \<noteq> vol \<Longrightarrow> proper v \<Longrightarrow> away opts target \<Longrightarrow> ownMetadata env opts (view w) v \<Longrightarrow>
    csiStep env gc zipReader goarch opts view vol w (snd (NodeUnpublishVolume env opts v target w))"
| update: "proper t \<Longrightarrow> proper (st_LatestAgentVersionUnixPaas (dk_Status dk)) \<Longrightarrow>
    csiStep env gc zipReader goarch opts view vol w (snd (updateAgent gc zipReader goarch dk dtc (under (opt_RootDir opts) [t]) w))"

section \<open>Lemmas: what a mounted volume relies on\<close>

definition guarded :: "CSIOptions \<Rightarrow> string \<Rightarrow> string \<Rightarrow> string \<Rightarrow> string \<Rightarrow> bool" where
  "guarded opts tenant version vol q \<longleftrightarrow>
     within (under (opt_RootDir opts) [tenant, ''bin'', version]) q \<or> q = under (opt_RootDir opts) [tenant, ''gc'', version, vol]"

definition held :: "CSIOptions \<Rightarrow> string \<Rightarrow> string \<Rightarrow> string \<Rightarrow> fsview \<Rightarrow> fsview \<Rightarrow> bool" where
  "held opts tenant version vol x y \<longleftrightarrow> (\<forall>q. guarded opts tenant version vol q \<and> x q \<noteq> None \<longrightarrow> y q = x q)"

lemma within_trans: "within p q \<Longrightarrow> within q r \<Longrightarrow> within p r"
  by (auto simp: within_def prefix_def)

lemma within_self [simp]: "within p p"
  by (simp add: within_def)

lemma within_apart_at:
  assumes "proper b" "proper c" "b \<noteq> c" and "within (under d (a # b # bs)) q"
  shows "\<not> within (under d (a # c # cs)) q"
  using within_apart [of b c "under d [a]" bs q cs] assms by simp

lemma guarded_in: "guarded opts tenant version vol q \<Longrightarrow>
    \<exists>b. b \<in> {''bin'', ''gc''} \<and> within (under (opt_RootDir opts) [tenant, b, version]) q"
  using within_child [of "opt_RootDir opts" "[tenant, ''gc'', version]" "[vol]"] by (auto simp: guarded_def)

lemma guarded_ofVersion: "guarded opts tenant version vol q \<Longrightarrow> ofVersion opts tenant version q"
  using guarded_in by (fastforce simp: ofVersion_def)

lemma guarded_apart:
  assumes "guarded opts tenant version vol q" and "proper tenant" "proper t" "proper x" and "t \<noteq> tenant \<or> x \<notin> {''bin'', ''gc''}"
  shows "\<not> within (under (opt_RootDir opts) (t # x # xs)) q"
proof -
  obtain b where b: "b \<in> {''bin'', ''gc''}" "within (under (opt_RootDir opts) [tenant, b, version]) q" using guarded_in [OF assms(1)] by blast
  show ?thesis
  proof (cases "t = tenant")
    case False
    then show ?thesis using within_apart [of tenant t "opt_RootDir opts" "[b, version]" q "x # xs"] assms(2,3) b(2) by blast
  next
    case True
    have "proper b" using b(1) by auto
    then show ?thesis using within_apart_at [of b x "opt_RootDir opts" tenant "[version]" q xs] assms(4,5) b True by auto
  qed
qed

lemma guarded_not:
  assumes "guarded opts tenant version vol q" and "proper tenant" "proper version" "proper vol"
  shows "proper t \<Longrightarrow> q \<noteq> under (opt_RootDir opts) [t, ''version'']"
    and "proper v \<Longrightarrow> tenant \<noteq> ''gc'' \<Longrightarrow> q \<noteq> under (opt_RootDir opts) [''gc'', v]"
    and "proper t \<Longrightarrow> proper u \<Longrightarrow> proper v \<Longrightarrow> v \<noteq> vol \<Longrightarrow> q \<noteq> under (opt_RootDir opts) [t, ''gc'', u, v]"
proof -
  show "q \<noteq> under (opt_RootDir opts) [t, ''version'']" if "proper t"
    using guarded_apart [OF assms(1,2) that, of "''version''" "[]"] by auto
  show "q \<noteq> under (opt_RootDir opts) [''gc'', v]" if "proper v" "tenant \<noteq> ''gc''"
    using guarded_apart [OF assms(1,2) _ that(1), of "''gc''" "[]"] that(2) by auto
  show "q \<noteq> under (opt_RootDir opts) [t, ''gc'', u, v]" if "proper t" "proper u" "proper v" "v \<noteq> vol"
  proof
    assume q: "q = under (opt_RootDir opts) [t, ''gc'', u, v]"
    have "q \<noteq> under (opt_RootDir opts) [tenant, ''gc'', version, vol]"
      using under_inj [of "[t, ''gc'', u, v]" "[tenant, ''gc'', version, vol]" "opt_RootDir opts"] that assms(2-4) q by simp
    then have bin: "within (under (opt_RootDir opts) [tenant, ''bin'', version]) q"
      using assms(1) by (simp add: guarded_def)
    show False
    proof (cases "t = tenant")
      case True
      then show False using within_apart_at [OF _ _ _ bin, of "''gc''" "[u, v]"] q by simp
    next
      case False
      then show False using guarded_apart [OF assms(1,2) that(1), of "''gc''" "[u, v]"] q by simp
    qed
  qed
qed

lemma guarded_away: "guarded opts tenant version vol q \<Longrightarrow> away opts target \<Longrightarrow> \<not> within target q"
proof
  assume q: "guarded opts tenant version vol q" "away opts target" "within target q"
  obtain b where "within (under (opt_RootDir opts) [tenant, b, version]) q" using guarded_in [OF q(1)] by blast
  then have "within (opt_RootDir opts) q" using within_child [of "opt_RootDir opts" "[]" "[tenant, b, version]"] within_trans by fastforce
  with q(2,3) within_comparable [of target q "opt_RootDir opts"] show False by (auto simp: away_def)
qed

text \<open>Any creation of directories holds; so does what changes a path that is not guarded.\<close>

lemma held_mkdir: "lawfulFs fs view \<Longrightarrow> keeps (\<lambda>w. held opts tenant version vol x (view w)) (fs_MkdirAll fs p m)"
proof (rule keepsI)
  fix w r w' assume law: "lawfulFs fs view" and I: "held opts tenant version vol x (view w)" and run: "fs_MkdirAll fs p m w = (r, w')"
  have "view w' q = view w q" if "view w q \<noteq> None" for q using lawfulFs_Mkdir(3) [OF law run that] .
  with I show "held opts tenant version vol x (view w')" unfolding held_def by metis
qed

lemma held_run:
  "keeps (\<lambda>w. held opts tenant version vol x (view w)) m \<Longrightarrow> held opts tenant version vol x (view w) \<Longrightarrow>
    held opts tenant version vol x (view (snd (m w)))"
  by (cases "m w") (auto dest: keepsD)

lemma held_local:
  assumes "\<And>w q. guarded opts tenant version vol q \<Longrightarrow> view (snd (m w)) q = view w q"
  shows "keeps (\<lambda>w. held opts tenant version vol x (view w)) m"
  unfolding held_def by (rule keepsI) (metis assms snd_conv)

lemma held_same: "(\<And>w. view (snd (m w)) = view w) \<Longrightarrow> keeps (\<lambda>w. held opts tenant version vol x (view w)) m"
  by (rule held_local) simp

section \<open>Lemmas: every step holds\<close>

definition mountedSetting ::
  "'w csi_env \<Rightarrow> ('d, 'w) gc_env \<Rightarrow> CSIOptions \<Rightarrow> ('w \<Rightarrow> fsview) \<Rightarrow> string \<Rightarrow> string \<Rightarrow> string \<Rightarrow> fsview \<Rightarrow> bool" where
  "mountedSetting env gc opts view tenant version vol x \<longleftrightarrow>
     csiLaws env gc view \<and> cleanRoot opts \<and> proper tenant \<and> proper version \<and> proper vol \<and> tenant \<noteq> ''gc'' \<and>
     x (under (opt_RootDir opts) [tenant, ''bin'', version]) \<noteq> None \<and> x (under (opt_RootDir opts) [tenant, ''gc'', version, vol]) \<noteq> None"

lemma settingD:
  assumes "mountedSetting env gc opts view tenant version vol x"
  shows "cleanRoot opts" "proper tenant" "proper version" "proper vol" "tenant \<noteq> ''gc''" "lawfulFs (ce_fs env) view" "leaves (ce_namespaces env) view"
    "lawfulFs (gce_fs gc) view" "lawfulFiles (gce_fs gc) view" "lawfulTemp (gce_fs gc) view" "quietDownload gc view" "quietGc gc view"
    "view (snd (ce_IsNotMountPoint env p w)) = view w" "view (ce_Inc env v w) = view w" "view (ce_Dec env v w) = view w"
    "\<not> within p q \<Longrightarrow> view (snd (ce_Mount env src p ty os w)) q = view w q" "\<not> within p q \<Longrightarrow> view (snd (ce_Unmount env p w)) q = view w q"
  using assms unfolding mountedSetting_def csiLaws_def by blast+

lemma held_there:
  assumes "mountedSetting env gc opts view tenant version vol x" and "held opts tenant version vol x y"
  shows "y (under (opt_RootDir opts) [tenant, ''bin'', version]) \<noteq> None" "y (under (opt_RootDir opts) [tenant, ''gc'', version, vol]) \<noteq> None"
  using assms by (auto simp: mountedSetting_def held_def guarded_def)

lemma held_remove:
  assumes "lawfulFs fs view"
  shows "(\<And>q. guarded opts tenant version vol q \<Longrightarrow> q \<noteq> p) \<Longrightarrow> keeps (\<lambda>w. held opts tenant version vol x (view w)) (fs_Remove fs p)"
    and "(\<And>q. guarded opts tenant version vol q \<Longrightarrow> \<not> within p q) \<Longrightarrow> keeps (\<lambda>w. held opts tenant version vol x (view w)) (fs_RemoveAll fs p)"
    and "(\<And>q. guarded opts tenant version vol q \<Longrightarrow> q \<noteq> p) \<Longrightarrow> keeps (\<lambda>w. held opts tenant version vol x (view w)) (fs_WriteFile fs p s m)"
  using lawfulFs_Remove(4) [OF assms] lawfulFs_RemoveAll(1) [OF assms] lawfulFs_Write(2) [OF assms]
  by (intro held_local; metis prod.collapse)+

lemma held_reads:
  assumes "lawfulFs fs view"
  shows "keeps (\<lambda>w. held opts tenant version vol x (view w)) (fs_ReadFile fs p)" "keeps (\<lambda>w. held opts tenant version vol x (view w)) (fs_Stat fs p)"
    "keeps (\<lambda>w. held opts tenant version vol x (view w)) (fs_ReadDir fs p)" "keeps (\<lambda>w. held opts tenant version vol x (view w)) (fs_DirExists fs p)"
  using lawfulFs_leaves [OF assms] by (simp_all add: keeps_def)

text \<open>Garbage collection.\<close>

lemma collect_held:
  assumes S: "mountedSetting env gc opts view tenant version vol x" and t: "proper t"
  shows "keeps (\<lambda>w. held opts tenant version vol x (view w)) (runBinaryGarbageCollection gc opts t latest)"
proof (rule keepsI)
  fix w r w' assume I: "held opts tenant version vol x (view w)" and run: "runBinaryGarbageCollection gc opts t latest w = (r, w')"
  note D = settingD [OF S]
  show "held opts tenant version vol x (view w')"
  proof (cases "t = tenant")
    case True
    have "versionUsed opts tenant latest (view w) version" using held_there(2) [OF S I] D(4) by (auto simp: versionUsed_def)
    from runBinaryGarbageCollection_keeps [OF D(8,12,1-3) this run [unfolded True]] I guarded_ofVersion show ?thesis
      unfolding held_def by metis
  next
    case False
    let ?Q = "\<lambda>q. guarded opts tenant version vol q \<and> x q \<noteq> None"
    have collect: "keeps (\<lambda>w. \<forall>q. ?Q q \<longrightarrow> view w q = x q) (collectVersion gc opts t latest i)" if "proper (fi_Name i)" for i
    proof -
      have "\<not> within (under (opt_RootDir opts) [t, ''bin'', fi_Name i]) q \<and> \<not> within (under (opt_RootDir opts) [t, ''gc'', fi_Name i]) q" if "?Q q" for q
        using guarded_apart [of opts tenant version vol q t] that D(2) t False by auto
      moreover have "keeps (\<lambda>w. \<forall>q. ?Q q \<longrightarrow> view w q = x q) (fs_ReadDir (gce_fs gc) p)" for p
        using lawfulFs_leaves(3) [OF D(8)] by (simp add: keeps_def)
      ultimately show ?thesis unfolding collectVersion_def Let_def collect_paths(2,3) [OF D(1) t that] shouldDeleteVersion_def
        by (intro keeps_intros removeUnusedVersion_keeps D(8,12)) blast+
    qed
    have start: "view (gce_runs gc w) = view w" using D(12) by (simp add: quietGc_def)
    obtain l w1 where refs: "getVersionReferences gc opts t (gce_runs gc w) = (l, w1)" by fastforce
    note same = getVersionReferences_effect(1) [OF D(8,1) t refs]
    show ?thesis
    proof (cases l)
      case (Inl e)
      then show ?thesis using run refs same start I by (simp add: runBinaryGarbageCollection_def bindE_run)
    next
      case (Inr infos)
      have "keeps (\<lambda>w. \<forall>q. ?Q q \<longrightarrow> view w q = x q) (foreachE infos (collectVersion gc opts t latest))"
        using getVersionReferences_effect(2) [OF D(8,1) t refs Inr] by (intro keeps_foreachE collect)
      moreover have "foreachE infos (collectVersion gc opts t latest) w1 = (r, w')"
        using run refs Inr by (simp add: runBinaryGarbageCollection_def bindE_run)
      moreover have "\<forall>q. ?Q q \<longrightarrow> view w1 q = x q" using I same start by (simp add: held_def)
      ultimately have "\<forall>q. ?Q q \<longrightarrow> view w' q = x q"
        using keepsD [where I = "\<lambda>w. \<forall>q. ?Q q \<longrightarrow> view w q = x q" and s = w1 and s' = w' and r = r] by blast
      then show ?thesis by (simp add: held_def)
    qed
  qed
qed

lemma unusedVolumes_subset: "unusedVolumes fs dir ids w = (Inr unused, w') \<Longrightarrow> set unused \<subseteq> set ids"
  by (induction ids arbitrary: w unused) (fastforce simp: bindE_run split: prod.splits sum.splits if_splits)+

lemma collectLogs_held:
  assumes S: "mountedSetting env gc opts view tenant version vol x" and t: "proper t"
  shows "keeps (\<lambda>w. held opts tenant version vol x (view w)) (runLogGarbageCollection gc opts t)"
proof (rule keepsI)
  fix w r w' assume I: "held opts tenant version vol x (view w)" and run: "runLogGarbageCollection gc opts t w = (r, w')"
  note D = settingD [OF S]
  have base: "filepath_Join [opt_RootDir opts, t, ''run''] = under (opt_RootDir opts) [t, ''run'']"
    using Join_root_simple [OF D(1), of "[t, ''run'']"] t by simp
  obtain g w1 where info: "getLogFileInfo (gce_fs gc) (under (opt_RootDir opts) [t, ''run'']) w = (g, w1)" by fastforce
  have "keeps (\<lambda>s. view s = view w) (getLogFileInfo (gce_fs gc) (under (opt_RootDir opts) [t, ''run'']))"
    unfolding getLogFileInfo_def getUnusedVolumeIDs_def split_def
    by (intro keeps_intros lawfulFs_leaves [OF D(8)] countLogs_leaves [OF D(8)] unusedVolumes_leaves [OF D(8)])
  from keepsD [OF this refl info] I have I1: "held opts tenant version vol x (view w1)" by simp
  show "held opts tenant version vol x (view w')"
  proof (cases g)
    case (Inl e)
    then show ?thesis using run info I1 by (simp add: runLogGarbageCollection_def base Let_def)
  next
    case (Inr logs)
    have unused: "proper (fi_Name i)" if "i \<in> set (lf_UnusedVolumeIDs logs)" for i
    proof -
      obtain infos s s' where "fs_ReadDir (gce_fs gc) (under (opt_RootDir opts) [t, ''run'']) w = (Inr infos, s)"
        "unusedVolumes (gce_fs gc) (under (opt_RootDir opts) [t, ''run'']) infos s = (Inr (lf_UnusedVolumeIDs logs), s')"
        using info Inr by (auto simp: getLogFileInfo_def getUnusedVolumeIDs_def bindE_run split: prod.splits sum.splits)
      with unusedVolumes_subset [OF this(2)] lawfulFs_reads(8) [OF D(8) this(1)] that show ?thesis by blast
    qed
    have "keeps (\<lambda>w. held opts tenant version vol x (view w)) (fs_RemoveAll (gce_fs gc) (filepath_Join [under (opt_RootDir opts) [t, ''run''], fi_Name i]))"
      if "i \<in> set (lf_UnusedVolumeIDs logs)" for i
      using Join_root [OF D(1), of "[t, ''run'']" "[fi_Name i]"] unused [OF that] t D(2)
      by (intro held_remove(2) [OF D(8)]) (simp add: guarded_apart)
    moreover have "keeps (\<lambda>w. held opts tenant version vol x (view w)) (isOlderThanTwoWeeks gc tm)" for tm
      using D(12) by (intro held_same) (simp add: isOlderThanTwoWeeks_def quietGc_def split: prod.splits, metis snd_conv)
    ultimately have "keeps (\<lambda>w. held opts tenant version vol x (view w))
        (removeLogsIfNecessary gc logs maxLogFolderSizeBytes maxNumberOfLogFiles (under (opt_RootDir opts) [t, ''run'']))"
      unfolding removeLogsIfNecessary_def tryRemoveLogFolders_def by (intro keeps_intros)
    moreover have "removeLogsIfNecessary gc logs maxLogFolderSizeBytes maxNumberOfLogFiles (under (opt_RootDir opts) [t, ''run'']) w1 = (r, w')"
      using run info Inr by (simp add: runLogGarbageCollection_def base Let_def)
    ultimately show ?thesis using held_run [where w = w1 and view = view] I1 by (metis snd_conv)
  qed
qed

text \<open>The node service, for other volumes.\<close>

lemma mountOneAgent_held:
  assumes S: "mountedSetting env gc opts view tenant version vol x"
    and vc: "proper (vcf_volumeId vc)" "away opts (vcf_targetPath vc)" and bc: "proper t" "bc_envDir bc = under (opt_RootDir opts) [t]"
  shows "keeps (\<lambda>w. held opts tenant version vol x (view w)) (mountOneAgent env bc vc)"
proof -
  note D = settingD [OF S]
  let ?run = "under (opt_RootDir opts) [t, ''run'', vcf_volumeId vc]"
  have join: "filepath_Join [bc_envDir bc, ''run'', vcf_volumeId vc] = ?run" "filepath_Join [?run, ''mapped''] = under (opt_RootDir opts) [t, ''run'', vcf_volumeId vc, ''mapped'']"
    using Join_root [OF D(1), of "[t]" "[''run'', vcf_volumeId vc]"] Join_root [OF D(1), of "[t, ''run'', vcf_volumeId vc]" "[''mapped'']"] vc bc by simp_all
  have apart: "\<not> within (under (opt_RootDir opts) [t, ''run'', vcf_volumeId vc, ''mapped'']) q" "\<not> within (vcf_targetPath vc) q"
    if "guarded opts tenant version vol q" for q
    using guarded_apart [OF that D(2) bc(1)] guarded_away [OF that vc(2)] by simp_all
  then have "keeps (\<lambda>w. held opts tenant version vol x (view w)) (ce_Mount env src (under (opt_RootDir opts) [t, ''run'', vcf_volumeId vc, ''mapped'']) ty os)"
    "keeps (\<lambda>w. held opts tenant version vol x (view w)) (ce_Mount env src (vcf_targetPath vc) ty os)"
    "keeps (\<lambda>w. held opts tenant version vol x (view w)) (ce_Unmount env (under (opt_RootDir opts) [t, ''run'', vcf_volumeId vc, ''mapped'']))" for src ty os
    by (intro held_local; simp add: D(16,17))+
  then show ?thesis unfolding mountOneAgent_def Let_def join by (intro keeps_intros held_mkdir D(6))
qed

lemma storeVolumeMetadata_held:
  assumes S: "mountedSetting env gc opts view tenant version vol x" and v: "proper v" "v \<noteq> vol"
    and bc: "proper t" "proper u" "bc_volumeToVersionReferenceDir bc = under (opt_RootDir opts) [t, ''gc'', u]"
  shows "keeps (\<lambda>w. held opts tenant version vol x (view w)) (storeVolumeMetadata env opts bc v)"
proof -
  note D = settingD [OF S]
  have join: "filepath_Join [bc_volumeToVersionReferenceDir bc, v] = under (opt_RootDir opts) [t, ''gc'', u, v]"
    "filepath_Join [opt_RootDir opts, GarbageCollectionPath, v] = under (opt_RootDir opts) [''gc'', v]"
    using Join_root [OF D(1), of "[t, ''gc'', u]" "[v]"] Join_root_simple [OF D(1), of "[''gc'', v]"] v bc by (simp_all add: GarbageCollectionPath_def)
  show ?thesis unfolding storeVolumeMetadata_def Let_def join
    using guarded_not(2) [OF _ D(2-4) v(1) D(5)] guarded_not(3) [OF _ D(2-4) bc(1,2) v]
    by (intro keeps_intros held_remove(3) [OF D(6)])
qed

lemma publish_held:
  assumes S: "mountedSetting env gc opts view tenant version vol x"
    and req: "req_VolumeId req \<noteq> vol" "proper (req_VolumeId req)" "away opts (req_TargetPath req)"
    and I: "held opts tenant version vol x (view w)" and files: "provisioned opts (view w)"
  shows "held opts tenant version vol x (view (snd (NodePublishVolume env opts req w)))"
proof (cases "parsePublishVolumeRequest req")
  case (Inl e)
  with I show ?thesis by (simp add: NodePublishVolume_def bindE_run)
next
  case vc: (Inr vc)
  note D = settingD [OF S]
  note fields = parsePublish_fields [OF vc]
  obtain m w1 where mounted: "isMounted env (vcf_targetPath vc) w = (m, w1)" by fastforce
  have "keeps (\<lambda>s. view s = view w) (isMounted env (vcf_targetPath vc))"
    unfolding isMounted_def by (intro keeps_intros) (simp add: keeps_def D(13))
  from keepsD [OF this refl mounted] have w1: "view w1 = view w" .
  obtain b w2 where bind: "newBindConfig env opts vc w1 = (b, w2)" by fastforce
  have ns: "keeps (\<lambda>w. held opts tenant version vol x (view w)) (kGet (ce_namespaces env) k)" for k
    using leaves_keeps(1) [OF D(7)] by (simp add: keeps_def)
  have "keeps (\<lambda>w. held opts tenant version vol x (view w)) (newBindConfig env opts vc)"
    unfolding newBindConfig_def Let_def by (intro keeps_intros held_reads [OF D(6)] held_mkdir [OF D(6)] ns)
  from keepsD [OF this _ bind] I w1 have I2: "held opts tenant version vol x (view w2)" by simp
  show ?thesis
  proof (cases "\<exists>bc. m = Inr False \<and> b = Inr bc")
    case False
    have "snd (NodePublishVolume env opts req w) \<in> {w1, w2}"
      using vc mounted bind False by (auto simp: NodePublishVolume_def bindE_run split: sum.splits)
    with I w1 I2 show ?thesis by auto
  next
    case True
    then obtain bc where ok: "m = Inr False" "b = Inr bc" by blast
    obtain t where bc: "proper t" "proper (bc_version bc)" "bc_envDir bc = under (opt_RootDir opts) [t]"
      "bc_volumeToVersionReferenceDir bc = under (opt_RootDir opts) [t, ''gc'', bc_version bc]"
      using newBindConfig_layout [OF D(1,6,7), of w1 vc bc w2] files w1 bind ok(2) by metis
    let ?rest = "catchE (mountOneAgent env bc vc)
              (\<lambda>err. raiseE (statusError ''Internal'' (''failed to mount oneagent volume: '' @ errorText err)))
              (\<lambda>_. catchE (storeVolumeMetadata env opts bc (vcf_volumeId vc))
                     (\<lambda>err. raiseE (statusError ''Internal'' (''Failed to store volume metadata: '' @ errorText err)))
                     (\<lambda>_. modifyE (ce_Inc env (bc_version bc))))"
    have "keeps (\<lambda>w. held opts tenant version vol x (view w)) ?rest"
      using req fields bc
      by (intro keeps_intros mountOneAgent_held [OF S] storeVolumeMetadata_held [OF S] keeps_modifyE) (simp_all add: D(14))
    moreover have "snd (NodePublishVolume env opts req w) = snd (?rest w2)"
      using vc mounted bind ok by (simp add: NodePublishVolume_def bindE_run)
    ultimately show ?thesis using held_run [where m = ?rest and w = w2 and view = view] I2 by simp
  qed
qed

lemma unpublish_held:
  assumes S: "mountedSetting env gc opts view tenant version vol x" and v: "v \<noteq> vol" "proper v" "away opts target"
    and I: "held opts tenant version vol x (view w)" and own: "ownMetadata env opts (view w) v"
  shows "held opts tenant version vol x (view (snd (NodeUnpublishVolume env opts v target w)))"
proof (cases "parseNodeUnpublishVolumeRequest v target")
  case (Inl e)
  with I show ?thesis by (simp add: NodeUnpublishVolume_def bindE_run)
next
  case parse: (Inr p)
  then have p: "p = (v, target)" by (auto simp: parseNodeUnpublishVolumeRequest_def invalidArgument_def split: if_splits)
  note D = settingD [OF S]
  have meta: "filepath_Join [opt_RootDir opts, GarbageCollectionPath, v] = under (opt_RootDir opts) [''gc'', v]"
    using Join_root_simple [OF D(1), of "[''gc'', v]"] v by (simp add: GarbageCollectionPath_def)
  obtain md w1 where load: "loadVolumeMetadata env (under (opt_RootDir opts) [''gc'', v]) w = (Inr md, w1)"
    and md: "md = zeroMetadata \<or> (\<exists>t u. proper t \<and> proper u \<and>
      md = \<lparr>vmd_UsageFilePath = under (opt_RootDir opts) [t, ''gc'', u, v], vmd_OverlayFSPath = under (opt_RootDir opts) [t, ''run'', v]\<rparr>)"
    and same: "view w1 = view w"
  proof -
    obtain r w1 where read: "fs_ReadFile (ce_fs env) (under (opt_RootDir opts) [''gc'', v]) w = (r, w1)" by fastforce
    note law = lawfulFs_reads(1) [OF D(6) read] lawfulFs_reads(2) [OF D(6)]
    show thesis
    proof (cases r)
      case (Inl e)
      with read law(1) show ?thesis by (intro that [of zeroMetadata w1]) (simp_all add: loadVolumeMetadata_def)
    next
      case (Inr data)
      with read law(2) own have "\<exists>t u. proper t \<and> proper u \<and> snd (ce_unmarshal env data) =
          \<lparr>vmd_UsageFilePath = under (opt_RootDir opts) [t, ''gc'', u, v], vmd_OverlayFSPath = under (opt_RootDir opts) [t, ''run'', v]\<rparr>"
        unfolding ownMetadata_def by blast
      with Inr read law(1) show ?thesis by (intro that [of "snd (ce_unmarshal env data)" w1]) (simp_all add: loadVolumeMetadata_def)
    qed
  qed
  let ?K = "\<lambda>m. keeps (\<lambda>w. held opts tenant version vol x (view w)) m"
  have umount: "?K (umountOneAgent env target md)"
  proof -
    have "?K (ce_Unmount env target)" using guarded_away [OF _ v(3)] by (intro held_local) (simp add: D(17))
    moreover have "?K (ce_Unmount env (filepath_Join [vmd_OverlayFSPath md, ''mapped'']))" if "md \<noteq> zeroMetadata"
    proof -
      obtain t where t: "proper t" "vmd_OverlayFSPath md = under (opt_RootDir opts) [t, ''run'', v]" using md \<open>md \<noteq> zeroMetadata\<close> by auto
      then have "filepath_Join [vmd_OverlayFSPath md, ''mapped''] = under (opt_RootDir opts) [t, ''run'', v, ''mapped'']"
        using Join_root [OF D(1), of "[t, ''run'', v]" "[''mapped'']"] v by simp
      then show ?thesis using guarded_apart [OF _ D(2) t(1)] by (intro held_local) (simp add: D(17))
    qed
    moreover have "\<not> IsAbs (vmd_OverlayFSPath zeroMetadata)" by (simp add: zeroMetadata_def IsAbs_def)
    ultimately show ?thesis unfolding umountOneAgent_def by (cases "md = zeroMetadata") (auto intro!: keeps_intros)
  qed
  have usage: "?K (if prefix (opt_RootDir opts) (vmd_UsageFilePath md)
      then removeIfPresent env (vmd_UsageFilePath md) ''failed to remove version reference for pod: '' else retE ())"
  proof (cases "md = zeroMetadata")
    case True
    then show ?thesis using root_nonempty [OF D(1)] by (simp add: zeroMetadata_def keeps_retE)
  next
    case False
    then obtain t u where t: "proper t" "proper u" "vmd_UsageFilePath md = under (opt_RootDir opts) [t, ''gc'', u, v]" using md by auto
    then show ?thesis unfolding removeIfPresent_def t(3)
      by (intro keeps_intros held_remove(1) [OF D(6)]) (auto dest: guarded_not(3) [OF _ D(2-4) t(1,2) v(2,1)])
  qed
  have metaRemove: "?K (removeIfPresent env (under (opt_RootDir opts) [''gc'', v]) ''failed to remove volume to pod reference: '')"
    unfolding removeIfPresent_def by (intro keeps_intros held_remove(1) [OF D(6)]) (auto dest: guarded_not(2) [OF _ D(2-4) v(2) D(5)])
  have target: "?K (fs_RemoveAll (ce_fs env) target)" using guarded_away [OF _ v(3)] by (intro held_remove(2) [OF D(6)])
  have metric: "?K (fireVolumeUnpublishedMetric env (vmd_UsageFilePath md))"
    unfolding fireVolumeUnpublishedMetric_def Let_def by (intro keeps_intros keeps_modifyE) (simp add: D(15))
  let ?rest = "bindE (umountOneAgent env target md) (\<lambda>_.
        bindE (if prefix (opt_RootDir opts) (vmd_UsageFilePath md)
               then removeIfPresent env (vmd_UsageFilePath md) ''failed to remove version reference for pod: '' else retE ()) (\<lambda>_.
        bindE (removeIfPresent env (under (opt_RootDir opts) [''gc'', v]) ''failed to remove volume to pod reference: '') (\<lambda>_.
        bindE (catchE (fs_RemoveAll (ce_fs env) target) (\<lambda>err. raiseE (statusError ''Internal'' (errorText err))) retE) (\<lambda>_.
          fireVolumeUnpublishedMetric env (vmd_UsageFilePath md)))))"
  have "?K ?rest" by (intro keeps_bindE keeps_catchE keeps_raiseE keeps_retE umount usage metaRemove target metric)
  moreover have "snd (NodeUnpublishVolume env opts v target w) = snd (?rest w1)"
    using parse load by (simp add: NodeUnpublishVolume_def bindE_run p meta Let_def)
  moreover have "held opts tenant version vol x (view w1)" using I same by simp
  ultimately show ?thesis using held_run [where m = ?rest and w = w1 and view = view] by simp
qed

text \<open>The provisioner.\<close>

lemma install_held:
  assumes S: "mountedSetting env gc opts view tenant version vol x" and t: "proper t" "proper v"
  shows "keeps (\<lambda>w. held opts tenant version vol x (view w)) (installAgentVersion gc zipReader goarch v (under (opt_RootDir opts) [t]) dtc)"
proof (rule keepsI)
  fix w r w' assume I: "held opts tenant version vol x (view w)"
    and run: "installAgentVersion gc zipReader goarch v (under (opt_RootDir opts) [t]) dtc w = (r, w')"
  note D = settingD [OF S]
  note untouched = installAgentVersion_untouched [OF D(8-11,1) t run]
  show "held opts tenant version vol x (view w')"
  proof (cases "t = tenant \<and> v = version")
    case False
    have "view w' q = x q" if q: "guarded opts tenant version vol q" "x q \<noteq> None" for q
    proof -
      have "view w q = x q" using I q by (simp add: held_def)
      moreover have "\<not> within (under (opt_RootDir opts) [t, ''bin'', v]) q"
        using guarded_apart [OF q(1) D(2) t(1), of "''bin''" "[v]"] ofVersion_apart(1) [OF t(2) D(3) _ guarded_ofVersion [OF q(1)]] False by auto
      ultimately show ?thesis using untouched [of q] q(2) guarded_not(1) [OF q(1) D(2-4) t(1)] by simp
    qed
    then show ?thesis by (simp add: held_def)
  next
    case True
    let ?bin = "under (opt_RootDir opts) [t, ''bin'', v]"
    have join: "filepath_Join [under (opt_RootDir opts) [t], ''bin'', v] = ?bin"
      "filepath_Join [under (opt_RootDir opts) [t], VersionDir] = under (opt_RootDir opts) [t, ''version'']"
      using Join_root [OF D(1), of "[t]" "[''bin'', v]"] Join_root [OF D(1), of "[t]" "[''version'']"] t by (simp_all add: VersionDir_def)
    let ?mkdir = "fs_MkdirAll (gce_fs gc) (filepath_Join [under (opt_RootDir opts) [t], GarbageCollectionPath, v]) 493"
    obtain m w1 where mkdir: "?mkdir w = (m, w1)" by fastforce
    have I1: "held opts tenant version vol x (view w1)" using keepsD [OF held_mkdir [OF D(8)] I mkdir] .
    obtain s w2 where stat: "fs_Stat (gce_fs gc) ?bin w1 = (s, w2)" by fastforce
    have "view w1 ?bin \<noteq> None" using held_there(1) [OF S I1] True by simp
    then have found: "\<not> isNotExist e" if "s = Inl e" for e using lawfulFs_reads(5) [OF D(8), of ?bin w1 e w2] stat that by auto
    have I2: "held opts tenant version vol x (view w2)" using lawfulFs_reads(4) [OF D(8) stat] I1 by simp
    have "w' \<in> {w1, snd (fs_WriteFile (gce_fs gc) (under (opt_RootDir opts) [t, ''version'']) v 420 w2)}"
      using run mkdir stat found unfolding installAgentVersion_def Let_def join
      by (cases m; cases s) (auto simp: bindE_run catchE_run ignoreE_run)
    moreover have "held opts tenant version vol x (view (snd (fs_WriteFile (gce_fs gc) (under (opt_RootDir opts) [t, ''version'']) v 420 w2)))"
      using guarded_not(1) [OF _ D(2-4) t(1)] I2 by (intro held_run [OF held_remove(3) [OF D(8)]])
    ultimately show ?thesis using I1 by auto
  qed
qed

lemma update_held:
  assumes S: "mountedSetting env gc opts view tenant version vol x" and t: "proper t" "proper (st_LatestAgentVersionUnixPaas (dk_Status dk))"
  shows "keeps (\<lambda>w. held opts tenant version vol x (view w)) (updateAgent gc zipReader goarch dk dtc (under (opt_RootDir opts) [t]))"
proof -
  note D = settingD [OF S]
  have join: "filepath_Join [under (opt_RootDir opts) [t], VersionDir] = under (opt_RootDir opts) [t, ''version'']"
    using Join_root [OF D(1), of "[t]" "[''version'']"] t by (simp add: VersionDir_def)
  show ?thesis unfolding updateAgent_def readOrEmpty_def Let_def join
    using guarded_not(1) [OF _ D(2-4) t(1)]
    by (intro keeps_intros held_reads [OF D(8)] install_held [OF S t] held_remove(3) [OF D(8)])
qed

lemma csiStep_held:
  assumes "csiStep env gc zipReader goarch opts view vol w w'" and S: "mountedSetting env gc opts view tenant version vol x"
    and "held opts tenant version vol x (view w)"
  shows "held opts tenant version vol x (view w')"
  using assms(1,3)
proof (induction rule: csiStep.induct)
  case (collect t w latest)
  then show ?case using held_run [OF collect_held [OF S]] by blast
next
  case (collectLogs t w)
  then show ?case using held_run [OF collectLogs_held [OF S]] by blast
next
  case (publish req w)
  then show ?case by (intro publish_held [OF S])
next
  case (unpublish v target w)
  then show ?case by (intro unpublish_held [OF S])
next
  case (update t dk w dtc)
  then show ?case using held_run [OF update_held [OF S]] by blast
qed

section \<open>Properties\<close>

text \<open>C4. What is mounted into a pod stays: from a state in which the binaries of a version exist and a volume refers to them, no sequence of
  garbage collections, publications and unpublications of other volumes, installations and updates, for any tenants and versions and
  with any of them failing, changes or removes a file of the version, or the reference itself.\<close>

theorem mounted_binaries_survive:
  assumes laws: "csiLaws env gc view" and names: "cleanRoot opts" "proper tenant" "proper version" "proper vol" "tenant \<noteq> ''gc''"
    and start: "view w0 (under (opt_RootDir opts) [tenant, ''bin'', version]) \<noteq> None"
      "view w0 (under (opt_RootDir opts) [tenant, ''gc'', version, vol]) \<noteq> None"
    and run: "rtranclp (csiStep env gc zipReader goarch opts view vol) w0 w"
    and q: "within (under (opt_RootDir opts) [tenant, ''bin'', version]) q \<or> q = under (opt_RootDir opts) [tenant, ''gc'', version, vol]"
      "view w0 q \<noteq> None"
  shows "view w q = view w0 q"
proof -
  have S: "mountedSetting env gc opts view tenant version vol (view w0)" using laws names start by (simp add: mountedSetting_def)
  have "held opts tenant version vol (view w0) (view w0)" by (simp add: held_def)
  with run have "held opts tenant version vol (view w0) (view w)"
    by (induction rule: rtranclp_induct) (auto intro: csiStep_held [OF _ S])
  with q show ?thesis by (simp add: held_def guarded_def)
qed

text \<open>A node whose pod uses \<open>v1\<close> when the API already has \<open>v2\<close>; the garbage collection runs and another volume is unpublished.\<close>

definition exampleMountedNode :: csiNode where
  "exampleMountedNode = exampleInstalled\<lparr>nd_Files := nd_Files exampleInstalled @ [(''/data/uuid/gc/v1/vol'', FileNode [])]\<rparr>"

lemma example_csiLaws: "csiLaws exampleCsi exampleGc nodeFiles"
  using exampleCsi_laws exampleGc_laws exampleGc_files by (simp add: csiLaws_def) (simp add: exampleCsi_def)

theorem mounted_binaries_survive_witness:
  "\<exists>w. rtranclp (csiStep exampleCsi exampleGc (\<lambda>_. Inr []) ''amd64'' exampleOpts nodeFiles ''vol'') exampleMountedNode w \<and>
     nodeFiles w ''/data/uuid/bin/v1/agent'' = Some (FileNode ''a'')"
proof -
  let ?step = "csiStep exampleCsi exampleGc (\<lambda>_. Inr []) ''amd64'' exampleOpts nodeFiles ''vol''"
  let ?w = "snd (runBinaryGarbageCollection exampleGc exampleOpts ''uuid'' ''v2'' exampleMountedNode)"
  have names: "proper ''uuid''" "proper ''v1''" "proper ''vol''" "''uuid'' \<noteq> ''gc''" by (simp_all add: proper_def)
  have run: "rtranclp ?step exampleMountedNode ?w" by (intro r_into_rtranclp csiStep.collect names)
  have there: "nodeFiles exampleMountedNode (under (opt_RootDir exampleOpts) [''uuid'', ''bin'', ''v1'']) \<noteq> None"
    "nodeFiles exampleMountedNode (under (opt_RootDir exampleOpts) [''uuid'', ''gc'', ''v1'', ''vol'']) \<noteq> None"
    "nodeFiles exampleMountedNode ''/data/uuid/bin/v1/agent'' = Some (FileNode ''a'')"
    "within (under (opt_RootDir exampleOpts) [''uuid'', ''bin'', ''v1'']) ''/data/uuid/bin/v1/agent''" by code_simp+
  from mounted_binaries_survive [OF example_csiLaws exampleOpts_root names there(1,2) run, of "''/data/uuid/bin/v1/agent''"] there(3,4) run
  show ?thesis by auto
qed

end
