(* ===== verification/Code_Modules.thy ===== *)
theory Code_Modules
  imports Webhook Csi_Lifecycle
begin

text \<open>
  The way of a code module, across three processes: the webhook gives a pod a volume of the driver, the provisioner puts
  the binaries on the node, and the node service finds what to mount by the label of the pod's namespace.
\<close>

section \<open>Lemmas: what an installation leaves on the node\<close>

















section \<open>Properties\<close>








end
