(* ===== verification/Commands.thy ===== *)
theory Commands
  imports Csi_Provisioner Webhook_Files
begin

text \<open>
  The two programs of the repository (\<^verbatim>\<open>src/cmd\<close>): the operator with its subcommands, and the CSI driver. The manager of
  the controllers is a parameter: how it is made, what is added to it, and that it runs. An error that ends the
  process with \<^verbatim>\<open>os.Exit(1)\<close> is the error of the action.
\<close>

section \<open>The operator (operator.go)\<close>

datatype controllerAdd = DynakubeAdd | NamespaceAdd | NodesAdd | WebhookCertsAdd

record managerOptions =
  mo_Namespace :: string
  mo_MetricsBindAddress :: string
  mo_Port :: nat
  mo_LeaderElectionID :: "string option"
  mo_HealthProbeBindAddress :: string

record ('m, 'w) main_env =
  me_getenv :: "string \<Rightarrow> string"
  me_GetConfig :: "('w, unit) act"
  me_NewManager :: "managerOptions \<Rightarrow> ('w, 'm) act"
  me_AddHealthzCheck :: "'m \<Rightarrow> ('w, unit) act"
  me_AddReadyzCheck :: "'m \<Rightarrow> ('w, unit) act"
  me_Add :: "controllerAdd \<Rightarrow> 'm \<Rightarrow> string \<Rightarrow> ('w, unit) act"
  me_ServerAdd :: "'m \<Rightarrow> string \<Rightarrow> ('w, unit) act"
  me_APIReader :: "'m \<Rightarrow> ('w, Secret) kclient"
  me_fs :: "'w afero"
  me_Now :: "'w \<Rightarrow> gotime \<times> 'w"
  me_Sleep :: "duration \<Rightarrow> 'w \<Rightarrow> 'w"
  me_Start :: "'m \<Rightarrow> ('w, unit) act"

definition operatorControllers :: "string \<Rightarrow> controllerAdd list" where
  "operatorControllers disableWebhook =
     [DynakubeAdd, NamespaceAdd, NodesAdd] @ (if disableWebhook = [] \<or> disableWebhook = ''false'' then [WebhookCertsAdd] else [])"

definition startOperator :: "('m, 'w) main_env \<Rightarrow> string \<Rightarrow> ('w, 'm) act" where
  "startOperator env ns =
     bindE (me_NewManager env \<lparr>mo_Namespace = ns, mo_MetricsBindAddress = '':8080'', mo_Port = 8383,
        mo_LeaderElectionID = Some ''dynatrace-operator-lock'', mo_HealthProbeBindAddress = ''0.0.0.0:10080''\<rparr>) (\<lambda>mgr.
     bindE (ignoreE (me_AddHealthzCheck env mgr)) (\<lambda>_.
     bindE (ignoreE (me_AddReadyzCheck env mgr)) (\<lambda>_.
     bindE (foreachE (operatorControllers (me_getenv env ''DISABLE_WEBHOOK'')) (\<lambda>f. me_Add env f mgr ns)) (\<lambda>_.
       retE mgr))))"

section \<open>The webhook server (webhook\_server.go)\<close>

text \<open>The result is none only if the rounds of waiting are more than \<open>fuel\<close>.\<close>

definition startWebhookServer :: "('m, 'w) main_env \<Rightarrow> nat \<Rightarrow> string \<Rightarrow> string \<Rightarrow> 'w \<Rightarrow> ((goerr + 'm) \<times> 'w) option" where
  "startWebhookServer env fuel certsDir ns w =
     (case me_NewManager env \<lparr>mo_Namespace = ns, mo_MetricsBindAddress = '':8383'', mo_Port = 8443,
             mo_LeaderElectionID = None, mo_HealthProbeBindAddress = []\<rparr> w of
        (Inl err, w1) \<Rightarrow> Some (Inl err, w1)
      | (Inr mgr, w1) \<Rightarrow>
          (case startWebhookServer_certs (me_Now env) (me_Sleep env) (me_APIReader env mgr) (me_fs env) certsDir ns fuel w1 of
             None \<Rightarrow> None
           | Some w2 \<Rightarrow> Some (bindE (me_ServerAdd env mgr ns) (\<lambda>_. retE mgr) w2)))"

section \<open>Subcommands (main.go, debug.go)\<close>

datatype subCommand = StartOperator | StartWebhookServer

definition subcmdCallbacks :: "string \<Rightarrow> subCommand option" where
  "subcmdCallbacks name =
     (if name = ''operator'' then Some StartOperator else if name = ''webhook-server'' then Some StartWebhookServer else None)"

definition errBadSubcmd :: goerr where "errBadSubcmd = ErrMsg ''subcommand must be operator, or webhook-server''"

definition getSubcommand :: "string \<Rightarrow> goerr + subCommand" where
  "getSubcommand name = (case subcmdCallbacks name of None \<Rightarrow> Inl errBadSubcmd | Some subcmdFn \<Rightarrow> Inr subcmdFn)"

definition runSubCommand :: "('m, 'w) main_env \<Rightarrow> nat \<Rightarrow> string \<Rightarrow> subCommand \<Rightarrow> string \<Rightarrow> 'w \<Rightarrow> ((goerr + 'm) \<times> 'w) option" where
  "runSubCommand env fuel certsDir cmd ns w =
     (case cmd of StartOperator \<Rightarrow> Some (startOperator env ns w) | StartWebhookServer \<Rightarrow> startWebhookServer env fuel certsDir ns w)"

definition startSubCommand :: "('m, 'w) main_env \<Rightarrow> nat \<Rightarrow> string \<Rightarrow> subCommand \<Rightarrow> string \<Rightarrow> 'w \<Rightarrow> ((goerr + unit) \<times> 'w) option" where
  "startSubCommand env fuel certsDir cmd ns w =
     map_option (\<lambda>(r, w'). case r of Inl err \<Rightarrow> (Inl err, w') | Inr mgr \<Rightarrow> me_Start env mgr w')
       (runSubCommand env fuel certsDir cmd ns w)"

definition startComponent :: "('m, 'w) main_env \<Rightarrow> nat \<Rightarrow> string \<Rightarrow> string \<Rightarrow> string \<Rightarrow> 'w \<Rightarrow> ((goerr + unit) \<times> 'w) option" where
  "startComponent env fuel certsDir name ns w =
     (case getSubcommand name of Inl err \<Rightarrow> Some (Inr (), w) | Inr subCmd \<Rightarrow> startSubCommand env fuel certsDir subCmd ns w)"

definition isDebugFlagSet :: "('m, 'w) main_env \<Rightarrow> bool" where
  "isDebugFlagSet env \<longleftrightarrow> me_getenv env ''DEBUG_OPERATOR'' = ''true''"

text \<open>The components that are started beside the subcommand, each in a goroutine of its own.\<close>

definition debugComponents :: "('m, 'w) main_env \<Rightarrow> string list" where
  "debugComponents env = (if isDebugFlagSet env then [''webhook-bootstrapper'', ''webhook-server''] else [])"

text \<open>The main program up to the goroutines, which run while the manager does.\<close>

definition operator_main :: "('m, 'w) main_env \<Rightarrow> nat \<Rightarrow> string \<Rightarrow> string list \<Rightarrow> 'w \<Rightarrow> ((goerr + unit) \<times> 'w) option" where
  "operator_main env fuel certsDir args w =
     (let subcmd = (case args of [] \<Rightarrow> ''operator'' | arg # _ \<Rightarrow> arg)
      in case subcmdCallbacks subcmd of
           None \<Rightarrow> Some (Inl errBadSubcmd, w)
         | Some subcmdFn \<Rightarrow>
             (case me_GetConfig env w of
                (Inl err, w1) \<Rightarrow> Some (Inl err, w1)
              | (Inr _, w1) \<Rightarrow> startSubCommand env fuel certsDir subcmdFn (me_getenv env ''POD_NAMESPACE'') w1))"

section \<open>The CSI driver (csidriver/main.go)\<close>

record ('m, 'w) csi_main_env =
  cme_getenv :: "string \<Rightarrow> string"
  cme_NewManager :: "managerOptions \<Rightarrow> ('w, 'm) act"
  cme_fs :: "'w afero"
  cme_AddServer :: "'m \<Rightarrow> CSIOptions \<Rightarrow> ('w, unit) act"
  cme_AddProvisioner :: "'m \<Rightarrow> CSIOptions \<Rightarrow> ('w, unit) act"
  cme_AddGc :: "'m \<Rightarrow> CSIOptions \<Rightarrow> ('w, unit) act"
  cme_AddHealthzCheck :: "'m \<Rightarrow> ('w, unit) act"
  cme_Start :: "'m \<Rightarrow> ('w, unit) act"

text \<open>\<^verbatim>\<open>time.Duration(gcInterval) * time.Minute\<close> on 64 bits.\<close>

definition durationMinutes :: "int \<Rightarrow> duration" where
  "durationMinutes n = (n * timeMinute + 2 ^ 63) mod 2 ^ 64 - 2 ^ 63"

definition csiOptions :: "string \<Rightarrow> string \<Rightarrow> int \<Rightarrow> CSIOptions" where
  "csiOptions nodeID endpoint gcInterval =
     \<lparr>opt_NodeID = nodeID, opt_Endpoint = endpoint, opt_RootDir = DataPath, opt_GCInterval = durationMinutes gcInterval\<rparr>"

definition csi_main :: "('m, 'w) csi_main_env \<Rightarrow> string \<Rightarrow> string \<Rightarrow> string \<Rightarrow> ('w, unit) act" where
  "csi_main env nodeID endpoint probeAddr =
     bindE (liftE (atoi (cme_getenv env ''GC_INTERVAL_MINUTES''))) (\<lambda>gcInterval.
     bindE (cme_NewManager env \<lparr>mo_Namespace = cme_getenv env ''POD_NAMESPACE'', mo_MetricsBindAddress = '':8080'', mo_Port = 8383,
        mo_LeaderElectionID = None, mo_HealthProbeBindAddress = probeAddr\<rparr>) (\<lambda>mgr.
     let csiOpts = csiOptions nodeID endpoint gcInterval; fs = cme_fs env
     in bindE (fs_MkdirAll fs (filepath_Join [opt_RootDir csiOpts]) 504) (\<lambda>_.
        bindE (fs_MkdirAll fs (filepath_Join [opt_RootDir csiOpts, GarbageCollectionPath]) 504) (\<lambda>_.
        bindE (cme_AddServer env mgr csiOpts) (\<lambda>_.
        bindE (cme_AddProvisioner env mgr csiOpts) (\<lambda>_.
        bindE (cme_AddHealthzCheck env mgr) (\<lambda>_.
        bindE (cme_AddGc env mgr csiOpts) (\<lambda>_.
          cme_Start env mgr))))))))"

section \<open>Lemmas\<close>

lemma csiOptions_root: "cleanRoot (csiOptions nodeID endpoint gcInterval)"
  unfolding cleanRoot_def by (rule exI [of _ "[''data'']"]) (simp add: csiOptions_def DataPath_def proper_def under_def)

lemma durationMinutes_exact: "\<bar>n\<bar> \<le> 150000000 \<Longrightarrow> durationMinutes n = n * timeMinute"
  by (simp add: durationMinutes_def time_defs)

text \<open>The debug mode starts no bootstrapper: there is no such subcommand.\<close>

lemma debug_no_bootstrapper: "startComponent env fuel certsDir ''webhook-bootstrapper'' ns w = Some (Inr (), w)"
  by (simp add: startComponent_def getSubcommand_def subcmdCallbacks_def)

text \<open>The webhook server starts or fails, but does not wait forever.\<close>

lemma startWebhookServer_ends:
  assumes "\<And>w. fst (me_Now env w) = time w" and "\<And>w. time w \<le> time (snd (me_Now env w))" and "\<And>t w. time w + t \<le> time (me_Sleep env t w)"
    and "\<And>mgr. timeRunsOn time (me_APIReader env mgr) (me_fs env)"
  shows "\<exists>r. startWebhookServer env 31 certsDir ns w = Some r"
proof -
  obtain r w1 where new: "me_NewManager env \<lparr>mo_Namespace = ns, mo_MetricsBindAddress = '':8383'', mo_Port = 8443,
      mo_LeaderElectionID = None, mo_HealthProbeBindAddress = []\<rparr> w = (r, w1)" by fastforce
  show ?thesis
  proof (cases r)
    case (Inl err)
    with new show ?thesis by (simp add: startWebhookServer_def)
  next
    case (Inr mgr)
    obtain w2 where "startWebhookServer_certs (me_Now env) (me_Sleep env) (me_APIReader env mgr) (me_fs env) certsDir ns 31 w1 = Some w2"
      using startup_wait_effect [where time = time, OF assms(1-3) assms(4) [of mgr]] by blast
    with new Inr show ?thesis by (simp add: startWebhookServer_def)
  qed
qed

section \<open>Properties\<close>

text \<open>C25. When the main program of the CSI driver hands over to its manager, what the node service, the provisioner and the garbage collection
  rely on is there: the root directory is an absolute path without dots, and it and the directory of the volumes' metadata exist.\<close>

theorem csi_main_prepares:
  assumes law: "lawfulFs (cme_fs env) view"
    and quiet: "\<And>m opts x. keeps (\<lambda>w. view w = x) (cme_AddServer env m opts)" "\<And>m opts x. keeps (\<lambda>w. view w = x) (cme_AddProvisioner env m opts)"
      "\<And>m opts x. keeps (\<lambda>w. view w = x) (cme_AddGc env m opts)" "\<And>m x. keeps (\<lambda>w. view w = x) (cme_AddHealthzCheck env m)"
    and run: "csi_main env nodeID endpoint probeAddr w = (Inr (), w')"
  shows "\<exists>n mgr w1. atoi (cme_getenv env ''GC_INTERVAL_MINUTES'') = Inr n \<and> cleanRoot (csiOptions nodeID endpoint n) \<and>
    view w1 (opt_RootDir (csiOptions nodeID endpoint n)) = Some DirNode \<and>
    view w1 (under (opt_RootDir (csiOptions nodeID endpoint n)) [''gc'']) = Some DirNode \<and>
    cme_Start env mgr w1 = (Inr (), w')"
proof -
  obtain n where n: "atoi (cme_getenv env ''GC_INTERVAL_MINUTES'') = Inr n"
    using run by (auto simp: csi_main_def bindE_run split: sum.splits)
  let ?o = "csiOptions nodeID endpoint n"
  have paths: "filepath_Join [opt_RootDir ?o] = opt_RootDir ?o" "filepath_Join [opt_RootDir ?o, GarbageCollectionPath] = under (opt_RootDir ?o) [''gc'']"
    using Join_root_simple [OF csiOptions_root, of "[]"] Join_root_simple [OF csiOptions_root, of "[''gc'']"]
    by (simp_all add: GarbageCollectionPath_def proper_def)
  obtain mgr w1 where 1: "bindE (fs_MkdirAll (cme_fs env) (opt_RootDir ?o) 504) (\<lambda>_.
        bindE (fs_MkdirAll (cme_fs env) (under (opt_RootDir ?o) [''gc'']) 504) (\<lambda>_.
        bindE (cme_AddServer env mgr ?o) (\<lambda>_. bindE (cme_AddProvisioner env mgr ?o) (\<lambda>_.
        bindE (cme_AddHealthzCheck env mgr) (\<lambda>_. bindE (cme_AddGc env mgr ?o) (\<lambda>_. cme_Start env mgr)))))) w1 = (Inr (), w')"
    using run n by (auto simp: csi_main_def bindE_run Let_def paths split: prod.splits sum.splits)
  then obtain w2 w3 where 2: "fs_MkdirAll (cme_fs env) (opt_RootDir ?o) 504 w1 = (Inr (), w2)"
      "fs_MkdirAll (cme_fs env) (under (opt_RootDir ?o) [''gc'']) 504 w2 = (Inr (), w3)"
    and 3: "bindE (cme_AddServer env mgr ?o) (\<lambda>_. bindE (cme_AddProvisioner env mgr ?o) (\<lambda>_.
        bindE (cme_AddHealthzCheck env mgr) (\<lambda>_. bindE (cme_AddGc env mgr ?o) (\<lambda>_. cme_Start env mgr)))) w3 = (Inr (), w')"
    by (auto simp: bindE_run split: prod.splits sum.splits)
  from 3 obtain w4 where 4: "bindE (cme_AddServer env mgr ?o) (\<lambda>_. bindE (cme_AddProvisioner env mgr ?o) (\<lambda>_.
        bindE (cme_AddHealthzCheck env mgr) (\<lambda>_. cme_AddGc env mgr ?o))) w3 = (Inr (), w4)" "cme_Start env mgr w4 = (Inr (), w')"
    by (auto simp: bindE_run split: prod.splits sum.splits)
  have "keeps (\<lambda>w. view w = view w3) (bindE (cme_AddServer env mgr ?o) (\<lambda>_. bindE (cme_AddProvisioner env mgr ?o) (\<lambda>_.
        bindE (cme_AddHealthzCheck env mgr) (\<lambda>_. cme_AddGc env mgr ?o))))"
    by (intro keeps_intros quiet)
  from keepsD [OF this refl 4(1)] have same: "view w4 = view w3" .
  have "view w2 (opt_RootDir ?o) = Some DirNode" using lawfulFs_Mkdir(2) [OF law 2(1) refl] .
  then have "view w3 (opt_RootDir ?o) = Some DirNode" using lawfulFs_Mkdir(3) [OF law 2(2), of "opt_RootDir ?o"] by simp
  with lawfulFs_Mkdir(2) [OF law 2(2) refl] same 4(2) n csiOptions_root [of nodeID endpoint n]
  show ?thesis by (intro exI [of _ n] exI [of _ mgr] exI [of _ w4]) simp
qed

definition exampleCsiMain :: "(unit, csiNode) csi_main_env" where
  "exampleCsiMain =
     \<lparr>cme_getenv = (\<lambda>v. if v = ''GC_INTERVAL_MINUTES'' then ''60'' else ''dynatrace''), cme_NewManager = (\<lambda>o'. retE ()),
      cme_fs = ce_fs exampleCsi, cme_AddServer = (\<lambda>m o'. retE ()), cme_AddProvisioner = (\<lambda>m o'. retE ()), cme_AddGc = (\<lambda>m o'. retE ()),
      cme_AddHealthzCheck = (\<lambda>m. retE ()), cme_Start = (\<lambda>m. retE ())\<rparr>"

theorem csi_main_prepares_witness:
  "\<exists>w'. csi_main exampleCsiMain ''node'' ''unix:///csi.sock'' '':8081'' (exampleNode\<lparr>nd_Files := []\<rparr>) = (Inr (), w') \<and>
     nodeFiles w' ''/data'' = Some DirNode"
proof -
  let ?run = "csi_main exampleCsiMain ''node'' ''unix:///csi.sock'' '':8081'' (exampleNode\<lparr>nd_Files := []\<rparr>)"
  have sixty: "atoi ''60'' = Inr 60" by code_simp
  have "fst (fs_MkdirAll (ce_fs exampleCsi) ''/data'' 504 (exampleNode\<lparr>nd_Files := []\<rparr>)) = Inr ()" "filepath_Join [''/data''] = ''/data''"
    "filepath_Join [''/data'', ''gc''] = ''/data/gc''"
    "fst (fs_MkdirAll (ce_fs exampleCsi) ''/data/gc'' 504 (snd (fs_MkdirAll (ce_fs exampleCsi) ''/data'' 504 (exampleNode\<lparr>nd_Files := []\<rparr>)))) = Inr ()"
    by code_simp+
  then have "fst ?run = Inr ()"
    by (auto simp: csi_main_def exampleCsiMain_def sixty csiOptions_def DataPath_def GarbageCollectionPath_def Let_def bindE_run split: prod.splits sum.splits)
  then obtain w' where run: "?run = (Inr (), w')" by (cases ?run) simp
  have law: "lawfulFs (cme_fs exampleCsiMain) nodeFiles" using exampleCsi_laws(1) by (simp add: exampleCsiMain_def)
  have quiet: "keeps (\<lambda>w. nodeFiles w = x) (cme_AddServer exampleCsiMain m opts)" "keeps (\<lambda>w. nodeFiles w = x) (cme_AddProvisioner exampleCsiMain m opts)"
    "keeps (\<lambda>w. nodeFiles w = x) (cme_AddGc exampleCsiMain m opts)" "keeps (\<lambda>w. nodeFiles w = x) (cme_AddHealthzCheck exampleCsiMain m)" for m opts x
    by (simp_all add: exampleCsiMain_def keeps_retE)
  from csi_main_prepares [where view = nodeFiles, OF law quiet run] obtain n mgr w1 where "nodeFiles w1 (opt_RootDir (csiOptions ''node'' ''unix:///csi.sock'' n)) = Some DirNode" "cme_Start exampleCsiMain mgr w1 = (Inr (), w')"
    by blast
  then show ?thesis using run by (simp add: exampleCsiMain_def csiOptions_def DataPath_def)
qed

end
