(* ===== verification/Logging.thy ===== *)
theory Logging
  imports Go_Values
begin

text \<open>
  The writer of error logs (\<^verbatim>\<open>src/logger/error_prettify.go\<close>): it turns a line of JSON into text in which the stack
  trace is readable. The JSON codec and the writer behind are parameters; a document is the map that the
  decoder gives.
\<close>

definition stacktraceKey :: string where "stacktraceKey = ''stacktrace''"
definition errorVerboseKey :: string where "errorVerboseKey = ''errorVerbose''"

definition setErrorVerboseAsStacktrace :: "(string \<times> 'v) list \<Rightarrow> (string \<times> 'v) list" where
  "setErrorVerboseAsStacktrace document =
     (case map_of document errorVerboseKey of
        Some errorVerbose \<Rightarrow> AList.delete errorVerboseKey (AList.update stacktraceKey errorVerbose document)
      | None \<Rightarrow> document)"

definition replaceDuplicatedStacktrace ::
  "(string \<Rightarrow> goerr + (string \<times> 'v) list) \<Rightarrow> ((string \<times> 'v) list \<Rightarrow> goerr + string) \<Rightarrow> string \<Rightarrow> goerr + string" where
  "replaceDuplicatedStacktrace unmarshal marshal payload =
     (case unmarshal payload of Inl err \<Rightarrow> Inl err | Inr document \<Rightarrow> marshal (setErrorVerboseAsStacktrace document))"

text \<open>\<^verbatim>\<open>strings.ReplaceAll\<close> for a pattern that is not empty.\<close>

function replaceAll :: "string \<Rightarrow> string \<Rightarrow> string \<Rightarrow> string" where
  "replaceAll old new [] = []"
| "replaceAll old new (c # s) =
     (if prefix old (c # s) then new @ replaceAll old new (drop (length old - 1) s) else c # replaceAll old new s)"
  by pat_completeness auto
termination by (relation "measure (\<lambda>(old, new, s). length s)") auto

definition backslash :: char where "backslash = CHR 0x5C"

definition prettify :: "string \<Rightarrow> string" where
  "prettify payload =
     (let message = replaceAll [backslash, CHR ''n''] [CHR 0x0A] payload
      in replaceAll [backslash, CHR ''t''] [CHR 0x09] message)"

definition writeToWriter ::
  "(string \<Rightarrow> goerr + (string \<times> 'v) list) \<Rightarrow> ((string \<times> 'v) list \<Rightarrow> goerr + string) \<Rightarrow> (string \<Rightarrow> ('w, int) act) \<Rightarrow> string \<Rightarrow> ('w, int) act" where
  "writeToWriter unmarshal marshal fprint payload =
     (case replaceDuplicatedStacktrace unmarshal marshal payload of
        Inl err \<Rightarrow> fprint payload
      | Inr payload' \<Rightarrow> fprint (prettify payload'))"

section \<open>Lemmas\<close>

lemma setErrorVerbose_map_of:
  "map_of (setErrorVerboseAsStacktrace document) k =
     (case map_of document errorVerboseKey of
        None \<Rightarrow> map_of document k
      | Some v \<Rightarrow> if k = errorVerboseKey then None else if k = stacktraceKey then Some v else map_of document k)"
  by (simp add: setErrorVerboseAsStacktrace_def delete_conv' update_conv' errorVerboseKey_def stacktraceKey_def split: option.splits)

text \<open>Two characters that do not follow each other.\<close>

abbreviation apart :: "char \<Rightarrow> char \<Rightarrow> string \<Rightarrow> bool" where
  "apart a b s \<equiv> successively (\<lambda>x y. \<not> (x = a \<and> y = b)) s"

lemma replaceAll_hd: "s \<noteq> [] \<Longrightarrow> replaceAll [a, b] [c] s \<noteq> [] \<and> hd (replaceAll [a, b] [c] s) \<in> {c, hd s}"
  by (cases s) auto

lemma replaceAll_pair:
  "replaceAll [a, b] [c] (a # b # s) = c # replaceAll [a, b] [c] s"
  by simp

lemma apart_replaceAll_self:
  assumes "c \<noteq> a" "c \<noteq> b"
  shows "apart a b (replaceAll [a, b] [c] s)"
proof (induction "[a, b]" "[c]" s rule: replaceAll.induct)
  case (2 d s)
  show ?case
  proof (cases "prefix [a, b] (d # s)")
    case True
    with 2(1) assms show ?thesis by (simp add: successively_Cons)
  next
    case False
    with 2(2) replaceAll_hd [of s a b c] assms show ?thesis
      by (cases s) (auto simp: successively_Cons)
  qed
qed simp

lemma apart_tl: "apart a b (c # s) \<Longrightarrow> apart a b s"
  by (cases s) (auto simp: successively_Cons)

lemma apart_replaceAll_other:
  assumes "c \<noteq> a" "c \<noteq> b" and "apart a b s"
  shows "apart a b (replaceAll [a, t] [c] s)"
  using assms(3)
proof (induction "[a, t]" "[c]" s rule: replaceAll.induct)
  case (2 d s)
  show ?case
  proof (cases "prefix [a, t] (d # s)")
    case True
    then obtain s' where "s = t # s'" by (auto simp: prefix_def)
    with 2(1) [OF True] 2(3) True assms(1,2) show ?thesis by (auto simp: successively_Cons dest!: apart_tl)
  next
    case False
    with 2(2) [OF False] 2(3) replaceAll_hd [of s a t c] assms(1,2) show ?thesis
      by (cases s) (auto simp: successively_Cons)
  qed
qed simp

text \<open>The message that is written has no escaped line break any more, and no escaped tabulator.\<close>

lemma prettify_plain:
  "apart backslash (CHR ''n'') (prettify payload)" "apart backslash (CHR ''t'') (prettify payload)"
  unfolding prettify_def Let_def
  by (intro apart_replaceAll_other apart_replaceAll_self; simp add: backslash_def)+

text \<open>
  So what is written of a document is free of escaped line breaks, and what the verbose error was is the stack trace; a
  payload that is not a document passes unchanged.
\<close>

lemma writeToWriter_effect:
  "writeToWriter unmarshal marshal fprint payload =
     (case unmarshal payload of
        Inl err \<Rightarrow> fprint payload
      | Inr document \<Rightarrow> (case marshal (setErrorVerboseAsStacktrace document) of
          Inl err \<Rightarrow> fprint payload
        | Inr text \<Rightarrow> fprint (prettify text)))"
  by (simp add: writeToWriter_def replaceDuplicatedStacktrace_def split: sum.splits)

end
